(* ===== verification/Prelude.thy ===== *)
theory Prelude
  imports Main "HOL-Library.Word" "HOL-Library.Monad_Syntax"
begin

text \<open>
  Shared vocabulary of the development: the C integer types of the firmware as words, the
  little-endian layout of multi-byte fields, the single-bit masks the register code is
  written with, C buffers (\<open>memcpy\<close>, \<open>memset\<close>, \<open>memcmp\<close>) as byte lists, and the generic lemmas
  on words, lists and options that the component theories rely on.
\<close>

unbundle bit_operations_syntax

section \<open>C integer types\<close>

type_synonym u8 = "8 word"
type_synonym u16 = "16 word"
type_synonym u32 = "32 word"

named_theorems bits \<open>facts that turn mask tests and mask updates into single-bit facts\<close>
named_theorems layout \<open>facts on the byte layout of multi-byte values\<close>

section \<open>Single-bit masks\<close>

text \<open>\<open>BV n\<close> is the C expression \<open>(1 << n)\<close> as a byte.\<close>

definition BV :: "nat \<Rightarrow> u8" where
  "BV n = push_bit n 1"

lemma bit_BV [bits]: "bit (BV n) i \<longleftrightarrow> i = n \<and> n < 8"
  by (auto simp: BV_def bit_simps)

lemma and_BV_eq_0 [bits]: "(w AND BV n = 0) \<longleftrightarrow> \<not> bit w n"
  by (simp add: BV_def push_bit_of_1 and_exp_eq_0_iff_not_bit)

lemma bit_or_BV [bits]: "n < 8 \<Longrightarrow> bit (w OR BV n) i \<longleftrightarrow> bit w i \<or> i = n"
  by (auto simp: bit_simps bits)

lemma bit_and_not_BV [bits]: "bit (w AND NOT (BV n)) i \<longleftrightarrow> bit w i \<and> i \<noteq> n"
  by (auto simp: bit_simps bits dest: bit_imp_le_length)

lemma bit_and_not_BV2 [bits]:
  "bit (w AND NOT (BV n OR BV m)) i \<longleftrightarrow> bit w i \<and> i \<noteq> n \<and> i \<noteq> m"
  by (auto simp: bit_simps bits dest: bit_imp_le_length)

lemma BV_eval [simp]:
  "BV 0 = 1" "BV (Suc 0) = 2" "BV 2 = 4" "BV 3 = 8" "BV 4 = 16" "BV 5 = 32" "BV 6 = 64" "BV 7 = 128"
  by (simp_all add: BV_def push_bit_eq_mult)

section \<open>Little-endian layout\<close>

definition le16 :: "u16 \<Rightarrow> u8 list" where
  "le16 w = [ucast w, ucast (drop_bit 8 w)]"

definition le32 :: "u32 \<Rightarrow> u8 list" where
  "le32 w = [ucast w, ucast (drop_bit 8 w), ucast (drop_bit 16 w), ucast (drop_bit 24 w)]"

definition of_le16 :: "u8 \<Rightarrow> u8 \<Rightarrow> u16" where
  "of_le16 lo hi = ucast lo OR push_bit 8 (ucast hi)"

definition of_le32 :: "u8 \<Rightarrow> u8 \<Rightarrow> u8 \<Rightarrow> u8 \<Rightarrow> u32" where
  "of_le32 a b c d =
     ucast a OR push_bit 8 (ucast b) OR push_bit 16 (ucast c) OR push_bit 24 (ucast d)"

lemma length_le16 [simp, layout]: "length (le16 w) = 2"
  by (simp add: le16_def)

lemma length_le32 [simp, layout]: "length (le32 w) = 4"
  by (simp add: le32_def)

lemma of_le16_le16 [layout]: "of_le16 (ucast w) (ucast (drop_bit 8 w)) = w"
  by (rule bit_word_eqI) (auto simp: of_le16_def bit_simps)

lemma not_bit_u8_high [simp]: "\<not> bit (w :: u8) (8 + n)"
  using bit_imp_le_length [of w "8 + n"] by auto

lemma le16_of_le16 [layout]: "le16 (of_le16 lo hi) = [lo, hi]"
  by (auto simp: le16_def of_le16_def bit_simps intro!: bit_word_eqI dest: bit_imp_le_length)

lemma of_le32_le32 [layout]:
  "of_le32 (ucast w) (ucast (drop_bit 8 w)) (ucast (drop_bit 16 w)) (ucast (drop_bit 24 w)) = w"
proof (rule bit_word_eqI)
  fix n assume n: "n < LENGTH(32)"
  consider "n < 8" | "8 \<le> n" "n < 16" | "16 \<le> n" "n < 24" | "24 \<le> n" by linarith
  then show "bit (of_le32 (ucast w) (ucast (drop_bit 8 w)) (ucast (drop_bit 16 w)) (ucast (drop_bit 24 w))) n
      = bit w n"
    using n by cases (auto simp: of_le32_def bit_simps dest: bit_imp_le_length)
qed

section \<open>C buffers\<close>

text \<open>
  A C buffer is the list of its bytes. \<open>memcpy d s n\<close> copies the first \<open>n\<close> bytes of \<open>s\<close> over the
  first \<open>n\<close> bytes of \<open>d\<close>; \<open>memcmp_eq a b n\<close> says that \<open>memcmp\<close> returns 0. The callers only use them
  with \<open>n\<close> at most both lengths.
\<close>

definition memcpy :: "u8 list \<Rightarrow> u8 list \<Rightarrow> nat \<Rightarrow> u8 list" where
  "memcpy d s n = take n s @ drop n d"

definition memset :: "u8 \<Rightarrow> nat \<Rightarrow> u8 list" where
  "memset c n = replicate n c"

definition memcmp_eq :: "u8 list \<Rightarrow> u8 list \<Rightarrow> nat \<Rightarrow> bool" where
  "memcmp_eq a b n \<longleftrightarrow> take n a = take n b"

lemma length_memcpy [simp]: "n \<le> length s \<Longrightarrow> n \<le> length d \<Longrightarrow> length (memcpy d s n) = length d"
  by (simp add: memcpy_def)

lemma memcpy_whole [simp]: "length d = length s \<Longrightarrow> memcpy d s (length s) = s"
  by (simp add: memcpy_def)

lemma length_memset [simp]: "length (memset c n) = n"
  by (simp add: memset_def)

section \<open>Words and lists\<close>

lemma unat_Suc_less:
  fixes w v :: "'a::len word"
  assumes "w < v"
  shows "unat (w + 1) = Suc (unat w)"
proof -
  from assms have "unat w < unat v" by (simp add: word_less_nat_alt)
  moreover have "unat v < 2 ^ LENGTH('a)" by (rule unsigned_less)
  ultimately have "Suc (unat w) < 2 ^ LENGTH('a)" by linarith
  then show ?thesis by (simp add: unat_word_ariths)
qed

lemma unat_pred:
  fixes w :: "'a::len word"
  assumes "w \<noteq> 0"
  shows "unat (w - 1) = unat w - 1"
  using assms by (metis unat_minus_one)

lemma unat_eqD: "unat a = unat b \<Longrightarrow> a = (b :: 'a::len word)"
  by (rule unsigned_word_eqI)

end
