(* ===== verification/LibCommon.thy ===== *)
theory LibCommon
  imports Prelude
begin

text \<open>
  The pure helpers of \<open>LUFA/Common/Endianness.h\<close> and \<open>LUFA/Common/Common.h\<close>: byte-order reversal of
  16-bit, 32-bit and n-byte values, and bit reversal of a byte. The run-time variants go through a
  C union, i.e. through the little-endian bytes of the value.
\<close>

section \<open>Compile-time macros\<close>

definition SWAPENDIAN_16 :: "u16 \<Rightarrow> u16" where
  "SWAPENDIAN_16 x = drop_bit 8 (x AND 0xFF00) OR push_bit 8 (x AND 0x00FF)"

definition SWAPENDIAN_32 :: "u32 \<Rightarrow> u32" where
  "SWAPENDIAN_32 x =
     drop_bit 24 (x AND 0xFF000000) OR drop_bit 8 (x AND 0x00FF0000) OR
     push_bit 8 (x AND 0x0000FF00) OR push_bit 24 (x AND 0x000000FF)"

section \<open>Run-time variants\<close>

definition SwapEndian_16 :: "u16 \<Rightarrow> u16" where
  "SwapEndian_16 Word =
     (let Bytes = le16 Word;
          Temp = Bytes ! 0;
          Bytes = Bytes[0 := Bytes ! 1];
          Bytes = Bytes[1 := Temp]
      in of_le16 (Bytes ! 0) (Bytes ! 1))"

definition SwapEndian_32 :: "u32 \<Rightarrow> u32" where
  "SwapEndian_32 DWord =
     (let Bytes = le32 DWord;
          Temp = Bytes ! 0;
          Bytes = Bytes[0 := Bytes ! 3];
          Bytes = Bytes[3 := Temp];
          Temp = Bytes ! 1;
          Bytes = Bytes[1 := Bytes ! 2];
          Bytes = Bytes[2 := Temp]
      in of_le32 (Bytes ! 0) (Bytes ! 1) (Bytes ! 2) (Bytes ! 3))"

text \<open>The loop of \<open>SwapEndian_n\<close>: \<open>CurrDataPos\<close> as an index into the data, \<open>Length\<close> a \<open>uint8_t\<close>.\<close>

function SwapEndian_n_loop :: "u8 list \<Rightarrow> nat \<Rightarrow> u8 \<Rightarrow> u8 list" where
  "SwapEndian_n_loop Data CurrDataPos Length =
     (if Length > 1 then
        let Temp = Data ! CurrDataPos;
            Data = Data[CurrDataPos := Data ! (CurrDataPos + unat Length - 1)];
            Data = Data[CurrDataPos + unat Length - 1 := Temp]
        in SwapEndian_n_loop Data (CurrDataPos + 1) (Length - 2)
      else Data)"
  by auto

lemma unat_minus_2:
  assumes "1 < (w :: u8)"
  shows "unat (w - 2) = unat w - 2"
proof -
  have "1 < unat w" using assms by (simp add: word_less_nat_alt)
  then have "2 \<le> unat w" by simp
  then show ?thesis by (subst unat_sub) (simp_all add: word_le_nat_alt)
qed

termination SwapEndian_n_loop
proof (relation "measure (\<lambda>(_, _, n). unat n)")
  show "wf (measure (\<lambda>(_ :: u8 list, _ :: nat, n :: u8). unat n))" by simp
next
  fix Length :: u8
  assume "1 < Length"
  then have "unat (Length - 2) = unat Length - 2" "1 < unat Length"
    by (simp_all add: unat_minus_2 word_less_nat_alt)
  then show "((d, p, Length - 2), (e, q, Length)) \<in> measure (\<lambda>(_ :: u8 list, _ :: nat, n). unat n)"
    for d e p q by simp
qed

declare SwapEndian_n_loop.simps [simp del]

definition SwapEndian_n :: "u8 list \<Rightarrow> u8 \<Rightarrow> u8 list" where
  "SwapEndian_n Data Length = SwapEndian_n_loop Data 0 Length"

definition BitReverse :: "u8 \<Rightarrow> u8" where
  "BitReverse Byte =
     (let Byte = drop_bit 4 (Byte AND 0xF0) OR push_bit 4 (Byte AND 0x0F);
          Byte = drop_bit 2 (Byte AND 0xCC) OR push_bit 2 (Byte AND 0x33);
          Byte = drop_bit 1 (Byte AND 0xAA) OR push_bit 1 (Byte AND 0x55)
      in Byte)"

section \<open>Lemmas\<close>

lemma SwapEndian_16_bytes: "le16 (SwapEndian_16 w) = rev (le16 w)"
  by (simp add: SwapEndian_16_def Let_def le16_of_le16) (simp add: le16_def)

lemma not_bit_u8_ge [simp]: "\<not> bit (w :: u8) (16 + n)" "\<not> bit (w :: u8) (24 + n)"
  using bit_imp_le_length [of w "16 + n"] bit_imp_le_length [of w "24 + n"] by auto

lemma le32_of_le32 [layout]: "le32 (of_le32 a b c d) = [a, b, c, d]"
  by (auto simp: le32_def of_le32_def bit_simps intro!: bit_word_eqI dest: bit_imp_le_length)

lemma SwapEndian_32_bytes: "le32 (SwapEndian_32 w) = rev (le32 w)"
  by (simp add: SwapEndian_32_def Let_def le32_of_le32) (simp add: le32_def)

lemma of_le16_nth: "of_le16 (le16 a ! 0) (le16 a ! 1) = a"
  by (simp add: le16_def of_le16_le16)

lemma of_le32_nth: "of_le32 (le32 a ! 0) (le32 a ! 1) (le32 a ! 2) (le32 a ! 3) = a"
  by (simp add: le32_def of_le32_le32)

lemma le16_inj: "le16 a = le16 b \<Longrightarrow> a = b"
  by (metis of_le16_nth)

lemma le32_inj: "le32 a = le32 b \<Longrightarrow> a = b"
  by (metis of_le32_nth)

text \<open>One pass of the loop exchanges the two ends; the rest is the loop on the middle part.\<close>

lemma SwapEndian_n_loop_rev:
  "length mid = unat n \<Longrightarrow>
   SwapEndian_n_loop (pre @ mid @ post) (length pre) n = pre @ rev mid @ post"
proof (induction "length mid" arbitrary: mid pre post n rule: less_induct)
  case less
  show ?case
  proof (cases "1 < n")
    case False
    then have "length mid \<le> 1" using less.prems by (simp add: word_less_nat_alt)
    then have "rev mid = mid" by (cases mid) auto
    with False show ?thesis by (simp add: SwapEndian_n_loop.simps)
  next
    case True
    then have "1 < length mid" using less.prems by (simp add: word_less_nat_alt)
    then obtain x xs where "mid = x # xs" "xs \<noteq> []" by (cases mid) auto
    then obtain ys y where mid: "mid = x # ys @ [y]" by (metis append_butlast_last_id)
    have n: "unat n = Suc (Suc (length ys))" using less.prems mid by simp
    have u: "unat (n - 2) = length ys" using True n by (simp add: unat_minus_2)
    have "SwapEndian_n_loop (pre @ mid @ post) (length pre) n =
          SwapEndian_n_loop ((pre @ [y]) @ ys @ x # post) (length (pre @ [y])) (n - 2)"
      using True by (subst SwapEndian_n_loop.simps) (simp add: mid n nth_append list_update_append)
    also have "\<dots> = (pre @ [y]) @ rev ys @ x # post"
      using u by (intro less.hyps) (simp_all add: mid)
    finally show ?thesis by (simp add: mid)
  qed
qed

lemma nat_less_8_cases:
  "n < 8 \<Longrightarrow> n = 0 \<or> n = 1 \<or> n = 2 \<or> n = 3 \<or> n = 4 \<or> n = 5 \<or> n = 6 \<or> n = (7 :: nat)"
  by (auto simp: numeral_eq_Suc less_Suc_eq)

lemma bit_BitReverse: "n < 8 \<Longrightarrow> bit (BitReverse b) n = bit b (7 - n)"
  by (drule nat_less_8_cases) (elim disjE; simp only: BitReverse_def Let_def bit_or_iff bit_and_iff bit_push_bit_iff
      bit_drop_bit_eq comp_def; simp)

lemma mask16: "(0xFF00 :: u16) = push_bit 8 (mask 8)" "(0x00FF :: u16) = mask 8"
  by (simp_all add: mask_numeral)

lemma SwapEndian_16_macro: "SwapEndian_16 w = SWAPENDIAN_16 w"
  unfolding SWAPENDIAN_16_def mask16
  by (rule bit_word_eqI)
    (auto simp: SwapEndian_16_def Let_def le16_def of_le16_def bit_simps dest: bit_imp_le_length)

lemma mask32: "(0xFF000000 :: u32) = push_bit 24 (mask 8)" "(0x00FF0000 :: u32) = push_bit 16 (mask 8)"
  "(0x0000FF00 :: u32) = push_bit 8 (mask 8)" "(0x000000FF :: u32) = mask 8"
  by (simp_all add: mask_numeral)

lemma SwapEndian_32_macro: "SwapEndian_32 w = SWAPENDIAN_32 w"
  unfolding SWAPENDIAN_32_def mask32
  by (rule bit_word_eqI)
    (auto simp: SwapEndian_32_def Let_def le32_def of_le32_def bit_simps dest: bit_imp_le_length)

section \<open>Properties\<close>

text \<open>
  C17: \<open>SwapEndian_n\<close> reverses the first \<open>Length\<close> bytes of the data in place, for even and odd lengths
  up to 255, and leaves the rest alone.
\<close>

theorem SwapEndian_n_reverses:
  assumes "unat Length \<le> length Data"
  shows "SwapEndian_n Data Length = rev (take (unat Length) Data) @ drop (unat Length) Data"
  using SwapEndian_n_loop_rev [of "take (unat Length) Data" Length "[]" "drop (unat Length) Data"] assms
  by (simp add: SwapEndian_n_def)

theorem SwapEndian_n_reverses_witness: "SwapEndian_n [1, 2, 3, 4] 3 = [3, 2, 1, 4]"
  using SwapEndian_n_reverses [of 3 "[1, 2, 3, 4]"] by simp

text \<open>
  C18: the 16-bit and 32-bit swaps reverse the bytes of the stored value, agree with the n-byte
  routine on the stored bytes, are involutions, and equal the compile-time macros; \<open>BitReverse\<close> moves bit \<open>7 - i\<close> to bit \<open>i\<close>.
\<close>

theorem SwapEndian_spec:
  "le16 (SwapEndian_16 w) = SwapEndian_n (le16 w) 2 \<and> SwapEndian_16 (SwapEndian_16 w) = w \<and>
   le32 (SwapEndian_32 d) = SwapEndian_n (le32 d) 4 \<and> SwapEndian_32 (SwapEndian_32 d) = d \<and>
   SwapEndian_16 w = SWAPENDIAN_16 w \<and> SwapEndian_32 d = SWAPENDIAN_32 d \<and>
   bit (BitReverse b) n = (n < 8 \<and> bit b (7 - n))"
proof (intro conjI)
  show "le16 (SwapEndian_16 w) = SwapEndian_n (le16 w) 2"
    using SwapEndian_n_loop_rev [of "le16 w" 2 "[]" "[]"] by (simp add: SwapEndian_16_bytes SwapEndian_n_def)
  show "le32 (SwapEndian_32 d) = SwapEndian_n (le32 d) 4"
    using SwapEndian_n_loop_rev [of "le32 d" 4 "[]" "[]"] by (simp add: SwapEndian_32_bytes SwapEndian_n_def)
  show "SwapEndian_16 (SwapEndian_16 w) = w"
    by (rule le16_inj) (simp add: SwapEndian_16_bytes)
  show "SwapEndian_32 (SwapEndian_32 d) = d"
    by (rule le32_inj) (simp add: SwapEndian_32_bytes)
  show "SwapEndian_16 w = SWAPENDIAN_16 w" "SwapEndian_32 d = SWAPENDIAN_32 d"
    by (rule SwapEndian_16_macro SwapEndian_32_macro)+
  show "bit (BitReverse b) n = (n < 8 \<and> bit b (7 - n))"
    using bit_BitReverse [of n b] bit_imp_le_length [of "BitReverse b" n] by (cases "n < 8") auto
qed

end
