(* ===== verification/RingBuffer.thy ===== *)
theory RingBuffer
  imports Prelude
begin

text \<open>
  The byte ring buffer of \<open>LUFA/Drivers/Misc/RingBuffer.h\<close>. Pointers are addresses into an
  explicit SRAM (\<open>mem\<close>), so that wrap-around at \<open>End\<close> and the storage the buffer does not own are
  visible; the interrupt mask \<open>SREG\<close> that the operations save, clear and restore is part of the state.
  The sequential operations implement a FIFO queue (locale \<open>fifo\<close>, interpreted below on them), and
  one producer and one consumer that interleave at statement granularity never lose or reorder data.
\<close>

section \<open>State\<close>

text \<open>SREG and the SRAM the ring buffer lives in.\<close>

record sram =
  SREG :: u8
  mem :: "nat \<Rightarrow> u8"

record RingBuffer_t =
  In :: nat
  Out :: nat
  Start :: nat
  End :: nat
  Size :: u16
  Count :: u16

text \<open>Bit 7 of SREG is the global interrupt enable flag; \<open>cli\<close> clears it.\<close>

definition GetGlobalInterruptMask :: "sram \<Rightarrow> u8" where
  "GetGlobalInterruptMask m = SREG m"

definition SetGlobalInterruptMask :: "u8 \<Rightarrow> sram \<Rightarrow> sram" where
  "SetGlobalInterruptMask GlobalIntState m = m\<lparr>SREG := GlobalIntState\<rparr>"

definition GlobalInterruptEnable :: "sram \<Rightarrow> sram" where
  "GlobalInterruptEnable m = m\<lparr>SREG := SREG m OR BV 7\<rparr>"

definition GlobalInterruptDisable :: "sram \<Rightarrow> sram" where
  "GlobalInterruptDisable m = m\<lparr>SREG := SREG m AND NOT (BV 7)\<rparr>"

section \<open>Operations\<close>

definition RingBuffer_InitBuffer :: "nat \<Rightarrow> u16 \<Rightarrow> sram \<Rightarrow> RingBuffer_t \<times> sram" where
  "RingBuffer_InitBuffer DataPtr sz m =
     (let CurrentGlobalInt = GetGlobalInterruptMask m;
          m = GlobalInterruptDisable m;
          b = \<lparr>In = DataPtr, Out = DataPtr, Start = DataPtr, End = DataPtr + unat sz,
               Size = sz, Count = 0\<rparr>
      in (b, SetGlobalInterruptMask CurrentGlobalInt m))"

definition RingBuffer_GetCount :: "RingBuffer_t \<Rightarrow> sram \<Rightarrow> u16 \<times> sram" where
  "RingBuffer_GetCount b m =
     (let CurrentGlobalInt = GetGlobalInterruptMask m;
          m = GlobalInterruptDisable m;
          c = Count b
      in (c, SetGlobalInterruptMask CurrentGlobalInt m))"

definition RingBuffer_GetFreeCount :: "RingBuffer_t \<Rightarrow> sram \<Rightarrow> u16 \<times> sram" where
  "RingBuffer_GetFreeCount b m = (let (c, m) = RingBuffer_GetCount b m in (Size b - c, m))"

definition RingBuffer_IsEmpty :: "RingBuffer_t \<Rightarrow> sram \<Rightarrow> bool \<times> sram" where
  "RingBuffer_IsEmpty b m = (let (c, m) = RingBuffer_GetCount b m in (c = 0, m))"

definition RingBuffer_IsFull :: "RingBuffer_t \<Rightarrow> sram \<Rightarrow> bool \<times> sram" where
  "RingBuffer_IsFull b m = (let (c, m) = RingBuffer_GetCount b m in (c = Size b, m))"

definition RingBuffer_Insert :: "u8 \<Rightarrow> RingBuffer_t \<times> sram \<Rightarrow> RingBuffer_t \<times> sram" where
  "RingBuffer_Insert Data bm =
     (let (b, m) = bm;
          m = m\<lparr>mem := (mem m)(In b := Data)\<rparr>;
          b = b\<lparr>In := Suc (In b)\<rparr>;
          b = (if In b = End b then b\<lparr>In := Start b\<rparr> else b);
          CurrentGlobalInt = GetGlobalInterruptMask m;
          m = GlobalInterruptDisable m;
          b = b\<lparr>Count := Count b + 1\<rparr>
      in (b, SetGlobalInterruptMask CurrentGlobalInt m))"

definition RingBuffer_Remove :: "RingBuffer_t \<times> sram \<Rightarrow> u8 \<times> RingBuffer_t \<times> sram" where
  "RingBuffer_Remove bm =
     (let (b, m) = bm;
          Data = mem m (Out b);
          b = b\<lparr>Out := Suc (Out b)\<rparr>;
          b = (if Out b = End b then b\<lparr>Out := Start b\<rparr> else b);
          CurrentGlobalInt = GetGlobalInterruptMask m;
          m = GlobalInterruptDisable m;
          b = b\<lparr>Count := Count b - 1\<rparr>
      in (Data, b, SetGlobalInterruptMask CurrentGlobalInt m))"

definition RingBuffer_Peek :: "RingBuffer_t \<times> sram \<Rightarrow> u8" where
  "RingBuffer_Peek bm = (let (b, m) = bm in mem m (Out b))"

section \<open>Invariant and contents\<close>

text \<open>
  \<open>slot b k\<close> is the address \<open>k\<close> positions after \<open>Start\<close>, wrapped at \<open>End\<close>; the contents are the
  \<open>Count\<close> bytes from \<open>Out\<close> on.
\<close>

definition slot :: "RingBuffer_t \<Rightarrow> nat \<Rightarrow> nat" where
  "slot b k = Start b + k mod unat (Size b)"

definition rb_inv :: "RingBuffer_t \<times> sram \<Rightarrow> bool" where
  "rb_inv bm \<longleftrightarrow> (let b = fst bm in
     0 < Size b \<and> End b = Start b + unat (Size b) \<and> Start b \<le> Out b \<and> Out b < End b \<and>
     Count b \<le> Size b \<and> In b = slot b (Out b - Start b + unat (Count b)))"

definition rb_list :: "RingBuffer_t \<times> sram \<Rightarrow> u8 list" where
  "rb_list bm = (let (b, m) = bm in
     map (\<lambda>i. mem m (slot b (Out b - Start b + i))) [0..<unat (Count b)])"

definition rb_room :: "RingBuffer_t \<times> sram \<Rightarrow> bool" where
  "rb_room bm \<longleftrightarrow> Count (fst bm) < Size (fst bm)"

lemmas rb_ops = RingBuffer_Insert_def RingBuffer_Remove_def RingBuffer_Peek_def
  GetGlobalInterruptMask_def SetGlobalInterruptMask_def GlobalInterruptDisable_def Let_def

lemma advance:
  assumes "0 < n"
  shows "(if Suc (st + k mod n) = st + n then st else Suc (st + k mod n)) = st + Suc k mod n"
  using assms by (simp add: mod_Suc)

lemma mod_shift_inj_le:
  fixes a i j n :: nat
  assumes "i \<le> j" "j < n" "(a + i) mod n = (a + j) mod n"
  shows "i = j"
proof -
  have "n dvd (a + j) - (a + i)"
    using assms(1) assms(3) [symmetric] by (simp add: mod_eq_dvd_iff_nat del: mod_add_left_eq)
  then have "n dvd j - i" by simp
  then have "j - i = 0 \<or> n \<le> j - i" by (cases "j - i = 0") (auto dest: dvd_imp_le)
  with assms(1,2) show ?thesis by arith
qed

lemma mod_shift_inj:
  fixes a i j n :: nat
  assumes "i < n" "j < n" "(a + i) mod n = (a + j) mod n"
  shows "i = j"
proof (cases "i \<le> j")
  case True
  then show ?thesis using assms(2,3) by (rule mod_shift_inj_le)
next
  case False
  then have "j \<le> i" by simp
  then show ?thesis using mod_shift_inj_le [of j i n a] assms(1) assms(3) [symmetric] by simp
qed

lemma mod_shift: "(Suc k mod n + i) mod n = (k + Suc i) mod (n :: nat)"
  by (metis add_Suc_shift mod_add_left_eq)

lemma rb_inv_In: "rb_inv (b, m) \<Longrightarrow> In b = slot b (Out b - Start b + unat (Count b))"
  by (simp add: rb_inv_def Let_def)

lemma rb_inv_size: "rb_inv (b, m) \<Longrightarrow> 0 < unat (Size b)"
  by (simp add: rb_inv_def Let_def word_less_nat_alt)

lemma RingBuffer_Insert_fields:
  assumes "rb_inv (b, m)"
  shows "RingBuffer_Insert d (b, m) =
    (b\<lparr>In := slot b (Suc (Out b - Start b + unat (Count b))), Count := Count b + 1\<rparr>,
     m\<lparr>mem := (mem m)(In b := d)\<rparr>)"
  using assms advance [OF rb_inv_size [OF assms], of "Start b" "Out b - Start b + unat (Count b)"]
  by (auto simp: rb_ops rb_inv_def slot_def split: if_splits)

lemma Out_as_slot: "rb_inv (b, m) \<Longrightarrow> Out b = slot b (Out b - Start b)"
  by (auto simp: rb_inv_def Let_def slot_def)

lemma RingBuffer_Remove_fields:
  assumes "rb_inv (b, m)"
  shows "RingBuffer_Remove (b, m) =
    (mem m (Out b), b\<lparr>Out := slot b (Suc (Out b - Start b)), Count := Count b - 1\<rparr>, m)"
proof -
  have "Start b + (Out b - Start b) mod unat (Size b) = Out b"
    using Out_as_slot [OF assms] by (simp add: slot_def)
  then show ?thesis
    using assms advance [OF rb_inv_size [OF assms], of "Start b" "Out b - Start b"]
    by (auto simp: rb_ops rb_inv_def slot_def split: if_splits)
qed

lemma rb_inv_init:
  assumes "0 < sz"
  shows "rb_inv (RingBuffer_InitBuffer p sz m)"
  using assms
  by (simp add: RingBuffer_InitBuffer_def rb_inv_def Let_def slot_def word_less_nat_alt)

lemma rb_list_init: "rb_list (RingBuffer_InitBuffer p sz m) = []"
  by (simp add: RingBuffer_InitBuffer_def rb_list_def Let_def)

lemma rb_inv_Insert:
  assumes "rb_inv bm" "rb_room bm"
  shows "rb_inv (RingBuffer_Insert d bm)"
proof -
  obtain b m where bm: "bm = (b, m)" by (cases bm)
  from assms have "unat (Count b + 1) = Suc (unat (Count b))"
    by (simp add: bm rb_room_def unat_Suc_less)
  moreover from this assms have "Count b + 1 \<le> Size b"
    by (simp add: bm rb_room_def word_le_nat_alt word_less_nat_alt)
  ultimately show ?thesis
    using assms by (simp add: bm RingBuffer_Insert_fields) (simp add: rb_inv_def Let_def slot_def)
qed

lemma rb_list_Insert:
  assumes "rb_inv bm" "rb_room bm"
  shows "rb_list (RingBuffer_Insert d bm) = rb_list bm @ [d]"
proof -
  obtain b m where bm: "bm = (b, m)" by (cases bm)
  let ?o = "Out b - Start b" and ?c = "unat (Count b)" and ?n = "unat (Size b)"
  have inv: "rb_inv (b, m)" using assms(1) bm by simp
  have c: "?c < ?n" and c1: "unat (Count b + 1) = Suc ?c"
    using assms(2) by (simp_all add: bm rb_room_def unat_Suc_less word_less_nat_alt)
  have other: "slot b (?o + i) \<noteq> In b" if "i < ?c" for i
    using mod_shift_inj [of i ?n ?c ?o] that c rb_inv_In [OF inv] by (auto simp: slot_def)
  have slot: "slot (b\<lparr>In := x, Count := y\<rparr>) k = slot b k" for x y k
    by (simp add: slot_def)
  show ?thesis
    using other rb_inv_In [OF inv]
    by (simp add: bm RingBuffer_Insert_fields [OF inv] rb_list_def c1 slot)
qed

lemma rb_nonempty_count: "rb_list (b, m) \<noteq> [] \<Longrightarrow> Count b \<noteq> 0"
  by (auto simp: rb_list_def)

lemma rb_inv_Remove:
  assumes "rb_inv bm" "rb_list bm \<noteq> []"
  shows "rb_inv (snd (RingBuffer_Remove bm))"
proof -
  obtain b m where bm: "bm = (b, m)" by (cases bm)
  let ?o = "Out b - Start b" and ?c = "unat (Count b)" and ?n = "unat (Size b)"
  have inv: "rb_inv (b, m)" using assms(1) bm by simp
  have c: "unat (Count b - 1) = ?c - 1" "0 < ?c"
    using rb_nonempty_count [of b m] assms(2) by (simp_all add: bm unat_pred unat_gt_0)
  have le: "Count b - 1 \<le> Size b"
    using inv c by (auto simp: rb_inv_def Let_def word_le_nat_alt)
  have "(Suc ?o mod ?n + (?c - 1)) mod ?n = (?o + ?c) mod ?n"
    using c(2) mod_shift [of ?o ?n "?c - 1"] by simp
  then have "In b = slot b (slot b (Suc ?o) - Start b + unat (Count b - 1))"
    unfolding rb_inv_In [OF inv] c(1) by (simp only: slot_def add_diff_cancel_left')
  moreover have "slot b (Suc ?o) < Start b + ?n"
    using rb_inv_size [OF inv] by (simp add: slot_def)
  ultimately show ?thesis
    using inv le
    by (simp only: bm RingBuffer_Remove_fields [OF inv] rb_inv_def Let_def fst_conv snd_conv)
       (simp add: slot_def)
qed

lemma rb_list_Remove:
  assumes "rb_inv bm" "rb_list bm \<noteq> []"
  shows "rb_list (snd (RingBuffer_Remove bm)) = tl (rb_list bm)"
    and "fst (RingBuffer_Remove bm) = hd (rb_list bm)"
proof -
  obtain b m where bm: "bm = (b, m)" by (cases bm)
  let ?o = "Out b - Start b" and ?c = "unat (Count b)" and ?n = "unat (Size b)"
  have inv: "rb_inv (b, m)" using assms(1) bm by simp
  have c: "unat (Count b - 1) = ?c - 1" "0 < ?c"
    using rb_nonempty_count [of b m] assms(2) by (simp_all add: bm unat_pred unat_gt_0)
  have upt: "[0..<?c] = 0 # map Suc [0..<?c - 1]"
    using c(2) by (cases ?c) (simp_all add: upt_conv_Cons map_Suc_upt del: upt_Suc)
  show "rb_list (snd (RingBuffer_Remove bm)) = tl (rb_list bm)"
    by (simp add: bm RingBuffer_Remove_fields [OF inv] rb_list_def c(1) upt)
       (simp add: slot_def mod_shift comp_def)
  show "fst (RingBuffer_Remove bm) = hd (rb_list bm)"
    using Out_as_slot [OF inv]
    by (simp add: bm RingBuffer_Remove_fields [OF inv] rb_list_def upt)
qed

section \<open>The FIFO contract\<close>

text \<open>
  What the users of a bounded byte queue rely on: \<open>put\<close> appends while there is room, \<open>get\<close> takes from
  the front while there is something to take, and neither changes the capacity. \<open>put_all\<close> and \<open>drain\<close>
  are the two client loops: storing a block, and the read-out loop the header documents
  (read the count once, then remove that many bytes).
\<close>

fun put_all :: "('a \<Rightarrow> 'q \<Rightarrow> 'q) \<Rightarrow> 'a list \<Rightarrow> 'q \<Rightarrow> 'q" where
  "put_all put [] q = q"
| "put_all put (x # xs) q = put_all put xs (put x q)"

fun drain :: "('q \<Rightarrow> 'a \<times> 'q) \<Rightarrow> nat \<Rightarrow> 'q \<Rightarrow> 'a list \<times> 'q" where
  "drain get 0 q = ([], q)"
| "drain get (Suc n) q = (let (x, q) = get q; (xs, q) = drain get n q in (x # xs, q))"

locale fifo =
  fixes put :: "'a \<Rightarrow> 'q \<Rightarrow> 'q"
    and get :: "'q \<Rightarrow> 'a \<times> 'q"
    and contents :: "'q \<Rightarrow> 'a list"
    and capacity :: "'q \<Rightarrow> nat"
    and inv :: "'q \<Rightarrow> bool"
  assumes inv_put: "inv q \<Longrightarrow> length (contents q) < capacity q \<Longrightarrow> inv (put x q)"
    and contents_put: "inv q \<Longrightarrow> length (contents q) < capacity q \<Longrightarrow>
      contents (put x q) = contents q @ [x]"
    and capacity_put: "inv q \<Longrightarrow> capacity (put x q) = capacity q"
    and inv_get: "inv q \<Longrightarrow> contents q \<noteq> [] \<Longrightarrow> inv (snd (get q))"
    and contents_get: "inv q \<Longrightarrow> contents q \<noteq> [] \<Longrightarrow> contents (snd (get q)) = tl (contents q)"
    and value_get: "inv q \<Longrightarrow> contents q \<noteq> [] \<Longrightarrow> fst (get q) = hd (contents q)"
    and capacity_get: "inv q \<Longrightarrow> capacity (snd (get q)) = capacity q"
begin

lemma put_all_ok:
  "inv q \<Longrightarrow> length (contents q) + length xs \<le> capacity q \<Longrightarrow>
   inv (put_all put xs q) \<and> contents (put_all put xs q) = contents q @ xs \<and>
   capacity (put_all put xs q) = capacity q"
  by (induction xs arbitrary: q) (auto simp: inv_put contents_put capacity_put)

lemma drain_ok:
  "inv q \<Longrightarrow> n \<le> length (contents q) \<Longrightarrow>
   inv (snd (drain get n q)) \<and> fst (drain get n q) = take n (contents q) \<and>
   contents (snd (drain get n q)) = drop n (contents q)"
proof (induction n arbitrary: q)
  case 0
  then show ?case by simp
next
  case (Suc n)
  then have ne: "contents q \<noteq> []" by auto
  then obtain y ys where ys: "contents q = y # ys" by (cases "contents q") auto
  obtain x q' where g: "get q = (x, q')" by (cases "get q")
  have "inv q'" "contents q' = ys" "x = y"
    using inv_get [OF Suc.prems(1) ne] contents_get [OF Suc.prems(1) ne] value_get [OF Suc.prems(1) ne]
    by (simp_all add: g ys)
  with Suc.IH [of q'] Suc.prems(2) show ?case
    by (auto simp: g ys split: prod.splits)
qed

lemma fill_drain:
  assumes "inv q" "contents q = []" "length xs \<le> capacity q"
  shows "fst (drain get (length xs) (put_all put xs q)) = xs"
  using put_all_ok [of q xs] drain_ok [of "put_all put xs q" "length xs"] assms by simp

end

definition rb_capacity :: "RingBuffer_t \<times> sram \<Rightarrow> nat" where
  "rb_capacity bm = unat (Size (fst bm))"

lemma length_rb_list: "length (rb_list bm) = unat (Count (fst bm))"
  by (simp add: rb_list_def split_beta)

lemma rb_room_iff: "length (rb_list bm) < rb_capacity bm \<longleftrightarrow> rb_room bm"
  by (simp add: length_rb_list rb_room_def rb_capacity_def word_less_nat_alt)

lemma rb_capacity_init: "rb_capacity (RingBuffer_InitBuffer p sz m) = unat sz"
  by (simp add: rb_capacity_def RingBuffer_InitBuffer_def Let_def)

lemma rb_capacity_Insert: "rb_capacity (RingBuffer_Insert d bm) = rb_capacity bm"
  by (simp add: rb_capacity_def rb_ops split_beta)

lemma rb_capacity_Remove: "rb_capacity (snd (RingBuffer_Remove bm)) = rb_capacity bm"
  by (simp add: rb_capacity_def rb_ops split_beta)

interpretation rb: fifo RingBuffer_Insert RingBuffer_Remove rb_list rb_capacity rb_inv
  by unfold_locales
    (simp_all add: rb_room_iff rb_capacity_Insert rb_capacity_Remove rb_inv_Insert rb_list_Insert rb_inv_Remove
       rb_list_Remove)

section \<open>One producer and one consumer\<close>

text \<open>
  The header allows insertion and removal from different execution threads (main program and one
  interrupt handler), one of each. The steps below are the statements of \<open>RingBuffer_Insert\<close> and
  \<open>RingBuffer_Remove\<close>: the store through \<open>In\<close>, the pointer update, and the counter update, which runs
  with interrupts disabled and is atomic. The producer starts only after \<open>RingBuffer_IsFull\<close> returned
  false, the consumer only after \<open>RingBuffer_IsEmpty\<close> did. \<open>sent\<close> and \<open>got\<close> record the calls.
\<close>

datatype producer = PIdle | PStored | PMoved
datatype consumer = CIdle | CLoaded u8 | CMoved u8

record rb_system =
  buf :: RingBuffer_t
  ram :: sram
  ppc :: producer
  cpc :: consumer
  sent :: "u8 list"
  got :: "u8 list"

definition next_In :: "RingBuffer_t \<Rightarrow> RingBuffer_t" where
  "next_In b = (let b = b\<lparr>In := Suc (In b)\<rparr> in if In b = End b then b\<lparr>In := Start b\<rparr> else b)"

definition next_Out :: "RingBuffer_t \<Rightarrow> RingBuffer_t" where
  "next_Out b = (let b = b\<lparr>Out := Suc (Out b)\<rparr> in if Out b = End b then b\<lparr>Out := Start b\<rparr> else b)"

inductive rb_step :: "rb_system \<Rightarrow> rb_system \<Rightarrow> bool" where
  p_store: "ppc s = PIdle \<Longrightarrow> \<not> fst (RingBuffer_IsFull (buf s) (ram s)) \<Longrightarrow>
    rb_step s (s\<lparr>ram := (ram s)\<lparr>mem := (mem (ram s))(In (buf s) := d)\<rparr>, ppc := PStored, sent := sent s @ [d]\<rparr>)"
| p_move: "ppc s = PStored \<Longrightarrow> rb_step s (s\<lparr>buf := next_In (buf s), ppc := PMoved\<rparr>)"
| p_count: "ppc s = PMoved \<Longrightarrow>
    rb_step s (s\<lparr>buf := (buf s)\<lparr>Count := Count (buf s) + 1\<rparr>, ppc := PIdle\<rparr>)"
| c_load: "cpc s = CIdle \<Longrightarrow> \<not> fst (RingBuffer_IsEmpty (buf s) (ram s)) \<Longrightarrow>
    rb_step s (s\<lparr>cpc := CLoaded (mem (ram s) (Out (buf s)))\<rparr>)"
| c_move: "cpc s = CLoaded d \<Longrightarrow> rb_step s (s\<lparr>buf := next_Out (buf s), cpc := CMoved d\<rparr>)"
| c_count: "cpc s = CMoved d \<Longrightarrow>
    rb_step s (s\<lparr>buf := (buf s)\<lparr>Count := Count (buf s) - 1\<rparr>, cpc := CIdle, got := got s @ [d]\<rparr>)"

inductive rb_reach :: "nat \<Rightarrow> u16 \<Rightarrow> sram \<Rightarrow> rb_system \<Rightarrow> bool" for p :: nat and sz :: u16 and m :: sram where
  rb_start: "RingBuffer_InitBuffer p sz m = (b, m') \<Longrightarrow>
    rb_reach p sz m \<lparr>buf = b, ram = m', ppc = PIdle, cpc = CIdle, sent = [], got = []\<rparr>"
| rb_next: "rb_reach p sz m s \<Longrightarrow> rb_step s t \<Longrightarrow> rb_reach p sz m t"

text \<open>
  The invariant counts the bytes between \<open>Out\<close> and \<open>In\<close> (\<open>in_flight\<close>): the counter, plus one while the
  producer has moved \<open>In\<close> but not yet counted, minus one while the consumer has moved \<open>Out\<close> but not yet
  counted.
\<close>

definition in_flight :: "rb_system \<Rightarrow> nat" where
  "in_flight s = unat (Count (buf s)) + (if ppc s = PMoved then 1 else 0)
     - (case cpc s of CMoved _ \<Rightarrow> 1 | _ \<Rightarrow> 0)"

definition ofs :: "RingBuffer_t \<Rightarrow> nat" where
  "ofs b = Out b - Start b"

definition rb_items :: "RingBuffer_t \<Rightarrow> sram \<Rightarrow> nat \<Rightarrow> u8 list" where
  "rb_items b m k = map (\<lambda>i. mem m (slot b (ofs b + i))) [0..<k]"

definition conc_inv :: "rb_system \<Rightarrow> bool" where
  "conc_inv s \<longleftrightarrow> (let b = buf s; c = unat (Count b); k = in_flight s in
     0 < unat (Size b) \<and> End b = Start b + unat (Size b) \<and> Start b \<le> Out b \<and> Out b < End b \<and>
     c + (if ppc s = PIdle then 0 else 1) \<le> unat (Size b) \<and> (cpc s \<noteq> CIdle \<longrightarrow> 0 < c) \<and>
     In b = slot b (ofs b + k) \<and>
     (\<forall>d. cpc s = CLoaded d \<longrightarrow> d = mem (ram s) (Out b)) \<and>
     sent s = got s @ (case cpc s of CMoved d \<Rightarrow> [d] | _ \<Rightarrow> []) @ rb_items b (ram s) k
       @ (if ppc s = PStored then [mem (ram s) (In b)] else []))"

lemma next_In_slot:
  assumes "0 < unat (Size b)" "End b = Start b + unat (Size b)" "In b = slot b k"
  shows "next_In b = b\<lparr>In := slot b (Suc k)\<rparr>"
  using assms advance [OF assms(1), of "Start b" k]
  by (auto simp: next_In_def slot_def Let_def split: if_splits)

lemma next_Out_slot:
  assumes "0 < unat (Size b)" "End b = Start b + unat (Size b)" "Start b \<le> Out b" "Out b < End b"
  shows "next_Out b = b\<lparr>Out := slot b (Suc (ofs b))\<rparr>"
  using assms advance [OF assms(1), of "Start b" "ofs b"]
  by (auto simp: next_Out_def slot_def ofs_def Let_def split: if_splits)

lemma rb_items_Suc:
  "rb_items b m (Suc k) = rb_items b m k @ [mem m (slot b (ofs b + k))]"
  by (simp add: rb_items_def)

lemma slot_fields [simp]:
  "slot (b\<lparr>In := x\<rparr>) k = slot b k" "slot (b\<lparr>Out := x\<rparr>) k = slot b k" "slot (b\<lparr>Count := c\<rparr>) k = slot b k"
  by (simp_all add: slot_def)

lemma ofs_fields [simp]: "ofs (b\<lparr>In := x\<rparr>) = ofs b" "ofs (b\<lparr>Count := c\<rparr>) = ofs b"
  by (simp_all add: ofs_def)

lemma rb_items_fields [simp]:
  "rb_items (b\<lparr>In := x\<rparr>) m k = rb_items b m k" "rb_items (b\<lparr>Count := c\<rparr>) m k = rb_items b m k"
  by (simp_all add: rb_items_def)

lemma slot_ofs:
  "slot b (ofs (b\<lparr>Out := slot b (Suc k)\<rparr>) + i) = slot b (k + Suc i)"
  by (simp add: slot_def ofs_def mod_shift)

lemma rb_items_Out:
  assumes "0 < unat (Size b)" "End b = Start b + unat (Size b)" "Start b \<le> Out b" "Out b < End b"
  shows "rb_items b m (Suc k) = mem m (Out b) # rb_items (b\<lparr>Out := slot b (Suc (ofs b))\<rparr>) m k"
proof -
  have "slot b (ofs b) = Out b" using assms by (simp add: slot_def ofs_def)
  moreover note slot_ofs
  ultimately show ?thesis
    by (simp add: rb_items_def upt_conv_Cons map_Suc_upt [symmetric] del: upt_Suc)
qed

lemma rb_items_store:
  assumes "k < unat (Size b)" "In b = slot b (ofs b + k)"
  shows "rb_items b (m\<lparr>mem := (mem m)(In b := d)\<rparr>) k = rb_items b m k"
proof -
  have "slot b (ofs b + i) \<noteq> In b" if "i < k" for i
    using mod_shift_inj [of i "unat (Size b)" k "ofs b"] that assms by (auto simp: slot_def)
  then show ?thesis by (simp add: rb_items_def)
qed

lemma Out_ne_In:
  assumes "0 < k" "k < unat (Size b)" "In b = slot b (ofs b + k)"
    "End b = Start b + unat (Size b)" "Start b \<le> Out b" "Out b < End b"
  shows "Out b \<noteq> In b"
proof
  assume "Out b = In b"
  moreover have "Out b = slot b (ofs b + 0)" using assms(4-6) by (simp add: slot_def ofs_def)
  ultimately have "(ofs b + 0) mod unat (Size b) = (ofs b + k) mod unat (Size b)"
    using assms(3) unfolding slot_def by linarith
  from mod_shift_inj [OF _ assms(2) this] assms(1,2) show False by simp
qed

lemmas conc_defs = conc_inv_def in_flight_def Let_def

lemma conc_p_store:
  assumes "conc_inv s" "ppc s = PIdle" "Count (buf s) \<noteq> Size (buf s)"
  shows "conc_inv (s\<lparr>ram := (ram s)\<lparr>mem := (mem (ram s))(In (buf s) := d)\<rparr>, ppc := PStored, sent := sent s @ [d]\<rparr>)"
proof -
  let ?b = "buf s"
  have "unat (Count ?b) \<noteq> unat (Size ?b)"
    using assms(3) by (metis unsigned_word_eqI)
  moreover have "unat (Count ?b) \<le> unat (Size ?b)"
    using assms by (simp add: conc_inv_def Let_def)
  ultimately have lt: "unat (Count ?b) < unat (Size ?b)" by simp
  then have k: "in_flight s < unat (Size ?b)" using assms(2) by (simp add: in_flight_def)
  have i: "In ?b = slot ?b (ofs ?b + in_flight s)" using assms by (simp add: conc_inv_def Let_def)
  have "Out ?b \<noteq> In ?b" if "cpc s = CLoaded e" for e
    by (rule Out_ne_In [OF _ k i]) (use assms that in \<open>auto simp: conc_defs\<close>)
  moreover note rb_items_store [OF k i]
  ultimately show ?thesis
    using assms lt by (auto simp: conc_inv_def in_flight_def Let_def split: consumer.splits)
qed

lemma conc_p_move:
  assumes "conc_inv s" "ppc s = PStored"
  shows "conc_inv (s\<lparr>buf := next_In (buf s), ppc := PMoved\<rparr>)"
proof -
  let ?b = "buf s"
  have i: "In ?b = slot ?b (ofs ?b + in_flight s)" using assms by (simp add: conc_inv_def Let_def)
  have n: "next_In ?b = ?b\<lparr>In := slot ?b (Suc (ofs ?b + in_flight s))\<rparr>"
    by (rule next_In_slot [OF _ _ i]) (use assms in \<open>auto simp: conc_inv_def Let_def\<close>)
  have k: "in_flight (s\<lparr>buf := next_In ?b, ppc := PMoved\<rparr>) = Suc (in_flight s)"
    using assms by (auto simp: conc_inv_def Let_def in_flight_def n split: consumer.splits)
  show ?thesis
    using assms i by (auto simp: conc_inv_def Let_def k) (auto simp: n rb_items_Suc)
qed

lemma conc_p_count:
  assumes "conc_inv s" "ppc s = PMoved"
  shows "conc_inv (s\<lparr>buf := (buf s)\<lparr>Count := Count (buf s) + 1\<rparr>, ppc := PIdle\<rparr>)"
proof -
  have "unat (Count (buf s) + 1) = Suc (unat (Count (buf s)))"
    using assms by (intro unat_Suc_less [of _ "Size (buf s)"]) (simp add: conc_defs word_less_nat_alt)
  then show ?thesis using assms by (auto simp: conc_inv_def Let_def in_flight_def)
qed

lemma conc_c_load:
  assumes "conc_inv s" "cpc s = CIdle" "Count (buf s) \<noteq> 0"
  shows "conc_inv (s\<lparr>cpc := CLoaded (mem (ram s) (Out (buf s)))\<rparr>)"
  using assms by (auto simp: conc_inv_def Let_def in_flight_def unat_gt_0)

lemma conc_c_move:
  assumes "conc_inv s" "cpc s = CLoaded d"
  shows "conc_inv (s\<lparr>buf := next_Out (buf s), cpc := CMoved d\<rparr>)"
proof -
  let ?b = "buf s" and ?t = "s\<lparr>buf := next_Out (buf s), cpc := CMoved d\<rparr>"
  have w: "0 < unat (Size ?b)" "End ?b = Start ?b + unat (Size ?b)" "Start ?b \<le> Out ?b" "Out ?b < End ?b"
    using assms by (auto simp: conc_inv_def Let_def)
  note n = next_Out_slot [OF w]
  have k: "in_flight s = Suc (in_flight ?t)"
    using assms by (auto simp: conc_inv_def Let_def in_flight_def n)
  have "slot ?b (ofs (next_Out ?b) + in_flight ?t) = slot ?b (ofs ?b + in_flight s)"
    unfolding k n by (rule slot_ofs)
  moreover have "Out (next_Out ?b) < End ?b" "Start ?b \<le> Out (next_Out ?b)"
    using w by (simp_all add: n slot_def)
  moreover have "rb_items ?b (ram s) (in_flight s) = d # rb_items (next_Out ?b) (ram s) (in_flight ?t)"
    using assms rb_items_Out [OF w] by (simp add: k n conc_inv_def Let_def)
  ultimately show ?thesis
    using assms w by (simp add: conc_inv_def Let_def) (auto simp: n split: if_splits)
qed

lemma conc_c_count:
  assumes "conc_inv s" "cpc s = CMoved d"
  shows "conc_inv (s\<lparr>buf := (buf s)\<lparr>Count := Count (buf s) - 1\<rparr>, cpc := CIdle, got := got s @ [d]\<rparr>)"
proof -
  have c: "0 < unat (Count (buf s))"
    using assms by (simp add: conc_inv_def Let_def)
  moreover from c have "unat (Count (buf s) - 1) = unat (Count (buf s)) - 1"
    by (intro unat_pred) (simp add: unat_gt_0)
  ultimately have "in_flight (s\<lparr>buf := (buf s)\<lparr>Count := Count (buf s) - 1\<rparr>, cpc := CIdle, got := got s @ [d]\<rparr>)
      = in_flight s" "unat (Count (buf s) - 1) \<le> unat (Count (buf s))"
    using assms(2) by (auto simp: in_flight_def)
  then show ?thesis using assms by (simp add: conc_inv_def Let_def)
qed

lemma conc_inv_step: "rb_step s t \<Longrightarrow> conc_inv s \<Longrightarrow> conc_inv t"
  by (induction rule: rb_step.induct)
    (auto simp: RingBuffer_IsFull_def RingBuffer_IsEmpty_def RingBuffer_GetCount_def Let_def
      intro: conc_p_store conc_p_move conc_p_count conc_c_load conc_c_move conc_c_count)

lemma conc_inv_reach: "rb_reach p sz m s \<Longrightarrow> 0 < sz \<Longrightarrow> conc_inv s"
proof (induction rule: rb_reach.induct)
  case (rb_start b m')
  then show ?case
    by (auto simp: RingBuffer_InitBuffer_def conc_inv_def in_flight_def Let_def rb_items_def slot_def
        ofs_def word_less_nat_alt)
qed (rule conc_inv_step)

lemma conc_inv_sent:
  assumes "conc_inv s"
  shows "\<exists>rest. sent s = got s @ rest \<and> length rest \<le> unat (Size (buf s))"
  using assms
  by (intro exI [of _ "(case cpc s of CMoved d \<Rightarrow> [d] | _ \<Rightarrow> []) @ rb_items (buf s) (ram s) (in_flight s)
       @ (if ppc s = PStored then [mem (ram s) (In (buf s))] else [])"])
    (auto simp: conc_inv_def Let_def in_flight_def rb_items_def split: consumer.splits if_splits)

lemma rb_step_Size: "rb_step s t \<Longrightarrow> Size (buf t) = Size (buf s) \<and> Start (buf t) = Start (buf s)"
  by (induction rule: rb_step.induct) (auto simp: next_In_def next_Out_def Let_def)

lemma rb_reach_Size: "rb_reach p sz m s \<Longrightarrow> Size (buf s) = sz \<and> Start (buf s) = p"
  by (induction rule: rb_reach.induct) (auto simp: RingBuffer_InitBuffer_def Let_def dest: rb_step_Size)

section \<open>Properties\<close>

text \<open>
  C2: inserting into a buffer with room appends exactly that byte to the queue contents, keeps the
  representation invariant, restores the global interrupt flag, and writes no SRAM byte outside the
  storage area the buffer was initialised with.
\<close>

theorem RingBuffer_Insert_refines:
  assumes "rb_inv bm" "rb_room bm"
  shows "rb_inv (RingBuffer_Insert d bm) \<and>
    rb_list (RingBuffer_Insert d bm) = rb_list bm @ [d] \<and>
    SREG (snd (RingBuffer_Insert d bm)) = SREG (snd bm) \<and>
    (\<forall>a. a < Start (fst bm) \<or> End (fst bm) \<le> a \<longrightarrow>
       mem (snd (RingBuffer_Insert d bm)) a = mem (snd bm) a)"
proof -
  obtain b m where bm: "bm = (b, m)" by (cases bm)
  have inv: "rb_inv (b, m)" using assms(1) bm by simp
  have "Start b \<le> In b" "In b < End b"
    using inv rb_inv_In [OF inv] rb_inv_size [OF inv] by (auto simp: rb_inv_def Let_def slot_def)
  then show ?thesis
    using rb_inv_Insert [OF assms] rb_list_Insert [OF assms]
    by (auto simp: bm RingBuffer_Insert_fields [OF inv])
qed

definition rb_demo :: "RingBuffer_t \<times> sram" where
  "rb_demo = RingBuffer_InitBuffer 256 2 \<lparr>SREG = 0x80, mem = (\<lambda>_. 0)\<rparr>"

theorem RingBuffer_Insert_refines_witness:
  "rb_list (RingBuffer_Insert 9 (RingBuffer_Insert 7 rb_demo)) = [7, 9]"
proof -
  have i: "rb_inv rb_demo" "rb_room rb_demo" "rb_list rb_demo = []"
    by (simp_all add: rb_demo_def rb_inv_init rb_list_init)
      (simp add: rb_room_def RingBuffer_InitBuffer_def Let_def)
  have "rb_room (RingBuffer_Insert 7 rb_demo)"
    by (simp add: rb_demo_def rb_room_def RingBuffer_InitBuffer_def rb_ops)
  then show ?thesis
    using RingBuffer_Insert_refines [OF i(1,2), of 7]
      RingBuffer_Insert_refines [of "RingBuffer_Insert 7 rb_demo" 9] i by simp
qed

text \<open>
  C16: storing any block of at most \<open>Size\<close> bytes in a freshly initialised buffer and then reading out
  as many bytes as were stored returns exactly that block, in order, whatever the buffer address.
\<close>

theorem RingBuffer_roundtrip:
  assumes "0 < sz" "length xs \<le> unat sz"
  shows "fst (drain RingBuffer_Remove (length xs)
           (put_all RingBuffer_Insert xs (RingBuffer_InitBuffer p sz m))) = xs"
  using assms
  by (intro rb.fill_drain)
    (simp_all add: rb_inv_init rb_list_init rb_capacity_init)

theorem RingBuffer_roundtrip_witness:
  "fst (drain RingBuffer_Remove (length [1 :: u8, 2, 3]) (put_all RingBuffer_Insert [1, 2, 3]
     (RingBuffer_InitBuffer 256 4 \<lparr>SREG = 0, mem = (\<lambda>_. 0)\<rparr>))) = [1, 2, 3]"
  using RingBuffer_roundtrip [of 4 "[1, 2, 3]" 256 "\<lparr>SREG = 0, mem = (\<lambda>_. 0)\<rparr>"]
  by (simp del: drain.simps put_all.simps)

text \<open>
  C1: for every interleaving of one producer and one consumer, the bytes the consumer got are a
  prefix of the bytes the producer sent, at most \<open>Size\<close> bytes are outstanding, and the counter never
  exceeds \<open>Size\<close>.
\<close>

theorem RingBuffer_spsc:
  assumes "0 < sz" "rb_reach p sz m s"
  shows "(\<exists>rest. sent s = got s @ rest \<and> length rest \<le> unat sz) \<and> Count (buf s) \<le> sz"
  using conc_inv_sent [OF conc_inv_reach [OF assms(2,1)]] conc_inv_reach [OF assms(2,1)]
    rb_reach_Size [OF assms(2)]
  by (auto simp: conc_inv_def Let_def word_le_nat_alt)

theorem RingBuffer_spsc_witness:
  "\<exists>s. rb_reach 256 1 \<lparr>SREG = 0, mem = (\<lambda>_. 0)\<rparr> s \<and> sent s = [5] \<and> got s = [] \<and> Count (buf s) \<le> 1"
proof -
  let ?m = "\<lparr>SREG = 0, mem = (\<lambda>_. 0)\<rparr> :: sram"
  let ?b = "fst (RingBuffer_InitBuffer 256 1 ?m)" and ?m' = "snd (RingBuffer_InitBuffer 256 1 ?m)"
  let ?s = "\<lparr>buf = ?b, ram = ?m', ppc = PIdle, cpc = CIdle, sent = [], got = []\<rparr>"
  let ?t = "?s\<lparr>ram := (ram ?s)\<lparr>mem := (mem (ram ?s))(In (buf ?s) := 5)\<rparr>, ppc := PStored, sent := sent ?s @ [5]\<rparr>"
  have "rb_step ?s ?t"
    by (rule p_store)
      (simp_all add: RingBuffer_IsFull_def RingBuffer_GetCount_def RingBuffer_InitBuffer_def Let_def)
  then have "rb_reach 256 1 ?m ?t" by (intro rb_next [OF rb_start]) simp_all
  moreover from RingBuffer_spsc [OF _ this] have "Count (buf ?t) \<le> 1" by simp
  ultimately show ?thesis by (intro exI [of _ ?t]) simp
qed

end
