(* ===== verification/StdDescriptors.thy ===== *)
theory StdDescriptors
  imports Prelude
begin

text \<open>
  The standard descriptors of \<open>LUFA/Drivers/USB/Core/StdDescriptors.h\<close>: the descriptor types, the
  packed structs as records (fields prefixed by the struct they belong to) and the bytes they are
  stored as, together with the reading of a struct from a descriptor pointer (the
  \<open>DESCRIPTOR_CAST\<close> of \<open>ConfigDescriptors.h\<close>). AVR is little-endian, so the \<open>CPU_TO_LE16\<close> of the
  sources is the identity and 16-bit fields are stored low byte first.
\<close>

section \<open>Constants\<close>

datatype USB_DescriptorTypes_t =
    DTYPE_Device
  | DTYPE_Configuration
  | DTYPE_String
  | DTYPE_Interface
  | DTYPE_Endpoint
  | DTYPE_DeviceQualifier
  | DTYPE_Other
  | DTYPE_InterfacePower
  | DTYPE_InterfaceAssociation
  | DTYPE_CSInterface
  | DTYPE_CSEndpoint

primrec dtype :: "USB_DescriptorTypes_t \<Rightarrow> u8" where
  "dtype DTYPE_Device = 0x01"
| "dtype DTYPE_Configuration = 0x02"
| "dtype DTYPE_String = 0x03"
| "dtype DTYPE_Interface = 0x04"
| "dtype DTYPE_Endpoint = 0x05"
| "dtype DTYPE_DeviceQualifier = 0x06"
| "dtype DTYPE_Other = 0x07"
| "dtype DTYPE_InterfacePower = 0x08"
| "dtype DTYPE_InterfaceAssociation = 0x0B"
| "dtype DTYPE_CSInterface = 0x24"
| "dtype DTYPE_CSEndpoint = 0x25"

datatype USB_Descriptor_ClassSubclassProtocol_t =
    USB_CSCP_NoDeviceClass
  | USB_CSCP_NoDeviceSubclass
  | USB_CSCP_NoDeviceProtocol
  | USB_CSCP_VendorSpecificClass
  | USB_CSCP_VendorSpecificSubclass
  | USB_CSCP_VendorSpecificProtocol
  | USB_CSCP_IADDeviceClass
  | USB_CSCP_IADDeviceSubclass
  | USB_CSCP_IADDeviceProtocol

primrec cscp :: "USB_Descriptor_ClassSubclassProtocol_t \<Rightarrow> u8" where
  "cscp USB_CSCP_NoDeviceClass = 0x00"
| "cscp USB_CSCP_NoDeviceSubclass = 0x00"
| "cscp USB_CSCP_NoDeviceProtocol = 0x00"
| "cscp USB_CSCP_VendorSpecificClass = 0xFF"
| "cscp USB_CSCP_VendorSpecificSubclass = 0xFF"
| "cscp USB_CSCP_VendorSpecificProtocol = 0xFF"
| "cscp USB_CSCP_IADDeviceClass = 0xEF"
| "cscp USB_CSCP_IADDeviceSubclass = 0x02"
| "cscp USB_CSCP_IADDeviceProtocol = 0x01"

abbreviation (input) NO_DESCRIPTOR :: u8 where "NO_DESCRIPTOR \<equiv> 0"
abbreviation (input) LANGUAGE_ID_ENG :: u16 where "LANGUAGE_ID_ENG \<equiv> 0x0409"
abbreviation (input) USB_CONFIG_ATTR_RESERVED :: u8 where "USB_CONFIG_ATTR_RESERVED \<equiv> 0x80"
abbreviation (input) USB_CONFIG_ATTR_SELFPOWERED :: u8 where "USB_CONFIG_ATTR_SELFPOWERED \<equiv> 0x40"
abbreviation (input) USB_CONFIG_ATTR_REMOTEWAKEUP :: u8 where "USB_CONFIG_ATTR_REMOTEWAKEUP \<equiv> 0x20"
abbreviation (input) ENDPOINT_ATTR_NO_SYNC :: u8 where "ENDPOINT_ATTR_NO_SYNC \<equiv> push_bit 2 0"
abbreviation (input) ENDPOINT_USAGE_DATA :: u8 where "ENDPOINT_USAGE_DATA \<equiv> push_bit 4 0"

text \<open>Masks of \<open>USBController.h\<close>.\<close>

abbreviation (input) ENDPOINT_DIR_MASK :: u8 where "ENDPOINT_DIR_MASK \<equiv> 0x80"
abbreviation (input) ENDPOINT_DIR_OUT :: u8 where "ENDPOINT_DIR_OUT \<equiv> 0x00"
abbreviation (input) ENDPOINT_DIR_IN :: u8 where "ENDPOINT_DIR_IN \<equiv> 0x80"
abbreviation (input) ENDPOINT_EPNUM_MASK :: u8 where "ENDPOINT_EPNUM_MASK \<equiv> 0x0F"
abbreviation (input) EP_TYPE_MASK :: u8 where "EP_TYPE_MASK \<equiv> 0x03"
abbreviation (input) EP_TYPE_CONTROL :: u8 where "EP_TYPE_CONTROL \<equiv> 0x00"
abbreviation (input) EP_TYPE_ISOCHRONOUS :: u8 where "EP_TYPE_ISOCHRONOUS \<equiv> 0x01"
abbreviation (input) EP_TYPE_BULK :: u8 where "EP_TYPE_BULK \<equiv> 0x02"
abbreviation (input) EP_TYPE_INTERRUPT :: u8 where "EP_TYPE_INTERRUPT \<equiv> 0x03"

definition USB_CONFIG_POWER_MA :: "u16 \<Rightarrow> u8" where
  "USB_CONFIG_POWER_MA mA = ucast (drop_bit 1 mA)"

definition VERSION_BCD :: "u16 \<Rightarrow> u16 \<Rightarrow> u16 \<Rightarrow> u16" where
  "VERSION_BCD Major Minor Revision =
     push_bit 8 (Major AND 0xFF) OR push_bit 4 (Minor AND 0x0F) OR (Revision AND 0x0F)"

section \<open>Structs\<close>

record USB_Descriptor_Header_t =
  Header_Size :: u8
  Header_Type :: u8

record USB_Descriptor_Device_t =
  Device_Header :: USB_Descriptor_Header_t
  Device_USBSpecification :: u16
  Device_Class :: u8
  Device_SubClass :: u8
  Device_Protocol :: u8
  Device_Endpoint0Size :: u8
  Device_VendorID :: u16
  Device_ProductID :: u16
  Device_ReleaseNumber :: u16
  Device_ManufacturerStrIndex :: u8
  Device_ProductStrIndex :: u8
  Device_SerialNumStrIndex :: u8
  Device_NumberOfConfigurations :: u8

record USB_Descriptor_DeviceQualifier_t =
  Qualifier_Header :: USB_Descriptor_Header_t
  Qualifier_USBSpecification :: u16
  Qualifier_Class :: u8
  Qualifier_SubClass :: u8
  Qualifier_Protocol :: u8
  Qualifier_Endpoint0Size :: u8
  Qualifier_NumberOfConfigurations :: u8
  Qualifier_Reserved :: u8

record USB_Descriptor_Configuration_Header_t =
  Config_Header :: USB_Descriptor_Header_t
  Config_TotalConfigurationSize :: u16
  Config_TotalInterfaces :: u8
  Config_ConfigurationNumber :: u8
  Config_ConfigurationStrIndex :: u8
  Config_ConfigAttributes :: u8
  Config_MaxPowerConsumption :: u8

record USB_Descriptor_Interface_t =
  Interface_Header :: USB_Descriptor_Header_t
  Interface_InterfaceNumber :: u8
  Interface_AlternateSetting :: u8
  Interface_TotalEndpoints :: u8
  Interface_Class :: u8
  Interface_SubClass :: u8
  Interface_Protocol :: u8
  Interface_InterfaceStrIndex :: u8

record USB_Descriptor_Interface_Association_t =
  IAD_Header :: USB_Descriptor_Header_t
  IAD_FirstInterfaceIndex :: u8
  IAD_TotalInterfaces :: u8
  IAD_Class :: u8
  IAD_SubClass :: u8
  IAD_Protocol :: u8
  IAD_IADStrIndex :: u8

record USB_Descriptor_Endpoint_t =
  Endpoint_Header :: USB_Descriptor_Header_t
  Endpoint_EndpointAddress :: u8
  Endpoint_Attributes :: u8
  Endpoint_EndpointSize :: u16
  Endpoint_PollingIntervalMS :: u8

record USB_Descriptor_String_t =
  String_Header :: USB_Descriptor_Header_t
  String_UnicodeString :: "u16 list"

section \<open>Stored bytes\<close>

definition Header_bytes :: "USB_Descriptor_Header_t \<Rightarrow> u8 list" where
  "Header_bytes h = [Header_Size h, Header_Type h]"

definition Device_bytes :: "USB_Descriptor_Device_t \<Rightarrow> u8 list" where
  "Device_bytes d = Header_bytes (Device_Header d) @ le16 (Device_USBSpecification d) @
     [Device_Class d, Device_SubClass d, Device_Protocol d, Device_Endpoint0Size d] @
     le16 (Device_VendorID d) @ le16 (Device_ProductID d) @ le16 (Device_ReleaseNumber d) @
     [Device_ManufacturerStrIndex d, Device_ProductStrIndex d, Device_SerialNumStrIndex d,
      Device_NumberOfConfigurations d]"

definition DeviceQualifier_bytes :: "USB_Descriptor_DeviceQualifier_t \<Rightarrow> u8 list" where
  "DeviceQualifier_bytes d = Header_bytes (Qualifier_Header d) @ le16 (Qualifier_USBSpecification d) @
     [Qualifier_Class d, Qualifier_SubClass d, Qualifier_Protocol d, Qualifier_Endpoint0Size d,
      Qualifier_NumberOfConfigurations d, Qualifier_Reserved d]"

definition Configuration_Header_bytes :: "USB_Descriptor_Configuration_Header_t \<Rightarrow> u8 list" where
  "Configuration_Header_bytes d = Header_bytes (Config_Header d) @ le16 (Config_TotalConfigurationSize d) @
     [Config_TotalInterfaces d, Config_ConfigurationNumber d, Config_ConfigurationStrIndex d,
      Config_ConfigAttributes d, Config_MaxPowerConsumption d]"

definition Interface_bytes :: "USB_Descriptor_Interface_t \<Rightarrow> u8 list" where
  "Interface_bytes d = Header_bytes (Interface_Header d) @
     [Interface_InterfaceNumber d, Interface_AlternateSetting d, Interface_TotalEndpoints d,
      Interface_Class d, Interface_SubClass d, Interface_Protocol d, Interface_InterfaceStrIndex d]"

definition Interface_Association_bytes :: "USB_Descriptor_Interface_Association_t \<Rightarrow> u8 list" where
  "Interface_Association_bytes d = Header_bytes (IAD_Header d) @
     [IAD_FirstInterfaceIndex d, IAD_TotalInterfaces d, IAD_Class d, IAD_SubClass d, IAD_Protocol d,
      IAD_IADStrIndex d]"

definition Endpoint_bytes :: "USB_Descriptor_Endpoint_t \<Rightarrow> u8 list" where
  "Endpoint_bytes d = Header_bytes (Endpoint_Header d) @
     [Endpoint_EndpointAddress d, Endpoint_Attributes d] @ le16 (Endpoint_EndpointSize d) @
     [Endpoint_PollingIntervalMS d]"

definition String_bytes :: "USB_Descriptor_String_t \<Rightarrow> u8 list" where
  "String_bytes d = Header_bytes (String_Header d) @ concat (map le16 (String_UnicodeString d))"

lemmas descriptor_bytes [layout] = Header_bytes_def Device_bytes_def DeviceQualifier_bytes_def
  Configuration_Header_bytes_def Interface_bytes_def Interface_Association_bytes_def
  Endpoint_bytes_def String_bytes_def

section \<open>String descriptors\<close>

text \<open>
  \<open>USB_STRING_DESCRIPTOR\<close> takes a wide string literal: its storage includes the terminating null,
  which the size does not count. \<open>USB_STRING_DESCRIPTOR_ARRAY\<close> takes a list of 16-bit values; the
  compound literal whose size it measures is a single \<open>uint16_t\<close>, so it always counts one element.
\<close>

definition USB_STRING_LEN :: "u8 \<Rightarrow> u8" where
  "USB_STRING_LEN UnicodeChars = 2 + push_bit 1 UnicodeChars"

definition USB_STRING_DESCRIPTOR :: "u16 list \<Rightarrow> USB_Descriptor_String_t" where
  "USB_STRING_DESCRIPTOR s =
     \<lparr>String_Header = \<lparr>Header_Size = of_nat (2 + (2 * (length s + 1) - 2)), Header_Type = dtype DTYPE_String\<rparr>,
      String_UnicodeString = s @ [0]\<rparr>"

definition USB_STRING_DESCRIPTOR_ARRAY :: "u16 list \<Rightarrow> USB_Descriptor_String_t" where
  "USB_STRING_DESCRIPTOR_ARRAY s =
     \<lparr>String_Header = \<lparr>Header_Size = 2 + 2, Header_Type = dtype DTYPE_String\<rparr>,
      String_UnicodeString = s\<rparr>"

text \<open>A wide string literal as UTF-16 code units (the literals of the application are ASCII).\<close>

definition wide :: "string \<Rightarrow> u16 list" where
  "wide s = map of_char s"

section \<open>Reading a struct through a pointer\<close>

definition DESCRIPTOR_SIZE :: "(nat \<Rightarrow> u8) \<Rightarrow> nat \<Rightarrow> u8" where
  "DESCRIPTOR_SIZE M p = M p"

definition DESCRIPTOR_TYPE :: "(nat \<Rightarrow> u8) \<Rightarrow> nat \<Rightarrow> u8" where
  "DESCRIPTOR_TYPE M p = M (p + 1)"

definition CAST_Header :: "(nat \<Rightarrow> u8) \<Rightarrow> nat \<Rightarrow> USB_Descriptor_Header_t" where
  "CAST_Header M p = \<lparr>Header_Size = M p, Header_Type = M (p + 1)\<rparr>"

definition CAST_Configuration_Header :: "(nat \<Rightarrow> u8) \<Rightarrow> nat \<Rightarrow> USB_Descriptor_Configuration_Header_t" where
  "CAST_Configuration_Header M p =
     \<lparr>Config_Header = CAST_Header M p, Config_TotalConfigurationSize = of_le16 (M (p + 2)) (M (p + 3)),
      Config_TotalInterfaces = M (p + 4), Config_ConfigurationNumber = M (p + 5),
      Config_ConfigurationStrIndex = M (p + 6), Config_ConfigAttributes = M (p + 7),
      Config_MaxPowerConsumption = M (p + 8)\<rparr>"

definition CAST_Interface :: "(nat \<Rightarrow> u8) \<Rightarrow> nat \<Rightarrow> USB_Descriptor_Interface_t" where
  "CAST_Interface M p =
     \<lparr>Interface_Header = CAST_Header M p, Interface_InterfaceNumber = M (p + 2),
      Interface_AlternateSetting = M (p + 3), Interface_TotalEndpoints = M (p + 4),
      Interface_Class = M (p + 5), Interface_SubClass = M (p + 6), Interface_Protocol = M (p + 7),
      Interface_InterfaceStrIndex = M (p + 8)\<rparr>"

definition CAST_Endpoint :: "(nat \<Rightarrow> u8) \<Rightarrow> nat \<Rightarrow> USB_Descriptor_Endpoint_t" where
  "CAST_Endpoint M p =
     \<lparr>Endpoint_Header = CAST_Header M p, Endpoint_EndpointAddress = M (p + 2),
      Endpoint_Attributes = M (p + 3), Endpoint_EndpointSize = of_le16 (M (p + 4)) (M (p + 5)),
      Endpoint_PollingIntervalMS = M (p + 6)\<rparr>"

text \<open>\<open>stored M p bs\<close>: the bytes \<open>bs\<close> are in memory from address \<open>p\<close> on.\<close>

definition stored :: "(nat \<Rightarrow> u8) \<Rightarrow> nat \<Rightarrow> u8 list \<Rightarrow> bool" where
  "stored M p bs \<longleftrightarrow> (\<forall>i < length bs. M (p + i) = bs ! i)"

lemma stored_Nil [simp]: "stored M p []"
  by (simp add: stored_def)

lemma stored_Cons [simp]: "stored M p (b # bs) \<longleftrightarrow> M p = b \<and> stored M (p + 1) bs"
  by (auto simp: stored_def nth_Cons split: nat.splits)

lemma stored_append [simp]:
  "stored M p (xs @ ys) \<longleftrightarrow> stored M p xs \<and> stored M (p + length xs) ys"
  by (induction xs arbitrary: p) auto

lemma stored_le16: "stored M p (le16 w) \<longleftrightarrow> of_le16 (M p) (M (p + 1)) = w"
  using le16_of_le16 [of "M p" "M (p + 1)"] by (auto simp: le16_def of_le16_le16)

lemma CAST_roundtrip:
  "stored M p (Configuration_Header_bytes c) \<Longrightarrow> CAST_Configuration_Header M p = c"
  "stored M p (Interface_bytes i) \<Longrightarrow> CAST_Interface M p = i"
  "stored M p (Endpoint_bytes e) \<Longrightarrow> CAST_Endpoint M p = e"
  by (simp_all add: descriptor_bytes stored_le16 CAST_Header_def CAST_Configuration_Header_def
      CAST_Interface_def CAST_Endpoint_def numeral_eq_Suc)

end
