(* ===== verification/ConfigDescriptors.thy ===== *)
theory ConfigDescriptors
  imports StdDescriptors
begin

text \<open>
  The walk over the sub-descriptors of a configuration descriptor,
  \<open>LUFA/Drivers/USB/Core/ConfigDescriptors.c\<close>. The descriptor lies in a byte memory, \<open>BytesRem\<close> and
  \<open>CurrConfigLoc\<close> are the two in-out parameters. The search loops advance by the \<open>Size\<close> byte of the
  current descriptor, which the device chooses: they are \<open>partial_function\<close>s because a size of zero
  keeps them from advancing.
\<close>

section \<open>Operations\<close>

definition USB_GetNextDescriptor :: "(nat \<Rightarrow> u8) \<Rightarrow> u16 \<Rightarrow> nat \<Rightarrow> u16 \<times> nat" where
  "USB_GetNextDescriptor M BytesRem CurrConfigLoc =
     (let CurrDescriptorSize = ucast (DESCRIPTOR_SIZE M CurrConfigLoc) :: u16;
          CurrDescriptorSize = (if BytesRem < CurrDescriptorSize then BytesRem else CurrDescriptorSize)
      in (BytesRem - CurrDescriptorSize, CurrConfigLoc + unat CurrDescriptorSize))"

partial_function (option) USB_GetNextDescriptorOfType ::
    "(nat \<Rightarrow> u8) \<Rightarrow> u8 \<Rightarrow> u16 \<Rightarrow> nat \<Rightarrow> (u16 \<times> nat) option" where
  "USB_GetNextDescriptorOfType M Type BytesRem CurrConfigLoc =
     (if BytesRem \<noteq> 0 then
        let (BytesRem, CurrConfigLoc) = USB_GetNextDescriptor M BytesRem CurrConfigLoc in
        if DESCRIPTOR_TYPE M CurrConfigLoc = Type then Some (BytesRem, CurrConfigLoc)
        else USB_GetNextDescriptorOfType M Type BytesRem CurrConfigLoc
      else Some (BytesRem, CurrConfigLoc))"

partial_function (option) USB_GetNextDescriptorOfTypeBefore ::
    "(nat \<Rightarrow> u8) \<Rightarrow> u8 \<Rightarrow> u8 \<Rightarrow> u16 \<Rightarrow> nat \<Rightarrow> (u16 \<times> nat) option" where
  "USB_GetNextDescriptorOfTypeBefore M Type BeforeType BytesRem CurrConfigLoc =
     (if BytesRem \<noteq> 0 then
        let (BytesRem, CurrConfigLoc) = USB_GetNextDescriptor M BytesRem CurrConfigLoc in
        if DESCRIPTOR_TYPE M CurrConfigLoc = Type then Some (BytesRem, CurrConfigLoc)
        else if DESCRIPTOR_TYPE M CurrConfigLoc = BeforeType then Some (0, CurrConfigLoc)
        else USB_GetNextDescriptorOfTypeBefore M Type BeforeType BytesRem CurrConfigLoc
      else Some (BytesRem, CurrConfigLoc))"

definition USB_GetNextDescriptorOfTypeAfter ::
    "(nat \<Rightarrow> u8) \<Rightarrow> u8 \<Rightarrow> u8 \<Rightarrow> u16 \<Rightarrow> nat \<Rightarrow> (u16 \<times> nat) option" where
  "USB_GetNextDescriptorOfTypeAfter M Type AfterType BytesRem CurrConfigLoc = do {
     (BytesRem, CurrConfigLoc) \<leftarrow> USB_GetNextDescriptorOfType M AfterType BytesRem CurrConfigLoc;
     if BytesRem \<noteq> 0 then USB_GetNextDescriptorOfType M Type BytesRem CurrConfigLoc
     else Some (BytesRem, CurrConfigLoc)
   }"

abbreviation (input) DESCRIPTOR_SEARCH_Found :: u8 where "DESCRIPTOR_SEARCH_Found \<equiv> 0"
abbreviation (input) DESCRIPTOR_SEARCH_Fail :: u8 where "DESCRIPTOR_SEARCH_Fail \<equiv> 1"
abbreviation (input) DESCRIPTOR_SEARCH_NotFound :: u8 where "DESCRIPTOR_SEARCH_NotFound \<equiv> 2"
abbreviation (input) DESCRIPTOR_SEARCH_COMP_EndOfDescriptor :: u8 where
  "DESCRIPTOR_SEARCH_COMP_EndOfDescriptor \<equiv> 2"

text \<open>The comparator is the caller's routine: it may change the caller's state \<open>'s\<close>.\<close>

partial_function (option) USB_GetNextDescriptorComp ::
    "(nat \<Rightarrow> u8) \<Rightarrow> (nat \<Rightarrow> 's \<Rightarrow> u8 \<times> 's) \<Rightarrow> u16 \<Rightarrow> nat \<Rightarrow> 's \<Rightarrow> (u8 \<times> u16 \<times> nat \<times> 's) option" where
  "USB_GetNextDescriptorComp M ComparatorRoutine BytesRem CurrConfigLoc s =
     (if BytesRem \<noteq> 0 then
        let PrevDescLoc = CurrConfigLoc;
            PrevBytesRem = BytesRem;
            (BytesRem, CurrConfigLoc) = USB_GetNextDescriptor M BytesRem CurrConfigLoc;
            (ErrorCode, s) = ComparatorRoutine CurrConfigLoc s
        in if ErrorCode \<noteq> DESCRIPTOR_SEARCH_NotFound then
             (if ErrorCode = DESCRIPTOR_SEARCH_Fail then Some (ErrorCode, PrevBytesRem, PrevDescLoc, s)
              else Some (ErrorCode, BytesRem, CurrConfigLoc, s))
           else USB_GetNextDescriptorComp M ComparatorRoutine BytesRem CurrConfigLoc s
      else Some (DESCRIPTOR_SEARCH_COMP_EndOfDescriptor, BytesRem, CurrConfigLoc, s))"

section \<open>Well-formed descriptor sequences\<close>

text \<open>
  A sub-descriptor is well formed when its first byte is its length (at least the two header bytes).
  \<open>conf_at M p ds\<close>: the sub-descriptors \<open>ds\<close> lie one after the other from address \<open>p\<close> on.
\<close>

definition wf_desc :: "u8 list \<Rightarrow> bool" where
  "wf_desc d \<longleftrightarrow> 2 \<le> length d \<and> unat (hd d) = length d"

definition conf_at :: "(nat \<Rightarrow> u8) \<Rightarrow> nat \<Rightarrow> u8 list list \<Rightarrow> bool" where
  "conf_at M p ds \<longleftrightarrow> stored M p (concat ds) \<and> (\<forall>d \<in> set ds. wf_desc d)"

definition clen :: "u8 list list \<Rightarrow> nat" where
  "clen ds = length (concat ds)"

lemma clen_simps [simp]: "clen [] = 0" "clen (d # ds) = length d + clen ds"
  by (simp_all add: clen_def)

lemma clen_append: "clen (ds @ es) = clen ds + clen es"
  by (induction ds) auto

lemma conf_at_Cons:
  "conf_at M p (d # ds) \<longleftrightarrow> stored M p d \<and> wf_desc d \<and> conf_at M (p + length d) ds"
  by (auto simp: conf_at_def)

lemma conf_at_header:
  assumes "conf_at M p (d # ds)"
  shows "unat (DESCRIPTOR_SIZE M p) = length d" "DESCRIPTOR_TYPE M p = d ! 1"
proof -
  from assms have "2 \<le> length d" by (simp add: conf_at_Cons wf_desc_def)
  then obtain a b r where d: "d = a # b # r" by (cases d; cases "tl d") auto
  then show "unat (DESCRIPTOR_SIZE M p) = length d" "DESCRIPTOR_TYPE M p = d ! 1"
    using assms by (auto simp: conf_at_Cons wf_desc_def DESCRIPTOR_SIZE_def DESCRIPTOR_TYPE_def)
qed

lemma unat_ucast_u8_u16 [simp]: "unat (ucast (b :: u8) :: u16) = unat b"
  by transfer simp

lemma next_conf:
  assumes "conf_at M p (d # ds)" "unat rem = clen (d # ds)"
  shows "\<exists>rem'. USB_GetNextDescriptor M rem p = (rem', p + length d) \<and> unat rem' = clen ds \<and>
    conf_at M (p + length d) ds \<and> rem \<noteq> 0"
proof -
  let ?s = "ucast (DESCRIPTOR_SIZE M p) :: u16"
  have s: "unat ?s = length d" using conf_at_header(1) [OF assms(1)] by simp
  then have le: "\<not> rem < ?s" using assms(2) by (simp add: word_less_nat_alt)
  then have "unat (rem - ?s) = clen ds"
    using assms(2) s by (subst unat_sub) (simp_all add: not_less)
  moreover have "rem \<noteq> 0" using assms by (auto simp: conf_at_Cons wf_desc_def)
  ultimately show ?thesis
    using assms(1) le s by (simp add: USB_GetNextDescriptor_def Let_def conf_at_Cons)
qed

text \<open>The first of \<open>ds\<close> that has the given type, together with everything after it.\<close>

definition from_type :: "u8 \<Rightarrow> u8 list list \<Rightarrow> u8 list list" where
  "from_type Type ds = dropWhile (\<lambda>d. d ! 1 \<noteq> Type) ds"

lemma from_type_simps [simp]:
  "from_type Type [] = []"
  "from_type Type (d # ds) = (if d ! 1 = Type then d # ds else from_type Type ds)"
  by (simp_all add: from_type_def)

lemma clen_from_type: "clen (from_type Type ds) \<le> clen ds"
  by (induction ds) auto

lemma OfType_zero: "USB_GetNextDescriptorOfType M Type 0 p = Some (0, p)"
  by (subst USB_GetNextDescriptorOfType.simps) simp

lemma unat_0_word: "unat w = 0 \<Longrightarrow> w = 0"
  by (simp add: unat_eq_0)

lemma OfType_spec:
  assumes "conf_at M p (d # ds)" "unat rem = clen (d # ds)"
  shows "\<exists>rem'. USB_GetNextDescriptorOfType M Type rem p =
      Some (rem', p + clen (d # ds) - clen (from_type Type ds)) \<and> unat rem' = clen (from_type Type ds)"
  using assms
proof (induction ds arbitrary: d p rem)
  case Nil
  from next_conf [OF Nil] obtain rem' where
    n: "USB_GetNextDescriptor M rem p = (rem', p + length d)" "unat rem' = 0" "rem \<noteq> 0" by auto
  from n(2) have "rem' = 0" by (rule unat_0_word)
  with n show ?case
    by (subst USB_GetNextDescriptorOfType.simps) (simp add: OfType_zero)
next
  case (Cons e es)
  from next_conf [OF Cons.prems] obtain rem' where
    n: "USB_GetNextDescriptor M rem p = (rem', p + length d)" "unat rem' = clen (e # es)"
      "conf_at M (p + length d) (e # es)" "rem \<noteq> 0" by auto
  show ?case
  proof (cases "e ! 1 = Type")
    case True
    with n conf_at_header(2) [OF n(3)] show ?thesis
      by (subst USB_GetNextDescriptorOfType.simps) simp
  next
    case False
    with n conf_at_header(2) [OF n(3)] Cons.IH [OF n(3,2)] show ?thesis
      by (subst USB_GetNextDescriptorOfType.simps) (simp add: add.assoc)
  qed
qed

text \<open>A search that does not advance never returns.\<close>

lemma OfType_stuck_ind:
  assumes "USB_GetNextDescriptorOfType M Type rem p = Some y"
  shows "\<not> (M p = 0 \<and> M (p + 1) \<noteq> Type \<and> rem \<noteq> 0)"
proof (rule USB_GetNextDescriptorOfType.raw_induct
    [where P = "\<lambda>M Type rem p y. \<not> (M p = 0 \<and> M (p + 1) \<noteq> Type \<and> rem \<noteq> 0)", OF _ assms])
  fix f M Type and rem :: u16 and p y
  assume ih: "\<And>M Type rem p y. f M Type rem p = Some y \<Longrightarrow> \<not> (M p = 0 \<and> M (p + 1) \<noteq> Type \<and> rem \<noteq> 0)"
    and eq: "(if rem \<noteq> 0 then let (BytesRem, CurrConfigLoc) = USB_GetNextDescriptor M rem p in
        if DESCRIPTOR_TYPE M CurrConfigLoc = Type then Some (BytesRem, CurrConfigLoc)
        else f M Type BytesRem CurrConfigLoc else Some (rem, p)) = Some y"
  have "USB_GetNextDescriptor M rem p = (rem, p)" if "M p = 0"
    using that by (simp add: USB_GetNextDescriptor_def DESCRIPTOR_SIZE_def)
  with ih [of M Type rem p y] eq show "\<not> (M p = 0 \<and> M (p + 1) \<noteq> Type \<and> rem \<noteq> 0)"
    by (auto simp: DESCRIPTOR_TYPE_def split: if_splits)
qed

text \<open>The descriptors from the first one of type \<open>Type\<close> on, when it comes before one of type \<open>Before\<close>.\<close>

fun before_type :: "u8 \<Rightarrow> u8 \<Rightarrow> u8 list list \<Rightarrow> u8 list list" where
  "before_type Type Before [] = []"
| "before_type Type Before (d # ds) =
     (if d ! 1 = Type then d # ds else if d ! 1 = Before then [] else before_type Type Before ds)"

lemma Before_zero: "USB_GetNextDescriptorOfTypeBefore M Type Before 0 p = Some (0, p)"
  by (subst USB_GetNextDescriptorOfTypeBefore.simps) simp

lemma Before_spec:
  assumes "conf_at M p (d # ds)" "unat rem = clen (d # ds)"
  shows "\<exists>rem' q. USB_GetNextDescriptorOfTypeBefore M Type Before rem p = Some (rem', q) \<and>
     unat rem' = clen (before_type Type Before ds) \<and>
     (rem' = 0 \<or> q = p + clen (d # ds) - clen (before_type Type Before ds))"
  using assms
proof (induction ds arbitrary: d p rem)
  case Nil
  from next_conf [OF Nil] obtain rem' where
    n: "USB_GetNextDescriptor M rem p = (rem', p + length d)" "unat rem' = 0" "rem \<noteq> 0" by auto
  from n(2) have "rem' = 0" by (rule unat_0_word)
  with n show ?case
    by (subst USB_GetNextDescriptorOfTypeBefore.simps) (simp add: Before_zero)
next
  case (Cons e es)
  from next_conf [OF Cons.prems] obtain rem' where
    n: "USB_GetNextDescriptor M rem p = (rem', p + length d)" "unat rem' = clen (e # es)"
      "conf_at M (p + length d) (e # es)" "rem \<noteq> 0" by auto
  note h = conf_at_header(2) [OF n(3)]
  consider "e ! 1 = Type" | "e ! 1 \<noteq> Type" "e ! 1 = Before" | "e ! 1 \<noteq> Type" "e ! 1 \<noteq> Before" by blast
  then show ?case
  proof cases
    case 3
    with n h Cons.IH [OF n(3,2)] show ?thesis
      by (subst USB_GetNextDescriptorOfTypeBefore.simps) (simp add: add.assoc)
  qed (use n h in \<open>subst USB_GetNextDescriptorOfTypeBefore.simps, simp\<close>)+
qed

section \<open>Properties\<close>

text \<open>
  C5: over a well-formed sequence of sub-descriptors, \<open>USB_GetNextDescriptorOfType\<close> returns: it skips
  the current descriptor and stops at the first later one of the wanted type, with \<open>BytesRem\<close> the
  bytes from there to the end; when there is none it stops at the end with \<open>BytesRem\<close> zero.
\<close>

theorem GetNextDescriptorOfType_finds:
  assumes "conf_at M p (d # ds)" "unat rem = clen (d # ds)"
  shows "\<exists>rem'. USB_GetNextDescriptorOfType M Type rem p =
      Some (rem', p + clen (d # ds) - clen (from_type Type ds)) \<and> unat rem' = clen (from_type Type ds)"
  using OfType_spec [OF assms] .

theorem GetNextDescriptorOfType_finds_witness:
  "\<exists>rem'. USB_GetNextDescriptorOfType (nth ([2, 1, 3, 4, 0, 2, 5] @ replicate 9 0)) 5 7 0 = Some (rem', 5)"
proof -
  have "conf_at (nth ([2, 1, 3, 4, 0, 2, 5] @ replicate 9 0)) 0 [[2, 1], [3, 4, 0], [2, 5]]"
    by (simp add: conf_at_def wf_desc_def)
  from GetNextDescriptorOfType_finds [OF this, of 7 5] show ?thesis by (auto simp: nth_Cons')
qed

text \<open>
  C14: over a well-formed sequence, \<open>USB_GetNextDescriptorOfTypeBefore\<close> returns, stops at the first later
  descriptor of the wanted type when that comes before any descriptor of the barrier type, and
  otherwise reports failure by \<open>BytesRem\<close> zero.
\<close>

theorem GetNextDescriptorOfTypeBefore_finds:
  assumes "conf_at M p (d # ds)" "unat rem = clen (d # ds)"
  shows "\<exists>rem' q. USB_GetNextDescriptorOfTypeBefore M Type Before rem p = Some (rem', q) \<and>
     unat rem' = clen (before_type Type Before ds) \<and>
     (rem' = 0 \<or> q = p + clen (d # ds) - clen (before_type Type Before ds))"
  using Before_spec [OF assms] .

theorem GetNextDescriptorOfTypeBefore_finds_witness:
  "\<exists>q. USB_GetNextDescriptorOfTypeBefore (nth ([2, 1, 3, 4, 0, 2, 5] @ replicate 9 0)) 5 4 7 0 = Some (0, q)"
proof -
  have "conf_at (nth ([2, 1, 3, 4, 0, 2, 5] @ replicate 9 0)) 0 [[2, 1], [3, 4, 0], [2, 5]]"
    by (simp add: conf_at_def wf_desc_def)
  from GetNextDescriptorOfTypeBefore_finds [OF this, of 7 5 4] show ?thesis
    by (auto simp: dest: unat_0_word)
qed

text \<open>
  C15: a descriptor with a zero size byte keeps the search from advancing: unless that descriptor has
  the wanted type itself, \<open>USB_GetNextDescriptorOfType\<close> never returns.
\<close>

theorem GetNextDescriptorOfType_zero_size_diverges:
  assumes "DESCRIPTOR_SIZE M p = 0" "DESCRIPTOR_TYPE M p \<noteq> Type" "rem \<noteq> 0"
  shows "USB_GetNextDescriptorOfType M Type rem p = None"
  using OfType_stuck_ind [of M Type rem p] assms
  by (cases "USB_GetNextDescriptorOfType M Type rem p") (auto simp: DESCRIPTOR_SIZE_def DESCRIPTOR_TYPE_def)

theorem GetNextDescriptorOfType_zero_size_diverges_witness:
  "USB_GetNextDescriptorOfType (\<lambda>_. 0) 5 34 0 = None"
  using GetNextDescriptorOfType_zero_size_diverges [of "\<lambda>_. 0" 0 5 34]
  by (simp add: DESCRIPTOR_SIZE_def DESCRIPTOR_TYPE_def)

end
