(* ===== verification/HIDReport.thy ===== *)
theory HIDReport
  imports StdDescriptors
begin

text \<open>
  HID report descriptors: the item macros of \<open>LUFA/Drivers/USB/Class/Common/HIDReportData.h\<close>, and the
  class constants, structs and ready-made report descriptors of \<open>HIDClassCommon.h\<close>. An item is encoded
  as one prefix byte (type, tag, data size) followed by 0, 1, 2 or 4 data bytes, low byte first.
\<close>

section \<open>Item encoding\<close>

abbreviation (input) HID_RI_DATA_SIZE_MASK :: u8 where "HID_RI_DATA_SIZE_MASK \<equiv> 0x03"
abbreviation (input) HID_RI_TYPE_MASK :: u8 where "HID_RI_TYPE_MASK \<equiv> 0x0C"
abbreviation (input) HID_RI_TAG_MASK :: u8 where "HID_RI_TAG_MASK \<equiv> 0xF0"
abbreviation (input) HID_RI_TYPE_MAIN :: u8 where "HID_RI_TYPE_MAIN \<equiv> 0x00"
abbreviation (input) HID_RI_TYPE_GLOBAL :: u8 where "HID_RI_TYPE_GLOBAL \<equiv> 0x04"
abbreviation (input) HID_RI_TYPE_LOCAL :: u8 where "HID_RI_TYPE_LOCAL \<equiv> 0x08"

datatype DataBits = Bits0 | Bits8 | Bits16 | Bits32

primrec HID_RI_DATA_BITS :: "DataBits \<Rightarrow> u8" where
  "HID_RI_DATA_BITS Bits0 = 0x00"
| "HID_RI_DATA_BITS Bits8 = 0x01"
| "HID_RI_DATA_BITS Bits16 = 0x02"
| "HID_RI_DATA_BITS Bits32 = 0x03"

primrec HID_RI_ENCODE :: "DataBits \<Rightarrow> int \<Rightarrow> u8 list" where
  "HID_RI_ENCODE Bits0 d = []"
| "HID_RI_ENCODE Bits8 d = [word_of_int (d AND 0xFF)]"
| "HID_RI_ENCODE Bits16 d = [word_of_int (d AND 0xFF), word_of_int (drop_bit 8 d AND 0xFF)]"
| "HID_RI_ENCODE Bits32 d =
     [word_of_int (d AND 0xFF), word_of_int (drop_bit 8 d AND 0xFF),
      word_of_int (drop_bit 16 d AND 0xFF), word_of_int (drop_bit 8 (drop_bit 16 d) AND 0xFF)]"

text \<open>The item macros, each named by its type and tag bits.\<close>

datatype HID_RI_Tag =
    HID_RI_INPUT
  | HID_RI_OUTPUT
  | HID_RI_COLLECTION
  | HID_RI_FEATURE
  | HID_RI_END_COLLECTION
  | HID_RI_USAGE_PAGE
  | HID_RI_LOGICAL_MINIMUM
  | HID_RI_LOGICAL_MAXIMUM
  | HID_RI_PHYSICAL_MINIMUM
  | HID_RI_PHYSICAL_MAXIMUM
  | HID_RI_UNIT_EXPONENT
  | HID_RI_UNIT
  | HID_RI_REPORT_SIZE
  | HID_RI_REPORT_ID
  | HID_RI_REPORT_COUNT
  | HID_RI_PUSH
  | HID_RI_POP
  | HID_RI_USAGE
  | HID_RI_USAGE_MINIMUM
  | HID_RI_USAGE_MAXIMUM

primrec HID_RI_code :: "HID_RI_Tag \<Rightarrow> u8" where
  "HID_RI_code HID_RI_INPUT = HID_RI_TYPE_MAIN OR 0x80"
| "HID_RI_code HID_RI_OUTPUT = HID_RI_TYPE_MAIN OR 0x90"
| "HID_RI_code HID_RI_COLLECTION = HID_RI_TYPE_MAIN OR 0xA0"
| "HID_RI_code HID_RI_FEATURE = HID_RI_TYPE_MAIN OR 0xB0"
| "HID_RI_code HID_RI_END_COLLECTION = HID_RI_TYPE_MAIN OR 0xC0"
| "HID_RI_code HID_RI_USAGE_PAGE = HID_RI_TYPE_GLOBAL OR 0x00"
| "HID_RI_code HID_RI_LOGICAL_MINIMUM = HID_RI_TYPE_GLOBAL OR 0x10"
| "HID_RI_code HID_RI_LOGICAL_MAXIMUM = HID_RI_TYPE_GLOBAL OR 0x20"
| "HID_RI_code HID_RI_PHYSICAL_MINIMUM = HID_RI_TYPE_GLOBAL OR 0x30"
| "HID_RI_code HID_RI_PHYSICAL_MAXIMUM = HID_RI_TYPE_GLOBAL OR 0x40"
| "HID_RI_code HID_RI_UNIT_EXPONENT = HID_RI_TYPE_GLOBAL OR 0x50"
| "HID_RI_code HID_RI_UNIT = HID_RI_TYPE_GLOBAL OR 0x60"
| "HID_RI_code HID_RI_REPORT_SIZE = HID_RI_TYPE_GLOBAL OR 0x70"
| "HID_RI_code HID_RI_REPORT_ID = HID_RI_TYPE_GLOBAL OR 0x80"
| "HID_RI_code HID_RI_REPORT_COUNT = HID_RI_TYPE_GLOBAL OR 0x90"
| "HID_RI_code HID_RI_PUSH = HID_RI_TYPE_GLOBAL OR 0xA0"
| "HID_RI_code HID_RI_POP = HID_RI_TYPE_GLOBAL OR 0xB0"
| "HID_RI_code HID_RI_USAGE = HID_RI_TYPE_LOCAL OR 0x00"
| "HID_RI_code HID_RI_USAGE_MINIMUM = HID_RI_TYPE_LOCAL OR 0x10"
| "HID_RI_code HID_RI_USAGE_MAXIMUM = HID_RI_TYPE_LOCAL OR 0x20"

definition HID_RI_ENTRY :: "HID_RI_Tag \<Rightarrow> DataBits \<Rightarrow> int \<Rightarrow> u8 list" where
  "HID_RI_ENTRY t b d = (HID_RI_code t OR HID_RI_DATA_BITS b) # HID_RI_ENCODE b d"

text \<open>Flags of INPUT, OUTPUT and FEATURE items.\<close>

datatype HID_IOF_t =
    HID_IOF_CONSTANT
  | HID_IOF_DATA
  | HID_IOF_VARIABLE
  | HID_IOF_ARRAY
  | HID_IOF_RELATIVE
  | HID_IOF_ABSOLUTE
  | HID_IOF_WRAP
  | HID_IOF_NO_WRAP
  | HID_IOF_NON_LINEAR
  | HID_IOF_LINEAR
  | HID_IOF_NO_PREFERRED_STATE
  | HID_IOF_PREFERRED_STATE
  | HID_IOF_NULLSTATE
  | HID_IOF_NO_NULL_POSITION
  | HID_IOF_VOLATILE
  | HID_IOF_NON_VOLATILE
  | HID_IOF_BUFFERED_BYTES
  | HID_IOF_BITFIELD

primrec HID_IOF :: "HID_IOF_t \<Rightarrow> int" where
  "HID_IOF HID_IOF_CONSTANT = 1"
| "HID_IOF HID_IOF_DATA = 0"
| "HID_IOF HID_IOF_VARIABLE = 2"
| "HID_IOF HID_IOF_ARRAY = 0"
| "HID_IOF HID_IOF_RELATIVE = 4"
| "HID_IOF HID_IOF_ABSOLUTE = 0"
| "HID_IOF HID_IOF_WRAP = 8"
| "HID_IOF HID_IOF_NO_WRAP = 0"
| "HID_IOF HID_IOF_NON_LINEAR = 16"
| "HID_IOF HID_IOF_LINEAR = 0"
| "HID_IOF HID_IOF_NO_PREFERRED_STATE = 32"
| "HID_IOF HID_IOF_PREFERRED_STATE = 0"
| "HID_IOF HID_IOF_NULLSTATE = 64"
| "HID_IOF HID_IOF_NO_NULL_POSITION = 0"
| "HID_IOF HID_IOF_VOLATILE = 128"
| "HID_IOF HID_IOF_NON_VOLATILE = 0"
| "HID_IOF HID_IOF_BUFFERED_BYTES = 256"
| "HID_IOF HID_IOF_BITFIELD = 0"

primrec IOF :: "HID_IOF_t list \<Rightarrow> int" where
  "IOF [] = 0"
| "IOF (f # fs) = HID_IOF f OR IOF fs"

section \<open>HID class constants and structs\<close>

datatype HID_ClassRequests_t =
    HID_REQ_GetReport
  | HID_REQ_GetIdle
  | HID_REQ_GetProtocol
  | HID_REQ_SetReport
  | HID_REQ_SetIdle
  | HID_REQ_SetProtocol

primrec hid_req :: "HID_ClassRequests_t \<Rightarrow> u8" where
  "hid_req HID_REQ_GetReport = 0x01"
| "hid_req HID_REQ_GetIdle = 0x02"
| "hid_req HID_REQ_GetProtocol = 0x03"
| "hid_req HID_REQ_SetReport = 0x09"
| "hid_req HID_REQ_SetIdle = 0x0A"
| "hid_req HID_REQ_SetProtocol = 0x0B"

datatype HID_DescriptorTypes_t = HID_DTYPE_HID | HID_DTYPE_Report

primrec hid_dtype :: "HID_DescriptorTypes_t \<Rightarrow> u8" where
  "hid_dtype HID_DTYPE_HID = 0x21"
| "hid_dtype HID_DTYPE_Report = 0x22"

datatype HID_ReportItemTypes_t = HID_REPORT_ITEM_In | HID_REPORT_ITEM_Out | HID_REPORT_ITEM_Feature

primrec report_item_type :: "HID_ReportItemTypes_t \<Rightarrow> u8" where
  "report_item_type HID_REPORT_ITEM_In = 0"
| "report_item_type HID_REPORT_ITEM_Out = 1"
| "report_item_type HID_REPORT_ITEM_Feature = 2"

datatype HID_Descriptor_ClassSubclassProtocol_t =
    HID_CSCP_HIDClass
  | HID_CSCP_NonBootSubclass
  | HID_CSCP_BootSubclass
  | HID_CSCP_NonBootProtocol
  | HID_CSCP_KeyboardBootProtocol
  | HID_CSCP_MouseBootProtocol

primrec hid_cscp :: "HID_Descriptor_ClassSubclassProtocol_t \<Rightarrow> u8" where
  "hid_cscp HID_CSCP_HIDClass = 0x03"
| "hid_cscp HID_CSCP_NonBootSubclass = 0x00"
| "hid_cscp HID_CSCP_BootSubclass = 0x01"
| "hid_cscp HID_CSCP_NonBootProtocol = 0x00"
| "hid_cscp HID_CSCP_KeyboardBootProtocol = 0x01"
| "hid_cscp HID_CSCP_MouseBootProtocol = 0x02"

record USB_HID_Descriptor_HID_t =
  HID_Header :: USB_Descriptor_Header_t
  HID_HIDSpec :: u16
  HID_CountryCode :: u8
  HID_TotalReportDescriptors :: u8
  HID_HIDReportType :: u8
  HID_HIDReportLength :: u16

definition HID_bytes :: "USB_HID_Descriptor_HID_t \<Rightarrow> u8 list" where
  "HID_bytes d = Header_bytes (HID_Header d) @ le16 (HID_HIDSpec d) @
     [HID_CountryCode d, HID_TotalReportDescriptors d, HID_HIDReportType d] @
     le16 (HID_HIDReportLength d)"

record USB_MouseReport_Data_t =
  Mouse_Button :: u8
  Mouse_X :: u8
  Mouse_Y :: u8

definition MouseReport_bytes :: "USB_MouseReport_Data_t \<Rightarrow> u8 list" where
  "MouseReport_bytes r = [Mouse_Button r, Mouse_X r, Mouse_Y r]"

record USB_KeyboardReport_Data_t =
  Keyboard_Modifier :: u8
  Keyboard_Reserved :: u8
  Keyboard_KeyCode :: "u8 list"

definition KeyboardReport_bytes :: "USB_KeyboardReport_Data_t \<Rightarrow> u8 list" where
  "KeyboardReport_bytes r = [Keyboard_Modifier r, Keyboard_Reserved r] @ take 6 (Keyboard_KeyCode r)"

section \<open>Ready-made report descriptors\<close>

text \<open>A report descriptor as the list of its items, and the bytes of the array it initialises.\<close>

type_synonym hid_items = "(HID_RI_Tag \<times> DataBits \<times> int) list"

definition encode_items :: "hid_items \<Rightarrow> u8 list" where
  "encode_items its = concat (map (\<lambda>(t, b, d). HID_RI_ENTRY t b d) its)"

definition HID_DESCRIPTOR_JOYSTICK :: "int \<Rightarrow> int \<Rightarrow> int \<Rightarrow> int \<Rightarrow> int \<Rightarrow> hid_items" where
  "HID_DESCRIPTOR_JOYSTICK MinAxisVal MaxAxisVal MinPhysicalVal MaxPhysicalVal Buttons = [
     (HID_RI_USAGE_PAGE, Bits8, 0x01),
     (HID_RI_USAGE, Bits8, 0x04),
     (HID_RI_COLLECTION, Bits8, 0x01),
       (HID_RI_USAGE, Bits8, 0x01),
       (HID_RI_COLLECTION, Bits8, 0x00),
         (HID_RI_USAGE, Bits8, 0x30),
         (HID_RI_USAGE, Bits8, 0x31),
         (HID_RI_USAGE, Bits8, 0x32),
         (HID_RI_LOGICAL_MINIMUM, Bits16, MinAxisVal),
         (HID_RI_LOGICAL_MAXIMUM, Bits16, MaxAxisVal),
         (HID_RI_PHYSICAL_MINIMUM, Bits16, MinPhysicalVal),
         (HID_RI_PHYSICAL_MAXIMUM, Bits16, MaxPhysicalVal),
         (HID_RI_REPORT_COUNT, Bits8, 3),
         (HID_RI_REPORT_SIZE, Bits8, if MinAxisVal \<ge> -128 \<and> MaxAxisVal \<le> 127 then 8 else 16),
         (HID_RI_INPUT, Bits8, IOF [HID_IOF_DATA, HID_IOF_VARIABLE, HID_IOF_ABSOLUTE]),
       (HID_RI_END_COLLECTION, Bits0, 0),
       (HID_RI_USAGE_PAGE, Bits8, 0x09),
       (HID_RI_USAGE_MINIMUM, Bits8, 0x01),
       (HID_RI_USAGE_MAXIMUM, Bits8, Buttons),
       (HID_RI_LOGICAL_MINIMUM, Bits8, 0x00),
       (HID_RI_LOGICAL_MAXIMUM, Bits8, 0x01),
       (HID_RI_REPORT_SIZE, Bits8, 0x01),
       (HID_RI_REPORT_COUNT, Bits8, Buttons),
       (HID_RI_INPUT, Bits8, IOF [HID_IOF_DATA, HID_IOF_VARIABLE, HID_IOF_ABSOLUTE]),
       (HID_RI_REPORT_SIZE, Bits8, if Buttons mod 8 \<noteq> 0 then 8 - Buttons mod 8 else 0),
       (HID_RI_REPORT_COUNT, Bits8, 0x01),
       (HID_RI_INPUT, Bits8, IOF [HID_IOF_CONSTANT]),
     (HID_RI_END_COLLECTION, Bits0, 0)]"

definition HID_DESCRIPTOR_KEYBOARD :: "int \<Rightarrow> hid_items" where
  "HID_DESCRIPTOR_KEYBOARD MaxKeys = [
     (HID_RI_USAGE_PAGE, Bits8, 0x01),
     (HID_RI_USAGE, Bits8, 0x06),
     (HID_RI_COLLECTION, Bits8, 0x01),
       (HID_RI_USAGE_PAGE, Bits8, 0x07),
       (HID_RI_USAGE_MINIMUM, Bits8, 0xE0),
       (HID_RI_USAGE_MAXIMUM, Bits8, 0xE7),
       (HID_RI_LOGICAL_MINIMUM, Bits8, 0x00),
       (HID_RI_LOGICAL_MAXIMUM, Bits8, 0x01),
       (HID_RI_REPORT_SIZE, Bits8, 0x01),
       (HID_RI_REPORT_COUNT, Bits8, 0x08),
       (HID_RI_INPUT, Bits8, IOF [HID_IOF_DATA, HID_IOF_VARIABLE, HID_IOF_ABSOLUTE]),
       (HID_RI_REPORT_COUNT, Bits8, 0x01),
       (HID_RI_REPORT_SIZE, Bits8, 0x08),
       (HID_RI_INPUT, Bits8, IOF [HID_IOF_CONSTANT]),
       (HID_RI_USAGE_PAGE, Bits8, 0x08),
       (HID_RI_USAGE_MINIMUM, Bits8, 0x01),
       (HID_RI_USAGE_MAXIMUM, Bits8, 0x05),
       (HID_RI_REPORT_COUNT, Bits8, 0x05),
       (HID_RI_REPORT_SIZE, Bits8, 0x01),
       (HID_RI_OUTPUT, Bits8, IOF [HID_IOF_DATA, HID_IOF_VARIABLE, HID_IOF_ABSOLUTE, HID_IOF_NON_VOLATILE]),
       (HID_RI_REPORT_COUNT, Bits8, 0x01),
       (HID_RI_REPORT_SIZE, Bits8, 0x03),
       (HID_RI_OUTPUT, Bits8, IOF [HID_IOF_CONSTANT]),
       (HID_RI_LOGICAL_MINIMUM, Bits8, 0x00),
       (HID_RI_LOGICAL_MAXIMUM, Bits8, 0xFF),
       (HID_RI_USAGE_PAGE, Bits8, 0x07),
       (HID_RI_USAGE_MINIMUM, Bits8, 0x00),
       (HID_RI_USAGE_MAXIMUM, Bits8, 0xFF),
       (HID_RI_REPORT_COUNT, Bits8, MaxKeys),
       (HID_RI_REPORT_SIZE, Bits8, 0x08),
       (HID_RI_INPUT, Bits8, IOF [HID_IOF_DATA, HID_IOF_ARRAY, HID_IOF_ABSOLUTE]),
     (HID_RI_END_COLLECTION, Bits0, 0)]"

definition HID_DESCRIPTOR_MOUSE :: "int \<Rightarrow> int \<Rightarrow> int \<Rightarrow> int \<Rightarrow> int \<Rightarrow> bool \<Rightarrow> hid_items" where
  "HID_DESCRIPTOR_MOUSE MinAxisVal MaxAxisVal MinPhysicalVal MaxPhysicalVal Buttons AbsoluteCoords = [
     (HID_RI_USAGE_PAGE, Bits8, 0x01),
     (HID_RI_USAGE, Bits8, 0x02),
     (HID_RI_COLLECTION, Bits8, 0x01),
       (HID_RI_USAGE, Bits8, 0x01),
       (HID_RI_COLLECTION, Bits8, 0x00),
         (HID_RI_USAGE_PAGE, Bits8, 0x09),
         (HID_RI_USAGE_MINIMUM, Bits8, 0x01),
         (HID_RI_USAGE_MAXIMUM, Bits8, Buttons),
         (HID_RI_LOGICAL_MINIMUM, Bits8, 0x00),
         (HID_RI_LOGICAL_MAXIMUM, Bits8, 0x01),
         (HID_RI_REPORT_COUNT, Bits8, Buttons),
         (HID_RI_REPORT_SIZE, Bits8, 0x01),
         (HID_RI_INPUT, Bits8, IOF [HID_IOF_DATA, HID_IOF_VARIABLE, HID_IOF_ABSOLUTE]),
         (HID_RI_REPORT_COUNT, Bits8, 0x01),
         (HID_RI_REPORT_SIZE, Bits8, if Buttons mod 8 \<noteq> 0 then 8 - Buttons mod 8 else 0),
         (HID_RI_INPUT, Bits8, IOF [HID_IOF_CONSTANT]),
         (HID_RI_USAGE_PAGE, Bits8, 0x01),
         (HID_RI_USAGE, Bits8, 0x30),
         (HID_RI_USAGE, Bits8, 0x31),
         (HID_RI_LOGICAL_MINIMUM, Bits16, MinAxisVal),
         (HID_RI_LOGICAL_MAXIMUM, Bits16, MaxAxisVal),
         (HID_RI_PHYSICAL_MINIMUM, Bits16, MinPhysicalVal),
         (HID_RI_PHYSICAL_MAXIMUM, Bits16, MaxPhysicalVal),
         (HID_RI_REPORT_COUNT, Bits8, 0x02),
         (HID_RI_REPORT_SIZE, Bits8, if MinAxisVal \<ge> -128 \<and> MaxAxisVal \<le> 127 then 8 else 16),
         (HID_RI_INPUT, Bits8, IOF [HID_IOF_DATA, HID_IOF_VARIABLE, if AbsoluteCoords then HID_IOF_ABSOLUTE else HID_IOF_RELATIVE]),
       (HID_RI_END_COLLECTION, Bits0, 0),
     (HID_RI_END_COLLECTION, Bits0, 0)]"

definition HID_DESCRIPTOR_VENDOR :: "int \<Rightarrow> int \<Rightarrow> int \<Rightarrow> int \<Rightarrow> int \<Rightarrow> hid_items" where
  "HID_DESCRIPTOR_VENDOR VendorPageNum CollectionUsage DataINUsage DataOUTUsage NumBytes = [
     (HID_RI_USAGE_PAGE, Bits16, 0xFF00 OR VendorPageNum),
     (HID_RI_USAGE, Bits8, CollectionUsage),
     (HID_RI_COLLECTION, Bits8, 0x01),
       (HID_RI_USAGE, Bits8, DataINUsage),
       (HID_RI_LOGICAL_MINIMUM, Bits8, 0x00),
       (HID_RI_LOGICAL_MAXIMUM, Bits8, 0xFF),
       (HID_RI_REPORT_SIZE, Bits8, 0x08),
       (HID_RI_REPORT_COUNT, Bits8, NumBytes),
       (HID_RI_INPUT, Bits8, IOF [HID_IOF_DATA, HID_IOF_VARIABLE, HID_IOF_ABSOLUTE]),
       (HID_RI_USAGE, Bits8, DataOUTUsage),
       (HID_RI_LOGICAL_MINIMUM, Bits8, 0x00),
       (HID_RI_LOGICAL_MAXIMUM, Bits8, 0xFF),
       (HID_RI_REPORT_SIZE, Bits8, 0x08),
       (HID_RI_REPORT_COUNT, Bits8, NumBytes),
       (HID_RI_OUTPUT, Bits8, IOF [HID_IOF_DATA, HID_IOF_VARIABLE, HID_IOF_ABSOLUTE, HID_IOF_NON_VOLATILE]),
     (HID_RI_END_COLLECTION, Bits0, 0)]"

end
