(* ===== verification/HIDParser.thy ===== *)
theory HIDParser
  imports HIDReport
begin

text \<open>
  The HID report descriptor parser, \<open>LUFA/Drivers/USB/Class/Common/HIDParser.c\<close>, with the default table
  sizes of \<open>HIDParser.h\<close>. Pointers into the arrays of \<open>HID_ReportInfo_t\<close> and into the state table are
  indices, \<open>NULL\<close> is \<open>None\<close>. \<open>HID_Parser\<close> is the state of \<open>USB_ProcessHIDReport\<close>: its locals and the
  report structure it fills. \<open>StackClobbered\<close> records that a PUSH item made the \<open>memcpy\<close> of a whole
  \<open>HID_ReportItem_t\<close> run over the end of the state table. The user's filter callback is a parameter;
  \<open>uninit\<close> is the value of the two fields of \<open>NewReportItem\<close> the parser never assigns.
\<close>

section \<open>Types\<close>

abbreviation (input) HID_STATETABLE_STACK_DEPTH :: nat where "HID_STATETABLE_STACK_DEPTH \<equiv> 2"
abbreviation (input) HID_USAGE_STACK_DEPTH :: nat where "HID_USAGE_STACK_DEPTH \<equiv> 8"
abbreviation (input) HID_MAX_COLLECTIONS :: nat where "HID_MAX_COLLECTIONS \<equiv> 10"
abbreviation (input) HID_MAX_REPORTITEMS :: nat where "HID_MAX_REPORTITEMS \<equiv> 20"
abbreviation (input) HID_MAX_REPORT_IDS :: nat where "HID_MAX_REPORT_IDS \<equiv> 10"

datatype HID_Parse_ErrorCodes_t =
    HID_PARSE_Successful
  | HID_PARSE_HIDStackOverflow
  | HID_PARSE_HIDStackUnderflow
  | HID_PARSE_InsufficientReportItems
  | HID_PARSE_UnexpectedEndCollection
  | HID_PARSE_InsufficientCollectionPaths
  | HID_PARSE_UsageListOverflow
  | HID_PARSE_InsufficientReportIDItems
  | HID_PARSE_NoUnfilteredReportItems

record HID_MinMax_t =
  Minimum :: u32
  Maximum :: u32

record HID_Unit_t =
  Unit_Type :: u32
  Exponent :: u8

record HID_Usage_t =
  Page :: u16
  Usage :: u16

record HID_CollectionPath_t =
  Path_Type :: u8
  Path_Usage :: HID_Usage_t
  Parent :: "nat option"

record HID_ReportItem_Attributes_t =
  BitSize :: u8
  Attr_Usage :: HID_Usage_t
  Attr_Unit :: HID_Unit_t
  Logical :: HID_MinMax_t
  Physical :: HID_MinMax_t

record HID_ReportItem_t =
  BitOffset :: u16
  ItemType :: HID_ReportItemTypes_t
  ItemFlags :: u16
  Item_ReportID :: u8
  CollectionPath :: "nat option"
  Attributes :: HID_ReportItem_Attributes_t
  Value :: u32
  PreviousValue :: u32

record HID_ReportSizeInfo_t =
  Size_ReportID :: u8
  ReportSizeBits :: "u16 list"

record HID_ReportInfo_t =
  TotalReportItems :: u8
  ReportItems :: "HID_ReportItem_t list"
  CollectionPaths :: "HID_CollectionPath_t list"
  TotalDeviceReports :: u8
  ReportIDSizes :: "HID_ReportSizeInfo_t list"
  LargestReportSizeBits :: u16
  UsingReportIDs :: bool

record HID_StateTable_t =
  State_Attributes :: HID_ReportItem_Attributes_t
  ReportCount :: u8
  State_ReportID :: u8

record HID_Parser =
  StateTable :: "HID_StateTable_t list"
  CurrStateTable :: nat
  CurrCollectionPath :: "nat option"
  CurrReportIDInfo :: nat
  UsageList :: "u16 list"
  UsageListSize :: u8
  UsageMinMax :: HID_MinMax_t
  ParserData :: HID_ReportInfo_t
  StackClobbered :: bool

text \<open>The zero-filled structs that \<open>memset\<close> leaves.\<close>

definition zero_Attributes :: HID_ReportItem_Attributes_t where
  "zero_Attributes = \<lparr>BitSize = 0, Attr_Usage = \<lparr>Page = 0, Usage = 0\<rparr>,
     Attr_Unit = \<lparr>Unit_Type = 0, Exponent = 0\<rparr>, Logical = \<lparr>Minimum = 0, Maximum = 0\<rparr>,
     Physical = \<lparr>Minimum = 0, Maximum = 0\<rparr>\<rparr>"

definition zero_State :: HID_StateTable_t where
  "zero_State = \<lparr>State_Attributes = zero_Attributes, ReportCount = 0, State_ReportID = 0\<rparr>"

definition zero_Path :: HID_CollectionPath_t where
  "zero_Path = \<lparr>Path_Type = 0, Path_Usage = \<lparr>Page = 0, Usage = 0\<rparr>, Parent = None\<rparr>"

definition zero_Item :: HID_ReportItem_t where
  "zero_Item = \<lparr>BitOffset = 0, ItemType = HID_REPORT_ITEM_In, ItemFlags = 0, Item_ReportID = 0,
     CollectionPath = None, Attributes = zero_Attributes, Value = 0, PreviousValue = 0\<rparr>"

definition zero_Size :: HID_ReportSizeInfo_t where
  "zero_Size = \<lparr>Size_ReportID = 0, ReportSizeBits = [0, 0, 0]\<rparr>"

definition zero_Info :: HID_ReportInfo_t where
  "zero_Info = \<lparr>TotalReportItems = 0, ReportItems = replicate HID_MAX_REPORTITEMS zero_Item,
     CollectionPaths = replicate HID_MAX_COLLECTIONS zero_Path, TotalDeviceReports = 0,
     ReportIDSizes = replicate HID_MAX_REPORT_IDS zero_Size, LargestReportSizeBits = 0,
     UsingReportIDs = False\<rparr>"

text \<open>
  The state when the loop is entered. The second state table entry and the usage list are
  uninitialised locals; nothing reads them before they are assigned, they are zero here.
\<close>

definition parser_init :: HID_Parser where
  "parser_init = \<lparr>StateTable = replicate HID_STATETABLE_STACK_DEPTH zero_State, CurrStateTable = 0,
     CurrCollectionPath = None, CurrReportIDInfo = 0, UsageList = replicate HID_USAGE_STACK_DEPTH 0,
     UsageListSize = 0, UsageMinMax = \<lparr>Minimum = 0, Maximum = 0\<rparr>,
     ParserData = zero_Info\<lparr>TotalDeviceReports := 1\<rparr>, StackClobbered = False\<rparr>"

section \<open>Item handling\<close>

definition cur_state :: "HID_Parser \<Rightarrow> HID_StateTable_t" where
  "cur_state p = StateTable p ! CurrStateTable p"

definition upd_state :: "(HID_StateTable_t \<Rightarrow> HID_StateTable_t) \<Rightarrow> HID_Parser \<Rightarrow> HID_Parser" where
  "upd_state f p = p\<lparr>StateTable := (StateTable p)[CurrStateTable p := f (cur_state p)]\<rparr>"

definition upd_attr :: "(HID_ReportItem_Attributes_t \<Rightarrow> HID_ReportItem_Attributes_t) \<Rightarrow> HID_Parser \<Rightarrow> HID_Parser" where
  "upd_attr f = upd_state (\<lambda>s. s\<lparr>State_Attributes := f (State_Attributes s)\<rparr>)"

definition upd_data :: "(HID_ReportInfo_t \<Rightarrow> HID_ReportInfo_t) \<Rightarrow> HID_Parser \<Rightarrow> HID_Parser" where
  "upd_data f p = p\<lparr>ParserData := f (ParserData p)\<rparr>"

text \<open>A handler either continues (\<open>None\<close>) or returns an error code; the state it leaves is kept.\<close>

type_synonym parse_step = "HID_Parse_ErrorCodes_t option \<times> HID_Parser"

definition parse_PUSH :: "HID_Parser \<Rightarrow> parse_step" where
  "parse_PUSH p =
     (if CurrStateTable p = HID_STATETABLE_STACK_DEPTH - 1 then (Some HID_PARSE_HIDStackOverflow, p)
      else (None, p\<lparr>StateTable := (StateTable p)[CurrStateTable p + 1 := cur_state p],
                    StackClobbered := True, CurrStateTable := CurrStateTable p + 1\<rparr>))"

definition parse_POP :: "HID_Parser \<Rightarrow> parse_step" where
  "parse_POP p =
     (if CurrStateTable p = 0 then (Some HID_PARSE_HIDStackUnderflow, p)
      else (None, p\<lparr>CurrStateTable := CurrStateTable p - 1\<rparr>))"

text \<open>The 32-bit form first stores the upper half, and is then overwritten.\<close>

definition parse_USAGE_PAGE :: "u8 \<Rightarrow> u32 \<Rightarrow> HID_Parser \<Rightarrow> HID_Parser" where
  "parse_USAGE_PAGE HIDReportItem d p =
     (let set_page = (\<lambda>v. upd_attr (\<lambda>a. a\<lparr>Attr_Usage := (Attr_Usage a)\<lparr>Page := v\<rparr>\<rparr>));
          p = (if HIDReportItem AND HID_RI_DATA_SIZE_MASK = HID_RI_DATA_BITS Bits32
               then set_page (ucast (drop_bit 16 d)) p else p)
      in set_page (ucast d) p)"

text \<open>The search for a known report ID runs over the first \<open>TotalDeviceReports\<close> entries.\<close>

definition find_report :: "HID_ReportInfo_t \<Rightarrow> u8 \<Rightarrow> nat option" where
  "find_report D ident =
     List.find (\<lambda>i. Size_ReportID (ReportIDSizes D ! i) = ident) [0..<unat (TotalDeviceReports D)]"

definition finish_REPORT_ID :: "HID_Parser \<Rightarrow> parse_step" where
  "finish_REPORT_ID p = (None, upd_data (\<lambda>D. D\<lparr>UsingReportIDs := True,
     ReportIDSizes := (ReportIDSizes D)[CurrReportIDInfo p :=
       (ReportIDSizes D ! CurrReportIDInfo p)\<lparr>Size_ReportID := State_ReportID (cur_state p)\<rparr>]\<rparr>) p)"

definition parse_REPORT_ID :: "u32 \<Rightarrow> HID_Parser \<Rightarrow> parse_step" where
  "parse_REPORT_ID d p =
     (let p = upd_state (\<lambda>s. s\<lparr>State_ReportID := ucast d\<rparr>) p; D = ParserData p in
      if UsingReportIDs D then
        (case find_report D (State_ReportID (cur_state p)) of
           Some i \<Rightarrow> finish_REPORT_ID (p\<lparr>CurrReportIDInfo := i\<rparr>)
         | None \<Rightarrow>
             if unat (TotalDeviceReports D) = HID_MAX_REPORT_IDS then
               (Some HID_PARSE_InsufficientReportIDItems, p)
             else
               let i = unat (TotalDeviceReports D) in
               finish_REPORT_ID (upd_data (\<lambda>D. D\<lparr>TotalDeviceReports := TotalDeviceReports D + 1,
                 ReportIDSizes := (ReportIDSizes D)[i := zero_Size]\<rparr>) (p\<lparr>CurrReportIDInfo := i\<rparr>)))
      else finish_REPORT_ID p)"

definition parse_USAGE :: "u32 \<Rightarrow> HID_Parser \<Rightarrow> parse_step" where
  "parse_USAGE d p =
     (if unat (UsageListSize p) = HID_USAGE_STACK_DEPTH then (Some HID_PARSE_UsageListOverflow, p)
      else (None, p\<lparr>UsageList := (UsageList p)[unat (UsageListSize p) := ucast d],
                    UsageListSize := UsageListSize p + 1\<rparr>))"

text \<open>
  The next usage for a collection or an item: the head of the usage list (the rest moves down), or
  the running usage minimum, or none.
\<close>

definition shift_down :: "nat \<Rightarrow> 'a list \<Rightarrow> 'a list" where
  "shift_down n xs = fold (\<lambda>i ys. ys[i - 1 := ys ! i]) [1..<n] xs"

definition next_usage :: "HID_Parser \<Rightarrow> u16 option \<times> HID_Parser" where
  "next_usage p =
     (if UsageListSize p \<noteq> 0 then
        (Some (UsageList p ! 0),
         p\<lparr>UsageList := shift_down (unat (UsageListSize p)) (UsageList p), UsageListSize := UsageListSize p - 1\<rparr>)
      else if Minimum (UsageMinMax p) \<le> Maximum (UsageMinMax p) then
        (Some (ucast (Minimum (UsageMinMax p))),
         p\<lparr>UsageMinMax := (UsageMinMax p)\<lparr>Minimum := Minimum (UsageMinMax p) + 1\<rparr>\<rparr>)
      else (None, p))"

text \<open>A free collection path: the first of the given ones without a parent.\<close>

fun find_path :: "HID_CollectionPath_t list \<Rightarrow> nat list \<Rightarrow> nat option" where
  "find_path paths [] = None"
| "find_path paths (c # cs) = (if Parent (paths ! c) = None then Some c else find_path paths cs)"

definition open_path :: "u32 \<Rightarrow> nat \<Rightarrow> HID_Parser \<Rightarrow> parse_step" where
  "open_path d c p =
     (let page = Page (Attr_Usage (State_Attributes (cur_state p)));
          p = upd_data (\<lambda>D. D\<lparr>CollectionPaths := (CollectionPaths D)[c :=
            (CollectionPaths D ! c)\<lparr>Path_Type := ucast d,
               Path_Usage := (Path_Usage (CollectionPaths D ! c))\<lparr>Page := page\<rparr>\<rparr>]\<rparr>) p;
          (u, p) = next_usage (p\<lparr>CurrCollectionPath := Some c\<rparr>)
      in (None, case u of None \<Rightarrow> p | Some v \<Rightarrow>
            upd_data (\<lambda>D. D\<lparr>CollectionPaths := (CollectionPaths D)[c :=
              (CollectionPaths D ! c)\<lparr>Path_Usage := (Path_Usage (CollectionPaths D ! c))\<lparr>Usage := v\<rparr>\<rparr>]\<rparr>) p))"

definition parse_COLLECTION :: "u32 \<Rightarrow> HID_Parser \<Rightarrow> parse_step" where
  "parse_COLLECTION d p =
     (case CurrCollectionPath p of
        None \<Rightarrow> open_path d 0 p
      | Some ParentCollectionPath \<Rightarrow>
          (case find_path (CollectionPaths (ParserData p)) [1..<HID_MAX_COLLECTIONS] of
             None \<Rightarrow> (Some HID_PARSE_InsufficientCollectionPaths,
                      p\<lparr>CurrCollectionPath := Some (HID_MAX_COLLECTIONS - 1)\<rparr>)
           | Some c \<Rightarrow> open_path d c (upd_data (\<lambda>D. D\<lparr>CollectionPaths := (CollectionPaths D)[c :=
               (CollectionPaths D ! c)\<lparr>Parent := Some ParentCollectionPath\<rparr>]\<rparr>) p)))"

definition parse_END_COLLECTION :: "HID_Parser \<Rightarrow> parse_step" where
  "parse_END_COLLECTION p =
     (case CurrCollectionPath p of
        None \<Rightarrow> (Some HID_PARSE_UnexpectedEndCollection, p)
      | Some c \<Rightarrow> (None, p\<lparr>CurrCollectionPath := Parent (CollectionPaths (ParserData p) ! c)\<rparr>))"

text \<open>One round of the loop over \<open>ReportCount\<close> for an INPUT, OUTPUT or FEATURE item.\<close>

definition item_type :: "u8 \<Rightarrow> HID_ReportItemTypes_t" where
  "item_type ItemTypeTag =
     (if ItemTypeTag = HID_RI_code HID_RI_INPUT then HID_REPORT_ITEM_In
      else if ItemTypeTag = HID_RI_code HID_RI_OUTPUT then HID_REPORT_ITEM_Out
      else HID_REPORT_ITEM_Feature)"

definition new_item :: "u32 \<Rightarrow> u8 \<Rightarrow> u32 \<Rightarrow> HID_Parser \<Rightarrow> HID_ReportItem_t \<times> HID_Parser" where
  "new_item uninit HIDReportItem d p =
     (let (u, p) = next_usage p;
          s = cur_state p;
          A = State_Attributes s;
          A = (case u of None \<Rightarrow> A | Some v \<Rightarrow> A\<lparr>Attr_Usage := (Attr_Usage A)\<lparr>Usage := v\<rparr>\<rparr>);
          ty = item_type (HIDReportItem AND (HID_RI_TYPE_MASK OR HID_RI_TAG_MASK));
          k = unat (report_item_type ty);
          i = CurrReportIDInfo p;
          R = ReportIDSizes (ParserData p) ! i;
          off = ReportSizeBits R ! k;
          bits = off + ucast (BitSize (State_Attributes s))
      in (\<lparr>BitOffset = off, ItemType = ty, ItemFlags = ucast d, Item_ReportID = State_ReportID s,
           CollectionPath = CurrCollectionPath p, Attributes = A, Value = uninit, PreviousValue = uninit\<rparr>,
          upd_data (\<lambda>D. D\<lparr>
            ReportIDSizes := (ReportIDSizes D)[i := R\<lparr>ReportSizeBits := (ReportSizeBits R)[k := bits]\<rparr>],
            LargestReportSizeBits := max (LargestReportSizeBits D) bits\<rparr>) p))"

definition store_item :: "(HID_ReportItem_t \<Rightarrow> bool) \<Rightarrow> u32 \<Rightarrow> HID_ReportItem_t \<Rightarrow> HID_Parser \<Rightarrow> parse_step" where
  "store_item Filter d NewReportItem p =
     (let n = TotalReportItems (ParserData p) in
      if unat n = HID_MAX_REPORTITEMS then (Some HID_PARSE_InsufficientReportItems, p)
      else (None, upd_data (\<lambda>D. D\<lparr>ReportItems := (ReportItems D)[unat n := NewReportItem],
                TotalReportItems := (if d AND 1 = 0 \<and> Filter NewReportItem then n + 1 else n)\<rparr>) p))"

definition parse_item ::
    "(HID_ReportItem_t \<Rightarrow> bool) \<Rightarrow> u32 \<Rightarrow> u8 \<Rightarrow> u32 \<Rightarrow> HID_Parser \<Rightarrow> parse_step" where
  "parse_item Filter uninit HIDReportItem d p =
     (let (NewReportItem, p) = new_item uninit HIDReportItem d p in store_item Filter d NewReportItem p)"

fun parse_items ::
    "(HID_ReportItem_t \<Rightarrow> bool) \<Rightarrow> u32 \<Rightarrow> u8 \<Rightarrow> u32 \<Rightarrow> nat \<Rightarrow> HID_Parser \<Rightarrow> parse_step" where
  "parse_items Filter uninit h d 0 p = (None, p)"
| "parse_items Filter uninit h d (Suc n) p =
     (case parse_item Filter uninit h d p of
        (Some e, p) \<Rightarrow> (Some e, p)
      | (None, p) \<Rightarrow> parse_items Filter uninit h d n p)"

section \<open>The parser\<close>

text \<open>
  The data of an item, and the bytes after it; \<open>None\<close> when the descriptor ends inside the item, where
  the code reads past the end of its buffer.
\<close>

definition item_data :: "u8 \<Rightarrow> u8 list \<Rightarrow> (u32 \<times> u8 list) option" where
  "item_data HIDReportItem bs =
     (if HIDReportItem AND HID_RI_DATA_SIZE_MASK = HID_RI_DATA_BITS Bits32 then
        (case bs of a # b # c # d # bs \<Rightarrow> Some (of_le32 a b c d, bs) | _ \<Rightarrow> None)
      else if HIDReportItem AND HID_RI_DATA_SIZE_MASK = HID_RI_DATA_BITS Bits16 then
        (case bs of a # b # bs \<Rightarrow> Some (ucast (of_le16 a b), bs) | _ \<Rightarrow> None)
      else if HIDReportItem AND HID_RI_DATA_SIZE_MASK = HID_RI_DATA_BITS Bits8 then
        (case bs of a # bs \<Rightarrow> Some (ucast a, bs) | _ \<Rightarrow> None)
      else Some (0, bs))"

text \<open>The switch over the item's type and tag.\<close>

definition parse_switch ::
    "(HID_ReportItem_t \<Rightarrow> bool) \<Rightarrow> u32 \<Rightarrow> u8 \<Rightarrow> u32 \<Rightarrow> HID_Parser \<Rightarrow> parse_step" where
  "parse_switch Filter uninit HIDReportItem d p =
     (let tag = HIDReportItem AND (HID_RI_TYPE_MASK OR HID_RI_TAG_MASK) in
      if tag = HID_RI_code HID_RI_PUSH then parse_PUSH p
      else if tag = HID_RI_code HID_RI_POP then parse_POP p
      else if tag = HID_RI_code HID_RI_USAGE_PAGE then (None, parse_USAGE_PAGE HIDReportItem d p)
      else if tag = HID_RI_code HID_RI_LOGICAL_MINIMUM then
        (None, upd_attr (\<lambda>a. a\<lparr>Logical := (Logical a)\<lparr>Minimum := d\<rparr>\<rparr>) p)
      else if tag = HID_RI_code HID_RI_LOGICAL_MAXIMUM then
        (None, upd_attr (\<lambda>a. a\<lparr>Logical := (Logical a)\<lparr>Maximum := d\<rparr>\<rparr>) p)
      else if tag = HID_RI_code HID_RI_PHYSICAL_MINIMUM then
        (None, upd_attr (\<lambda>a. a\<lparr>Physical := (Physical a)\<lparr>Minimum := d\<rparr>\<rparr>) p)
      else if tag = HID_RI_code HID_RI_PHYSICAL_MAXIMUM then
        (None, upd_attr (\<lambda>a. a\<lparr>Physical := (Physical a)\<lparr>Maximum := d\<rparr>\<rparr>) p)
      else if tag = HID_RI_code HID_RI_UNIT_EXPONENT then
        (None, upd_attr (\<lambda>a. a\<lparr>Attr_Unit := (Attr_Unit a)\<lparr>Exponent := ucast d\<rparr>\<rparr>) p)
      else if tag = HID_RI_code HID_RI_UNIT then
        (None, upd_attr (\<lambda>a. a\<lparr>Attr_Unit := (Attr_Unit a)\<lparr>Unit_Type := d\<rparr>\<rparr>) p)
      else if tag = HID_RI_code HID_RI_REPORT_SIZE then
        (None, upd_attr (\<lambda>a. a\<lparr>BitSize := ucast d\<rparr>) p)
      else if tag = HID_RI_code HID_RI_REPORT_COUNT then
        (None, upd_state (\<lambda>s. s\<lparr>ReportCount := ucast d\<rparr>) p)
      else if tag = HID_RI_code HID_RI_REPORT_ID then parse_REPORT_ID d p
      else if tag = HID_RI_code HID_RI_USAGE then parse_USAGE d p
      else if tag = HID_RI_code HID_RI_USAGE_MINIMUM then
        (None, p\<lparr>UsageMinMax := (UsageMinMax p)\<lparr>Minimum := d\<rparr>\<rparr>)
      else if tag = HID_RI_code HID_RI_USAGE_MAXIMUM then
        (None, p\<lparr>UsageMinMax := (UsageMinMax p)\<lparr>Maximum := d\<rparr>\<rparr>)
      else if tag = HID_RI_code HID_RI_COLLECTION then parse_COLLECTION d p
      else if tag = HID_RI_code HID_RI_END_COLLECTION then parse_END_COLLECTION p
      else if tag = HID_RI_code HID_RI_INPUT \<or> tag = HID_RI_code HID_RI_OUTPUT
           \<or> tag = HID_RI_code HID_RI_FEATURE then
        parse_items Filter uninit HIDReportItem d (unat (ReportCount (cur_state p))) p
      else (None, p))"

text \<open>A main item ends the scope of the local items.\<close>

definition end_main :: "u8 \<Rightarrow> HID_Parser \<Rightarrow> HID_Parser" where
  "end_main HIDReportItem p =
     (if HIDReportItem AND HID_RI_TYPE_MASK = HID_RI_TYPE_MAIN
      then p\<lparr>UsageMinMax := \<lparr>Minimum = 0, Maximum = 0\<rparr>, UsageListSize := 0\<rparr> else p)"

text \<open>The loop over the descriptor bytes; \<open>None\<close> when it reads past their end.\<close>

lemma item_data_shorter: "item_data h bs = Some (d, bs') \<Longrightarrow> length bs' \<le> length bs"
  by (auto simp: item_data_def split: if_splits list.splits)

function parse_loop ::
    "(HID_ReportItem_t \<Rightarrow> bool) \<Rightarrow> u32 \<Rightarrow> u8 list \<Rightarrow> HID_Parser \<Rightarrow> parse_step option" where
  "parse_loop Filter uninit [] p = Some (None, p)"
| "parse_loop Filter uninit (h # bs) p =
     (case item_data h bs of
        None \<Rightarrow> None
      | Some (d, bs') \<Rightarrow>
          (case parse_switch Filter uninit h d p of
             (Some e, p) \<Rightarrow> Some (Some e, p)
           | (None, p) \<Rightarrow> parse_loop Filter uninit bs' (end_main h p)))"
  by pat_completeness auto
termination parse_loop
  by (relation "measure (\<lambda>(_, _, bs, _). length bs)") (auto dest: item_data_shorter)

text \<open>
  \<open>USB_ProcessHIDReport\<close> on a buffer that holds exactly the \<open>ReportSize\<close> bytes of the descriptor: the
  returned code and the parser state (its \<open>ParserData\<close> is the caller's structure).
\<close>

definition USB_ProcessHIDReport ::
    "(HID_ReportItem_t \<Rightarrow> bool) \<Rightarrow> u32 \<Rightarrow> u8 list \<Rightarrow> (HID_Parse_ErrorCodes_t \<times> HID_Parser) option" where
  "USB_ProcessHIDReport Filter uninit ReportData =
     (case parse_loop Filter uninit ReportData parser_init of
        None \<Rightarrow> None
      | Some (Some e, p) \<Rightarrow> Some (e, p)
      | Some (None, p) \<Rightarrow>
          Some (if TotalReportItems (ParserData p) = 0 then HID_PARSE_NoUnfilteredReportItems
                else HID_PARSE_Successful, p))"

section \<open>Access to report items\<close>

text \<open>
  Reading an item's bits out of a report. \<open>ReportData\<close> is a byte memory from the report's first byte
  on; \<open>None\<close> stands for a null item pointer.
\<close>

fun get_bits :: "(nat \<Rightarrow> u8) \<Rightarrow> nat \<Rightarrow> u16 \<Rightarrow> u32 \<Rightarrow> u32 \<Rightarrow> u32" where
  "get_bits R 0 CurrentBit BitMask v = v"
| "get_bits R (Suc DataBitsRem) CurrentBit BitMask v =
     get_bits R DataBitsRem (CurrentBit + 1) (push_bit 1 BitMask)
       (if R (unat (CurrentBit div 8)) AND push_bit (unat (CurrentBit mod 8)) 1 \<noteq> 0 then v OR BitMask else v)"

definition USB_GetHIDReportItemInfo ::
    "(nat \<Rightarrow> u8) \<Rightarrow> HID_ReportItem_t option \<Rightarrow> bool \<times> HID_ReportItem_t option" where
  "USB_GetHIDReportItemInfo ReportData ReportItem =
     (case ReportItem of
        None \<Rightarrow> (False, None)
      | Some it \<Rightarrow>
          if Item_ReportID it \<noteq> 0 \<and> Item_ReportID it \<noteq> ReportData 0 then (False, Some it)
          else
            let R = (if Item_ReportID it \<noteq> 0 then (\<lambda>i. ReportData (i + 1)) else ReportData);
                v = get_bits R (unat (BitSize (Attributes it))) (BitOffset it) 1 0
            in (True, Some (it\<lparr>PreviousValue := Value it, Value := v\<rparr>)))"

text \<open>Writing: the bit tested in the value and the mask set in the report are the ones of the code.\<close>

fun set_bits :: "nat \<Rightarrow> u32 \<Rightarrow> nat \<Rightarrow> u16 \<Rightarrow> u32 \<Rightarrow> (nat \<Rightarrow> u8) \<Rightarrow> nat \<Rightarrow> u8" where
  "set_bits base v 0 CurrentBit BitMask R = R"
| "set_bits base v (Suc DataBitsRem) CurrentBit BitMask R =
     (let i = base + unat (CurrentBit div 8) in
      set_bits base v DataBitsRem (CurrentBit + 1) (push_bit 1 BitMask)
        (if v AND push_bit (unat (CurrentBit mod 8)) 1 \<noteq> 0 then R(i := R i OR ucast BitMask) else R))"

definition USB_SetHIDReportItemInfo ::
    "(nat \<Rightarrow> u8) \<Rightarrow> HID_ReportItem_t option \<Rightarrow> (nat \<Rightarrow> u8) \<times> HID_ReportItem_t option" where
  "USB_SetHIDReportItemInfo ReportData ReportItem =
     (case ReportItem of
        None \<Rightarrow> (ReportData, None)
      | Some it \<Rightarrow>
          let (base, R) = (if Item_ReportID it \<noteq> 0 then (1, ReportData(0 := Item_ReportID it)) else (0, ReportData))
          in (set_bits base (Value it) (unat (BitSize (Attributes it))) (BitOffset it) 1 R,
              Some (it\<lparr>PreviousValue := Value it\<rparr>)))"

definition USB_GetHIDReportSize :: "HID_ReportInfo_t \<Rightarrow> u8 \<Rightarrow> HID_ReportItemTypes_t \<Rightarrow> u16" where
  "USB_GetHIDReportSize D ident ReportType =
     (case List.find (\<lambda>i. Size_ReportID (ReportIDSizes D ! i) = ident) [0..<HID_MAX_REPORT_IDS] of
        None \<Rightarrow> 0
      | Some i \<Rightarrow>
          let bits = ReportSizeBits (ReportIDSizes D ! i) ! unat (report_item_type ReportType)
          in bits div 8 + (if bits mod 8 \<noteq> 0 then 1 else 0))"

end
