(* ===== verification/HIDItemAccess.thy ===== *)
theory HIDItemAccess
  imports HIDParser
begin

text \<open>
  Reading and writing the bits of a report item: \<open>USB_GetHIDReportItemInfo\<close> reads exactly the declared
  bits of the report; \<open>USB_SetHIDReportItemInfo\<close> is its inverse for byte-aligned items of at most eight
  bits only.
\<close>

definition report_bit :: "(nat \<Rightarrow> u8) \<Rightarrow> nat \<Rightarrow> bool" where
  "report_bit R i = bit (R (i div 8)) (i mod 8)"

lemma and_push_bit_1: "w AND push_bit n 1 \<noteq> 0 \<longleftrightarrow> bit (w :: 'a::len word) n"
  by (simp add: push_bit_of_1 and_exp_eq_0_iff_not_bit)

lemma push_bit_1_shift: "push_bit 1 (push_bit k 1) = push_bit (Suc k) (1 :: 'a::len word)"
  by (simp only: push_bit_push_bit) (simp only: plus_1_eq_Suc)

lemma get_bits_bit:
  assumes "unat cb + n \<le> 65536"
  shows "bit (get_bits R n cb (push_bit k 1) v) j \<longleftrightarrow>
    bit v j \<or> (k \<le> j \<and> j < k + n \<and> j < 32 \<and> report_bit R (unat cb + (j - k)))"
  using assms
proof (induction n arbitrary: cb k v)
  case (Suc n)
  have t: "R (unat (cb div 8)) AND push_bit (unat (cb mod 8)) 1 \<noteq> 0 \<longleftrightarrow> report_bit R (unat cb)"
    unfolding and_push_bit_1 by (simp add: report_bit_def unat_div unat_mod)
  let ?v = "if report_bit R (unat cb) then v OR push_bit k 1 else v"
  have "bit (get_bits R (Suc n) cb (push_bit k 1) v) j \<longleftrightarrow> bit (get_bits R n (cb + 1) (push_bit (Suc k) 1) ?v) j"
    by (simp only: get_bits.simps t push_bit_1_shift)
  also have "\<dots> \<longleftrightarrow> bit ?v j \<or> (Suc k \<le> j \<and> j < Suc k + n \<and> j < 32 \<and> report_bit R (Suc (unat cb) + (j - Suc k)))"
  proof (cases "n = 0")
    case False
    then have u: "unat (cb + 1) = Suc (unat cb)"
      using Suc.prems by (simp add: unat_word_ariths)
    then show ?thesis using Suc.prems Suc.IH [of "cb + 1" "Suc k" ?v] by simp
  qed auto
  also have "\<dots> \<longleftrightarrow> bit v j \<or> (k \<le> j \<and> j < k + Suc n \<and> j < 32 \<and> report_bit R (unat cb + (j - k)))"
  proof (cases "j = k")
    case True
    then show ?thesis by (auto simp: bit_simps)
  next
    case False
    then have v: "bit ?v j \<longleftrightarrow> bit v j" by (auto simp: bit_simps)
    show ?thesis
    proof (cases "Suc k \<le> j")
      case True
      then obtain m where "j = Suc k + m" using le_Suc_ex by blast
      with v show ?thesis by auto
    qed (use v False in auto)
  qed
  finally show ?case .
qed auto

lemma get_bits_spec:
  assumes "unat cb + n \<le> 65536"
  shows "bit (get_bits R n cb 1 0) j \<longleftrightarrow> j < n \<and> j < 32 \<and> report_bit R (unat cb + j)"
  using get_bits_bit [OF assms, of R 0 0 j] by auto

section \<open>Writing\<close>

text \<open>
  For an item that lies inside one byte: what the loop ORs into that byte. Bit \<open>j\<close> of the byte is taken
  from bit \<open>unat cb mod 8 + (j - k)\<close> of the value, where \<open>k\<close> is the position of the mask.
\<close>

lemma set_bits_byte:
  assumes "unat cb mod 8 + n \<le> 8" "unat cb + n \<le> 65536"
  shows "bit (set_bits base v n cb (push_bit k 1) R i) j \<longleftrightarrow> bit (R i) j \<or>
    (i = base + unat cb div 8 \<and> k \<le> j \<and> j < k + n \<and> j < 8 \<and> bit v (unat cb mod 8 + (j - k)))"
  using assms
proof (induction n arbitrary: cb k R)
  case (Suc n)
  let ?i = "base + unat cb div 8"
  let ?R = "if bit v (unat cb mod 8) then R(?i := R ?i OR ucast (push_bit k 1 :: u32)) else R"
  have "set_bits base v (Suc n) cb (push_bit k 1) R = set_bits base v n (cb + 1) (push_bit (Suc k) 1) ?R"
    by (simp only: set_bits.simps Let_def push_bit_1_shift and_push_bit_1) (simp add: unat_div unat_mod)
  then have "bit (set_bits base v (Suc n) cb (push_bit k 1) R i) j \<longleftrightarrow>
      bit (set_bits base v n (cb + 1) (push_bit (Suc k) 1) ?R i) j" by simp
  also have "\<dots> \<longleftrightarrow> bit (?R i) j \<or> (i = ?i \<and> Suc k \<le> j \<and> j < Suc k + n \<and> j < 8 \<and>
      bit v (Suc (unat cb mod 8) + (j - Suc k)))"
  proof (cases "n = 0")
    case False
    then have u: "unat (cb + 1) = Suc (unat cb)"
      using Suc.prems(2) by (simp add: unat_word_ariths)
    have m: "Suc (unat cb) mod 8 = Suc (unat cb mod 8)" using Suc.prems(1) False by (simp add: mod_Suc)
    then have "Suc (unat cb) div 8 = unat cb div 8" by (simp add: div_Suc split: if_splits)
    with m u show ?thesis using Suc.prems Suc.IH [of "cb + 1" "Suc k" ?R] by (simp add: mod_Suc)
  next
    case True
    then have "\<not> (Suc k \<le> j \<and> j < Suc k + n)" by simp
    then show ?thesis unfolding True set_bits.simps by blast
  qed
  also have "\<dots> \<longleftrightarrow> bit (R i) j \<or>
    (i = ?i \<and> k \<le> j \<and> j < k + Suc n \<and> j < 8 \<and> bit v (unat cb mod 8 + (j - k)))"
  proof (cases "j = k")
    case True
    then show ?thesis by (auto simp: bit_simps)
  next
    case False
    then have v: "bit (?R i) j \<longleftrightarrow> bit (R i) j" by (auto simp: bit_simps)
    show ?thesis
    proof (cases "Suc k \<le> j")
      case True
      then obtain m where "j = Suc k + m" using le_Suc_ex by blast
      with v show ?thesis by auto
    qed (use v False in auto)
  qed
  finally show ?case .
qed auto

lemma set_bits_byte_1:
  "unat cb mod 8 + n \<le> 8 \<Longrightarrow> unat cb + n \<le> 65536 \<Longrightarrow>
   bit (set_bits base v n cb 1 R i) j \<longleftrightarrow> bit (R i) j \<or>
    (i = base + unat cb div 8 \<and> j < n \<and> j < 8 \<and> bit v (unat cb mod 8 + j))"
  using set_bits_byte [of cb n base v 0 R i j] by auto

lemma in_byte_bound: "unat (cb :: u16) mod 8 + n \<le> 8 \<Longrightarrow> unat cb + n \<le> 65536"
proof -
  assume a: "unat cb mod 8 + n \<le> 8"
  have "unat cb < 65536" using unsigned_less [of cb] by simp
  moreover have "unat cb = 8 * (unat cb div 8) + unat cb mod 8" by simp
  ultimately have "unat cb div 8 < 8192" by linarith
  with a show ?thesis using \<open>unat cb = 8 * (unat cb div 8) + unat cb mod 8\<close> by linarith
qed

lemma byte_aligned_bound: "unat (cb :: u16) mod 8 = 0 \<Longrightarrow> n \<le> 8 \<Longrightarrow> unat cb + n \<le> 65536"
  by (rule in_byte_bound) simp

section \<open>Properties\<close>

text \<open>
  C9: an item that is present in the report is read exactly: bit \<open>j\<close> of the new value is bit
  \<open>BitOffset + j\<close> of the report (after the report ID byte, if any) for \<open>j\<close> below the item's size (and
  32), all other bits are zero, and the old value is kept as the previous one.
\<close>

theorem GetHIDReportItemInfo_reads:
  assumes "Item_ReportID it = 0 \<or> Item_ReportID it = R 0"
    and "unat (BitOffset it) + unat (BitSize (Attributes it)) \<le> 65536"
  shows "\<exists>v. USB_GetHIDReportItemInfo R (Some it) = (True, Some (it\<lparr>Value := v, PreviousValue := Value it\<rparr>)) \<and>
    (\<forall>j. bit v j = (j < unat (BitSize (Attributes it)) \<and> j < 32 \<and>
      report_bit (if Item_ReportID it \<noteq> 0 then (\<lambda>i. R (i + 1)) else R) (unat (BitOffset it) + j)))"
proof -
  let ?S = "if Item_ReportID it \<noteq> 0 then (\<lambda>i. R (i + 1)) else R"
  let ?v = "get_bits ?S (unat (BitSize (Attributes it))) (BitOffset it) 1 0"
  have "USB_GetHIDReportItemInfo R (Some it) = (True, Some (it\<lparr>Value := ?v, PreviousValue := Value it\<rparr>))"
    using assms(1) by (simp add: USB_GetHIDReportItemInfo_def Let_def)
  then show ?thesis
    by (intro exI [of _ ?v] conjI allI get_bits_spec [OF assms(2)])
qed

theorem GetHIDReportItemInfo_reads_witness:
  "\<exists>v. USB_GetHIDReportItemInfo (nth [0x00, 0x5A, 0x01])
     (Some (zero_Item\<lparr>BitOffset := 8, Attributes := zero_Attributes\<lparr>BitSize := 8\<rparr>\<rparr>)) =
     (True, Some (zero_Item\<lparr>BitOffset := 8, Attributes := zero_Attributes\<lparr>BitSize := 8\<rparr>, Value := v\<rparr>)) \<and>
     bit v 3 \<and> \<not> bit v 2"
  using GetHIDReportItemInfo_reads
    [of "zero_Item\<lparr>BitOffset := 8, Attributes := zero_Attributes\<lparr>BitSize := 8\<rparr>\<rparr>" "nth [0x00, 0x5A, 0x01]"]
  by (auto simp: zero_Item_def zero_Attributes_def report_bit_def)



text \<open>
  C11: for an item that starts at bit \<open>k\<close> of a byte and lies inside that byte, a value below \<open>2 ^ k\<close> is not
  written at all: \<open>USB_SetHIDReportItemInfo\<close> tests the value's bits at the item's position in the byte
  and sets the report bits at the item's own bit numbers, the reverse of what reading does.
\<close>

theorem SetHIDReportItemInfo_unaligned_lost:
  assumes "Item_ReportID it = 0" "unat (BitOffset it) mod 8 + unat (BitSize (Attributes it)) \<le> 8"
    and "unat (Value it) < 2 ^ (unat (BitOffset it) mod 8)"
  shows "fst (USB_SetHIDReportItemInfo R (Some it)) = R"
proof -
  have u: "unat (BitOffset it) + unat (BitSize (Attributes it)) \<le> 65536" by (rule in_byte_bound [OF assms(2)])
  have "\<not> bit (Value it) (unat (BitOffset it) mod 8 + j)" for j
  proof -
    have "unat (Value it) < 2 ^ (unat (BitOffset it) mod 8 + j)"
      using assms(3) by (meson le_add1 less_le_trans one_le_numeral power_increasing)
    then have "\<not> bit (unat (Value it)) (unat (BitOffset it) mod 8 + j)"
      by (simp add: bit_iff_odd)
    then show ?thesis by (auto simp: bit_unsigned_iff dest: bit_imp_le_length)
  qed
  then show ?thesis
    using assms(1) set_bits_byte_1 [OF assms(2) u]
    by (auto simp: USB_SetHIDReportItemInfo_def fun_eq_iff intro!: bit_word_eqI)
qed

theorem SetHIDReportItemInfo_unaligned_lost_witness:
  "fst (USB_SetHIDReportItemInfo (\<lambda>_. 0)
     (Some (zero_Item\<lparr>BitOffset := 4, Value := 0xF, Attributes := zero_Attributes\<lparr>BitSize := 4\<rparr>\<rparr>))) = (\<lambda>_. 0)"
  using SetHIDReportItemInfo_unaligned_lost
    [of "zero_Item\<lparr>BitOffset := 4, Value := 0xF, Attributes := zero_Attributes\<lparr>BitSize := 4\<rparr>\<rparr>" "\<lambda>_. 0"]
  by (simp add: zero_Item_def zero_Attributes_def)

end
