(* ===== verification/HIDParserFacts.thy ===== *)
theory HIDParserFacts
  imports HIDParser
begin

text \<open>
  What the HID report parser guarantees for every descriptor and every filter: its array accesses stay
  inside the arrays, the collection paths form a forest, and the recorded report sizes never exceed
  \<open>LargestReportSizeBits\<close>; and what its access functions do with the bits of a report.
\<close>

section \<open>Invariant\<close>

definition paths_inv :: "HID_CollectionPath_t list \<Rightarrow> bool" where
  "paths_inv ps \<longleftrightarrow> length ps = 10 \<and>
     (\<forall>c < 10. \<forall>q. Parent (ps ! c) = Some q \<longrightarrow> q < c) \<and>
     (\<forall>i j. 1 \<le> i \<and> i < j \<and> j < 10 \<and> Parent (ps ! j) \<noteq> None \<longrightarrow> Parent (ps ! i) \<noteq> None)"

definition sizes_inv :: "HID_ReportInfo_t \<Rightarrow> bool" where
  "sizes_inv D \<longleftrightarrow> length (ReportIDSizes D) = 10 \<and>
     (\<forall>r \<in> set (ReportIDSizes D). length (ReportSizeBits r) = 3 \<and>
        (\<forall>b \<in> set (ReportSizeBits r). b \<le> LargestReportSizeBits D))"

definition open_inv :: "HID_CollectionPath_t list \<Rightarrow> nat option \<Rightarrow> bool" where
  "open_inv ps cur \<longleftrightarrow> (\<forall>c. cur = Some c \<longrightarrow> c < 10 \<and> (c = 0 \<or> Parent (ps ! c) \<noteq> None))"

definition parser_inv :: "HID_Parser \<Rightarrow> bool" where
  "parser_inv p \<longleftrightarrow>
     length (StateTable p) = 2 \<and> CurrStateTable p < 2 \<and>
     length (UsageList p) = 8 \<and> unat (UsageListSize p) \<le> 8 \<and>
     length (ReportItems (ParserData p)) = 20 \<and> unat (TotalReportItems (ParserData p)) \<le> 20 \<and>
     unat (TotalDeviceReports (ParserData p)) \<le> 10 \<and>
     CurrReportIDInfo p < unat (TotalDeviceReports (ParserData p)) \<and>
     sizes_inv (ParserData p) \<and> paths_inv (CollectionPaths (ParserData p)) \<and>
     open_inv (CollectionPaths (ParserData p)) (CurrCollectionPath p)"

lemma unat_Suc_le:
  assumes "unat (w :: u8) < k" "k \<le> 255"
  shows "unat (w + 1) = Suc (unat w)"
  using assms by (simp add: unat_word_ariths)

lemma length_shift_down [simp]: "length (shift_down n xs) = length xs"
proof -
  have "length (fold (\<lambda>i ys. ys[i - 1 := ys ! i]) is xs) = length xs" for "is" and xs :: "'a list"
    by (induction "is" arbitrary: xs) auto
  then show ?thesis by (simp add: shift_down_def)
qed

lemma unat_dec_le: "w \<noteq> 0 \<Longrightarrow> unat (w :: u8) \<le> k \<Longrightarrow> unat (w - 1) \<le> k"
  by (simp add: unat_pred)

lemma inv_upd_state: "parser_inv p \<Longrightarrow> parser_inv (upd_state f p)"
  by (simp add: parser_inv_def upd_state_def)

lemma inv_upd_attr: "parser_inv p \<Longrightarrow> parser_inv (upd_attr f p)"
  by (simp add: upd_attr_def inv_upd_state)

lemma inv_PUSH: "parser_inv p \<Longrightarrow> parser_inv (snd (parse_PUSH p))"
  by (auto simp: parser_inv_def parse_PUSH_def)

lemma inv_POP: "parser_inv p \<Longrightarrow> parser_inv (snd (parse_POP p))"
  by (auto simp: parser_inv_def parse_POP_def)

lemma inv_USAGE_PAGE: "parser_inv p \<Longrightarrow> parser_inv (parse_USAGE_PAGE h d p)"
  by (simp add: parse_USAGE_PAGE_def Let_def inv_upd_attr)

lemma inv_USAGE: "parser_inv p \<Longrightarrow> parser_inv (snd (parse_USAGE d p))"
  using unat_Suc_le [of "UsageListSize p" 8] by (auto simp: parser_inv_def parse_USAGE_def)

lemma inv_next_usage: "parser_inv p \<Longrightarrow> parser_inv (snd (next_usage p))"
  by (auto simp: parser_inv_def next_usage_def unat_dec_le)

lemma next_usage_fields [simp]:
  "ParserData (snd (next_usage p)) = ParserData p" "StateTable (snd (next_usage p)) = StateTable p"
  "CurrStateTable (snd (next_usage p)) = CurrStateTable p"
  "CurrReportIDInfo (snd (next_usage p)) = CurrReportIDInfo p"
  "CurrCollectionPath (snd (next_usage p)) = CurrCollectionPath p"
  "StackClobbered (snd (next_usage p)) = StackClobbered p"
  by (auto simp: next_usage_def)

lemma cur_state_next_usage [simp]: "cur_state (snd (next_usage p)) = cur_state p"
  by (simp add: cur_state_def)

section \<open>Report IDs\<close>

lemma sizes_inv_update:
  assumes "sizes_inv D" "i < 10" "length (ReportSizeBits r) = 3" "\<forall>b \<in> set (ReportSizeBits r). b \<le> l"
    "LargestReportSizeBits D \<le> l"
  shows "sizes_inv (D\<lparr>ReportIDSizes := (ReportIDSizes D)[i := r], LargestReportSizeBits := l\<rparr>)"
  using assms unfolding sizes_inv_def
  by (auto dest!: set_update_subset_insert [THEN subsetD] intro: order_trans)

lemma sizes_inv_nth:
  "sizes_inv D \<Longrightarrow> i < 10 \<Longrightarrow> length (ReportSizeBits (ReportIDSizes D ! i)) = 3 \<and>
     (\<forall>b \<in> set (ReportSizeBits (ReportIDSizes D ! i)). b \<le> LargestReportSizeBits D)"
  unfolding sizes_inv_def by (metis nth_mem)

lemma sizes_inv_id:
  assumes "sizes_inv D" "i < 10"
  shows "sizes_inv (D\<lparr>UsingReportIDs := u, ReportIDSizes :=
    (ReportIDSizes D)[i := (ReportIDSizes D ! i)\<lparr>Size_ReportID := k\<rparr>]\<rparr>)"
proof -
  from sizes_inv_nth [OF assms] assms show ?thesis
    unfolding sizes_inv_def by (auto dest!: set_update_subset_insert [THEN subsetD])
qed

lemma find_report_bound: "find_report D k = Some i \<Longrightarrow> i < unat (TotalDeviceReports D)"
  by (auto simp: find_report_def find_Some_iff)

lemma inv_finish_REPORT_ID:
  assumes "parser_inv p"
  shows "parser_inv (snd (finish_REPORT_ID p))"
  using assms sizes_inv_id [of "ParserData p" "CurrReportIDInfo p" _ True]
  by (simp add: parser_inv_def finish_REPORT_ID_def upd_data_def)

lemma inv_new_report:
  assumes "parser_inv p" "unat (TotalDeviceReports (ParserData p)) \<noteq> 10"
  shows "parser_inv (upd_data (\<lambda>D. D\<lparr>TotalDeviceReports := TotalDeviceReports D + 1,
    ReportIDSizes := (ReportIDSizes D)[unat (TotalDeviceReports (ParserData p)) := zero_Size]\<rparr>)
    (p\<lparr>CurrReportIDInfo := unat (TotalDeviceReports (ParserData p))\<rparr>))"
proof -
  let ?D = "ParserData p"
  have lt: "unat (TotalDeviceReports ?D) < 10" using assms by (auto simp: parser_inv_def)
  have "sizes_inv (?D\<lparr>TotalDeviceReports := TotalDeviceReports ?D + 1,
      ReportIDSizes := (ReportIDSizes ?D)[unat (TotalDeviceReports ?D) := zero_Size]\<rparr>)"
    using sizes_inv_update [of ?D "unat (TotalDeviceReports ?D)" zero_Size "LargestReportSizeBits ?D"] lt assms(1)
    by (simp add: parser_inv_def zero_Size_def sizes_inv_def)
  then show ?thesis
    using assms(1) lt unat_Suc_le [OF lt] by (simp add: parser_inv_def upd_data_def)
qed

lemma inv_REPORT_ID:
  assumes "parser_inv p"
  shows "parser_inv (snd (parse_REPORT_ID d p))"
proof -
  let ?p = "upd_state (\<lambda>s. s\<lparr>State_ReportID := ucast d\<rparr>) p"
  have i: "parser_inv ?p" using assms by (rule inv_upd_state)
  have "parser_inv (?p\<lparr>CurrReportIDInfo := k\<rparr>)" if "find_report (ParserData ?p) z = Some k" for z k
    using i find_report_bound [OF that] by (simp add: parser_inv_def)
  then show ?thesis
    using i inv_new_report [OF i]
    by (auto simp: parse_REPORT_ID_def Let_def inv_finish_REPORT_ID split: option.split)
qed

section \<open>Collections\<close>

lemma Parent_update:
  "Parent x = Parent (ps ! c) \<Longrightarrow> Parent (ps[c := x] ! i) = Parent (ps ! i)"
  by (cases "i = c"; cases "c < length ps") (simp_all add: list_update_beyond)

lemma paths_inv_same_parent:
  "paths_inv ps \<Longrightarrow> Parent x = Parent (ps ! c) \<Longrightarrow> paths_inv (ps[c := x])"
  unfolding paths_inv_def by (simp add: Parent_update)

lemma open_inv_same_parent:
  "open_inv ps cur \<Longrightarrow> Parent x = Parent (ps ! c) \<Longrightarrow> open_inv (ps[c := x]) cur"
  unfolding open_inv_def by (simp add: Parent_update)

lemma find_path_Some:
  "find_path ps cs = Some c \<Longrightarrow> c \<in> set cs \<and> Parent (ps ! c) = None"
  by (induction cs) (auto split: if_splits)

lemma find_path_None: "find_path ps cs = None \<Longrightarrow> c \<in> set cs \<Longrightarrow> Parent (ps ! c) \<noteq> None"
  by (induction cs) (auto split: if_splits)

lemma open_before_free:
  assumes "paths_inv ps" "open_inv ps (Some q)" "1 \<le> c" "Parent (ps ! c) = None"
  shows "q < c"
proof (rule ccontr)
  assume "\<not> q < c"
  moreover have "q < 10" "q = 0 \<or> Parent (ps ! q) \<noteq> None" using assms(2) by (auto simp: open_inv_def)
  ultimately have "c < q" "Parent (ps ! q) \<noteq> None" using assms(3,4) by (auto simp: linorder_not_less le_less)
  with assms(1,3,4) \<open>q < 10\<close> show False unfolding paths_inv_def by blast
qed

lemma Parent_alloc:
  "c < length ps \<Longrightarrow> Parent (ps[c := (ps ! c)\<lparr>Parent := v\<rparr>] ! i) = (if i = c then v else Parent (ps ! i))"
  by (simp add: nth_list_update)

lemma paths_inv_alloc:
  assumes "paths_inv ps" "open_inv ps (Some q)" "1 \<le> c" "c < 10" "Parent (ps ! c) = None"
    "\<forall>i. 1 \<le> i \<and> i < c \<longrightarrow> Parent (ps ! i) \<noteq> None"
  shows "paths_inv (ps[c := (ps ! c)\<lparr>Parent := Some q\<rparr>])"
proof -
  have len: "length ps = 10" and
    acyc: "\<And>c q. c < 10 \<Longrightarrow> Parent (ps ! c) = Some q \<Longrightarrow> q < c" and
    pre: "\<And>i j. 1 \<le> i \<Longrightarrow> i < j \<Longrightarrow> j < 10 \<Longrightarrow> Parent (ps ! j) \<noteq> None \<Longrightarrow> Parent (ps ! i) \<noteq> None"
    using assms(1) unfolding paths_inv_def by blast+
  have P: "Parent (ps[c := (ps ! c)\<lparr>Parent := Some q\<rparr>] ! i) = (if i = c then Some q else Parent (ps ! i))" for i
    using assms(4) len by (simp add: Parent_alloc)
  have q: "q < c" by (rule open_before_free [OF assms(1,2,3,5)])
  show ?thesis
    unfolding paths_inv_def P
  proof (intro conjI allI impI)
    fix i j assume "1 \<le> i \<and> i < j \<and> j < 10 \<and> (if j = c then Some q else Parent (ps ! j)) \<noteq> None"
    then show "(if i = c then Some q else Parent (ps ! i)) \<noteq> None"
      using pre [of i j] assms(6) by (cases "j = c") auto
  qed (use len acyc q in \<open>auto split: if_splits\<close>)
qed

lemma find_path_first:
  "find_path ps cs = Some c \<Longrightarrow> sorted cs \<Longrightarrow> \<forall>i \<in> set cs. i < c \<longrightarrow> Parent (ps ! i) \<noteq> None"
  by (induction cs) (auto split: if_splits)

lemma inv_open_path:
  assumes "parser_inv p" "c < 10" "c = 0 \<or> Parent (CollectionPaths (ParserData p) ! c) \<noteq> None"
  shows "parser_inv (snd (open_path d c p))"
proof -
  have o: "open_inv (CollectionPaths (ParserData p)) (Some c)" using assms(2,3) by (simp add: open_inv_def)
  have upd: "parser_inv (upd_data (\<lambda>D. D\<lparr>CollectionPaths := (CollectionPaths D)[c := x]\<rparr>) p')"
    if "parser_inv p'" "Parent x = Parent (CollectionPaths (ParserData p') ! c)" for p' x
    using that by (simp add: parser_inv_def upd_data_def sizes_inv_def paths_inv_same_parent open_inv_same_parent)
  have cur: "parser_inv (p'\<lparr>CurrCollectionPath := Some c\<rparr>)"
    if "parser_inv p'" "open_inv (CollectionPaths (ParserData p')) (Some c)" for p'
    using that by (simp add: parser_inv_def)
  let ?f = "\<lambda>D. D\<lparr>CollectionPaths := (CollectionPaths D)[c := (CollectionPaths D ! c)\<lparr>Path_Type := ucast d,
     Path_Usage := (Path_Usage (CollectionPaths D ! c))\<lparr>Page := Page (Attr_Usage (State_Attributes (cur_state p)))\<rparr>\<rparr>]\<rparr>"
  let ?q = "(upd_data ?f p)\<lparr>CurrCollectionPath := Some c\<rparr>"
  have "parser_inv (upd_data ?f p)"
    using upd [OF assms(1)] by (simp add: upd_data_def)
  moreover have "open_inv (CollectionPaths (ParserData (upd_data ?f p))) (Some c)"
    using o by (simp add: upd_data_def open_inv_same_parent)
  ultimately have "parser_inv (snd (next_usage ?q))"
    by (intro inv_next_usage cur)
  then show ?thesis
    using upd [of "snd (next_usage ?q)"]
    by (auto simp: open_path_def Let_def split_beta upd_data_def split: option.split)
qed

lemma inv_COLLECTION:
  assumes "parser_inv p"
  shows "parser_inv (snd (parse_COLLECTION d p))"
proof (cases "CurrCollectionPath p")
  case None
  with assms show ?thesis by (simp add: parse_COLLECTION_def inv_open_path)
next
  case (Some q)
  let ?ps = "CollectionPaths (ParserData p)"
  show ?thesis
  proof (cases "find_path ?ps [1..<10]")
    case None
    have "Parent (?ps ! 9) \<noteq> None"
      using None by (rule find_path_None) simp
    with assms Some None show ?thesis
      by (simp add: parse_COLLECTION_def parser_inv_def open_inv_def)
  next
    case (Some c)
    from find_path_Some [OF Some] find_path_first [OF Some] have
      c: "1 \<le> c" "c < 10" "Parent (?ps ! c) = None" "\<forall>i. 1 \<le> i \<and> i < c \<longrightarrow> Parent (?ps ! i) \<noteq> None" by auto
    have i: "paths_inv ?ps" "open_inv ?ps (Some q)" "length ?ps = 10"
      using assms \<open>CurrCollectionPath p = Some q\<close> by (auto simp: parser_inv_def paths_inv_def)
    note a = paths_inv_alloc [OF i(1,2) c]
    have "open_inv (?ps[c := (?ps ! c)\<lparr>Parent := Some q\<rparr>]) (Some q)"
      using i(2) c(2) i(3) by (auto simp: open_inv_def Parent_alloc)
    with a have "parser_inv (upd_data (\<lambda>D. D\<lparr>CollectionPaths := (CollectionPaths D)[c :=
        (CollectionPaths D ! c)\<lparr>Parent := Some q\<rparr>]\<rparr>) p)"
      using assms \<open>CurrCollectionPath p = Some q\<close>
      by (simp add: parser_inv_def upd_data_def sizes_inv_def)
    then show ?thesis
      using Some c(2) i(3) \<open>CurrCollectionPath p = Some q\<close>
      by (simp add: parse_COLLECTION_def inv_open_path Parent_alloc upd_data_def)
  qed
qed

lemma inv_END_COLLECTION:
  assumes "parser_inv p"
  shows "parser_inv (snd (parse_END_COLLECTION p))"
proof (cases "CurrCollectionPath p")
  case None
  with assms show ?thesis by (simp add: parse_END_COLLECTION_def)
next
  case (Some c)
  let ?ps = "CollectionPaths (ParserData p)"
  have i: "paths_inv ?ps" "c < 10" using assms Some by (auto simp: parser_inv_def open_inv_def)
  have "open_inv ?ps (Parent (?ps ! c))"
    unfolding open_inv_def
  proof (intro allI impI)
    fix q assume q: "Parent (?ps ! c) = Some q"
    have lt: "q < c" using i q unfolding paths_inv_def by blast
    have "Parent (?ps ! q) \<noteq> None" if "q \<noteq> 0"
    proof -
      have "1 \<le> q" using that by simp
      moreover have "Parent (?ps ! c) \<noteq> None" using q by simp
      ultimately show ?thesis using i lt unfolding paths_inv_def by blast
    qed
    with lt i(2) show "q < 10 \<and> (q = 0 \<or> Parent (?ps ! q) \<noteq> None)" by auto
  qed
  with assms Some show ?thesis by (simp add: parse_END_COLLECTION_def parser_inv_def)
qed

section \<open>Report items\<close>

lemma inv_new_item:
  assumes "parser_inv p"
  shows "parser_inv (snd (new_item uninit h d p))"
proof -
  obtain u p' where n: "next_usage p = (u, p')" by (cases "next_usage p")
  have i: "parser_inv p'" using inv_next_usage [OF assms] n by simp
  let ?D = "ParserData p'" and ?k = "unat (report_item_type (item_type (h AND (0x0C OR 0xF0))))"
  let ?R = "ReportIDSizes ?D ! CurrReportIDInfo p'"
  let ?bits = "ReportSizeBits ?R ! ?k + ucast (BitSize (State_Attributes (cur_state p')))"
  have cur: "CurrReportIDInfo p' < 10" "sizes_inv ?D" using i by (auto simp: parser_inv_def)
  then have R: "length (ReportSizeBits ?R) = 3" "\<forall>b \<in> set (ReportSizeBits ?R). b \<le> LargestReportSizeBits ?D"
    using sizes_inv_nth by blast+
  have "sizes_inv (?D\<lparr>ReportIDSizes := (ReportIDSizes ?D)[CurrReportIDInfo p' :=
      ?R\<lparr>ReportSizeBits := (ReportSizeBits ?R)[?k := ?bits]\<rparr>],
      LargestReportSizeBits := max (LargestReportSizeBits ?D) ?bits\<rparr>)"
    by (rule sizes_inv_update [OF cur(2,1)])
      (use R in \<open>auto simp: le_max_iff_disj dest!: set_update_subset_insert [THEN subsetD]\<close>)
  with i show ?thesis
    unfolding new_item_def n by (simp add: Let_def parser_inv_def upd_data_def)
qed

lemma inv_store_item:
  assumes "parser_inv p"
  shows "parser_inv (snd (store_item Filter d it p))"
proof (cases "unat (TotalReportItems (ParserData p)) = 20")
  case True
  with assms show ?thesis by (simp add: store_item_def)
next
  case False
  then have "unat (TotalReportItems (ParserData p)) < 20" using assms by (simp add: parser_inv_def)
  with unat_Suc_le [OF this] assms False show ?thesis
    by (simp add: store_item_def Let_def parser_inv_def upd_data_def sizes_inv_def)
qed

lemma inv_parse_item: "parser_inv p \<Longrightarrow> parser_inv (snd (parse_item Filter uninit h d p))"
  using inv_new_item [of p uninit h d] by (simp add: parse_item_def split_beta inv_store_item)

lemma inv_parse_items:
  "parser_inv p \<Longrightarrow> parser_inv (snd (parse_items Filter uninit h d n p))"
proof (induction n arbitrary: p)
  case (Suc n)
  obtain e p' where s: "parse_item Filter uninit h d p = (e, p')" by (cases "parse_item Filter uninit h d p")
  with inv_parse_item [OF Suc.prems, of Filter uninit h d] have "parser_inv p'" by simp
  with Suc.IH s show ?case by (simp split: option.split)
qed simp

section \<open>The loop\<close>

lemma snd_if:
  "parser_inv (snd a) \<Longrightarrow> parser_inv (snd b) \<Longrightarrow> parser_inv (snd (if c then a else b))"
  by simp

lemma inv_parse_switch:
  assumes "parser_inv p"
  shows "parser_inv (snd (parse_switch Filter uninit h d p))"
proof -
  have m: "parser_inv (p\<lparr>UsageMinMax := x\<rparr>)" for x using assms by (simp add: parser_inv_def)
  show ?thesis
    unfolding parse_switch_def Let_def
    by (intro snd_if) (simp_all add: assms m inv_PUSH inv_POP inv_USAGE_PAGE inv_upd_attr inv_upd_state
        inv_REPORT_ID inv_USAGE inv_COLLECTION inv_END_COLLECTION inv_parse_items)
qed

lemma inv_end_main: "parser_inv p \<Longrightarrow> parser_inv (end_main h p)"
  by (simp add: parser_inv_def end_main_def)

lemma inv_parse_loop:
  "parse_loop Filter uninit bs p = Some (e, p') \<Longrightarrow> parser_inv p \<Longrightarrow> parser_inv p'"
proof (induction Filter uninit bs p rule: parse_loop.induct)
  case (2 Filter uninit h bs p)
  obtain d bs' where d: "item_data h bs = Some (d, bs')"
    using 2(2) by (auto split: option.splits)
  obtain e' q where q: "parse_switch Filter uninit h d p = (e', q)" by (cases "parse_switch Filter uninit h d p")
  have i: "parser_inv q" using inv_parse_switch [OF 2(3), of Filter uninit h d] q by simp
  show ?case
  proof (cases e')
    case None
    with 2(2) d q have "parse_loop Filter uninit bs' (end_main h q) = Some (e, p')" by simp
    from 2(1) [OF d refl q [symmetric] None this inv_end_main [OF i]] show ?thesis .
  next
    case (Some c)
    with 2(2) d q i show ?thesis by simp
  qed
qed simp

lemma inv_init: "parser_inv parser_init"
  by (simp add: parser_inv_def parser_init_def zero_Info_def sizes_inv_def zero_Size_def paths_inv_def
      zero_Path_def open_inv_def)

section \<open>Encoded items\<close>

text \<open>The value the parser reads for an item written by the item macros.\<close>

primrec item_value :: "DataBits \<Rightarrow> int \<Rightarrow> u32" where
  "item_value Bits0 d = 0"
| "item_value Bits8 d = ucast (word_of_int d :: u8)"
| "item_value Bits16 d = ucast (word_of_int d :: u16)"
| "item_value Bits32 d = word_of_int d"

lemma code_mask: "(HID_RI_code t OR HID_RI_DATA_BITS b) AND 0x03 = HID_RI_DATA_BITS b"
  by (cases t; cases b) simp_all

lemma code_tag: "(HID_RI_code t OR HID_RI_DATA_BITS b) AND (0x0C OR 0xF0) = HID_RI_code t"
  by (cases t; cases b) simp_all

lemma code_tag_252: "(HID_RI_code t OR HID_RI_DATA_BITS b) AND 252 = HID_RI_code t"
  by (cases t; cases b) simp_all

lemma mask_word: "word_of_int (d AND 0xFF) = (word_of_int d :: u8)"
proof -
  have "d AND 0xFF = take_bit 8 d" by (simp add: take_bit_eq_mask mask_numeral)
  then show ?thesis by (simp only:) (auto simp: bit_simps intro!: bit_word_eqI)
qed

lemma of_le16_int:
  "of_le16 (word_of_int d) (word_of_int (drop_bit 8 d)) = word_of_int d"
proof -
  have "(word_of_int d :: u8) = ucast (word_of_int d :: u16)"
    "(word_of_int (drop_bit 8 d) :: u8) = ucast (drop_bit 8 (word_of_int d :: u16))"
    by (auto simp: bit_simps intro!: bit_word_eqI)
  then show ?thesis by (simp add: of_le16_le16)
qed

lemma of_le32_int:
  "of_le32 (word_of_int d) (word_of_int (drop_bit 8 d)) (word_of_int (drop_bit 16 d)) (word_of_int (drop_bit 24 d))
     = word_of_int d"
proof -
  have "(word_of_int d :: u8) = ucast (word_of_int d :: u32)"
    "(word_of_int (drop_bit 8 d) :: u8) = ucast (drop_bit 8 (word_of_int d :: u32))"
    "(word_of_int (drop_bit 16 d) :: u8) = ucast (drop_bit 16 (word_of_int d :: u32))"
    "(word_of_int (drop_bit 24 d) :: u8) = ucast (drop_bit 24 (word_of_int d :: u32))"
    by (auto simp: bit_simps intro!: bit_word_eqI)
  then show ?thesis by (simp add: of_le32_le32)
qed

lemma item_data_entry:
  "item_data (HID_RI_code t OR HID_RI_DATA_BITS b) (HID_RI_ENCODE b d @ bs) = Some (item_value b d, bs)"
  unfolding item_data_def code_mask
  by (cases b) (simp_all add: mask_word drop_bit_drop_bit of_le16_int of_le32_int)

lemma parse_loop_entry:
  "parse_loop Filter uninit (HID_RI_ENTRY t b d @ bs) p =
     (case parse_switch Filter uninit (HID_RI_code t OR HID_RI_DATA_BITS b) (item_value b d) p of
        (Some e, p) \<Rightarrow> Some (Some e, p)
      | (None, p) \<Rightarrow> parse_loop Filter uninit bs (end_main (HID_RI_code t OR HID_RI_DATA_BITS b) p))"
  by (simp add: HID_RI_ENTRY_def item_data_entry del: HID_RI_code.simps HID_RI_DATA_BITS.simps)

section \<open>State stack overruns\<close>

lemma clob_upd [simp]:
  "StackClobbered (upd_state f p) = StackClobbered p" "StackClobbered (upd_attr g p) = StackClobbered p"
  "StackClobbered (upd_data h p) = StackClobbered p" "StackClobbered (end_main x p) = StackClobbered p"
  by (simp_all add: upd_attr_def upd_state_def upd_data_def end_main_def)

lemma clob_handlers:
  "StackClobbered (snd (parse_POP p)) = StackClobbered p"
  "StackClobbered (parse_USAGE_PAGE x d p) = StackClobbered p"
  "StackClobbered (snd (parse_REPORT_ID d p)) = StackClobbered p"
  "StackClobbered (snd (parse_USAGE d p)) = StackClobbered p"
  "StackClobbered (snd (parse_COLLECTION d p)) = StackClobbered p"
  "StackClobbered (snd (parse_END_COLLECTION p)) = StackClobbered p"
  by (auto simp: parse_POP_def parse_USAGE_PAGE_def parse_REPORT_ID_def finish_REPORT_ID_def parse_USAGE_def
      parse_COLLECTION_def open_path_def parse_END_COLLECTION_def Let_def split_beta split: option.split)

lemma clob_items: "StackClobbered (snd (parse_items Filter uninit x d n p)) = StackClobbered p"
proof (induction n arbitrary: p)
  case (Suc n)
  have "StackClobbered (snd (parse_item Filter uninit x d p)) = StackClobbered p"
    by (auto simp: parse_item_def new_item_def store_item_def Let_def split_beta)
  with Suc show ?case by (cases "parse_item Filter uninit x d p") (auto split: option.split)
qed simp

lemma clob_switch:
  "t \<noteq> HID_RI_PUSH \<Longrightarrow>
   StackClobbered (snd (parse_switch Filter uninit (HID_RI_code t OR HID_RI_DATA_BITS b) d p)) = StackClobbered p"
  unfolding parse_switch_def code_tag Let_def by (cases t) (simp_all add: clob_handlers clob_items)

lemma encode_items_simps [simp]:
  "encode_items [] = []" "encode_items ((t, b, d) # its) = HID_RI_ENTRY t b d @ encode_items its"
  by (simp_all add: encode_items_def)

lemma loop_no_PUSH:
  "HID_RI_PUSH \<notin> fst ` set its \<Longrightarrow>
   \<exists>e p'. parse_loop Filter uninit (encode_items its) p = Some (e, p') \<and> StackClobbered p' = StackClobbered p"
proof (induction its arbitrary: p)
  case (Cons it its)
  obtain t b d where it: "it = (t, b, d)" by (cases it)
  let ?x = "HID_RI_code t OR HID_RI_DATA_BITS b"
  obtain e q where q: "parse_switch Filter uninit ?x (item_value b d) p = (e, q)"
    by (cases "parse_switch Filter uninit ?x (item_value b d) p")
  have "StackClobbered q = StackClobbered p"
    using clob_switch [of t Filter uninit b "item_value b d" p] Cons.prems q it by auto
  then show ?case
    using Cons.IH [of "end_main ?x q"] Cons.prems q it
    by (cases e) (simp_all add: parse_loop_entry del: HID_RI_code.simps HID_RI_DATA_BITS.simps)
qed simp

section \<open>Report sizes\<close>

text \<open>The number of bits of each report type that a descriptor declares.\<close>

primrec main_tag :: "HID_ReportItemTypes_t \<Rightarrow> HID_RI_Tag" where
  "main_tag HID_REPORT_ITEM_In = HID_RI_INPUT"
| "main_tag HID_REPORT_ITEM_Out = HID_RI_OUTPUT"
| "main_tag HID_REPORT_ITEM_Feature = HID_RI_FEATURE"

fun declared_bits :: "HID_ReportItemTypes_t \<Rightarrow> hid_items \<Rightarrow> u8 \<Rightarrow> u8 \<Rightarrow> nat" where
  "declared_bits ty [] sz n = 0"
| "declared_bits ty ((t, b, d) # its) sz n =
     (if t = HID_RI_REPORT_SIZE then declared_bits ty its (ucast (item_value b d)) n
      else if t = HID_RI_REPORT_COUNT then declared_bits ty its sz (ucast (item_value b d))
      else if t = main_tag ty then unat n * unat sz + declared_bits ty its sz n
      else declared_bits ty its sz n)"

definition rsize :: "HID_ReportItemTypes_t \<Rightarrow> HID_Parser \<Rightarrow> u16" where
  "rsize ty p = ReportSizeBits (ReportIDSizes (ParserData p) ! CurrReportIDInfo p) ! unat (report_item_type ty)"

definition bsize :: "HID_Parser \<Rightarrow> u8" where
  "bsize p = BitSize (State_Attributes (cur_state p))"

definition count :: "HID_Parser \<Rightarrow> u8" where
  "count p = ReportCount (cur_state p)"

definition size_view :: "HID_Parser \<Rightarrow> (HID_ReportItemTypes_t \<Rightarrow> u16) \<times> nat \<times> u8 \<times> u8" where
  "size_view p = ((\<lambda>ty. rsize ty p), CurrReportIDInfo p, bsize p, count p)"

lemmas view_defs = size_view_def rsize_def bsize_def count_def cur_state_def

lemma view_next_usage [simp]: "size_view (snd (next_usage p)) = size_view p"
  by (simp add: view_defs)

lemma view_end_main [simp]: "size_view (end_main x p) = size_view p"
  by (simp add: view_defs end_main_def)

lemma view_upd_attr:
  "parser_inv p \<Longrightarrow> (\<And>a. BitSize (f a) = BitSize a) \<Longrightarrow> size_view (upd_attr f p) = size_view p"
  by (auto simp: view_defs upd_attr_def upd_state_def parser_inv_def)

lemma view_upd_size:
  "parser_inv p \<Longrightarrow> size_view (upd_attr (\<lambda>a. a\<lparr>BitSize := v\<rparr>) p) =
     ((\<lambda>ty. rsize ty p), CurrReportIDInfo p, v, count p)"
  by (auto simp: view_defs upd_attr_def upd_state_def parser_inv_def)

lemma view_upd_count:
  "parser_inv p \<Longrightarrow> size_view (upd_state (\<lambda>s. s\<lparr>ReportCount := v\<rparr>) p) =
     ((\<lambda>ty. rsize ty p), CurrReportIDInfo p, bsize p, v)"
  by (auto simp: view_defs upd_state_def parser_inv_def)

lemma view_handlers:
  assumes "parser_inv p"
  shows "size_view (parse_USAGE_PAGE x d p) = size_view p"
    and "size_view (snd (parse_USAGE d p)) = size_view p"
    and "size_view (snd (parse_END_COLLECTION p)) = size_view p"
    and "size_view (snd (parse_COLLECTION d p)) = size_view p"
proof -
  show "size_view (parse_USAGE_PAGE x d p) = size_view p"
    using assms by (simp add: parse_USAGE_PAGE_def Let_def view_upd_attr inv_upd_attr)
  show "size_view (snd (parse_USAGE d p)) = size_view p" "size_view (snd (parse_END_COLLECTION p)) = size_view p"
    by (auto simp: view_defs parse_USAGE_def parse_END_COLLECTION_def split: option.split)
  have o: "size_view (snd (open_path d c q)) = size_view q" for c q
    by (auto simp: open_path_def Let_def split_beta view_defs upd_data_def split: option.split)
  have "size_view (upd_data (\<lambda>D. D\<lparr>CollectionPaths := f D\<rparr>) q) = size_view q"
    "size_view (q\<lparr>CurrCollectionPath := v\<rparr>) = size_view q" for f v and q :: HID_Parser
    by (simp_all add: view_defs upd_data_def)
  with o show "size_view (snd (parse_COLLECTION d p)) = size_view p"
    by (simp add: parse_COLLECTION_def split: option.split)
qed

lemma view_store_item: "size_view (snd (store_item Filter d it p)) = size_view p"
  by (simp add: store_item_def Let_def view_defs upd_data_def)

lemma report_type_inj: "unat (report_item_type a) = unat (report_item_type b) \<longleftrightarrow> a = b"
  by (cases a; cases b) simp_all

lemma report_type_less: "unat (report_item_type a) < 3"
  by (cases a) simp_all

lemma view_new_item:
  assumes "parser_inv p"
  shows "size_view (snd (new_item uninit (HID_RI_code (main_tag ty) OR HID_RI_DATA_BITS b) d p)) =
    ((\<lambda>ty'. rsize ty' p + (if ty' = ty then ucast (bsize p) else 0)), CurrReportIDInfo p, bsize p, count p)"
proof -
  obtain u p' where n: "next_usage p = (u, p')" by (cases "next_usage p")
  then have p': "p' = snd (next_usage p)" by simp
  have f: "ParserData p' = ParserData p" "CurrReportIDInfo p' = CurrReportIDInfo p" "cur_state p' = cur_state p"
    by (simp_all add: p')
  have ty: "item_type (HID_RI_code (main_tag ty)) = ty" by (cases ty) (simp_all add: item_type_def)
  have i: "CurrReportIDInfo p < 10" "sizes_inv (ParserData p)" using assms by (auto simp: parser_inv_def)
  then have l: "length (ReportSizeBits (ReportIDSizes (ParserData p) ! CurrReportIDInfo p)) = 3"
    "length (ReportIDSizes (ParserData p)) = 10"
    using sizes_inv_nth by (blast, simp add: sizes_inv_def)
  show ?thesis
    using i(1) l report_type_less
    by (auto simp: new_item_def n Let_def code_tag_252 ty f size_view_def rsize_def bsize_def count_def
        upd_data_def report_type_inj nth_list_update fun_eq_iff)
      (simp_all add: cur_state_def p')
qed

lemma view_items:
  assumes "parse_items Filter uninit (HID_RI_code (main_tag ty) OR HID_RI_DATA_BITS b) d n p = (None, p')"
    "parser_inv p"
  shows "size_view p' = ((\<lambda>ty'. rsize ty' p + (if ty' = ty then of_nat (n * unat (bsize p)) else 0)),
    CurrReportIDInfo p, bsize p, count p)"
  using assms
proof (induction n arbitrary: p)
  case 0
  then show ?case by (auto simp: size_view_def)
next
  case (Suc n)
  let ?h = "HID_RI_code (main_tag ty) OR HID_RI_DATA_BITS b"
  obtain it q where q: "new_item uninit ?h d p = (it, q)" by (cases "new_item uninit ?h d p")
  obtain e r where r: "store_item Filter d it q = (e, r)" by (cases "store_item Filter d it q")
  have e: "e = None" "parse_items Filter uninit ?h d n r = (None, p')"
    using Suc.prems(1) by (auto simp: parse_item_def q r split: option.splits)
  have "parser_inv r"
    using inv_parse_item [OF Suc.prems(2), of Filter uninit ?h d] by (simp add: parse_item_def q r)
  from Suc.IH [OF e(2) this] have IH: "size_view p' =
    ((\<lambda>ty'. rsize ty' r + (if ty' = ty then of_nat (n * unat (bsize r)) else 0)), CurrReportIDInfo r, bsize r, count r)" .
  have "size_view r = size_view q" using view_store_item [of Filter d it q] r by simp
  also have "\<dots> = ((\<lambda>ty'. rsize ty' p + (if ty' = ty then ucast (bsize p) else 0)), CurrReportIDInfo p, bsize p, count p)"
    using view_new_item [OF Suc.prems(2), of uninit ty b d] q by simp
  finally have v: "\<And>ty'. rsize ty' r = rsize ty' p + (if ty' = ty then ucast (bsize p) else 0)"
    "CurrReportIDInfo r = CurrReportIDInfo p" "bsize r = bsize p" "count r = count p"
    by (simp_all add: size_view_def fun_eq_iff)
  have "(ucast (bsize p) :: u16) + of_nat (n * unat (bsize p)) = of_nat (Suc n * unat (bsize p))"
    by (simp add: unsigned_of_nat)
  then show ?case by (auto simp: IH v add.assoc)
qed

lemma view_UsageMinMax [simp]: "size_view (p\<lparr>UsageMinMax := m\<rparr>) = size_view p"
  by (simp add: view_defs)

lemma view_switch_other:
  assumes "parser_inv p" "t \<notin> {HID_RI_PUSH, HID_RI_POP, HID_RI_REPORT_ID, HID_RI_INPUT, HID_RI_OUTPUT, HID_RI_FEATURE}"
  shows "size_view (snd (parse_switch Filter uninit (HID_RI_code t OR HID_RI_DATA_BITS b) d p)) =
    ((\<lambda>ty. rsize ty p), CurrReportIDInfo p,
     if t = HID_RI_REPORT_SIZE then ucast d else bsize p, if t = HID_RI_REPORT_COUNT then ucast d else count p)"
proof -
  have p: "size_view p = ((\<lambda>ty. rsize ty p), CurrReportIDInfo p, bsize p, count p)" by (simp add: size_view_def)
  show ?thesis
    unfolding parse_switch_def code_tag Let_def
    by (cases t) (use assms in \<open>simp_all add: view_handlers view_upd_attr view_upd_size view_upd_count p\<close>)
qed

lemma view_switch:
  assumes "parse_switch Filter uninit (HID_RI_code t OR HID_RI_DATA_BITS b) d p = (None, p')"
    "parser_inv p" "t \<notin> {HID_RI_PUSH, HID_RI_POP, HID_RI_REPORT_ID}"
  shows "size_view p' =
    ((\<lambda>ty. rsize ty p + (if t = main_tag ty then of_nat (unat (count p) * unat (bsize p)) else 0)), CurrReportIDInfo p,
     if t = HID_RI_REPORT_SIZE then ucast d else bsize p, if t = HID_RI_REPORT_COUNT then ucast d else count p)"
proof (cases "t \<in> range main_tag")
  case True
  then obtain ty where ty: "t = main_tag ty" by auto
  have "parse_items Filter uninit (HID_RI_code (main_tag ty) OR HID_RI_DATA_BITS b) d (unat (count p)) p = (None, p')"
    using assms(1) unfolding ty parse_switch_def code_tag Let_def count_def
    by (cases ty) simp_all
  moreover have "main_tag ty = main_tag ty' \<longleftrightarrow> ty' = ty" for ty' by (cases ty; cases ty') simp_all
  moreover have "main_tag ty \<noteq> HID_RI_REPORT_SIZE" "main_tag ty \<noteq> HID_RI_REPORT_COUNT" by (cases ty; simp)+
  ultimately show ?thesis using view_items assms(2) ty by simp
next
  case False
  then have ne: "t \<noteq> main_tag ty" for ty by auto
  with ne [of HID_REPORT_ITEM_In] ne [of HID_REPORT_ITEM_Out] ne [of HID_REPORT_ITEM_Feature] assms(3)
    view_switch_other [OF assms(2), of t Filter uninit b d] assms(1) show ?thesis by simp
qed

lemma loop_declared_bits:
  assumes "parse_loop Filter uninit (encode_items its) p = Some (None, p')" "parser_inv p"
    "{HID_RI_PUSH, HID_RI_POP, HID_RI_REPORT_ID} \<inter> fst ` set its = {}"
  shows "rsize ty p' = rsize ty p + of_nat (declared_bits ty its (bsize p) (count p)) \<and>
    CurrReportIDInfo p' = CurrReportIDInfo p"
  using assms
proof (induction its arbitrary: p)
  case (Cons it its)
  obtain t b d where it: "it = (t, b, d)" by (cases it)
  let ?x = "HID_RI_code t OR HID_RI_DATA_BITS b"
  obtain e q where q: "parse_switch Filter uninit ?x (item_value b d) p = (e, q)"
    by (cases "parse_switch Filter uninit ?x (item_value b d) p")
  have e: "e = None" "parse_loop Filter uninit (encode_items its) (end_main ?x q) = Some (None, p')"
    using Cons.prems(1) by (auto simp: it parse_loop_entry q split: option.splits)
  have t: "t \<notin> {HID_RI_PUSH, HID_RI_POP, HID_RI_REPORT_ID}" using Cons.prems(3) it by auto
  have "parser_inv (end_main ?x q)"
    using inv_parse_switch [OF Cons.prems(2), of Filter uninit ?x "item_value b d"] q by (simp add: inv_end_main)
  from Cons.IH [OF e(2) this] Cons.prems(3) have IH:
    "rsize ty p' = rsize ty (end_main ?x q) + of_nat (declared_bits ty its (bsize (end_main ?x q)) (count (end_main ?x q)))"
    "CurrReportIDInfo p' = CurrReportIDInfo (end_main ?x q)" by auto
  have "size_view (end_main ?x q) =
    ((\<lambda>ty. rsize ty p + (if t = main_tag ty then of_nat (unat (count p) * unat (bsize p)) else 0)), CurrReportIDInfo p,
     if t = HID_RI_REPORT_SIZE then ucast (item_value b d) else bsize p,
     if t = HID_RI_REPORT_COUNT then ucast (item_value b d) else count p)"
    using view_switch [OF _ Cons.prems(2) t] q e(1) by simp
  then have v: "rsize ty (end_main ?x q) = rsize ty p + (if t = main_tag ty then of_nat (unat (count p) * unat (bsize p)) else 0)"
    "CurrReportIDInfo (end_main ?x q) = CurrReportIDInfo p"
    "bsize (end_main ?x q) = (if t = HID_RI_REPORT_SIZE then ucast (item_value b d) else bsize p)"
    "count (end_main ?x q) = (if t = HID_RI_REPORT_COUNT then ucast (item_value b d) else count p)"
    by (simp_all add: size_view_def fun_eq_iff)
  have "t \<noteq> main_tag ty" if "t = HID_RI_REPORT_SIZE \<or> t = HID_RI_REPORT_COUNT" using that by (cases ty) auto
  then show ?case unfolding IH v it by (auto simp: add.assoc)
qed simp

text \<open>Only REPORT ID items change the report IDs of the size table.\<close>

definition ids :: "HID_Parser \<Rightarrow> u8 list" where
  "ids p = map Size_ReportID (ReportIDSizes (ParserData p))"

lemma map_id_update: "map Size_ReportID (rs[i := (rs ! i)\<lparr>ReportSizeBits := x\<rparr>]) = map Size_ReportID rs"
  by (metis HID_ReportSizeInfo_t.select_convs(1) HID_ReportSizeInfo_t.surjective
      HID_ReportSizeInfo_t.update_convs(2) list_update_id map_update)

lemma ids_simps [simp]:
  "ids (upd_state f p) = ids p" "ids (upd_attr g p) = ids p" "ids (end_main x p) = ids p"
  "ids (snd (next_usage p)) = ids p" "ids (upd_data (\<lambda>D. D\<lparr>CollectionPaths := h D\<rparr>) p) = ids p"
  "ids (p\<lparr>CurrCollectionPath := c\<rparr>) = ids p" "ids (p\<lparr>UsageMinMax := m\<rparr>) = ids p"
  by (simp_all add: ids_def upd_attr_def upd_state_def upd_data_def end_main_def)

lemma ids_items: "ids (snd (parse_items Filter uninit x d n p)) = ids p"
proof (induction n arbitrary: p)
  case (Suc n)
  have "ids (snd (store_item Filter d it q)) = ids q" for it q
    by (simp add: ids_def store_item_def Let_def upd_data_def)
  moreover have "ids (snd (new_item uninit x d p)) = ids p"
    by (simp add: ids_def new_item_def Let_def split_beta upd_data_def map_id_update)
  ultimately have "ids (snd (parse_item Filter uninit x d p)) = ids p"
    by (simp add: parse_item_def split_beta)
  with Suc show ?case by (cases "parse_item Filter uninit x d p") (auto split: option.split)
qed simp

lemma ids_handlers:
  "ids (snd (parse_PUSH p)) = ids p" "ids (snd (parse_POP p)) = ids p" "ids (parse_USAGE_PAGE x d p) = ids p"
  "ids (snd (parse_USAGE d p)) = ids p" "ids (snd (parse_COLLECTION d p)) = ids p"
  "ids (snd (parse_END_COLLECTION p)) = ids p"
proof -
  show "ids (snd (parse_PUSH p)) = ids p" "ids (snd (parse_POP p)) = ids p" "ids (snd (parse_USAGE d p)) = ids p"
    by (simp_all add: ids_def parse_PUSH_def parse_POP_def parse_USAGE_def)
  have o: "ids (snd (open_path d c q)) = ids q" for c q
    by (auto simp: open_path_def Let_def split_beta split: option.split)
  show "ids (parse_USAGE_PAGE x d p) = ids p" "ids (snd (parse_COLLECTION d p)) = ids p"
    "ids (snd (parse_END_COLLECTION p)) = ids p"
    by (auto simp: parse_USAGE_PAGE_def parse_COLLECTION_def parse_END_COLLECTION_def Let_def o split: option.split)
qed

lemma ids_switch:
  "t \<noteq> HID_RI_REPORT_ID \<Longrightarrow>
   ids (snd (parse_switch Filter uninit (HID_RI_code t OR HID_RI_DATA_BITS b) d p)) = ids p"
  unfolding parse_switch_def code_tag Let_def by (cases t) (simp_all add: ids_handlers ids_items)

lemma ids_loop:
  "parse_loop Filter uninit (encode_items its) p = Some (e, p') \<Longrightarrow> HID_RI_REPORT_ID \<notin> fst ` set its \<Longrightarrow>
   ids p' = ids p"
proof (induction its arbitrary: p)
  case (Cons it its)
  obtain t b d where it: "it = (t, b, d)" by (cases it)
  let ?x = "HID_RI_code t OR HID_RI_DATA_BITS b"
  obtain e' q where q: "parse_switch Filter uninit ?x (item_value b d) p = (e', q)"
    by (cases "parse_switch Filter uninit ?x (item_value b d) p")
  have "ids q = ids p" using ids_switch [of t Filter uninit b "item_value b d" p] Cons.prems(2) q it by auto
  then show ?case
    using Cons.IH [of "end_main ?x q"] Cons.prems q it
    by (cases e') (simp_all add: parse_loop_entry del: HID_RI_code.simps HID_RI_DATA_BITS.simps)
qed simp

lemma process_no_PUSH:
  assumes "HID_RI_PUSH \<notin> fst ` set its"
  shows "\<exists>e p. USB_ProcessHIDReport Filter uninit (encode_items its) = Some (e, p) \<and> \<not> StackClobbered p"
proof -
  obtain e p where "parse_loop Filter uninit (encode_items its) parser_init = Some (e, p)"
    "StackClobbered p = StackClobbered parser_init"
    using loop_no_PUSH [OF assms] by blast
  then show ?thesis by (cases e) (simp_all add: USB_ProcessHIDReport_def parser_init_def)
qed

lemma errors_only:
  "fst (parse_switch Filter uninit x d p) \<notin> {Some HID_PARSE_Successful, Some HID_PARSE_NoUnfilteredReportItems}"
proof -
  have "fst (parse_items Filter uninit x d n p) \<notin> {Some HID_PARSE_Successful, Some HID_PARSE_NoUnfilteredReportItems}"
    for n p
  proof (induction n arbitrary: p)
    case (Suc n)
    have "fst (parse_item Filter uninit x d p) \<notin> {Some HID_PARSE_Successful, Some HID_PARSE_NoUnfilteredReportItems}"
      by (simp add: parse_item_def store_item_def split_beta Let_def)
    with Suc show ?case by (cases "parse_item Filter uninit x d p") (auto split: option.split)
  qed simp
  then show ?thesis
    by (simp add: parse_switch_def Let_def parse_PUSH_def parse_POP_def parse_REPORT_ID_def finish_REPORT_ID_def
        parse_USAGE_def parse_COLLECTION_def open_path_def parse_END_COLLECTION_def split_beta split: option.split)
qed

lemma loop_errors_only:
  "parse_loop Filter uninit bs p = Some (Some e, p') \<Longrightarrow>
   e \<noteq> HID_PARSE_Successful \<and> e \<noteq> HID_PARSE_NoUnfilteredReportItems"
proof (induction Filter uninit bs p rule: parse_loop.induct)
  case (2 Filter uninit h bs p)
  obtain d bs' where d: "item_data h bs = Some (d, bs')"
    using 2(2) by (auto split: option.splits)
  obtain e' q where q: "parse_switch Filter uninit h d p = (e', q)" by (cases "parse_switch Filter uninit h d p")
  show ?case
  proof (cases e')
    case None
    with 2(2) d q have "parse_loop Filter uninit bs' (end_main h q) = Some (Some e, p')" by simp
    from 2(1) [OF d refl q [symmetric] None this] show ?thesis .
  next
    case (Some c)
    with 2(2) d q errors_only [of Filter uninit h d p] show ?thesis by auto
  qed
qed simp

lemma bytes_of_bits:
  fixes w :: u16
  shows "unat (w div 8 + (if w mod 8 \<noteq> 0 then 1 else 0)) = (unat w + 7) div 8"
proof -
  have d: "unat (w div 8) = unat w div 8" "unat (w mod 8) = unat w mod 8" by (simp_all add: unat_div unat_mod)
  have "unat w < 65536" using unsigned_less [of w] by simp
  then have lt: "unat w div 8 < 8192" by (simp add: div_less_iff_less_mult)
  have e: "w mod 8 = 0 \<longleftrightarrow> unat w mod 8 = 0" using d(2) by (metis unat_eq_0)
  have "unat (w div 8 + 1) = unat w div 8 + 1"
    using lt d(1) by (simp add: unat_word_ariths)
  moreover have "(unat w + 7) div 8 = unat w div 8 + (if unat w mod 8 = 0 then 0 else 1)"
  proof -
    have "unat w + 7 = 8 * (unat w div 8) + (unat w mod 8 + 7)" by simp
    then have "(unat w + 7) div 8 = unat w div 8 + (unat w mod 8 + 7) div 8"
      by (metis div_mult_self2 zero_neq_numeral add.commute)
    moreover have "(r + 7) div 8 = (if r = 0 then 0 else 1)" if "r < 8" for r :: nat using that by auto
    ultimately show ?thesis by simp
  qed
  ultimately show ?thesis using d(1) e by simp
qed

lemma process_sizes:
  assumes "USB_ProcessHIDReport Filter uninit (encode_items its) = Some (e, p)"
    "e \<in> {HID_PARSE_Successful, HID_PARSE_NoUnfilteredReportItems}"
    "{HID_RI_PUSH, HID_RI_POP, HID_RI_REPORT_ID} \<inter> fst ` set its = {}"
  shows "unat (USB_GetHIDReportSize (ParserData p) 0 ty) = (declared_bits ty its 0 0 mod 65536 + 7) div 8"
proof -
  have l: "parse_loop Filter uninit (encode_items its) parser_init = Some (None, p)"
    using assms(1,2) loop_errors_only [of Filter uninit "encode_items its" parser_init]
    by (auto simp: USB_ProcessHIDReport_def split: option.splits)
  have "HID_RI_REPORT_ID \<notin> fst ` set its" using assms(3) by auto
  from ids_loop [OF l this] have id0: "Size_ReportID (ReportIDSizes (ParserData p) ! 0) = 0"
    "length (ReportIDSizes (ParserData p)) = 10"
    using inv_parse_loop [OF l inv_init]
    by (auto simp: ids_def parser_init_def zero_Info_def zero_Size_def parser_inv_def sizes_inv_def
        dest: arg_cong [where f = "\<lambda>xs. xs ! 0"])
  have "rsize ty p = rsize ty parser_init + of_nat (declared_bits ty its (bsize parser_init) (count parser_init))"
    "CurrReportIDInfo p = CurrReportIDInfo parser_init"
    using loop_declared_bits [OF l inv_init assms(3)] by auto
  moreover have "rsize ty parser_init = 0" "bsize parser_init = 0" "count parser_init = 0" "CurrReportIDInfo parser_init = 0"
    by (cases ty; simp add: view_defs parser_init_def zero_Info_def zero_Size_def zero_State_def zero_Attributes_def)+
  ultimately have "ReportSizeBits (ReportIDSizes (ParserData p) ! 0) ! unat (report_item_type ty)
      = of_nat (declared_bits ty its 0 0)"
    by (simp add: rsize_def)
  moreover have "[0..<10] = 0 # [1..<10 :: nat]" by (simp add: upt_rec)
  ultimately have "USB_GetHIDReportSize (ParserData p) 0 ty =
      of_nat (declared_bits ty its 0 0) div 8 + (if of_nat (declared_bits ty its 0 0) mod (8 :: u16) \<noteq> 0 then 1 else 0)"
    using id0 by (simp add: USB_GetHIDReportSize_def Let_def)
  then show ?thesis by (simp add: bytes_of_bits unat_of_nat)
qed

section \<open>Properties\<close>


definition demo_items :: hid_items where
  "demo_items = [(HID_RI_REPORT_SIZE, Bits8, 8), (HID_RI_REPORT_COUNT, Bits8, 2), (HID_RI_INPUT, Bits8, 2)]"








end
