(* ===== verification/Descriptors.thy ===== *)
theory Descriptors
  imports ConfigDescriptors HIDParserFacts
begin

text \<open>
  The descriptors of the joystick application, \<open>src/src/descriptors.c\<close> and \<open>descriptors.h\<close>, and the
  report struct of \<open>joystick.h\<close>. Flash objects are identified by name (\<open>flash_object\<close>); \<open>flash\<close> gives
  their bytes, and a descriptor address is an object and an offset into it.
\<close>

section \<open>The HID report descriptor\<close>

abbreviation (input) MinAxisVal :: int where "MinAxisVal \<equiv> -127"
abbreviation (input) MaxAxisVal :: int where "MaxAxisVal \<equiv> 127"
abbreviation (input) MinPhysicalVal :: int where "MinPhysicalVal \<equiv> -1"
abbreviation (input) MaxPhysicalVal :: int where "MaxPhysicalVal \<equiv> 1"
abbreviation (input) Buttons :: int where "Buttons \<equiv> 32"

definition JoystickReport_items :: hid_items where
  "JoystickReport_items = [
     (HID_RI_USAGE_PAGE, Bits8, 0x01),
     (HID_RI_USAGE, Bits8, 0x04),
     (HID_RI_COLLECTION, Bits8, 0x01),
       (HID_RI_USAGE, Bits8, 0x01),
       (HID_RI_COLLECTION, Bits8, 0x00),
         (HID_RI_USAGE, Bits8, 0x30),
         (HID_RI_USAGE, Bits8, 0x31),
         (HID_RI_USAGE, Bits8, 0x32),
         (HID_RI_USAGE, Bits8, 0x33),
         (HID_RI_USAGE, Bits8, 0x34),
         (HID_RI_USAGE, Bits8, 0x35),
         (HID_RI_LOGICAL_MINIMUM, Bits16, MinAxisVal),
         (HID_RI_LOGICAL_MAXIMUM, Bits16, MaxAxisVal),
         (HID_RI_PHYSICAL_MINIMUM, Bits16, MinPhysicalVal),
         (HID_RI_PHYSICAL_MAXIMUM, Bits16, MaxPhysicalVal),
         (HID_RI_REPORT_COUNT, Bits8, 6),
         (HID_RI_REPORT_SIZE, Bits8, 8),
         (HID_RI_INPUT, Bits8, IOF [HID_IOF_DATA, HID_IOF_VARIABLE, HID_IOF_ABSOLUTE]),
       (HID_RI_END_COLLECTION, Bits0, 0),
       (HID_RI_USAGE_PAGE, Bits8, 0x09),
       (HID_RI_USAGE_MINIMUM, Bits8, 0x01),
       (HID_RI_USAGE_MAXIMUM, Bits8, 0x02),
       (HID_RI_LOGICAL_MINIMUM, Bits8, 0x00),
       (HID_RI_LOGICAL_MAXIMUM, Bits8, 0x01),
       (HID_RI_REPORT_SIZE, Bits8, 1),
       (HID_RI_REPORT_COUNT, Bits8, Buttons),
       (HID_RI_INPUT, Bits8, IOF [HID_IOF_DATA, HID_IOF_VARIABLE, HID_IOF_ABSOLUTE]),
       (HID_RI_REPORT_SIZE, Bits8, 8),
       (HID_RI_REPORT_COUNT, Bits8, 24),
       (HID_RI_INPUT, Bits8, IOF [HID_IOF_CONSTANT]),
       (HID_RI_USAGE, Bits8, 0x01),
       (HID_RI_REPORT_SIZE, Bits8, 0x08),
       (HID_RI_REPORT_COUNT, Bits8, 64),
       (HID_RI_OUTPUT, Bits8,
         IOF [HID_IOF_DATA, HID_IOF_VARIABLE, HID_IOF_ABSOLUTE, HID_IOF_NON_VOLATILE]),
     (HID_RI_END_COLLECTION, Bits0, 0)]"

definition JoystickReport :: "u8 list" where
  "JoystickReport = encode_items JoystickReport_items"

section \<open>Device and configuration descriptor\<close>

text \<open>\<open>FIXED_CONTROL_ENDPOINT_SIZE\<close> and \<open>FIXED_NUM_CONFIGURATIONS\<close> of \<open>LUFAConfig.h\<close>.\<close>

abbreviation (input) FIXED_CONTROL_ENDPOINT_SIZE :: u8 where "FIXED_CONTROL_ENDPOINT_SIZE \<equiv> 8"
abbreviation (input) FIXED_NUM_CONFIGURATIONS :: u8 where "FIXED_NUM_CONFIGURATIONS \<equiv> 1"

datatype InterfaceDescriptors_t = INTERFACE_ID_Joystick

primrec interface_id :: "InterfaceDescriptors_t \<Rightarrow> u8" where
  "interface_id INTERFACE_ID_Joystick = 0"

datatype StringDescriptors_t = STRING_ID_Language | STRING_ID_Manufacturer | STRING_ID_Product

primrec string_id :: "StringDescriptors_t \<Rightarrow> u8" where
  "string_id STRING_ID_Language = 0"
| "string_id STRING_ID_Manufacturer = 1"
| "string_id STRING_ID_Product = 2"

definition JOYSTICK_IN_EPADDR :: u8 where
  "JOYSTICK_IN_EPADDR = ENDPOINT_DIR_IN OR 1"

definition JOYSTICK_IN_EPSIZE :: u16 where
  "JOYSTICK_IN_EPSIZE = 32"

definition DeviceDescriptor :: USB_Descriptor_Device_t where
  "DeviceDescriptor =
     \<lparr>Device_Header = \<lparr>Header_Size = 18, Header_Type = dtype DTYPE_Device\<rparr>,
      Device_USBSpecification = VERSION_BCD 1 1 0,
      Device_Class = cscp USB_CSCP_NoDeviceClass,
      Device_SubClass = cscp USB_CSCP_NoDeviceSubclass,
      Device_Protocol = cscp USB_CSCP_NoDeviceProtocol,
      Device_Endpoint0Size = FIXED_CONTROL_ENDPOINT_SIZE,
      Device_VendorID = 0x1337,
      Device_ProductID = 0xBEEF,
      Device_ReleaseNumber = VERSION_BCD 0 0 1,
      Device_ManufacturerStrIndex = string_id STRING_ID_Manufacturer,
      Device_ProductStrIndex = string_id STRING_ID_Product,
      Device_SerialNumStrIndex = NO_DESCRIPTOR,
      Device_NumberOfConfigurations = FIXED_NUM_CONFIGURATIONS\<rparr>"

record USB_Descriptor_Configuration_t =
  Configuration_Config :: USB_Descriptor_Configuration_Header_t
  Configuration_HID_Interface :: USB_Descriptor_Interface_t
  Configuration_HID_JoystickHID :: USB_HID_Descriptor_HID_t
  Configuration_HID_ReportINEndpoint :: USB_Descriptor_Endpoint_t

definition Configuration_parts :: "USB_Descriptor_Configuration_t \<Rightarrow> u8 list list" where
  "Configuration_parts c =
     [Configuration_Header_bytes (Configuration_Config c),
      Interface_bytes (Configuration_HID_Interface c),
      HID_bytes (Configuration_HID_JoystickHID c),
      Endpoint_bytes (Configuration_HID_ReportINEndpoint c)]"

definition Configuration_bytes :: "USB_Descriptor_Configuration_t \<Rightarrow> u8 list" where
  "Configuration_bytes c = concat (Configuration_parts c)"

definition ConfigurationDescriptor :: USB_Descriptor_Configuration_t where
  "ConfigurationDescriptor =
     \<lparr>Configuration_Config =
        \<lparr>Config_Header = \<lparr>Header_Size = 9, Header_Type = dtype DTYPE_Configuration\<rparr>,
         Config_TotalConfigurationSize = 9 + 9 + 9 + 7,
         Config_TotalInterfaces = 1,
         Config_ConfigurationNumber = 1,
         Config_ConfigurationStrIndex = NO_DESCRIPTOR,
         Config_ConfigAttributes = USB_CONFIG_ATTR_RESERVED OR USB_CONFIG_ATTR_SELFPOWERED,
         Config_MaxPowerConsumption = USB_CONFIG_POWER_MA 100\<rparr>,
      Configuration_HID_Interface =
        \<lparr>Interface_Header = \<lparr>Header_Size = 9, Header_Type = dtype DTYPE_Interface\<rparr>,
         Interface_InterfaceNumber = interface_id INTERFACE_ID_Joystick,
         Interface_AlternateSetting = 0x00,
         Interface_TotalEndpoints = 1,
         Interface_Class = hid_cscp HID_CSCP_HIDClass,
         Interface_SubClass = hid_cscp HID_CSCP_NonBootSubclass,
         Interface_Protocol = hid_cscp HID_CSCP_NonBootProtocol,
         Interface_InterfaceStrIndex = NO_DESCRIPTOR\<rparr>,
      Configuration_HID_JoystickHID =
        \<lparr>HID_Header = \<lparr>Header_Size = 9, Header_Type = hid_dtype HID_DTYPE_HID\<rparr>,
         HID_HIDSpec = VERSION_BCD 1 1 1,
         HID_CountryCode = 0x00,
         HID_TotalReportDescriptors = 1,
         HID_HIDReportType = hid_dtype HID_DTYPE_Report,
         HID_HIDReportLength = of_nat (length JoystickReport)\<rparr>,
      Configuration_HID_ReportINEndpoint =
        \<lparr>Endpoint_Header = \<lparr>Header_Size = 7, Header_Type = dtype DTYPE_Endpoint\<rparr>,
         Endpoint_EndpointAddress = JOYSTICK_IN_EPADDR,
         Endpoint_Attributes = EP_TYPE_INTERRUPT OR ENDPOINT_ATTR_NO_SYNC OR ENDPOINT_USAGE_DATA,
         Endpoint_EndpointSize = 64,
         Endpoint_PollingIntervalMS = 0x05\<rparr>\<rparr>"

definition LanguageString :: USB_Descriptor_String_t where
  "LanguageString = USB_STRING_DESCRIPTOR_ARRAY [LANGUAGE_ID_ENG]"

definition ManufacturerString :: USB_Descriptor_String_t where
  "ManufacturerString = USB_STRING_DESCRIPTOR (wide ''Sam Kerr'')"

definition ProductString :: USB_Descriptor_String_t where
  "ProductString = USB_STRING_DESCRIPTOR (wide ''Cessna 172 I/O Board'')"

section \<open>The descriptor callback\<close>

datatype flash_object =
  F_DeviceDescriptor | F_ConfigurationDescriptor | F_LanguageString | F_ManufacturerString | F_ProductString
  | F_JoystickReport

fun flash :: "flash_object \<Rightarrow> u8 list" where
  "flash F_DeviceDescriptor = Device_bytes DeviceDescriptor"
| "flash F_ConfigurationDescriptor = Configuration_bytes ConfigurationDescriptor"
| "flash F_LanguageString = String_bytes LanguageString"
| "flash F_ManufacturerString = String_bytes ManufacturerString"
| "flash F_ProductString = String_bytes ProductString"
| "flash F_JoystickReport = JoystickReport"

text \<open>A descriptor address; \<open>&ConfigurationDescriptor.HID_JoystickHID\<close> has offset 18.\<close>

type_synonym flash_address = "(flash_object \<times> nat) option"

definition pgm_read_byte :: "flash_object \<times> nat \<Rightarrow> u8" where
  "pgm_read_byte a = flash (fst a) ! snd a"

definition CALLBACK_USB_GetDescriptor :: "u16 \<Rightarrow> u8 \<Rightarrow> u16 \<times> flash_address" where
  "CALLBACK_USB_GetDescriptor wValue wIndex =
     (let DescriptorType = ucast (drop_bit 8 wValue) :: u8;
          DescriptorNumber = ucast (wValue AND 0xFF) :: u8
      in if DescriptorType = dtype DTYPE_Device then (18, Some (F_DeviceDescriptor, 0))
         else if DescriptorType = dtype DTYPE_Configuration then (34, Some (F_ConfigurationDescriptor, 0))
         else if DescriptorType = dtype DTYPE_String then
           (if DescriptorNumber = string_id STRING_ID_Language then
              (ucast (pgm_read_byte (F_LanguageString, 0)), Some (F_LanguageString, 0))
            else if DescriptorNumber = string_id STRING_ID_Manufacturer then
              (ucast (pgm_read_byte (F_ManufacturerString, 0)), Some (F_ManufacturerString, 0))
            else if DescriptorNumber = string_id STRING_ID_Product then
              (ucast (pgm_read_byte (F_ProductString, 0)), Some (F_ProductString, 0))
            else (ucast NO_DESCRIPTOR, None))
         else if DescriptorType = hid_dtype HID_DTYPE_HID then (9, Some (F_ConfigurationDescriptor, 18))
         else if DescriptorType = hid_dtype HID_DTYPE_Report then
           (of_nat (length JoystickReport), Some (F_JoystickReport, 0))
         else (ucast NO_DESCRIPTOR, None))"

section \<open>The report struct\<close>

record USB_JoystickReport_Data_t =
  Report_X :: u8
  Report_Y :: u8
  Report_Z :: u8
  Report_RX :: u8
  Report_RY :: u8
  Report_RZ :: u8
  Report_Button :: u32
  Report_padding :: "u8 list"

definition JoystickReport_Data_bytes :: "USB_JoystickReport_Data_t \<Rightarrow> u8 list" where
  "JoystickReport_Data_bytes r =
     [Report_X r, Report_Y r, Report_Z r, Report_RX r, Report_RY r, Report_RZ r] @
     le32 (Report_Button r) @ take 22 (Report_padding r)"

section \<open>Lemmas\<close>

lemma length_JoystickReport: "length JoystickReport = 72"
  by (simp add: JoystickReport_def JoystickReport_items_def HID_RI_ENTRY_def)

lemmas configuration_defs = ConfigurationDescriptor_def Configuration_parts_def descriptor_bytes HID_bytes_def

lemma length_parts:
  "map length (Configuration_parts c) = [9, 9, 9, 7]"
  by (simp add: Configuration_parts_def descriptor_bytes HID_bytes_def)

lemma length_Configuration: "length (Configuration_bytes c) = 34"
  using length_parts [of c] by (simp add: Configuration_bytes_def length_concat)

lemma wf_parts: "d \<in> set (Configuration_parts ConfigurationDescriptor) \<Longrightarrow> wf_desc d"
  by (auto simp: wf_desc_def configuration_defs)

lemma conf_parts:
  "stored M p (Configuration_bytes ConfigurationDescriptor) \<Longrightarrow>
   conf_at M p (Configuration_parts ConfigurationDescriptor)"
  by (simp add: conf_at_def Configuration_bytes_def wf_parts)

lemma length_strings:
  "length (String_bytes LanguageString) = 4" "length (String_bytes ManufacturerString) = 20"
  "length (String_bytes ProductString) = 44"
  by (simp_all add: String_bytes_def Header_bytes_def LanguageString_def ManufacturerString_def ProductString_def
      USB_STRING_DESCRIPTOR_def USB_STRING_DESCRIPTOR_ARRAY_def wide_def le16_def)

lemma string_sizes:
  "pgm_read_byte (F_LanguageString, 0) = 4" "pgm_read_byte (F_ManufacturerString, 0) = 18"
  "pgm_read_byte (F_ProductString, 0) = 42"
  by (simp_all add: pgm_read_byte_def String_bytes_def Header_bytes_def LanguageString_def ManufacturerString_def
      ProductString_def USB_STRING_DESCRIPTOR_def USB_STRING_DESCRIPTOR_ARRAY_def wide_def)

section \<open>Properties\<close>

text \<open>
  C7: the configuration descriptor is consistent: its declared total size is the number of its bytes,
  its declared report length is the length of the report descriptor, and a host that searches it for
  an interface, a HID and an endpoint descriptor finds them at offsets 9, 18 and 27.
\<close>

theorem ConfigurationDescriptor_walk:
  assumes "stored M p (Configuration_bytes ConfigurationDescriptor)"
  shows "unat (Config_TotalConfigurationSize (Configuration_Config ConfigurationDescriptor)) =
      length (Configuration_bytes ConfigurationDescriptor) \<and>
    unat (HID_HIDReportLength (Configuration_HID_JoystickHID ConfigurationDescriptor)) = length JoystickReport \<and>
    USB_GetNextDescriptorOfType M (dtype DTYPE_Interface) 34 p = Some (25, p + 9) \<and>
    USB_GetNextDescriptorOfType M (hid_dtype HID_DTYPE_HID) 34 p = Some (16, p + 18) \<and>
    USB_GetNextDescriptorOfType M (dtype DTYPE_Endpoint) 34 p = Some (7, p + 27) \<and>
    CAST_Interface M (p + 9) = Configuration_HID_Interface ConfigurationDescriptor \<and>
    CAST_Endpoint M (p + 27) = Configuration_HID_ReportINEndpoint ConfigurationDescriptor"
proof (intro conjI)
  note c = conf_parts [OF assms]
  have find: "USB_GetNextDescriptorOfType M t 34 p = Some (r, p + n)"
    if "clen (from_type t (tl (Configuration_parts ConfigurationDescriptor))) = unat r" "n + unat r = 34" for t r n
  proof -
    obtain d ds where ds: "Configuration_parts ConfigurationDescriptor = d # ds" by (simp add: Configuration_parts_def)
    have "clen (d # ds) = 34"
      using length_Configuration [of ConfigurationDescriptor] by (simp add: clen_def Configuration_bytes_def ds)
    with OfType_spec [of M p d ds 34 t] c that ds obtain rem' where
      "USB_GetNextDescriptorOfType M t 34 p = Some (rem', p + n)" "unat rem' = unat r" by force
    then show ?thesis using unat_eqD [of rem' r] by simp
  qed
  show "USB_GetNextDescriptorOfType M (dtype DTYPE_Interface) 34 p = Some (25, p + 9)"
    by (rule find) (simp_all add: configuration_defs)
  show "USB_GetNextDescriptorOfType M (hid_dtype HID_DTYPE_HID) 34 p = Some (16, p + 18)"
    by (rule find) (simp_all add: configuration_defs)
  show "USB_GetNextDescriptorOfType M (dtype DTYPE_Endpoint) 34 p = Some (7, p + 27)"
    by (rule find) (simp_all add: configuration_defs)
  have "stored M p (concat (Configuration_parts ConfigurationDescriptor))"
    using assms by (simp add: Configuration_bytes_def)
  then show "CAST_Interface M (p + 9) = Configuration_HID_Interface ConfigurationDescriptor"
    "CAST_Endpoint M (p + 27) = Configuration_HID_ReportINEndpoint ConfigurationDescriptor"
    using length_parts [of ConfigurationDescriptor]
    by (auto simp: Configuration_parts_def add.commute intro!: CAST_roundtrip)
qed (simp_all add: length_Configuration length_JoystickReport, simp_all add: ConfigurationDescriptor_def length_JoystickReport)

theorem ConfigurationDescriptor_walk_witness:
  "USB_GetNextDescriptorOfType (nth (Configuration_bytes ConfigurationDescriptor)) (dtype DTYPE_Endpoint) 34 0
     = Some (7, 27)"
proof -
  have "stored (nth (Configuration_bytes ConfigurationDescriptor)) 0 (Configuration_bytes ConfigurationDescriptor)"
    by (simp add: stored_def)
  from ConfigurationDescriptor_walk [OF this] show ?thesis by simp
qed

lemma descriptor_bounds:
  "case CALLBACK_USB_GetDescriptor wValue wIndex of
     (sz, None) \<Rightarrow> sz = 0
   | (sz, Some (obj, off)) \<Rightarrow> 0 < sz \<and> off + unat sz \<le> length (flash obj)"
  by (simp add: CALLBACK_USB_GetDescriptor_def Let_def length_JoystickReport length_Configuration string_sizes
      length_strings) (simp add: Device_bytes_def Header_bytes_def)

text \<open>
  C6: whatever descriptor is requested, the callback returns either no descriptor (size 0 and a null
  address) or an address whose next \<open>Size\<close> bytes all lie inside the flash object it points into.
\<close>

theorem GetDescriptor_in_bounds:
  "case CALLBACK_USB_GetDescriptor wValue wIndex of
     (sz, None) \<Rightarrow> sz = 0
   | (sz, Some (obj, off)) \<Rightarrow> 0 < sz \<and> off + unat sz \<le> length (flash obj)"
  by (rule descriptor_bounds)

text \<open>
  C8: the report descriptor declares 34-byte input reports and 64-byte output reports: that is what
  the library's own parser computes for it whenever it accepts it. The report struct the firmware sends is 32 bytes
  long, although its comment says that it mirrors the report descriptor.
\<close>

theorem JoystickReport_sizes:
  assumes "USB_ProcessHIDReport Filter uninit JoystickReport = Some (e, p)"
    "e \<in> {HID_PARSE_Successful, HID_PARSE_NoUnfilteredReportItems}" "length (Report_padding r) = 22"
  shows "USB_GetHIDReportSize (ParserData p) 0 HID_REPORT_ITEM_In = 34 \<and>
    USB_GetHIDReportSize (ParserData p) 0 HID_REPORT_ITEM_Out = 64 \<and>
    length (JoystickReport_Data_bytes r) = 32"
proof -
  have n: "{HID_RI_PUSH, HID_RI_POP, HID_RI_REPORT_ID} \<inter> fst ` set JoystickReport_items = {}"
    by (simp add: JoystickReport_items_def)
  have "unat (USB_GetHIDReportSize (ParserData p) 0 HID_REPORT_ITEM_In) = 34"
    "unat (USB_GetHIDReportSize (ParserData p) 0 HID_REPORT_ITEM_Out) = 64"
    using process_sizes [OF assms(1) [unfolded JoystickReport_def] assms(2) n]
    by (simp_all add: JoystickReport_items_def)
  then show ?thesis
    using unat_eqD [of "USB_GetHIDReportSize (ParserData p) 0 HID_REPORT_ITEM_In" 34]
      unat_eqD [of "USB_GetHIDReportSize (ParserData p) 0 HID_REPORT_ITEM_Out" 64] assms(3)
    by (simp add: JoystickReport_Data_bytes_def le32_def)
qed

definition demo_report :: USB_JoystickReport_Data_t where
  "demo_report = \<lparr>Report_X = 0, Report_Y = 0, Report_Z = 0, Report_RX = 0, Report_RY = 0, Report_RZ = 0,
     Report_Button = 0, Report_padding = replicate 22 0\<rparr>"

theorem JoystickReport_sizes_witness:
  "\<exists>p. USB_ProcessHIDReport (\<lambda>_. False) 0 JoystickReport = Some (HID_PARSE_NoUnfilteredReportItems, p) \<and>
     USB_GetHIDReportSize (ParserData p) 0 HID_REPORT_ITEM_In = 34 \<and> length (JoystickReport_Data_bytes demo_report) = 32"
proof -
  have "map_option fst (USB_ProcessHIDReport (\<lambda>_. False) 0 JoystickReport) = Some HID_PARSE_NoUnfilteredReportItems"
    by code_simp
  then obtain p where p: "USB_ProcessHIDReport (\<lambda>_. False) 0 JoystickReport = Some (HID_PARSE_NoUnfilteredReportItems, p)"
    by auto
  from JoystickReport_sizes [OF p, of demo_report] p show ?thesis by (auto simp: demo_report_def)
qed

end
