(* ===== verification/Hardware.thy ===== *)
theory Hardware
  imports Prelude
begin

text \<open>
  The machine the firmware runs on and the global state it keeps: the I/O registers of the
  ATmega32U4 as an opaque peripheral behind a read and a write operation, and the global variables
  of \<open>USBTask.c\<close>, \<open>DeviceStandardReq.c\<close>, \<open>HIDClassDevice.c\<close> and \<open>joystick.c\<close> as one record.
  Reading a volatile register can change the peripheral (a read of \<open>UEDATX\<close> pops the endpoint
  FIFO), so every access goes through \<open>rd\<close> and \<open>wr\<close>, which also log it in the ghost field
  \<open>io_trace\<close>; statements about what the firmware does to the bus are statements about that log.
\<close>

section \<open>Registers\<close>

datatype ioreg =
    UENUM | UEINTX | UECONX | UECFG0X | UECFG1X | UESTA0X | UEIENX | UEDATX | UEBCLX | UEBCHX
  | UEINT | UERST | UDADDR | UDCON | UDINT | UDIEN | UDFNUML | UDFNUMH
  | USBCON | USBSTA | USBINT | UHWCON | PLLCSR | PLLFRQ
  | PINB | PIND | PORTB | PORTD | PORTE | PORTF | DDRB | DDRD | DDRE | DDRF | MCUSR | SREG_reg

datatype io_event = IoRead ioreg u8 | IoWrite ioreg u8

text \<open>Bit numbers of the registers, from the device header of the C library.\<close>

abbreviation (input) FIFOCON :: nat where "FIFOCON \<equiv> 7"
abbreviation (input) RWAL :: nat where "RWAL \<equiv> 5"
abbreviation (input) RXSTPI :: nat where "RXSTPI \<equiv> 3"
abbreviation (input) RXOUTI :: nat where "RXOUTI \<equiv> 2"
abbreviation (input) TXINI :: nat where "TXINI \<equiv> 0"
abbreviation (input) STALLRQ :: nat where "STALLRQ \<equiv> 5"
abbreviation (input) STALLRQC :: nat where "STALLRQC \<equiv> 4"
abbreviation (input) RSTDT :: nat where "RSTDT \<equiv> 3"
abbreviation (input) EPEN :: nat where "EPEN \<equiv> 0"
abbreviation (input) EPTYPE0 :: nat where "EPTYPE0 \<equiv> 6"
abbreviation (input) EPDIR :: nat where "EPDIR \<equiv> 0"
abbreviation (input) EPSIZE0 :: nat where "EPSIZE0 \<equiv> 4"
abbreviation (input) EPBK0 :: nat where "EPBK0 \<equiv> 2"
abbreviation (input) ALLOC :: nat where "ALLOC \<equiv> 1"
abbreviation (input) CFGOK :: nat where "CFGOK \<equiv> 7"
abbreviation (input) RXSTPE :: nat where "RXSTPE \<equiv> 3"
abbreviation (input) LSM :: nat where "LSM \<equiv> 2"
abbreviation (input) RMWKUP :: nat where "RMWKUP \<equiv> 1"
abbreviation (input) DETACH :: nat where "DETACH \<equiv> 0"
abbreviation (input) WAKEUPI :: nat where "WAKEUPI \<equiv> 4"
abbreviation (input) EORSTI :: nat where "EORSTI \<equiv> 3"
abbreviation (input) SOFI :: nat where "SOFI \<equiv> 2"
abbreviation (input) SUSPI :: nat where "SUSPI \<equiv> 0"
abbreviation (input) ADDEN :: nat where "ADDEN \<equiv> 7"
abbreviation (input) USBE :: nat where "USBE \<equiv> 7"
abbreviation (input) FRZCLK :: nat where "FRZCLK \<equiv> 5"
abbreviation (input) OTGPADE :: nat where "OTGPADE \<equiv> 4"
abbreviation (input) VBUSTE :: nat where "VBUSTE \<equiv> 0"
abbreviation (input) VBUS :: nat where "VBUS \<equiv> 0"
abbreviation (input) VBUSTI :: nat where "VBUSTI \<equiv> 0"
abbreviation (input) UVREGE :: nat where "UVREGE \<equiv> 0"
abbreviation (input) PLLE :: nat where "PLLE \<equiv> 1"
abbreviation (input) PLOCK :: nat where "PLOCK \<equiv> 0"
abbreviation (input) PDIV2 :: nat where "PDIV2 \<equiv> 2"
abbreviation (input) WDRF :: nat where "WDRF \<equiv> 3"
abbreviation (input) SREG_I :: nat where "SREG_I \<equiv> 7"

section \<open>Global variables\<close>

datatype USB_Device_States_t =
    DEVICE_STATE_Unattached | DEVICE_STATE_Powered | DEVICE_STATE_Default
  | DEVICE_STATE_Addressed | DEVICE_STATE_Configured | DEVICE_STATE_Suspended

record USB_Request_Header_t =
  bmRequestType :: u8
  bRequest :: u8
  wValue :: u16
  wIndex :: u16
  wLength :: u16

record USB_Endpoint_Table_t =
  ept_Address :: u8
  ept_Size :: u16
  ept_Type :: u8
  ept_Banks :: u8

text \<open>
  The HID class interface: \<open>Config\<close> first, then \<open>State\<close>. \<open>PrevReportINBuffer\<close> is the memory the
  pointer of that name designates, or None for the null pointer.
\<close>

record USB_ClassInfo_HID_Device_t =
  InterfaceNumber :: u8
  ReportINEndpoint :: USB_Endpoint_Table_t
  PrevReportINBuffer :: "u8 list option"
  PrevReportINBufferSize :: u8
  UsingReportProtocol :: bool
  PrevFrameNum :: u16
  IdleCount :: u16
  IdleMSRemaining :: u16

text \<open>
  The whole firmware state over a peripheral of type \<open>'h\<close>. \<open>oob\<close> is a ghost flag that is set when
  the code reads outside an array.
\<close>

record 'h fw =
  hw :: 'h
  io_trace :: "io_event list"
  USB_DeviceState :: USB_Device_States_t
  USB_ControlRequest :: USB_Request_Header_t
  USB_IsInitialized :: bool
  USB_Device_ConfigurationNumber :: u8
  USB_Device_CurrentlySelfPowered :: bool
  USB_Device_RemoteWakeupEnabled :: bool
  Joystick_HID_Interface :: USB_ClassInfo_HID_Device_t
  joy_mask :: u8
  joy_saved :: u8
  oob :: bool

section \<open>The peripheral\<close>

text \<open>
  The hardware is a parameter: how a register read or write changes it, whether its USB general
  interrupt is being requested, the bytes of the factory signature row that
  \<open>boot_signature_byte_get\<close> returns, and what an uninitialised array on the stack holds.
\<close>

record 'h env =
  io_read :: "ioreg \<Rightarrow> 'h \<Rightarrow> u8 \<times> 'h"
  io_write :: "ioreg \<Rightarrow> u8 \<Rightarrow> 'h \<Rightarrow> 'h"
  irq_pending :: "'h \<Rightarrow> bool"
  boot_signature_byte_get :: "u8 \<Rightarrow> u8"
  uninit_byte :: "nat \<Rightarrow> u8"

definition rd :: "'h env \<Rightarrow> ioreg \<Rightarrow> 'h fw \<Rightarrow> u8 \<times> 'h fw" where
  "rd E r s =
     (let (v, h) = io_read E r (hw s) in (v, s\<lparr>hw := h, io_trace := io_trace s @ [IoRead r v]\<rparr>))"

definition wr :: "'h env \<Rightarrow> ioreg \<Rightarrow> u8 \<Rightarrow> 'h fw \<Rightarrow> 'h fw" where
  "wr E r v s = s\<lparr>hw := io_write E r v (hw s), io_trace := io_trace s @ [IoWrite r v]\<rparr>"

text \<open>\<open>R |= m\<close>, \<open>R &= ~m\<close> and the test \<open>R & m\<close>.\<close>

definition set_bits_in :: "'h env \<Rightarrow> ioreg \<Rightarrow> u8 \<Rightarrow> 'h fw \<Rightarrow> 'h fw" where
  "set_bits_in E r m s = (let (v, s) = rd E r s in wr E r (v OR m) s)"

definition clear_bits_in :: "'h env \<Rightarrow> ioreg \<Rightarrow> u8 \<Rightarrow> 'h fw \<Rightarrow> 'h fw" where
  "clear_bits_in E r m s = (let (v, s) = rd E r s in wr E r (v AND NOT m) s)"

definition test_bits :: "'h env \<Rightarrow> ioreg \<Rightarrow> u8 \<Rightarrow> 'h fw \<Rightarrow> bool \<times> 'h fw" where
  "test_bits E r m s = (let (v, s) = rd E r s in (v AND m \<noteq> 0, s))"

section \<open>Steps that only touch the peripheral\<close>

text \<open>
  \<open>hwstep t s s'\<close>: between \<open>s\<close> and \<open>s'\<close> the firmware made exactly the register accesses \<open>t\<close> and
  changed no variable.
\<close>

definition hwstep :: "io_event list \<Rightarrow> 'h fw \<Rightarrow> 'h fw \<Rightarrow> bool" where
  "hwstep t s s' \<longleftrightarrow> (\<exists>h. s' = s\<lparr>hw := h, io_trace := io_trace s @ t\<rparr>)"

named_theorems step \<open>which register accesses an operation makes\<close>

lemma hwstep_refl [intro, simp]: "hwstep [] s s"
  by (auto simp: hwstep_def intro: exI [where x = "hw s"])

lemma hwstep_trans: "hwstep t s s' \<Longrightarrow> hwstep u s' s'' \<Longrightarrow> hwstep (t @ u) s s''"
  by (auto simp: hwstep_def)

lemma hwstep_frame:
  assumes "hwstep t s s'"
  shows "USB_DeviceState s' = USB_DeviceState s" "USB_ControlRequest s' = USB_ControlRequest s"
    "USB_IsInitialized s' = USB_IsInitialized s"
    "USB_Device_ConfigurationNumber s' = USB_Device_ConfigurationNumber s"
    "USB_Device_CurrentlySelfPowered s' = USB_Device_CurrentlySelfPowered s"
    "USB_Device_RemoteWakeupEnabled s' = USB_Device_RemoteWakeupEnabled s"
    "Joystick_HID_Interface s' = Joystick_HID_Interface s"
    "joy_mask s' = joy_mask s" "joy_saved s' = joy_saved s" "oob s' = oob s"
    "io_trace s' = io_trace s @ t"
  using assms by (auto simp: hwstep_def)

lemma rd_step [step]: "rd E r s = (v, s') \<Longrightarrow> hwstep [IoRead r v] s s'"
  by (auto simp: rd_def hwstep_def split: prod.splits)

lemma wr_step [step]: "hwstep [IoWrite r v] s (wr E r v s)"
  unfolding wr_def hwstep_def by blast

section \<open>Which registers an operation touches\<close>

primrec reg_of :: "io_event \<Rightarrow> ioreg" where
  "reg_of (IoRead r v) = r"
| "reg_of (IoWrite r v) = r"

definition touches :: "ioreg set \<Rightarrow> 'h fw \<Rightarrow> 'h fw \<Rightarrow> bool" where
  "touches R s s' \<longleftrightarrow> (\<exists>t. hwstep t s s' \<and> reg_of ` set t \<subseteq> R)"

named_theorems touch \<open>which registers an operation touches\<close>

lemma touches_refl [simp, intro]: "touches R s s"
  unfolding touches_def by (rule exI [where x = "[]"]) simp

lemma touches_trans: "touches R s s' \<Longrightarrow> touches R s' s'' \<Longrightarrow> touches R s s''"
  unfolding touches_def by (metis hwstep_trans image_Un le_sup_iff set_append)

lemma touches_mono: "touches R s s' \<Longrightarrow> R \<subseteq> R' \<Longrightarrow> touches R' s s'"
  unfolding touches_def by blast

lemma touches_frame:
  assumes "touches R s s'"
  shows "USB_DeviceState s' = USB_DeviceState s" "USB_ControlRequest s' = USB_ControlRequest s"
    "USB_IsInitialized s' = USB_IsInitialized s"
    "USB_Device_ConfigurationNumber s' = USB_Device_ConfigurationNumber s"
    "USB_Device_CurrentlySelfPowered s' = USB_Device_CurrentlySelfPowered s"
    "USB_Device_RemoteWakeupEnabled s' = USB_Device_RemoteWakeupEnabled s"
    "Joystick_HID_Interface s' = Joystick_HID_Interface s"
    "joy_mask s' = joy_mask s" "joy_saved s' = joy_saved s" "oob s' = oob s"
  using assms unfolding touches_def by (auto dest: hwstep_frame)

lemma rd_touches [touch]: "r \<in> R \<Longrightarrow> touches R s (snd (rd E r s))"
  using rd_step [of E r s "fst (rd E r s)" "snd (rd E r s)"] by (fastforce simp: touches_def)

lemma wr_touches [touch]: "r \<in> R \<Longrightarrow> touches R s (wr E r v s)"
  using wr_step [of r v s E] by (fastforce simp: touches_def)

lemma set_bits_in_touches [touch]: "r \<in> R \<Longrightarrow> touches R s (set_bits_in E r m s)"
  by (auto simp: set_bits_in_def Let_def split_beta intro: touches_trans rd_touches wr_touches)

lemma clear_bits_in_touches [touch]: "r \<in> R \<Longrightarrow> touches R s (clear_bits_in E r m s)"
  by (auto simp: clear_bits_in_def Let_def split_beta intro: touches_trans rd_touches wr_touches)

lemma test_bits_touches [touch]: "r \<in> R \<Longrightarrow> touches R s (snd (test_bits E r m s))"
  by (auto simp: test_bits_def Let_def split_beta intro: rd_touches)

section \<open>Bytes through the endpoint FIFO\<close>

text \<open>The bytes the firmware has pushed into and popped from \<open>UEDATX\<close>, oldest first.\<close>

primrec data_write :: "io_event \<Rightarrow> u8 list" where
  "data_write (IoRead r v) = []"
| "data_write (IoWrite r v) = (if r = UEDATX then [v] else [])"

primrec data_read :: "io_event \<Rightarrow> u8 list" where
  "data_read (IoRead r v) = (if r = UEDATX then [v] else [])"
| "data_read (IoWrite r v) = []"

definition data_out :: "'h fw \<Rightarrow> u8 list" where
  "data_out s = concat (map data_write (io_trace s))"

definition data_in :: "'h fw \<Rightarrow> u8 list" where
  "data_in s = concat (map data_read (io_trace s))"

lemma no_data_event:
  "reg_of e \<noteq> UEDATX \<Longrightarrow> data_write e = []" "reg_of e \<noteq> UEDATX \<Longrightarrow> data_read e = []"
  by (cases e; simp)+

lemma touches_data:
  assumes "touches R s s'" "UEDATX \<notin> R"
  shows "data_out s' = data_out s" "data_in s' = data_in s"
proof -
  obtain t where t: "hwstep t s s'" "reg_of ` set t \<subseteq> R"
    using assms(1) unfolding touches_def by blast
  have none: "data_write e = []" "data_read e = []" if "e \<in> set t" for e
  proof -
    have "reg_of e \<in> R"
      using that t(2) by (metis image_subset_iff)
    with assms(2) have "reg_of e \<noteq> UEDATX"
      by metis
    then show "data_write e = []" "data_read e = []"
      by (rule no_data_event)+
  qed
  have "concat (map data_write t) = []" "concat (map data_read t) = []"
    using none by (simp_all only: concat_eq_Nil_conv) auto
  then show "data_out s' = data_out s" "data_in s' = data_in s"
    unfolding data_out_def data_in_def hwstep_frame(11) [OF t(1)] by simp_all
qed

lemma data_rd [simp]:
  "data_out (snd (rd E r s)) = data_out s"
  "data_in (snd (rd E UEDATX s)) = data_in s @ [fst (rd E UEDATX s)]"
  by (simp_all add: data_out_def data_in_def rd_def split_beta)

lemma data_wr [simp]:
  "data_in (wr E r v s) = data_in s"
  "data_out (wr E UEDATX v s) = data_out s @ [v]"
  by (simp_all add: data_out_def data_in_def wr_def)

section \<open>A concrete register file\<close>

text \<open>
  A peripheral that stores what is written, per selected endpoint for the banked registers, and reports every endpoint as configured.
  It is the instance on which the properties of the component theories are exercised.
\<close>

type_synonym regfile = "u8 \<times> ((u8 \<times> ioreg) \<times> u8) list"

definition reg_key :: "regfile \<Rightarrow> ioreg \<Rightarrow> u8 \<times> ioreg" where
  "reg_key h r = (if r \<in> {UEINTX, UECONX, UECFG0X, UECFG1X, UESTA0X, UEIENX, UEDATX, UEBCLX, UEBCHX}
     then fst h else 0, r)"

definition reg_val :: "regfile \<Rightarrow> u8 \<times> ioreg \<Rightarrow> u8" where
  "reg_val h k = (case map_of (snd h) k of None \<Rightarrow> 0 | Some v \<Rightarrow> v)"

definition regfile_env :: "regfile env" where
  "regfile_env = \<lparr>
     io_read = (\<lambda>r h. (if r = UESTA0X then 0x80 else reg_val h (reg_key h r), h)),
     io_write = (\<lambda>r v h. if r = UENUM then (v, snd h) else (fst h, (reg_key h r, v) # snd h)),
     irq_pending = (\<lambda>_. False),
     boot_signature_byte_get = (\<lambda>a. a),
     uninit_byte = (\<lambda>_. 0)\<rparr>"

definition demo_fw :: "'h \<Rightarrow> 'h fw" where
  "demo_fw h = \<lparr>hw = h, io_trace = [], USB_DeviceState = DEVICE_STATE_Addressed,
     USB_ControlRequest = \<lparr>bmRequestType = 0, bRequest = 0, wValue = 0, wIndex = 0, wLength = 0\<rparr>,
     USB_IsInitialized = True, USB_Device_ConfigurationNumber = 0,
     USB_Device_CurrentlySelfPowered = False, USB_Device_RemoteWakeupEnabled = False,
     Joystick_HID_Interface = \<lparr>InterfaceNumber = 0,
       ReportINEndpoint = \<lparr>ept_Address = 0x81, ept_Size = 32, ept_Type = 0, ept_Banks = 1\<rparr>,
       PrevReportINBuffer = Some (replicate 32 0), PrevReportINBufferSize = 32,
       UsingReportProtocol = False, PrevFrameNum = 0, IdleCount = 0, IdleMSRemaining = 0\<rparr>,
     joy_mask = 0xFF, joy_saved = 0, oob = False\<rparr>"

end
