(* ===== verification/Endpoint.thy ===== *)
theory Endpoint
  imports Hardware StdDescriptors
begin

text \<open>
  Endpoint management of the AVR8 port: the register-level inlines of \<open>Endpoint_AVR8.h\<close>, the
  configuration routines of \<open>Endpoint_AVR8.c\<close> and the device-level inlines of \<open>Device_AVR8.h\<close>.
  Loops that wait on the hardware are \<open>partial_function (option)\<close>: None means the loop never ends.
\<close>

section \<open>Selection and control\<close>

abbreviation (input) ENDPOINT_TOTAL_ENDPOINTS :: u8 where "ENDPOINT_TOTAL_ENDPOINTS \<equiv> 7"
abbreviation (input) ENDPOINT_CONTROLEP :: u8 where "ENDPOINT_CONTROLEP \<equiv> 0"

text \<open>
  The loop of \<open>Endpoint_BytesToEPSizeMask\<close> doubles a 16-bit counter: for more than 32768 bytes the
  counter wraps to zero and the loop does not end.
\<close>

partial_function (option) EPSizeMask_loop :: "u16 \<Rightarrow> u8 \<Rightarrow> u16 \<Rightarrow> u8 option" where
  "EPSizeMask_loop Bytes MaskVal CheckBytes =
     (if CheckBytes < Bytes then EPSizeMask_loop Bytes (MaskVal + 1) (push_bit 1 CheckBytes)
      else Some MaskVal)"

definition Endpoint_BytesToEPSizeMask :: "u16 \<Rightarrow> u8 option" where
  "Endpoint_BytesToEPSizeMask Bytes = map_option (push_bit EPSIZE0) (EPSizeMask_loop Bytes 0 8)"

definition Endpoint_BytesInEndpoint :: "'h env \<Rightarrow> 'h fw \<Rightarrow> u16 \<times> 'h fw" where
  "Endpoint_BytesInEndpoint E s =
     (let (hi, s) = rd E UEBCHX s; (lo, s) = rd E UEBCLX s in (push_bit 8 (ucast hi) OR ucast lo, s))"

definition Endpoint_GetEndpointDirection :: "'h env \<Rightarrow> 'h fw \<Rightarrow> u8 \<times> 'h fw" where
  "Endpoint_GetEndpointDirection E s =
     (let (b, s) = test_bits E UECFG0X (BV EPDIR) s
      in (if b then ENDPOINT_DIR_IN else ENDPOINT_DIR_OUT, s))"

definition Endpoint_GetCurrentEndpoint :: "'h env \<Rightarrow> 'h fw \<Rightarrow> u8 \<times> 'h fw" where
  "Endpoint_GetCurrentEndpoint E s =
     (let (n, s) = rd E UENUM s; (d, s) = Endpoint_GetEndpointDirection E s
      in ((n AND ENDPOINT_EPNUM_MASK) OR d, s))"

definition Endpoint_SelectEndpoint :: "'h env \<Rightarrow> u8 \<Rightarrow> 'h fw \<Rightarrow> 'h fw" where
  "Endpoint_SelectEndpoint E Address s = wr E UENUM (Address AND ENDPOINT_EPNUM_MASK) s"

definition Endpoint_ResetEndpoint :: "'h env \<Rightarrow> u8 \<Rightarrow> 'h fw \<Rightarrow> 'h fw" where
  "Endpoint_ResetEndpoint E Address s =
     wr E UERST 0 (wr E UERST (BV (unat (Address AND ENDPOINT_EPNUM_MASK))) s)"

definition Endpoint_EnableEndpoint :: "'h env \<Rightarrow> 'h fw \<Rightarrow> 'h fw" where
  "Endpoint_EnableEndpoint E s = set_bits_in E UECONX (BV EPEN) s"

definition Endpoint_DisableEndpoint :: "'h env \<Rightarrow> 'h fw \<Rightarrow> 'h fw" where
  "Endpoint_DisableEndpoint E s = clear_bits_in E UECONX (BV EPEN) s"

definition Endpoint_IsEnabled :: "'h env \<Rightarrow> 'h fw \<Rightarrow> bool \<times> 'h fw" where
  "Endpoint_IsEnabled E s = test_bits E UECONX (BV EPEN) s"

definition Endpoint_GetBusyBanks :: "'h env \<Rightarrow> 'h fw \<Rightarrow> u8 \<times> 'h fw" where
  "Endpoint_GetBusyBanks E s = (let (v, s) = rd E UESTA0X s in (v AND 3, s))"

text \<open>\<open>while (UEINTX & (1 << RXOUTI));\<close> and the loop around it.\<close>

partial_function (option) wait_RXOUTI_clear :: "'h env \<Rightarrow> 'h fw \<Rightarrow> 'h fw option" where
  "wait_RXOUTI_clear E s =
     (let (b, s) = test_bits E UEINTX (BV RXOUTI) s in if b then wait_RXOUTI_clear E s else Some s)"

partial_function (option) Endpoint_AbortPendingIN :: "'h env \<Rightarrow> 'h fw \<Rightarrow> 'h fw option" where
  "Endpoint_AbortPendingIN E s =
     (let (n, s) = Endpoint_GetBusyBanks E s
      in if n \<noteq> 0 then
           do { s \<leftarrow> wait_RXOUTI_clear E (set_bits_in E UEINTX (BV RXOUTI) s);
                Endpoint_AbortPendingIN E s }
         else Some s)"

definition Endpoint_IsReadWriteAllowed :: "'h env \<Rightarrow> 'h fw \<Rightarrow> bool \<times> 'h fw" where
  "Endpoint_IsReadWriteAllowed E s = test_bits E UEINTX (BV RWAL) s"

definition Endpoint_IsConfigured :: "'h env \<Rightarrow> 'h fw \<Rightarrow> bool \<times> 'h fw" where
  "Endpoint_IsConfigured E s = test_bits E UESTA0X (BV CFGOK) s"

definition Endpoint_GetEndpointInterrupts :: "'h env \<Rightarrow> 'h fw \<Rightarrow> u8 \<times> 'h fw" where
  "Endpoint_GetEndpointInterrupts E s = rd E UEINT s"

definition Endpoint_HasEndpointInterrupted :: "'h env \<Rightarrow> u8 \<Rightarrow> 'h fw \<Rightarrow> bool \<times> 'h fw" where
  "Endpoint_HasEndpointInterrupted E Address s =
     (let (v, s) = Endpoint_GetEndpointInterrupts E s
      in (v AND BV (unat (Address AND ENDPOINT_EPNUM_MASK)) \<noteq> 0, s))"

definition Endpoint_IsINReady :: "'h env \<Rightarrow> 'h fw \<Rightarrow> bool \<times> 'h fw" where
  "Endpoint_IsINReady E s = test_bits E UEINTX (BV TXINI) s"

definition Endpoint_IsOUTReceived :: "'h env \<Rightarrow> 'h fw \<Rightarrow> bool \<times> 'h fw" where
  "Endpoint_IsOUTReceived E s = test_bits E UEINTX (BV RXOUTI) s"

definition Endpoint_IsSETUPReceived :: "'h env \<Rightarrow> 'h fw \<Rightarrow> bool \<times> 'h fw" where
  "Endpoint_IsSETUPReceived E s = test_bits E UEINTX (BV RXSTPI) s"

definition Endpoint_ClearSETUP :: "'h env \<Rightarrow> 'h fw \<Rightarrow> 'h fw" where
  "Endpoint_ClearSETUP E s = clear_bits_in E UEINTX (BV RXSTPI) s"

definition Endpoint_ClearIN :: "'h env \<Rightarrow> 'h fw \<Rightarrow> 'h fw" where
  "Endpoint_ClearIN E s = clear_bits_in E UEINTX (BV TXINI OR BV FIFOCON) s"

definition Endpoint_ClearOUT :: "'h env \<Rightarrow> 'h fw \<Rightarrow> 'h fw" where
  "Endpoint_ClearOUT E s = clear_bits_in E UEINTX (BV RXOUTI OR BV FIFOCON) s"

definition Endpoint_StallTransaction :: "'h env \<Rightarrow> 'h fw \<Rightarrow> 'h fw" where
  "Endpoint_StallTransaction E s = set_bits_in E UECONX (BV STALLRQ) s"

definition Endpoint_ClearStall :: "'h env \<Rightarrow> 'h fw \<Rightarrow> 'h fw" where
  "Endpoint_ClearStall E s = set_bits_in E UECONX (BV STALLRQC) s"

definition Endpoint_IsStalled :: "'h env \<Rightarrow> 'h fw \<Rightarrow> bool \<times> 'h fw" where
  "Endpoint_IsStalled E s = test_bits E UECONX (BV STALLRQ) s"

definition Endpoint_ResetDataToggle :: "'h env \<Rightarrow> 'h fw \<Rightarrow> 'h fw" where
  "Endpoint_ResetDataToggle E s = set_bits_in E UECONX (BV RSTDT) s"

definition Endpoint_SetEndpointDirection :: "'h env \<Rightarrow> u8 \<Rightarrow> 'h fw \<Rightarrow> 'h fw" where
  "Endpoint_SetEndpointDirection E DirectionMask s =
     (let (v, s) = rd E UECFG0X s
      in wr E UECFG0X ((v AND NOT (BV EPDIR)) OR (if DirectionMask \<noteq> 0 then BV EPDIR else 0)) s)"

section \<open>The endpoint FIFO\<close>

definition Endpoint_Read_8 :: "'h env \<Rightarrow> 'h fw \<Rightarrow> u8 \<times> 'h fw" where
  "Endpoint_Read_8 E s = rd E UEDATX s"

definition Endpoint_Write_8 :: "'h env \<Rightarrow> u8 \<Rightarrow> 'h fw \<Rightarrow> 'h fw" where
  "Endpoint_Write_8 E Data s = wr E UEDATX Data s"

definition Endpoint_Discard_8 :: "'h env \<Rightarrow> 'h fw \<Rightarrow> 'h fw" where
  "Endpoint_Discard_8 E s = snd (rd E UEDATX s)"

definition Endpoint_Read_16_LE :: "'h env \<Rightarrow> 'h fw \<Rightarrow> u16 \<times> 'h fw" where
  "Endpoint_Read_16_LE E s =
     (let (b0, s) = rd E UEDATX s; (b1, s) = rd E UEDATX s in (of_le16 b0 b1, s))"

definition Endpoint_Read_16_BE :: "'h env \<Rightarrow> 'h fw \<Rightarrow> u16 \<times> 'h fw" where
  "Endpoint_Read_16_BE E s =
     (let (b1, s) = rd E UEDATX s; (b0, s) = rd E UEDATX s in (of_le16 b0 b1, s))"

definition Endpoint_Write_16_LE :: "'h env \<Rightarrow> u16 \<Rightarrow> 'h fw \<Rightarrow> 'h fw" where
  "Endpoint_Write_16_LE E Data s =
     wr E UEDATX (ucast (drop_bit 8 Data)) (wr E UEDATX (ucast (Data AND 0xFF)) s)"

definition Endpoint_Write_16_BE :: "'h env \<Rightarrow> u16 \<Rightarrow> 'h fw \<Rightarrow> 'h fw" where
  "Endpoint_Write_16_BE E Data s =
     wr E UEDATX (ucast (Data AND 0xFF)) (wr E UEDATX (ucast (drop_bit 8 Data)) s)"

definition Endpoint_Discard_16 :: "'h env \<Rightarrow> 'h fw \<Rightarrow> 'h fw" where
  "Endpoint_Discard_16 E s = snd (rd E UEDATX (snd (rd E UEDATX s)))"

definition Endpoint_Read_32_LE :: "'h env \<Rightarrow> 'h fw \<Rightarrow> u32 \<times> 'h fw" where
  "Endpoint_Read_32_LE E s =
     (let (b0, s) = rd E UEDATX s; (b1, s) = rd E UEDATX s;
          (b2, s) = rd E UEDATX s; (b3, s) = rd E UEDATX s
      in (of_le32 b0 b1 b2 b3, s))"

definition Endpoint_Read_32_BE :: "'h env \<Rightarrow> 'h fw \<Rightarrow> u32 \<times> 'h fw" where
  "Endpoint_Read_32_BE E s =
     (let (b3, s) = rd E UEDATX s; (b2, s) = rd E UEDATX s;
          (b1, s) = rd E UEDATX s; (b0, s) = rd E UEDATX s
      in (of_le32 b0 b1 b2 b3, s))"

definition Endpoint_Write_32_LE :: "'h env \<Rightarrow> u32 \<Rightarrow> 'h fw \<Rightarrow> 'h fw" where
  "Endpoint_Write_32_LE E Data s =
     (let s = wr E UEDATX (ucast (Data AND 0xFF)) s;
          s = wr E UEDATX (ucast (drop_bit 8 Data)) s;
          s = wr E UEDATX (ucast (drop_bit 16 Data)) s
      in wr E UEDATX (ucast (drop_bit 24 Data)) s)"

definition Endpoint_Write_32_BE :: "'h env \<Rightarrow> u32 \<Rightarrow> 'h fw \<Rightarrow> 'h fw" where
  "Endpoint_Write_32_BE E Data s =
     (let s = wr E UEDATX (ucast (drop_bit 24 Data)) s;
          s = wr E UEDATX (ucast (drop_bit 16 Data)) s;
          s = wr E UEDATX (ucast (drop_bit 8 Data)) s
      in wr E UEDATX (ucast (Data AND 0xFF)) s)"

definition Endpoint_Discard_32 :: "'h env \<Rightarrow> 'h fw \<Rightarrow> 'h fw" where
  "Endpoint_Discard_32 E s =
     snd (rd E UEDATX (snd (rd E UEDATX (snd (rd E UEDATX (snd (rd E UEDATX s)))))))"

section \<open>Configuration\<close>

text \<open>
  One iteration of the loop of \<open>Endpoint_ConfigureEndpoint_Prv\<close>, False for the early
  \<open>return false\<close>; the loop itself, over the list of the remaining values of \<open>EPNum\<close>.
\<close>

definition ConfigureEndpoint_body ::
  "'h env \<Rightarrow> u8 \<Rightarrow> u8 \<Rightarrow> u8 \<Rightarrow> u8 \<Rightarrow> 'h fw \<Rightarrow> bool \<times> 'h fw" where
  "ConfigureEndpoint_body E Number UECFG0XData UECFG1XData EPNum s =
     (let s = Endpoint_SelectEndpoint E EPNum s;
          (UECFG0XTemp, UECFG1XTemp, UEIENXTemp, s) =
            (if EPNum = Number then (UECFG0XData, UECFG1XData, 0, s)
             else let (a, s) = rd E UECFG0X s; (b, s) = rd E UECFG1X s; (c, s) = rd E UEIENX s
                  in (a, b, c, s))
      in if UECFG1XTemp AND BV ALLOC = 0 then (True, s)
         else
           let s = Endpoint_DisableEndpoint E s;
               s = clear_bits_in E UECFG1X (BV ALLOC) s;
               s = Endpoint_EnableEndpoint E s;
               s = wr E UECFG0X UECFG0XTemp s;
               s = wr E UECFG1X UECFG1XTemp s;
               s = wr E UEIENX UEIENXTemp s
           in Endpoint_IsConfigured E s)"

fun ConfigureEndpoint_loop ::
  "'h env \<Rightarrow> u8 \<Rightarrow> u8 \<Rightarrow> u8 \<Rightarrow> u8 list \<Rightarrow> 'h fw \<Rightarrow> bool \<times> 'h fw" where
  "ConfigureEndpoint_loop E Number UECFG0XData UECFG1XData [] s = (True, s)"
| "ConfigureEndpoint_loop E Number UECFG0XData UECFG1XData (EPNum # EPs) s =
     (let (ok, s) = ConfigureEndpoint_body E Number UECFG0XData UECFG1XData EPNum s
      in if \<not> ok then (False, s)
         else ConfigureEndpoint_loop E Number UECFG0XData UECFG1XData EPs s)"

definition endpoint_numbers :: "u8 \<Rightarrow> u8 list" where
  "endpoint_numbers Number = map of_nat [unat Number ..< unat ENDPOINT_TOTAL_ENDPOINTS]"

definition Endpoint_ConfigureEndpoint_Prv ::
  "'h env \<Rightarrow> u8 \<Rightarrow> u8 \<Rightarrow> u8 \<Rightarrow> 'h fw \<Rightarrow> bool \<times> 'h fw" where
  "Endpoint_ConfigureEndpoint_Prv E Number UECFG0XData UECFG1XData s =
     (let (ok, s) =
        ConfigureEndpoint_loop E Number UECFG0XData UECFG1XData (endpoint_numbers Number) s
      in if \<not> ok then (False, s) else (True, Endpoint_SelectEndpoint E Number s))"

definition Endpoint_ConfigureEndpoint ::
  "'h env \<Rightarrow> u8 \<Rightarrow> u8 \<Rightarrow> u16 \<Rightarrow> u8 \<Rightarrow> 'h fw \<Rightarrow> (bool \<times> 'h fw) option" where
  "Endpoint_ConfigureEndpoint E Address Type Size Banks s =
     (let Number = Address AND ENDPOINT_EPNUM_MASK
      in if ENDPOINT_TOTAL_ENDPOINTS \<le> Number then Some (False, s)
         else do {
           SizeMask \<leftarrow> Endpoint_BytesToEPSizeMask Size;
           Some (Endpoint_ConfigureEndpoint_Prv E Number
             (push_bit EPTYPE0 Type OR (if Address AND ENDPOINT_DIR_IN \<noteq> 0 then BV EPDIR else 0))
             (BV ALLOC OR (if 1 < Banks then BV EPBK0 else 0) OR SizeMask) s) })"

fun Endpoint_ConfigureEndpointTable ::
  "'h env \<Rightarrow> USB_Endpoint_Table_t list \<Rightarrow> 'h fw \<Rightarrow> (bool \<times> 'h fw) option" where
  "Endpoint_ConfigureEndpointTable E [] s = Some (True, s)"
| "Endpoint_ConfigureEndpointTable E (t # ts) s =
     (if ept_Address t = 0 then Endpoint_ConfigureEndpointTable E ts s
      else do {
        (ok, s) \<leftarrow> Endpoint_ConfigureEndpoint E (ept_Address t) (ept_Type t) (ept_Size t) (ept_Banks t) s;
        if \<not> ok then Some (False, s) else Endpoint_ConfigureEndpointTable E ts s })"

fun ClearEndpoints_loop :: "'h env \<Rightarrow> u8 list \<Rightarrow> 'h fw \<Rightarrow> 'h fw" where
  "ClearEndpoints_loop E [] s = s"
| "ClearEndpoints_loop E (EPNum # EPs) s =
     (let s = Endpoint_SelectEndpoint E EPNum s;
          s = wr E UEIENX 0 s;
          s = wr E UEINTX 0 s;
          s = wr E UECFG1X 0 s
      in ClearEndpoints_loop E EPs (Endpoint_DisableEndpoint E s))"

definition Endpoint_ClearEndpoints :: "'h env \<Rightarrow> 'h fw \<Rightarrow> 'h fw" where
  "Endpoint_ClearEndpoints E s = ClearEndpoints_loop E (endpoint_numbers 0) (wr E UEINT 0 s)"

section \<open>Register footprints\<close>

text \<open>
  No routine of this theory changes a variable of the firmware; the registers each one accesses are
  recorded in the collection \<open>touch\<close>.
\<close>

lemmas endpoint_query_defs =
  Endpoint_IsEnabled_def Endpoint_IsReadWriteAllowed_def Endpoint_IsConfigured_def
  Endpoint_IsINReady_def Endpoint_IsOUTReceived_def Endpoint_IsSETUPReceived_def Endpoint_IsStalled_def

lemmas endpoint_command_defs =
  Endpoint_EnableEndpoint_def Endpoint_DisableEndpoint_def Endpoint_ClearSETUP_def
  Endpoint_ClearIN_def Endpoint_ClearOUT_def Endpoint_StallTransaction_def Endpoint_ClearStall_def
  Endpoint_ResetDataToggle_def

lemma endpoint_query_touches [touch]:
  "UECONX \<in> R \<Longrightarrow> touches R s (snd (Endpoint_IsEnabled E s))"
  "UEINTX \<in> R \<Longrightarrow> touches R s (snd (Endpoint_IsReadWriteAllowed E s))"
  "UESTA0X \<in> R \<Longrightarrow> touches R s (snd (Endpoint_IsConfigured E s))"
  "UEINTX \<in> R \<Longrightarrow> touches R s (snd (Endpoint_IsINReady E s))"
  "UEINTX \<in> R \<Longrightarrow> touches R s (snd (Endpoint_IsOUTReceived E s))"
  "UEINTX \<in> R \<Longrightarrow> touches R s (snd (Endpoint_IsSETUPReceived E s))"
  "UECONX \<in> R \<Longrightarrow> touches R s (snd (Endpoint_IsStalled E s))"
  by (simp_all add: endpoint_query_defs touch)

lemma endpoint_command_touches [touch]:
  "UECONX \<in> R \<Longrightarrow> touches R s (Endpoint_EnableEndpoint E s)"
  "UECONX \<in> R \<Longrightarrow> touches R s (Endpoint_DisableEndpoint E s)"
  "UEINTX \<in> R \<Longrightarrow> touches R s (Endpoint_ClearSETUP E s)"
  "UEINTX \<in> R \<Longrightarrow> touches R s (Endpoint_ClearIN E s)"
  "UEINTX \<in> R \<Longrightarrow> touches R s (Endpoint_ClearOUT E s)"
  "UECONX \<in> R \<Longrightarrow> touches R s (Endpoint_StallTransaction E s)"
  "UECONX \<in> R \<Longrightarrow> touches R s (Endpoint_ClearStall E s)"
  "UECONX \<in> R \<Longrightarrow> touches R s (Endpoint_ResetDataToggle E s)"
  by (simp_all add: endpoint_command_defs touch)

lemma SelectEndpoint_touches [touch]: "UENUM \<in> R \<Longrightarrow> touches R s (Endpoint_SelectEndpoint E a s)"
  by (simp add: Endpoint_SelectEndpoint_def touch)

lemma ResetEndpoint_touches [touch]: "UERST \<in> R \<Longrightarrow> touches R s (Endpoint_ResetEndpoint E a s)"
  by (auto simp: Endpoint_ResetEndpoint_def intro: touches_trans touch)

lemma GetEndpointDirection_touches [touch]:
  "UECFG0X \<in> R \<Longrightarrow> touches R s (snd (Endpoint_GetEndpointDirection E s))"
  by (simp add: Endpoint_GetEndpointDirection_def Let_def split_beta touch)

lemma GetCurrentEndpoint_touches [touch]:
  "UENUM \<in> R \<Longrightarrow> UECFG0X \<in> R \<Longrightarrow> touches R s (snd (Endpoint_GetCurrentEndpoint E s))"
  by (auto simp: Endpoint_GetCurrentEndpoint_def Let_def split_beta intro: touches_trans touch)

lemma BytesInEndpoint_touches [touch]:
  "UEBCHX \<in> R \<Longrightarrow> UEBCLX \<in> R \<Longrightarrow> touches R s (snd (Endpoint_BytesInEndpoint E s))"
  by (auto simp: Endpoint_BytesInEndpoint_def Let_def split_beta intro: touches_trans touch)

definition config_regs :: "ioreg set" where
  "config_regs = {UENUM, UECONX, UECFG0X, UECFG1X, UEIENX, UESTA0X}"

lemma UEDATX_config_regs [simp]: "UEDATX \<notin> config_regs"
  by (simp add: config_regs_def)

lemma ConfigureEndpoint_body_touches: "touches config_regs s (snd (ConfigureEndpoint_body E N a b ep s))"
proof -
  have "{UENUM, UECONX, UECFG0X, UECFG1X, UEIENX, UESTA0X} \<subseteq> config_regs"
    by (simp add: config_regs_def)
  then show ?thesis
    by (auto simp: ConfigureEndpoint_body_def Let_def split_beta
        intro!: touches_trans [OF _ endpoint_query_touches(3)]
          touches_trans [OF _ wr_touches] touches_trans [OF _ endpoint_command_touches(1)]
          touches_trans [OF _ endpoint_command_touches(2)] touches_trans [OF _ clear_bits_in_touches]
          touches_trans [OF _ rd_touches] SelectEndpoint_touches)
qed

lemma ConfigureEndpoint_loop_touches:
  "touches config_regs s (snd (ConfigureEndpoint_loop E N a b eps s))"
  by (induction eps arbitrary: s)
    (auto simp: Let_def split_beta intro: touches_trans ConfigureEndpoint_body_touches)

lemma ConfigureEndpoint_Prv_touches:
  "touches config_regs s (snd (Endpoint_ConfigureEndpoint_Prv E N a b s))"
  by (auto simp: Endpoint_ConfigureEndpoint_Prv_def Let_def split_beta config_regs_def
      intro!: ConfigureEndpoint_loop_touches [unfolded config_regs_def] SelectEndpoint_touches
      intro: touches_trans)

lemma ConfigureEndpoint_touches:
  "Endpoint_ConfigureEndpoint E Address Type Size Banks s = Some (ok, s') \<Longrightarrow> touches config_regs s s'"
  by (auto simp: Endpoint_ConfigureEndpoint_def Let_def bind_eq_Some_conv split: if_splits)
    (metis ConfigureEndpoint_Prv_touches snd_conv)+

lemma ConfigureEndpointTable_touches:
  "Endpoint_ConfigureEndpointTable E ts s = Some (ok, s') \<Longrightarrow> touches config_regs s s'"
proof (induction ts arbitrary: s)
  case (Cons t ts)
  then show ?case
    by (fastforce simp: bind_eq_Some_conv split: if_splits dest: ConfigureEndpoint_touches intro: touches_trans)
qed simp

end
