(* ===== verification/EndpointFacts.thy ===== *)
theory EndpointFacts
  imports Endpoint LibCommon
begin

text \<open>
  Correctness of endpoint management: the size code of \<open>Endpoint_BytesToEPSizeMask\<close>, the byte order
  of the 16- and 32-bit FIFO accesses, and the effect of \<open>Endpoint_ConfigureEndpoint\<close> on the banked
  configuration registers of all endpoints.
\<close>

section \<open>Endpoint size codes\<close>

lemma EPSizeMask_stuck_ind:
  assumes "EPSizeMask_loop Bytes m c = Some r"
  shows "c = 0 \<longrightarrow> Bytes = 0"
  by (rule EPSizeMask_loop.raw_induct [where P = "\<lambda>B m c r. c = 0 \<longrightarrow> B = 0", OF _ assms])
    (auto split: if_splits simp: word_gt_0)

lemma EPSizeMask_stuck: "Bytes \<noteq> 0 \<Longrightarrow> EPSizeMask_loop Bytes m 0 = None"
  using EPSizeMask_stuck_ind [of Bytes m 0] by (cases "EPSizeMask_loop Bytes m 0") auto

definition size_code :: "nat \<Rightarrow> nat" where
  "size_code n = (LEAST m. n \<le> 8 * 2 ^ m)"

lemma size_code_le: "n \<le> 8 * 2 ^ k \<Longrightarrow> size_code n \<le> k"
  unfolding size_code_def by (rule Least_le)

lemma size_code_fits: "n \<le> 8 * 2 ^ size_code n"
proof -
  have "n \<le> 8 * 2 ^ n"
    using less_exp [of n] by (rule order.strict_implies_order [THEN order_trans]) simp
  then show ?thesis
    unfolding size_code_def by (rule LeastI)
qed

lemma size_code_eq: "n \<le> 8 * 2 ^ k \<Longrightarrow> (\<And>j. j < k \<Longrightarrow> 8 * 2 ^ j < n) \<Longrightarrow> size_code n = k"
  by (metis size_code_fits size_code_le le_neq_implies_less not_less)

lemma unat_check_bytes:
  assumes "k \<le> 12"
  shows "unat (push_bit k 8 :: u16) = 8 * 2 ^ k"
proof -
  have "(2 :: nat) ^ k \<le> 2 ^ 12"
    using assms by (rule power_increasing) simp
  then have "8 * 2 ^ k < (65536 :: nat)"
    by simp
  moreover have "(push_bit k 8 :: u16) = of_nat (8 * 2 ^ k)"
    by (simp add: push_bit_eq_mult mult.commute)
  ultimately show ?thesis
    by (simp only: unat_of_nat) simp
qed

lemma check_bytes_wraps: "push_bit 1 (push_bit 12 8 :: u16) = 0"
  by (simp add: push_bit_eq_mult)

lemma EPSizeMask_loop_spec:
  assumes "k \<le> 12" "\<And>j. j < k \<Longrightarrow> 8 * 2 ^ j < unat Bytes"
  shows "EPSizeMask_loop Bytes (of_nat k) (push_bit k 8) =
    (if unat Bytes \<le> 32768 then Some (of_nat (size_code (unat Bytes))) else None)"
  using assms
proof (induction "12 - k" arbitrary: k)
  case 0
  then have k: "k = 12"
    by simp
  show ?case
  proof (cases "unat Bytes \<le> 32768")
    case True
    then have "size_code (unat Bytes) = 12"
      using 0 k by (intro size_code_eq) auto
    then show ?thesis
      using True unat_check_bytes [of 12] k
      by (subst EPSizeMask_loop.simps) (simp add: word_less_nat_alt)
  next
    case False
    then have "Bytes \<noteq> 0"
      by auto
    then show ?thesis
      using False unat_check_bytes [of 12] k
      by (subst EPSizeMask_loop.simps) (simp only: word_less_nat_alt check_bytes_wraps, simp add: EPSizeMask_stuck)
  qed
next
  case (Suc d)
  then have k: "k < 12" "d = 12 - Suc k"
    by auto
  show ?case
  proof (cases "unat Bytes \<le> 8 * 2 ^ k")
    case True
    have "(2 :: nat) ^ k \<le> 2 ^ 12"
      using k by (intro power_increasing) auto
    then have "unat Bytes \<le> 32768"
      using True by simp
    then show ?thesis
      using True size_code_eq [OF True Suc.prems(2)] unat_check_bytes [of k] k
      by (subst EPSizeMask_loop.simps) (simp add: word_less_nat_alt)
  next
    case False
    have "\<And>j. j < Suc k \<Longrightarrow> 8 * 2 ^ j < unat Bytes"
      using False Suc.prems(2) by (auto simp: less_Suc_eq)
    from Suc.hyps(1) [OF k(2) _ this] k show ?thesis
      using False unat_check_bytes [of k]
      by (subst EPSizeMask_loop.simps) (simp add: word_less_nat_alt add.commute)
  qed
qed

lemma BytesToEPSizeMask_spec:
  "Endpoint_BytesToEPSizeMask Bytes =
     (if unat Bytes \<le> 32768 then Some (push_bit 4 (of_nat (size_code (unat Bytes)))) else None)"
  using EPSizeMask_loop_spec [of 0 Bytes] by (simp add: Endpoint_BytesToEPSizeMask_def)

section \<open>Banked configuration registers\<close>

text \<open>
  What the data sheet says of the configuration registers: \<open>UENUM\<close> selects the endpoint whose bank
  the other registers address, and \<open>UECFG0X\<close>, \<open>UECFG1X\<close> and \<open>UEIENX\<close> hold per endpoint what was last
  written. \<open>sel\<close> and \<open>bank\<close> are observers of the peripheral.
\<close>

definition stored_regs :: "ioreg set" where
  "stored_regs = {UECFG0X, UECFG1X, UEIENX}"

definition banked_registers ::
  "'h env \<Rightarrow> ('h \<Rightarrow> u8) \<Rightarrow> ('h \<Rightarrow> u8 \<Rightarrow> ioreg \<Rightarrow> u8) \<Rightarrow> bool" where
  "banked_registers E sel bank \<longleftrightarrow>
     (\<forall>h. \<forall>r \<in> stored_regs. fst (io_read E r h) = bank h (sel h) r) \<and>
     (\<forall>h. \<forall>r \<in> stored_regs \<union> {UECONX, UESTA0X}.
        sel (snd (io_read E r h)) = sel h \<and> bank (snd (io_read E r h)) = bank h) \<and>
     (\<forall>h v. \<forall>r \<in> stored_regs. sel (io_write E r v h) = sel h \<and>
        bank (io_write E r v h) = (bank h)(sel h := (bank h (sel h))(r := v))) \<and>
     (\<forall>h v. sel (io_write E UECONX v h) = sel h \<and> bank (io_write E UECONX v h) = bank h) \<and>
     (\<forall>h v. v < 7 \<longrightarrow> sel (io_write E UENUM v h) = v \<and> bank (io_write E UENUM v h) = bank h)"

lemma banked_rd:
  assumes "banked_registers E sel bank"
  shows "r \<in> stored_regs \<Longrightarrow> fst (rd E r s) = bank (hw s) (sel (hw s)) r"
    "r \<in> stored_regs \<union> {UECONX, UESTA0X} \<Longrightarrow> sel (hw (snd (rd E r s))) = sel (hw s)"
    "r \<in> stored_regs \<union> {UECONX, UESTA0X} \<Longrightarrow> bank (hw (snd (rd E r s))) = bank (hw s)"
  using assms by (auto simp: banked_registers_def rd_def split_beta)

lemma banked_wr:
  assumes "banked_registers E sel bank"
  shows "r \<in> stored_regs \<union> {UECONX} \<Longrightarrow> sel (hw (wr E r v s)) = sel (hw s)"
    "r \<in> stored_regs \<Longrightarrow>
      bank (hw (wr E r v s)) = (bank (hw s))(sel (hw s) := (bank (hw s) (sel (hw s)))(r := v))"
    "bank (hw (wr E UECONX v s)) = bank (hw s)"
    "v < 7 \<Longrightarrow> sel (hw (wr E UENUM v s)) = v" "v < 7 \<Longrightarrow> bank (hw (wr E UENUM v s)) = bank (hw s)"
  using assms by (auto simp: banked_registers_def wr_def)

lemma stored_regs_simps [simp]:
  "UECFG0X \<in> stored_regs" "UECFG1X \<in> stored_regs" "UEIENX \<in> stored_regs"
  by (simp_all add: stored_regs_def)

lemma banked_commands:
  assumes "banked_registers E sel bank"
  shows "sel (hw (Endpoint_EnableEndpoint E s)) = sel (hw s)"
    "bank (hw (Endpoint_EnableEndpoint E s)) = bank (hw s)"
    "sel (hw (Endpoint_DisableEndpoint E s)) = sel (hw s)"
    "bank (hw (Endpoint_DisableEndpoint E s)) = bank (hw s)"
    "sel (hw (snd (Endpoint_IsConfigured E s))) = sel (hw s)"
    "bank (hw (snd (Endpoint_IsConfigured E s))) = bank (hw s)"
  by (simp_all add: endpoint_command_defs endpoint_query_defs set_bits_in_def clear_bits_in_def
      test_bits_def Let_def split_beta banked_rd [OF assms] banked_wr [OF assms])

lemma banked_clear_UECFG1X:
  assumes "banked_registers E sel bank"
  shows "sel (hw (clear_bits_in E UECFG1X m s)) = sel (hw s)"
    "bank (hw (clear_bits_in E UECFG1X m s)) = (bank (hw s))(sel (hw s) :=
       (bank (hw s) (sel (hw s)))(UECFG1X := bank (hw s) (sel (hw s)) UECFG1X AND NOT m))"
  by (simp_all add: clear_bits_in_def Let_def split_beta banked_rd [OF assms] banked_wr [OF assms])

lemma EPNum_and_mask:
  assumes "(n :: u8) < 7"
  shows "n AND 0x0F = n"
proof -
  have "unat n \<in> {0, 1, 2, 3, 4, 5, 6}"
    using assms by (auto simp: word_less_nat_alt)
  then have "n \<in> {0, 1, 2, 3, 4, 5, 6}"
    by (auto dest!: arg_cong [where f = "of_nat :: nat \<Rightarrow> u8"])
  then show ?thesis
    by auto
qed

lemma banked_select:
  assumes "banked_registers E sel bank" "n < 7"
  shows "sel (hw (Endpoint_SelectEndpoint E n s)) = n"
    "bank (hw (Endpoint_SelectEndpoint E n s)) = bank (hw s)"
  using assms banked_wr(4,5) [OF assms(1)] by (simp_all add: Endpoint_SelectEndpoint_def EPNum_and_mask)

lemmas banked = banked_rd banked_wr banked_commands banked_clear_UECFG1X banked_select

lemma ConfigureEndpoint_body_banked:
  assumes "banked_registers E sel bank" "bit UECFG1XData ALLOC" "ep < 7" "r \<in> stored_regs"
  shows "bank (hw (snd (ConfigureEndpoint_body E N UECFG0XData UECFG1XData ep s))) e r =
    (if ep = N \<and> e = N then (if r = UECFG0X then UECFG0XData else if r = UECFG1X then UECFG1XData else 0)
     else bank (hw s) e r)"
proof -
  have "UECFG1XData AND 2 \<noteq> 0"
    using assms(2) and_BV_eq_0 [of UECFG1XData 1] by simp
  then show ?thesis
    using assms(3,4)
    by (auto simp: ConfigureEndpoint_body_def Let_def split_beta banked [OF assms(1)] stored_regs_def)
qed

lemma ConfigureEndpoint_loop_banked:
  assumes "banked_registers E sel bank" "bit UECFG1XData ALLOC" "r \<in> stored_regs"
    and "\<forall>n \<in> set eps. n < 7" "N \<notin> set eps \<or> e \<noteq> N"
  shows "bank (hw (snd (ConfigureEndpoint_loop E N UECFG0XData UECFG1XData eps s))) e r = bank (hw s) e r"
  using assms(4-)
proof (induction eps arbitrary: s)
  case (Cons ep eps)
  have "bank (hw (snd (ConfigureEndpoint_body E N UECFG0XData UECFG1XData ep s))) e r = bank (hw s) e r"
    using Cons.prems by (auto simp: ConfigureEndpoint_body_banked [OF assms(1,2) _ assms(3)])
  then show ?case
    using Cons by (auto simp: Let_def split_beta)
qed simp

lemma endpoint_numbers_Cons:
  assumes "N < 7"
  shows "\<exists>eps. endpoint_numbers N = N # eps \<and> N \<notin> set eps \<and> (\<forall>n \<in> set eps. n < 7)"
proof (intro exI conjI)
  have N: "unat N < 7"
    using assms by (simp add: word_less_nat_alt)
  show "endpoint_numbers N = N # map of_nat [Suc (unat N) ..< 7]"
    using N by (simp add: endpoint_numbers_def upt_conv_Cons)
  have small: "unat (of_nat i :: u8) = i" if "i < 7" for i
    using that by (simp add: unat_of_nat)
  show "N \<notin> set (map of_nat [Suc (unat N) ..< 7])"
    using small by fastforce
  show "\<forall>n \<in> set (map of_nat [Suc (unat N) ..< 7]). (n :: u8) < 7"
    using small by (auto simp: word_less_nat_alt)
qed

lemma ConfigureEndpoint_Prv_banked:
  assumes "banked_registers E sel bank" "bit D1 ALLOC" "N < 7"
    and "Endpoint_ConfigureEndpoint_Prv E N D0 D1 s = (ok, s')"
  shows "r \<in> stored_regs \<Longrightarrow> bank (hw s') e r =
      (if e = N then (if r = UECFG0X then D0 else if r = UECFG1X then D1 else 0) else bank (hw s) e r)"
    "ok \<Longrightarrow> sel (hw s') = N"
proof -
  obtain eps where eps: "endpoint_numbers N = N # eps" "N \<notin> set eps" "\<forall>n \<in> set eps. n < 7"
    using endpoint_numbers_Cons [OF assms(3)] by blast
  show "ok \<Longrightarrow> sel (hw s') = N"
    using assms(3,4)
    by (auto simp: Endpoint_ConfigureEndpoint_Prv_def Let_def split_beta banked [OF assms(1)] split: if_splits)
  assume r: "r \<in> stored_regs"
  define X where "X = (if e = N then (if r = UECFG0X then D0 else if r = UECFG1X then D1 else 0)
    else bank (hw s) e r)"
  have "bank (hw (snd (ConfigureEndpoint_body E N D0 D1 N s))) e r = X"
    using ConfigureEndpoint_body_banked [OF assms(1-3) r, of N D0 s e] by (simp add: X_def)
  then have "bank (hw (snd (ConfigureEndpoint_loop E N D0 D1 (endpoint_numbers N) s))) e r = X"
    using eps ConfigureEndpoint_loop_banked [OF assms(1,2) r eps(3), of N e] by (simp add: Let_def split_beta)
  then have "bank (hw s') e r = X"
    using assms(3,4)
    by (auto simp: Endpoint_ConfigureEndpoint_Prv_def Let_def split_beta banked [OF assms(1)] split: if_splits)
  then show "bank (hw s') e r =
      (if e = N then (if r = UECFG0X then D0 else if r = UECFG1X then D1 else 0) else bank (hw s) e r)"
    by (simp only: X_def)
qed

section \<open>The concrete register file is banked\<close>

definition regfile_bank :: "regfile \<Rightarrow> u8 \<Rightarrow> ioreg \<Rightarrow> u8" where
  "regfile_bank h e r = (if r \<in> stored_regs then reg_val h (e, r) else 0)"

lemma regfile_banked: "banked_registers regfile_env fst regfile_bank"
  by (auto simp: banked_registers_def regfile_env_def regfile_bank_def stored_regs_def fun_eq_iff
      reg_key_def reg_val_def)

section \<open>Properties\<close>

lemma mask_8: "mask 8 = (0xFF :: 'a :: len word)"
  by (simp add: mask_eq_exp_minus_1)

text \<open>
  C32: \<open>Endpoint_BytesToEPSizeMask\<close> returns, at the position of the \<open>EPSIZE\<close> field, the least code whose
  bank size of 8, 16, 32, ... bytes holds the requested number of bytes. It returns for every
  request up to 32768 bytes, and for no larger one: there the 16-bit loop counter wraps to zero.
\<close>

theorem BytesToEPSizeMask_least:
  "Endpoint_BytesToEPSizeMask Bytes =
     (if Bytes \<le> 32768 then Some (push_bit EPSIZE0 (of_nat (LEAST m. unat Bytes \<le> 8 * 2 ^ m)))
      else None)"
  using BytesToEPSizeMask_spec [of Bytes] by (simp add: size_code_def word_le_nat_alt)

text \<open>
  C31: on a peripheral with banked configuration registers, \<open>Endpoint_ConfigureEndpoint\<close> returns, writes
  the requested type, direction, size and bank count into the registers of its own endpoint with its
  interrupts off, and leaves the configuration of every other endpoint as it was although it
  deallocates and reallocates the higher ones; when it reports success its endpoint is selected.
  No variable of the firmware changes.
\<close>

theorem ConfigureEndpoint_configures:
  assumes "banked_registers E sel bank" "Address AND ENDPOINT_EPNUM_MASK = N" "N < 7" "Size \<le> 32768"
  shows "\<exists>ok s' m. Endpoint_ConfigureEndpoint E Address Type Size Banks s = Some (ok, s') \<and>
    Endpoint_BytesToEPSizeMask Size = Some m \<and>
    bank (hw s') N UECFG0X = push_bit EPTYPE0 Type OR (if Address AND ENDPOINT_DIR_IN \<noteq> 0 then BV EPDIR else 0) \<and>
    bank (hw s') N UECFG1X = BV ALLOC OR (if 1 < Banks then BV EPBK0 else 0) OR m \<and>
    bank (hw s') N UEIENX = 0 \<and>
    (\<forall>e. e = N \<or> (\<forall>r \<in> stored_regs. bank (hw s') e r = bank (hw s) e r)) \<and>
    (ok \<longrightarrow> sel (hw s') = N) \<and> touches config_regs s s'"
proof -
  define D0 where "D0 = push_bit EPTYPE0 Type OR (if Address AND ENDPOINT_DIR_IN \<noteq> 0 then BV EPDIR else 0)"
  obtain m where m: "Endpoint_BytesToEPSizeMask Size = Some m"
    using assms(4) by (auto simp: BytesToEPSizeMask_spec word_le_nat_alt)
  define D1 where "D1 = BV ALLOC OR (if 1 < Banks then BV EPBK0 else 0) OR m"
  have alloc: "bit D1 ALLOC"
    by (auto simp: D1_def bit_simps)
  obtain ok s' where p: "Endpoint_ConfigureEndpoint_Prv E N D0 D1 s = (ok, s')"
    by (cases "Endpoint_ConfigureEndpoint_Prv E N D0 D1 s")
  have c: "Endpoint_ConfigureEndpoint E Address Type Size Banks s = Some (ok, s')"
    using assms(2,3) m p by (auto simp: Endpoint_ConfigureEndpoint_def D0_def D1_def dest: leD)
  note b = ConfigureEndpoint_Prv_banked [OF assms(1) alloc assms(3) p]
  have "bank (hw s') N UECFG0X = D0 \<and> bank (hw s') N UECFG1X = D1 \<and> bank (hw s') N UEIENX = 0 \<and>
    (\<forall>e. e = N \<or> (\<forall>r \<in> stored_regs. bank (hw s') e r = bank (hw s) e r)) \<and> (ok \<longrightarrow> sel (hw s') = N)"
    using b by simp
  then show ?thesis
    using c m ConfigureEndpoint_touches [OF c] unfolding D0_def D1_def by blast
qed

theorem ConfigureEndpoint_configures_witness:
  "\<exists>ok s' m. Endpoint_ConfigureEndpoint regfile_env 0x81 3 32 1 (demo_fw (0, [])) = Some (ok, s') \<and>
    reg_val (hw s') (1, UECFG0X) = 0xC1 \<and> reg_val (hw s') (1, UECFG1X) = 2 OR m \<and>
    reg_val (hw s') (2, UECFG1X) = 0"
proof -
  obtain ok s' m where c: "Endpoint_ConfigureEndpoint regfile_env 0x81 3 32 1 (demo_fw (0, [])) = Some (ok, s')"
    and b: "regfile_bank (hw s') 1 UECFG0X = 0xC1" "regfile_bank (hw s') 1 UECFG1X = 2 OR m"
    and o: "\<forall>e. e = 1 \<or> (\<forall>r \<in> stored_regs. regfile_bank (hw s') e r =
      regfile_bank (hw (demo_fw (0, []))) e r)"
    using ConfigureEndpoint_configures [OF regfile_banked, of "0x81" 1 32 3 1 "demo_fw (0, [])"]
    by auto
  from o have "regfile_bank (hw s') 2 UECFG1X = 0"
    by (auto dest!: spec [of _ 2] simp: regfile_bank_def demo_fw_def stored_regs_def reg_val_def)
  with b c show ?thesis
    by (auto simp: regfile_bank_def)
qed

text \<open>
  C33: the 16- and 32-bit FIFO accesses keep the byte order their names say: the little-endian writers
  push the bytes of the value lowest first and the readers return the value whose bytes they popped
  in that order; the big-endian ones use the reverse order. So a value written by one side is the
  value read from the same bytes by the other.
\<close>

theorem Endpoint_word_order:
  "data_out (Endpoint_Write_16_LE E w s) = data_out s @ le16 w \<and>
   data_out (Endpoint_Write_16_BE E w s) = data_out s @ rev (le16 w) \<and>
   data_out (Endpoint_Write_32_LE E d s) = data_out s @ le32 d \<and>
   data_out (Endpoint_Write_32_BE E d s) = data_out s @ rev (le32 d) \<and>
   data_in (snd (Endpoint_Read_16_LE E s)) = data_in s @ le16 (fst (Endpoint_Read_16_LE E s)) \<and>
   data_in (snd (Endpoint_Read_16_BE E s)) = data_in s @ rev (le16 (fst (Endpoint_Read_16_BE E s))) \<and>
   data_in (snd (Endpoint_Read_32_LE E s)) = data_in s @ le32 (fst (Endpoint_Read_32_LE E s)) \<and>
   data_in (snd (Endpoint_Read_32_BE E s)) = data_in s @ rev (le32 (fst (Endpoint_Read_32_BE E s)))"
proof -
  have b: "ucast (w AND 0xFF) = (ucast w :: u8)" "ucast (d AND 0xFF) = (ucast d :: u8)"
    by (simp_all add: bit_eq_iff bit_simps flip: mask_8)
  show ?thesis
    by (simp add: Endpoint_Write_16_LE_def Endpoint_Write_16_BE_def Endpoint_Write_32_LE_def
        Endpoint_Write_32_BE_def Endpoint_Read_16_LE_def Endpoint_Read_16_BE_def
        Endpoint_Read_32_LE_def Endpoint_Read_32_BE_def Let_def split_beta le16_of_le16 le32_of_le32 b
        le16_def [of w] le32_def [of d])
qed

end
