(* ===== verification/Board.thy ===== *)
theory Board
  imports Hardware
begin

text \<open>
  The board drivers of the joystick hardware (\<open>Board/LEDs.h\<close>, \<open>Board/Buttons.h\<close>,
  \<open>Board/Joystick.h\<close>): port E drives the LED, port B reads the buttons, port D is an output port.
\<close>

section \<open>LEDs\<close>

definition LEDS_LED1 :: u8 where "LEDS_LED1 = BV 6"
definition LEDS_LED2 :: u8 where "LEDS_LED2 = 0"
definition LEDS_LED3 :: u8 where "LEDS_LED3 = 0"
definition LEDS_LED4 :: u8 where "LEDS_LED4 = 0"
definition LEDS_ALL_LEDS :: u8 where
  "LEDS_ALL_LEDS = LEDS_LED1 OR LEDS_LED2 OR LEDS_LED3 OR LEDS_LED4"

definition LEDs_Init :: "'h env \<Rightarrow> 'h fw \<Rightarrow> 'h fw" where
  "LEDs_Init E s = wr E DDRE 0xFF s"

definition LEDs_Disable :: "'h env \<Rightarrow> 'h fw \<Rightarrow> 'h fw" where
  "LEDs_Disable E s = wr E DDRE 0 s"

definition LEDs_TurnOnLEDs :: "'h env \<Rightarrow> u8 \<Rightarrow> 'h fw \<Rightarrow> 'h fw" where
  "LEDs_TurnOnLEDs E LEDMask s = set_bits_in E PORTE LEDMask s"

definition LEDs_TurnOffLEDs :: "'h env \<Rightarrow> u8 \<Rightarrow> 'h fw \<Rightarrow> 'h fw" where
  "LEDs_TurnOffLEDs E LEDMask s = clear_bits_in E PORTE LEDMask s"

definition LEDs_SetAllLEDs :: "'h env \<Rightarrow> u8 \<Rightarrow> 'h fw \<Rightarrow> 'h fw" where
  "LEDs_SetAllLEDs E LEDMask s = wr E PORTE 0xFF s"

definition LEDs_ChangeLEDs :: "'h env \<Rightarrow> u8 \<Rightarrow> u8 \<Rightarrow> 'h fw \<Rightarrow> 'h fw" where
  "LEDs_ChangeLEDs E LEDMask ActiveMask s = s"

text \<open>The locals of \<open>LEDs_ToggleLEDs\<close> are 16-bit integers; the store to the port keeps the low byte.\<close>

definition LEDs_ToggleLEDs :: "'h env \<Rightarrow> u8 \<Rightarrow> 'h fw \<Rightarrow> 'h fw" where
  "LEDs_ToggleLEDs E LEDMask s =
     (let (v, s) = rd E PORTE s;
          fixed_value = (ucast v :: u16) AND NOT (ucast LEDMask);
          (w, s) = rd E PORTE s;
          moving_value = (ucast w :: u16) AND ucast LEDMask;
          moving_value = NOT moving_value
      in wr E PORTE (ucast (moving_value OR fixed_value)) s)"

definition LEDs_GetLEDs :: "'h env \<Rightarrow> 'h fw \<Rightarrow> u8 \<times> 'h fw" where
  "LEDs_GetLEDs E s = rd E PORTE s"

section \<open>Buttons and joystick\<close>

definition Buttons_Init :: "'h env \<Rightarrow> 'h fw \<Rightarrow> 'h fw" where
  "Buttons_Init E s =
     (let s = wr E DDRB 0x00 s; s = wr E DDRD 0xFF s; s = wr E DDRF 0xFF s;
          s = wr E PORTB 0xFF s; s = wr E PORTD 0xFF s
      in wr E PORTF 0xFF s)"

definition Buttons_Disable :: "'h env \<Rightarrow> 'h fw \<Rightarrow> 'h fw" where
  "Buttons_Disable E s = s"

definition Buttons_GetStatus :: "'h env \<Rightarrow> 'h fw \<Rightarrow> u16 \<times> 'h fw" where
  "Buttons_GetStatus E s =
     (let (d, s) = rd E PIND s; (b, s) = rd E PINB s in (push_bit 8 (ucast d) OR ucast b, s))"

definition Joystick_Init :: "'h env \<Rightarrow> 'h fw \<Rightarrow> 'h fw" where
  "Joystick_Init E s = s"

definition Joystick_Disable :: "'h env \<Rightarrow> 'h fw \<Rightarrow> 'h fw" where
  "Joystick_Disable E s = s"

definition Joystick_GetStatus :: "'h env \<Rightarrow> 'h fw \<Rightarrow> u8 \<times> 'h fw" where
  "Joystick_GetStatus E s = (0, s)"

section \<open>Register footprints\<close>

lemma LEDs_SetAllLEDs_touches [touch]: "PORTE \<in> R \<Longrightarrow> touches R s (LEDs_SetAllLEDs E m s)"
  by (simp add: LEDs_SetAllLEDs_def touch)

lemma board_init_touches [touch]:
  "DDRE \<in> R \<Longrightarrow> touches R s (LEDs_Init E s)"
  "{DDRB, DDRD, DDRF, PORTB, PORTD, PORTF} \<subseteq> R \<Longrightarrow> touches R s (Buttons_Init E s)"
  by (auto simp: LEDs_Init_def Buttons_Init_def Let_def intro!: touches_trans [OF _ wr_touches] touch)

section \<open>Properties\<close>

text \<open>
  C34: \<open>LEDs_ToggleLEDs\<close> inverts the LEDs of its mask (when the port does not change between its two
  reads), but it also switches on every output outside the mask: the complement is taken
  after the port value has been restricted to the mask, so all the other bits become ones.
\<close>

theorem LEDs_ToggleLEDs_sets_others:
  assumes "rd E PORTE s = (v, s')" "rd E PORTE s' = (v, s'')"
  shows "\<exists>w. LEDs_ToggleLEDs E LEDMask s = wr E PORTE w s'' \<and>
    (\<forall>i < 8. bit w i = (if bit LEDMask i then \<not> bit v i else True))"
proof (intro exI conjI)
  show "LEDs_ToggleLEDs E LEDMask s = wr E PORTE
      (ucast (NOT ((ucast v :: u16) AND ucast LEDMask) OR (ucast v AND NOT (ucast LEDMask)))) s''"
    using assms by (simp add: LEDs_ToggleLEDs_def)
qed (auto simp: bit_simps)

theorem LEDs_ToggleLEDs_sets_others_witness:
  "reg_val (hw (LEDs_ToggleLEDs regfile_env (BV 6) (demo_fw (0, [((0, PORTE), 0x40)])))) (0, PORTE) = 0xBF"
proof -
  let ?s = "demo_fw (0, [((0, PORTE), 0x40)]) :: regfile fw"
  obtain w where w: "LEDs_ToggleLEDs regfile_env (BV 6) ?s =
      wr regfile_env PORTE w (snd (rd regfile_env PORTE (snd (rd regfile_env PORTE ?s))))"
    and b: "\<forall>i < 8. bit w i = (if bit (BV 6) i then \<not> bit (0x40 :: u8) i else True)"
    using LEDs_ToggleLEDs_sets_others [of regfile_env ?s "0x40" "snd (rd regfile_env PORTE ?s)"
      "snd (rd regfile_env PORTE (snd (rd regfile_env PORTE ?s)))" "BV 6"]
    by (auto simp: rd_def regfile_env_def reg_key_def reg_val_def demo_fw_def)
  have "w = NOT (BV 6)"
    by (rule bit_word_eqI) (use b in \<open>auto simp: bit_simps bit_BV simp flip: BV_eval\<close>)
  then show ?thesis
    unfolding w by (simp add: wr_def rd_def regfile_env_def reg_key_def reg_val_def demo_fw_def)
qed

end
