(* ===== verification/Device.thy ===== *)
theory Device
  imports Endpoint
begin

text \<open>
  The device-level inlines of the AVR8 port: interrupt sources (\<open>USBInterrupt_AVR8.h\<close>), clock, PLL,
  regulator and attachment control (\<open>USBController_AVR8.h\<close>), device address, frame number and the
  serial number read from the signature row (\<open>Device_AVR8.h\<close>, \<open>Device_AVR8.c\<close>).
\<close>

section \<open>Build options\<close>

abbreviation (input) USB_DEVICE_OPT_LOWSPEED :: u8 where "USB_DEVICE_OPT_LOWSPEED \<equiv> BV 0"
abbreviation (input) USB_DEVICE_OPT_FULLSPEED :: u8 where "USB_DEVICE_OPT_FULLSPEED \<equiv> 0"
abbreviation (input) USB_OPT_REG_DISABLED :: u8 where "USB_OPT_REG_DISABLED \<equiv> BV 1"
abbreviation (input) USB_OPT_REG_ENABLED :: u8 where "USB_OPT_REG_ENABLED \<equiv> 0"
abbreviation (input) USB_OPT_MANUAL_PLL :: u8 where "USB_OPT_MANUAL_PLL \<equiv> BV 2"
abbreviation (input) USB_OPT_AUTO_PLL :: u8 where "USB_OPT_AUTO_PLL \<equiv> 0"
abbreviation (input) USB_OPT_REG_KEEP_ENABLED :: u8 where "USB_OPT_REG_KEEP_ENABLED \<equiv> BV 3"

text \<open>\<open>USE_STATIC_OPTIONS\<close> of \<open>LUFAConfig.h\<close>, and the PLL prescaler for an 8 MHz clock.\<close>

definition USB_Options :: u8 where
  "USB_Options = USB_DEVICE_OPT_FULLSPEED OR USB_OPT_REG_ENABLED OR USB_OPT_AUTO_PLL"

definition USB_PLL_PSC :: u8 where
  "USB_PLL_PSC = 0"

section \<open>Interrupt sources\<close>

datatype USB_Interrupts_t =
  USB_INT_VBUSTI | USB_INT_WAKEUPI | USB_INT_SUSPI | USB_INT_EORSTI | USB_INT_SOFI | USB_INT_RXSTPI

fun USB_INT_Enable :: "'h env \<Rightarrow> USB_Interrupts_t \<Rightarrow> 'h fw \<Rightarrow> 'h fw" where
  "USB_INT_Enable E USB_INT_VBUSTI s = set_bits_in E USBCON (BV VBUSTE) s"
| "USB_INT_Enable E USB_INT_WAKEUPI s = set_bits_in E UDIEN (BV WAKEUPI) s"
| "USB_INT_Enable E USB_INT_SUSPI s = set_bits_in E UDIEN (BV SUSPI) s"
| "USB_INT_Enable E USB_INT_EORSTI s = set_bits_in E UDIEN (BV EORSTI) s"
| "USB_INT_Enable E USB_INT_SOFI s = set_bits_in E UDIEN (BV SOFI) s"
| "USB_INT_Enable E USB_INT_RXSTPI s = set_bits_in E UEIENX (BV RXSTPE) s"

fun USB_INT_Disable :: "'h env \<Rightarrow> USB_Interrupts_t \<Rightarrow> 'h fw \<Rightarrow> 'h fw" where
  "USB_INT_Disable E USB_INT_VBUSTI s = clear_bits_in E USBCON (BV VBUSTE) s"
| "USB_INT_Disable E USB_INT_WAKEUPI s = clear_bits_in E UDIEN (BV WAKEUPI) s"
| "USB_INT_Disable E USB_INT_SUSPI s = clear_bits_in E UDIEN (BV SUSPI) s"
| "USB_INT_Disable E USB_INT_EORSTI s = clear_bits_in E UDIEN (BV EORSTI) s"
| "USB_INT_Disable E USB_INT_SOFI s = clear_bits_in E UDIEN (BV SOFI) s"
| "USB_INT_Disable E USB_INT_RXSTPI s = clear_bits_in E UEIENX (BV RXSTPE) s"

fun USB_INT_Clear :: "'h env \<Rightarrow> USB_Interrupts_t \<Rightarrow> 'h fw \<Rightarrow> 'h fw" where
  "USB_INT_Clear E USB_INT_VBUSTI s = clear_bits_in E USBINT (BV VBUSTI) s"
| "USB_INT_Clear E USB_INT_WAKEUPI s = clear_bits_in E UDINT (BV WAKEUPI) s"
| "USB_INT_Clear E USB_INT_SUSPI s = clear_bits_in E UDINT (BV SUSPI) s"
| "USB_INT_Clear E USB_INT_EORSTI s = clear_bits_in E UDINT (BV EORSTI) s"
| "USB_INT_Clear E USB_INT_SOFI s = clear_bits_in E UDINT (BV SOFI) s"
| "USB_INT_Clear E USB_INT_RXSTPI s = clear_bits_in E UEINTX (BV RXSTPI) s"

fun USB_INT_IsEnabled :: "'h env \<Rightarrow> USB_Interrupts_t \<Rightarrow> 'h fw \<Rightarrow> bool \<times> 'h fw" where
  "USB_INT_IsEnabled E USB_INT_VBUSTI s = test_bits E USBCON (BV VBUSTE) s"
| "USB_INT_IsEnabled E USB_INT_WAKEUPI s = test_bits E UDIEN (BV WAKEUPI) s"
| "USB_INT_IsEnabled E USB_INT_SUSPI s = test_bits E UDIEN (BV SUSPI) s"
| "USB_INT_IsEnabled E USB_INT_EORSTI s = test_bits E UDIEN (BV EORSTI) s"
| "USB_INT_IsEnabled E USB_INT_SOFI s = test_bits E UDIEN (BV SOFI) s"
| "USB_INT_IsEnabled E USB_INT_RXSTPI s = test_bits E UEIENX (BV RXSTPE) s"

fun USB_INT_HasOccurred :: "'h env \<Rightarrow> USB_Interrupts_t \<Rightarrow> 'h fw \<Rightarrow> bool \<times> 'h fw" where
  "USB_INT_HasOccurred E USB_INT_VBUSTI s = test_bits E USBINT (BV VBUSTI) s"
| "USB_INT_HasOccurred E USB_INT_WAKEUPI s = test_bits E UDINT (BV WAKEUPI) s"
| "USB_INT_HasOccurred E USB_INT_SUSPI s = test_bits E UDINT (BV SUSPI) s"
| "USB_INT_HasOccurred E USB_INT_EORSTI s = test_bits E UDINT (BV EORSTI) s"
| "USB_INT_HasOccurred E USB_INT_SOFI s = test_bits E UDINT (BV SOFI) s"
| "USB_INT_HasOccurred E USB_INT_RXSTPI s = test_bits E UEINTX (BV RXSTPI) s"

definition USB_INT_DisableAllInterrupts :: "'h env \<Rightarrow> 'h fw \<Rightarrow> 'h fw" where
  "USB_INT_DisableAllInterrupts E s = wr E UDIEN 0 (clear_bits_in E USBCON (BV VBUSTE) s)"

definition USB_INT_ClearAllInterrupts :: "'h env \<Rightarrow> 'h fw \<Rightarrow> 'h fw" where
  "USB_INT_ClearAllInterrupts E s = wr E UDINT 0 (wr E USBINT 0 s)"

section \<open>Controller\<close>

definition USB_VBUS_GetStatus :: "'h env \<Rightarrow> 'h fw \<Rightarrow> bool \<times> 'h fw" where
  "USB_VBUS_GetStatus E s = test_bits E USBSTA (BV VBUS) s"

definition USB_Detach :: "'h env \<Rightarrow> 'h fw \<Rightarrow> 'h fw" where
  "USB_Detach E s = set_bits_in E UDCON (BV DETACH) s"

definition USB_Attach :: "'h env \<Rightarrow> 'h fw \<Rightarrow> 'h fw" where
  "USB_Attach E s = clear_bits_in E UDCON (BV DETACH) s"

definition USB_PLL_On :: "'h env \<Rightarrow> 'h fw \<Rightarrow> 'h fw" where
  "USB_PLL_On E s = wr E PLLCSR (USB_PLL_PSC OR BV PLLE) (wr E PLLCSR USB_PLL_PSC s)"

definition USB_PLL_Off :: "'h env \<Rightarrow> 'h fw \<Rightarrow> 'h fw" where
  "USB_PLL_Off E s = wr E PLLCSR 0 s"

definition USB_PLL_IsReady :: "'h env \<Rightarrow> 'h fw \<Rightarrow> bool \<times> 'h fw" where
  "USB_PLL_IsReady E s = test_bits E PLLCSR (BV PLOCK) s"

text \<open>The statement \<open>while (!(USB_PLL_IsReady()));\<close>.\<close>

partial_function (option) wait_PLL :: "'h env \<Rightarrow> 'h fw \<Rightarrow> 'h fw option" where
  "wait_PLL E s = (let (b, s) = USB_PLL_IsReady E s in if b then Some s else wait_PLL E s)"

definition USB_REG_On :: "'h env \<Rightarrow> 'h fw \<Rightarrow> 'h fw" where
  "USB_REG_On E s = set_bits_in E UHWCON (BV UVREGE) s"

definition USB_REG_Off :: "'h env \<Rightarrow> 'h fw \<Rightarrow> 'h fw" where
  "USB_REG_Off E s = clear_bits_in E UHWCON (BV UVREGE) s"

definition USB_OTGPAD_On :: "'h env \<Rightarrow> 'h fw \<Rightarrow> 'h fw" where
  "USB_OTGPAD_On E s = set_bits_in E USBCON (BV OTGPADE) s"

definition USB_OTGPAD_Off :: "'h env \<Rightarrow> 'h fw \<Rightarrow> 'h fw" where
  "USB_OTGPAD_Off E s = clear_bits_in E USBCON (BV OTGPADE) s"

definition USB_CLK_Freeze :: "'h env \<Rightarrow> 'h fw \<Rightarrow> 'h fw" where
  "USB_CLK_Freeze E s = set_bits_in E USBCON (BV FRZCLK) s"

definition USB_CLK_Unfreeze :: "'h env \<Rightarrow> 'h fw \<Rightarrow> 'h fw" where
  "USB_CLK_Unfreeze E s = clear_bits_in E USBCON (BV FRZCLK) s"

definition USB_Controller_Enable :: "'h env \<Rightarrow> 'h fw \<Rightarrow> 'h fw" where
  "USB_Controller_Enable E s = set_bits_in E USBCON (BV USBE) s"

definition USB_Controller_Disable :: "'h env \<Rightarrow> 'h fw \<Rightarrow> 'h fw" where
  "USB_Controller_Disable E s = clear_bits_in E USBCON (BV USBE) s"

definition USB_Controller_Reset :: "'h env \<Rightarrow> 'h fw \<Rightarrow> 'h fw" where
  "USB_Controller_Reset E s = set_bits_in E USBCON (BV USBE) (clear_bits_in E USBCON (BV USBE) s)"

section \<open>Device address, frame number, speed\<close>

text \<open>\<open>UDFNUM\<close> is read as its low and its high byte.\<close>

definition USB_Device_GetFrameNumber :: "'h env \<Rightarrow> 'h fw \<Rightarrow> u16 \<times> 'h fw" where
  "USB_Device_GetFrameNumber E s =
     (let (lo, s) = rd E UDFNUML s; (hi, s) = rd E UDFNUMH s in (of_le16 lo hi, s))"

definition USB_Device_EnableSOFEvents :: "'h env \<Rightarrow> 'h fw \<Rightarrow> 'h fw" where
  "USB_Device_EnableSOFEvents E s = USB_INT_Enable E USB_INT_SOFI s"

definition USB_Device_DisableSOFEvents :: "'h env \<Rightarrow> 'h fw \<Rightarrow> 'h fw" where
  "USB_Device_DisableSOFEvents E s = USB_INT_Disable E USB_INT_SOFI s"

definition USB_Device_SetLowSpeed :: "'h env \<Rightarrow> 'h fw \<Rightarrow> 'h fw" where
  "USB_Device_SetLowSpeed E s = set_bits_in E UDCON (BV LSM) s"

definition USB_Device_SetFullSpeed :: "'h env \<Rightarrow> 'h fw \<Rightarrow> 'h fw" where
  "USB_Device_SetFullSpeed E s = clear_bits_in E UDCON (BV LSM) s"

definition USB_Device_SetDeviceAddress :: "'h env \<Rightarrow> u8 \<Rightarrow> 'h fw \<Rightarrow> 'h fw" where
  "USB_Device_SetDeviceAddress E Address s =
     (let (v, s) = rd E UDADDR s in wr E UDADDR ((v AND BV ADDEN) OR (Address AND 0x7F)) s)"

definition USB_Device_EnableDeviceAddress :: "'h env \<Rightarrow> u8 \<Rightarrow> 'h fw \<Rightarrow> 'h fw" where
  "USB_Device_EnableDeviceAddress E Address s = set_bits_in E UDADDR (BV ADDEN) s"

definition USB_Device_IsAddressSet :: "'h env \<Rightarrow> 'h fw \<Rightarrow> bool \<times> 'h fw" where
  "USB_Device_IsAddressSet E s = test_bits E UDADDR (BV ADDEN) s"

text \<open>\<open>while (UDCON & (1 << RMWKUP));\<close> and the routine it ends.\<close>

partial_function (option) wait_RMWKUP :: "'h env \<Rightarrow> 'h fw \<Rightarrow> 'h fw option" where
  "wait_RMWKUP E s = (let (b, s) = test_bits E UDCON (BV RMWKUP) s in if b then wait_RMWKUP E s else Some s)"

definition USB_Device_SendRemoteWakeup :: "'h env \<Rightarrow> 'h fw \<Rightarrow> 'h fw option" where
  "USB_Device_SendRemoteWakeup E s = do {
     s \<leftarrow> (if USB_Options AND USB_OPT_MANUAL_PLL = 0 then wait_PLL E (USB_PLL_On E s) else Some s);
     let s = USB_CLK_Unfreeze E s;
     wait_RMWKUP E (set_bits_in E UDCON (BV RMWKUP) s) }"

section \<open>Serial number\<close>

abbreviation (input) INTERNAL_SERIAL_LENGTH_BITS :: nat where "INTERNAL_SERIAL_LENGTH_BITS \<equiv> 80"
abbreviation (input) INTERNAL_SERIAL_START_ADDRESS :: u8 where "INTERNAL_SERIAL_START_ADDRESS \<equiv> 0x0E"

text \<open>
  The loop of \<open>USB_Device_GetSerialString\<close> over the character numbers that remain; the characters
  are UTF-16 code units.
\<close>

fun serial_loop :: "(u8 \<Rightarrow> u8) \<Rightarrow> u8 list \<Rightarrow> u8 \<Rightarrow> u16 list" where
  "serial_loop sig [] SigReadAddress = []"
| "serial_loop sig (SerialCharNum # cs) SigReadAddress =
     (let SerialByte = sig SigReadAddress;
          (SerialByte, SigReadAddress) =
            (if SerialCharNum AND 1 \<noteq> 0 then (drop_bit 4 SerialByte, SigReadAddress + 1)
             else (SerialByte, SigReadAddress));
          SerialByte = SerialByte AND 0x0F
      in (if 10 \<le> SerialByte then (0x41 - 10) + ucast SerialByte else 0x30 + ucast SerialByte)
         # serial_loop sig cs SigReadAddress)"

definition USB_Device_GetSerialString :: "'h env \<Rightarrow> 'h fw \<Rightarrow> u16 list \<times> 'h fw" where
  "USB_Device_GetSerialString E s =
     (let (CurrentGlobalInt, s) = rd E SREG_reg s;
          s = clear_bits_in E SREG_reg (BV SREG_I) s;
          UnicodeString = serial_loop (boot_signature_byte_get E)
            (map of_nat [0 ..< INTERNAL_SERIAL_LENGTH_BITS div 4]) INTERNAL_SERIAL_START_ADDRESS
      in (UnicodeString, wr E SREG_reg CurrentGlobalInt s))"

section \<open>Register footprints\<close>

lemmas controller_defs =
  USB_Detach_def USB_Attach_def USB_PLL_On_def USB_PLL_Off_def USB_REG_On_def USB_REG_Off_def
  USB_OTGPAD_On_def USB_OTGPAD_Off_def USB_CLK_Freeze_def USB_CLK_Unfreeze_def
  USB_Controller_Enable_def USB_Controller_Disable_def USB_Controller_Reset_def
  USB_INT_DisableAllInterrupts_def USB_INT_ClearAllInterrupts_def
  USB_Device_EnableSOFEvents_def USB_Device_DisableSOFEvents_def
  USB_Device_SetLowSpeed_def USB_Device_SetFullSpeed_def

text \<open>The registers of the controller outside the endpoint FIFO.\<close>

definition controller_regs :: "ioreg set" where
  "controller_regs = {UDIEN, UEIENX, UDINT, UEINTX, USBCON, USBSTA, USBINT, UHWCON, UDCON, UDADDR,
     PLLCSR, PLLFRQ, UDFNUML, UDFNUMH, SREG_reg}"

lemma UEDATX_controller_regs [simp]: "UEDATX \<notin> controller_regs"
  by (simp add: controller_regs_def)

lemma controller_reg_touches:
  "r \<in> controller_regs \<Longrightarrow> touches controller_regs s (snd (rd E r s))"
  "r \<in> controller_regs \<Longrightarrow> touches controller_regs s (wr E r v s)"
  "r \<in> controller_regs \<Longrightarrow> touches controller_regs s (set_bits_in E r v s)"
  "r \<in> controller_regs \<Longrightarrow> touches controller_regs s (clear_bits_in E r v s)"
  "r \<in> controller_regs \<Longrightarrow> touches controller_regs s (snd (test_bits E r v s))"
  by (rule touch; assumption)+

lemma controller_regs_simps [simp]:
  "UDIEN \<in> controller_regs" "UEIENX \<in> controller_regs" "UDINT \<in> controller_regs"
  "UEINTX \<in> controller_regs" "USBCON \<in> controller_regs" "USBSTA \<in> controller_regs"
  "USBINT \<in> controller_regs" "UHWCON \<in> controller_regs" "UDCON \<in> controller_regs"
  "UDADDR \<in> controller_regs" "PLLCSR \<in> controller_regs" "PLLFRQ \<in> controller_regs"
  "UDFNUML \<in> controller_regs" "UDFNUMH \<in> controller_regs" "SREG_reg \<in> controller_regs"
  by (simp_all add: controller_regs_def)

lemma controller_touches:
  "touches controller_regs s (USB_INT_Enable E i s)"
  "touches controller_regs s (USB_INT_Disable E i s)"
  "touches controller_regs s (USB_INT_Clear E i s)"
  "touches controller_regs s (snd (USB_INT_IsEnabled E i s))"
  "touches controller_regs s (snd (USB_INT_HasOccurred E i s))"
  by (cases i; simp add: controller_reg_touches)+

declare USB_INT_Enable.simps [simp del] USB_INT_Disable.simps [simp del] USB_INT_Clear.simps [simp del]
  USB_INT_IsEnabled.simps [simp del] USB_INT_HasOccurred.simps [simp del]

lemma controller_touches2:
  "touches controller_regs s (USB_Detach E s)" "touches controller_regs s (USB_Attach E s)"
  "touches controller_regs s (USB_PLL_On E s)" "touches controller_regs s (USB_PLL_Off E s)"
  "touches controller_regs s (snd (USB_PLL_IsReady E s))" "touches controller_regs s (USB_REG_On E s)"
  "touches controller_regs s (USB_REG_Off E s)" "touches controller_regs s (USB_OTGPAD_On E s)"
  "touches controller_regs s (USB_OTGPAD_Off E s)" "touches controller_regs s (USB_CLK_Freeze E s)"
  "touches controller_regs s (USB_CLK_Unfreeze E s)" "touches controller_regs s (USB_Controller_Disable E s)"
  "touches controller_regs s (USB_Controller_Reset E s)"
  "touches controller_regs s (USB_INT_DisableAllInterrupts E s)"
  "touches controller_regs s (USB_INT_ClearAllInterrupts E s)"
  "touches controller_regs s (USB_Device_EnableSOFEvents E s)"
  "touches controller_regs s (USB_Device_SetLowSpeed E s)" "touches controller_regs s (USB_Device_SetFullSpeed E s)"
  "touches controller_regs s (snd (USB_VBUS_GetStatus E s))"
  "touches controller_regs s (snd (USB_Device_IsAddressSet E s))"
  by (auto simp: controller_defs USB_PLL_IsReady_def USB_VBUS_GetStatus_def USB_Device_IsAddressSet_def
      intro!: controller_touches touches_trans [OF _ controller_reg_touches(2)]
        touches_trans [OF _ controller_reg_touches(3)] controller_reg_touches)

end
