(* ===== verification/Events.thy ===== *)
theory Events
  imports Board Device Descriptors
begin

text \<open>
  What the interrupt routine and the configuration request call in the class driver and in the
  application: \<open>HID_Device_MillisecondElapsed\<close> and \<open>HID_Device_ConfigureEndpoints\<close> of the HID class
  driver, and the event handlers of \<open>joystick.c\<close>. The driver is used with one interface only,
  \<open>Joystick_HID_Interface\<close>, so the pointer parameter is that field of the state.
\<close>

section \<open>The interface\<close>

text \<open>The initialisers of the globals of \<open>joystick.c\<close>; members without one are zero.\<close>

definition Joystick_HID_Interface_init :: USB_ClassInfo_HID_Device_t where
  "Joystick_HID_Interface_init = \<lparr>
     InterfaceNumber = interface_id INTERFACE_ID_Joystick,
     ReportINEndpoint = \<lparr>ept_Address = JOYSTICK_IN_EPADDR, ept_Size = JOYSTICK_IN_EPSIZE, ept_Type = 0,
       ept_Banks = 1\<rparr>,
     PrevReportINBuffer = Some (replicate 32 0), PrevReportINBufferSize = 32,
     UsingReportProtocol = False, PrevFrameNum = 0, IdleCount = 0, IdleMSRemaining = 0\<rparr>"

definition upd_hid ::
  "(USB_ClassInfo_HID_Device_t \<Rightarrow> USB_ClassInfo_HID_Device_t) \<Rightarrow> 'h fw \<Rightarrow> 'h fw" where
  "upd_hid f s = s\<lparr>Joystick_HID_Interface := f (Joystick_HID_Interface s)\<rparr>"

definition HID_Device_MillisecondElapsed :: "'h fw \<Rightarrow> 'h fw" where
  "HID_Device_MillisecondElapsed s =
     (if IdleMSRemaining (Joystick_HID_Interface s) \<noteq> 0
      then upd_hid (\<lambda>i. i\<lparr>IdleMSRemaining := IdleMSRemaining i - 1\<rparr>) s else s)"

definition HID_Device_ConfigureEndpoints :: "'h env \<Rightarrow> 'h fw \<Rightarrow> (bool \<times> 'h fw) option" where
  "HID_Device_ConfigureEndpoints E s =
     (let s = upd_hid (\<lambda>i. i\<lparr>UsingReportProtocol := False, PrevFrameNum := 0, IdleCount := 0,
            IdleMSRemaining := 0\<rparr>) s;
          s = upd_hid (\<lambda>i. i\<lparr>UsingReportProtocol := True\<rparr>) s;
          s = upd_hid (\<lambda>i. i\<lparr>IdleCount := 500\<rparr>) s;
          s = upd_hid (\<lambda>i. i\<lparr>ReportINEndpoint := ReportINEndpoint i\<lparr>ept_Type := EP_TYPE_INTERRUPT\<rparr>\<rparr>) s
      in do {
        (ok, s) \<leftarrow> Endpoint_ConfigureEndpointTable E [ReportINEndpoint (Joystick_HID_Interface s)] s;
        if \<not> ok then Some (False, s) else Some (True, s) })"

section \<open>Event handlers of the application\<close>

definition LEDMASK_USB_NOTREADY :: u8 where "LEDMASK_USB_NOTREADY = LEDS_LED1"
definition LEDMASK_USB_ENUMERATING :: u8 where "LEDMASK_USB_ENUMERATING = LEDS_LED2 OR LEDS_LED3"
definition LEDMASK_USB_READY :: u8 where "LEDMASK_USB_READY = LEDS_LED2 OR LEDS_LED4"
definition LEDMASK_USB_ERROR :: u8 where "LEDMASK_USB_ERROR = LEDS_LED1 OR LEDS_LED3"

definition EVENT_USB_Device_Connect :: "'h env \<Rightarrow> 'h fw \<Rightarrow> 'h fw" where
  "EVENT_USB_Device_Connect E s = LEDs_SetAllLEDs E LEDMASK_USB_ENUMERATING s"

definition EVENT_USB_Device_Disconnect :: "'h env \<Rightarrow> 'h fw \<Rightarrow> 'h fw" where
  "EVENT_USB_Device_Disconnect E s = LEDs_SetAllLEDs E LEDMASK_USB_NOTREADY s"

definition EVENT_USB_Device_ConfigurationChanged :: "'h env \<Rightarrow> 'h fw \<Rightarrow> 'h fw option" where
  "EVENT_USB_Device_ConfigurationChanged E s = do {
     (ConfigSuccess, s) \<leftarrow> HID_Device_ConfigureEndpoints E s;
     let s = USB_Device_EnableSOFEvents E s;
     Some (LEDs_SetAllLEDs E (if ConfigSuccess then LEDMASK_USB_READY else LEDMASK_USB_ERROR) s) }"

definition EVENT_USB_Device_StartOfFrame :: "'h fw \<Rightarrow> 'h fw" where
  "EVENT_USB_Device_StartOfFrame s = HID_Device_MillisecondElapsed s"

text \<open>The suspend, wake-up and reset events keep their weak default, the empty stub of \<open>Events.c\<close>.\<close>

definition USB_Event_Stub :: "'h fw \<Rightarrow> 'h fw" where
  "USB_Event_Stub s = s"

section \<open>What interrupts may do\<close>

text \<open>
  \<open>quiet s s'\<close>: on the way from \<open>s\<close> to \<open>s'\<close> no byte went through the endpoint FIFO, the pending
  control request and the data of the application and of the class driver stayed the same, the idle
  countdown went down if it moved at all, and the configuration number was kept or reset to zero.
  The polling loops, together with the interrupts taken in them, are quiet.
\<close>

definition hid_static :: "USB_ClassInfo_HID_Device_t \<Rightarrow> USB_ClassInfo_HID_Device_t" where
  "hid_static i = i\<lparr>IdleMSRemaining := 0\<rparr>"

definition quiet :: "'h fw \<Rightarrow> 'h fw \<Rightarrow> bool" where
  "quiet s s' \<longleftrightarrow>
     data_out s' = data_out s \<and> data_in s' = data_in s \<and>
     USB_ControlRequest s' = USB_ControlRequest s \<and> USB_IsInitialized s' = USB_IsInitialized s \<and>
     USB_Device_CurrentlySelfPowered s' = USB_Device_CurrentlySelfPowered s \<and>
     USB_Device_RemoteWakeupEnabled s' = USB_Device_RemoteWakeupEnabled s \<and>
     joy_mask s' = joy_mask s \<and> joy_saved s' = joy_saved s \<and> oob s' = oob s \<and>
     hid_static (Joystick_HID_Interface s') = hid_static (Joystick_HID_Interface s) \<and>
     IdleMSRemaining (Joystick_HID_Interface s') \<le> IdleMSRemaining (Joystick_HID_Interface s) \<and>
     USB_Device_ConfigurationNumber s' \<in> {0, USB_Device_ConfigurationNumber s}"

lemma quiet_refl [simp, intro]: "quiet s s"
  by (simp add: quiet_def)

lemma quiet_trans: "quiet s s' \<Longrightarrow> quiet s' s'' \<Longrightarrow> quiet s s''"
  unfolding quiet_def by auto

lemma touches_quiet: "touches R s s' \<Longrightarrow> UEDATX \<notin> R \<Longrightarrow> quiet s s'"
  by (simp add: quiet_def touches_frame touches_data)

lemma quiet_state [simp]: "quiet s (s'\<lparr>USB_DeviceState := d\<rparr>) = quiet s s'"
  by (simp add: quiet_def data_out_def data_in_def)

lemma quiet_unconfigure: "quiet s s' \<Longrightarrow> quiet s (s'\<lparr>USB_Device_ConfigurationNumber := 0\<rparr>)"
  by (simp add: quiet_def data_out_def data_in_def)

lemma quiet_MillisecondElapsed: "quiet s (HID_Device_MillisecondElapsed s)"
proof -
  have "w \<noteq> 0 \<Longrightarrow> w - 1 \<le> w" for w :: u16
    by (simp add: word_le_nat_alt unat_pred)
  then show ?thesis
    by (simp add: quiet_def HID_Device_MillisecondElapsed_def upd_hid_def hid_static_def data_out_def
        data_in_def)
qed

lemma hid_static_fields:
  assumes "hid_static i = hid_static j"
  shows "InterfaceNumber i = InterfaceNumber j" "ReportINEndpoint i = ReportINEndpoint j"
    "PrevReportINBuffer i = PrevReportINBuffer j" "PrevReportINBufferSize i = PrevReportINBufferSize j"
    "UsingReportProtocol i = UsingReportProtocol j" "PrevFrameNum i = PrevFrameNum j"
    "IdleCount i = IdleCount j"
  using assms by (cases i; cases j; simp add: hid_static_def)+

end
