(* ===== verification/Interrupt.thy ===== *)
theory Interrupt
  imports Events
begin

text \<open>
  The USB general interrupt routine (\<open>USBInterrupt_AVR8.c\<close>), which drives the device state machine,
  and the start-up and shut-down of the controller (\<open>USBController_AVR8.c\<close>), for a device-only build.
\<close>

abbreviation (input) USB_Device_ControlEndpointSize :: u16 where
  "USB_Device_ControlEndpointSize \<equiv> ucast FIXED_CONTROL_ENDPOINT_SIZE"

section \<open>The interrupt routine\<close>

text \<open>The condition \<open>USB_INT_HasOccurred(i) && USB_INT_IsEnabled(i)\<close>, evaluated left to right.\<close>

definition INT_taken :: "'h env \<Rightarrow> USB_Interrupts_t \<Rightarrow> 'h fw \<Rightarrow> bool \<times> 'h fw" where
  "INT_taken E i s =
     (let (b, s) = USB_INT_HasOccurred E i s in if b then USB_INT_IsEnabled E i s else (False, s))"

definition ISR_SOFI :: "'h env \<Rightarrow> 'h fw \<Rightarrow> 'h fw" where
  "ISR_SOFI E s =
     (let (b, s) = INT_taken E USB_INT_SOFI s
      in if b then EVENT_USB_Device_StartOfFrame (USB_INT_Clear E USB_INT_SOFI s) else s)"

definition ISR_VBUSTI :: "'h env \<Rightarrow> 'h fw \<Rightarrow> 'h fw option" where
  "ISR_VBUSTI E s =
     (let (b, s) = INT_taken E USB_INT_VBUSTI s
      in if b then
           let s = USB_INT_Clear E USB_INT_VBUSTI s;
               (vbus, s) = USB_VBUS_GetStatus E s
           in if vbus then do {
                s \<leftarrow> (if USB_Options AND USB_OPT_MANUAL_PLL = 0 then wait_PLL E (USB_PLL_On E s) else Some s);
                Some (EVENT_USB_Device_Connect E (s\<lparr>USB_DeviceState := DEVICE_STATE_Powered\<rparr>)) }
              else
                let s = (if USB_Options AND USB_OPT_MANUAL_PLL = 0 then USB_PLL_Off E s else s)
                in Some (EVENT_USB_Device_Disconnect E (s\<lparr>USB_DeviceState := DEVICE_STATE_Unattached\<rparr>))
         else Some s)"

definition ISR_SUSPI :: "'h env \<Rightarrow> 'h fw \<Rightarrow> 'h fw" where
  "ISR_SUSPI E s =
     (let (b, s) = INT_taken E USB_INT_SUSPI s
      in if b then
           let s = USB_INT_Disable E USB_INT_SUSPI s;
               s = USB_INT_Enable E USB_INT_WAKEUPI s;
               s = USB_CLK_Freeze E s;
               s = (if USB_Options AND USB_OPT_MANUAL_PLL = 0 then USB_PLL_Off E s else s)
           in USB_Event_Stub (s\<lparr>USB_DeviceState := DEVICE_STATE_Suspended\<rparr>)
         else s)"

definition ISR_WAKEUPI :: "'h env \<Rightarrow> 'h fw \<Rightarrow> 'h fw option" where
  "ISR_WAKEUPI E s =
     (let (b, s) = INT_taken E USB_INT_WAKEUPI s
      in if b then do {
           s \<leftarrow> (if USB_Options AND USB_OPT_MANUAL_PLL = 0 then wait_PLL E (USB_PLL_On E s) else Some s);
           let s = USB_CLK_Unfreeze E s;
           let s = USB_INT_Clear E USB_INT_WAKEUPI s;
           let s = USB_INT_Disable E USB_INT_WAKEUPI s;
           let s = USB_INT_Enable E USB_INT_SUSPI s;
           let s = (if USB_Device_ConfigurationNumber s \<noteq> 0
                    then s\<lparr>USB_DeviceState := DEVICE_STATE_Configured\<rparr>
                    else let (a, s) = USB_Device_IsAddressSet E s
                         in s\<lparr>USB_DeviceState := if a then DEVICE_STATE_Addressed else DEVICE_STATE_Powered\<rparr>);
           Some (USB_Event_Stub s) }
         else Some s)"

definition ISR_EORSTI :: "'h env \<Rightarrow> 'h fw \<Rightarrow> 'h fw option" where
  "ISR_EORSTI E s =
     (let (b, s) = INT_taken E USB_INT_EORSTI s
      in if b then
           let s = USB_INT_Clear E USB_INT_EORSTI s;
               s = s\<lparr>USB_DeviceState := DEVICE_STATE_Default\<rparr>;
               s = s\<lparr>USB_Device_ConfigurationNumber := 0\<rparr>;
               s = USB_INT_Clear E USB_INT_SUSPI s;
               s = USB_INT_Disable E USB_INT_SUSPI s;
               s = USB_INT_Enable E USB_INT_WAKEUPI s
           in do {
             (ok, s) \<leftarrow> Endpoint_ConfigureEndpoint E ENDPOINT_CONTROLEP EP_TYPE_CONTROL
               USB_Device_ControlEndpointSize 1 s;
             Some (USB_Event_Stub s) }
         else Some s)"

definition USB_GEN_vect :: "'h env \<Rightarrow> 'h fw \<Rightarrow> 'h fw option" where
  "USB_GEN_vect E s = do {
     s \<leftarrow> ISR_VBUSTI E (ISR_SOFI E s);
     s \<leftarrow> ISR_WAKEUPI E (ISR_SUSPI E s);
     ISR_EORSTI E s }"

text \<open>
  Reading the volatile variable \<open>USB_DeviceState\<close> in the main line of the program: an interrupt that
  the peripheral requests at this point is taken first. These reads occur in every iteration of the
  loops that wait for the host, and are the program points where the model delivers interrupts.
\<close>

definition read_DeviceState :: "'h env \<Rightarrow> 'h fw \<Rightarrow> (USB_Device_States_t \<times> 'h fw) option" where
  "read_DeviceState E s = do {
     s \<leftarrow> (if irq_pending E (hw s) then USB_GEN_vect E s else Some s);
     Some (USB_DeviceState s, s) }"

section \<open>Start-up and shut-down\<close>

definition USB_Init_Device :: "'h env \<Rightarrow> 'h fw \<Rightarrow> 'h fw option" where
  "USB_Init_Device E s =
     (let s = s\<lparr>USB_DeviceState := DEVICE_STATE_Unattached\<rparr>;
          s = s\<lparr>USB_Device_ConfigurationNumber := 0\<rparr>;
          s = s\<lparr>USB_Device_RemoteWakeupEnabled := False\<rparr>;
          s = s\<lparr>USB_Device_CurrentlySelfPowered := False\<rparr>;
          s = (if USB_Options AND USB_DEVICE_OPT_LOWSPEED \<noteq> 0 then USB_Device_SetLowSpeed E s
               else USB_Device_SetFullSpeed E s);
          s = USB_INT_Enable E USB_INT_VBUSTI s
      in do {
        (ok, s) \<leftarrow> Endpoint_ConfigureEndpoint E ENDPOINT_CONTROLEP EP_TYPE_CONTROL
          USB_Device_ControlEndpointSize 1 s;
        let s = USB_INT_Clear E USB_INT_SUSPI s;
        let s = USB_INT_Enable E USB_INT_SUSPI s;
        let s = USB_INT_Enable E USB_INT_EORSTI s;
        Some (USB_Attach E s) })"

definition USB_ResetInterface :: "'h env \<Rightarrow> 'h fw \<Rightarrow> 'h fw option" where
  "USB_ResetInterface E s =
     (let s = USB_INT_DisableAllInterrupts E s;
          s = USB_INT_ClearAllInterrupts E s;
          s = USB_Controller_Reset E s;
          s = USB_CLK_Unfreeze E s;
          s = (if USB_Options AND USB_OPT_MANUAL_PLL = 0 then USB_PLL_Off E s else s)
      in do {
        s \<leftarrow> USB_Init_Device E s;
        Some (USB_OTGPAD_On E s) })"

definition USB_Init :: "'h env \<Rightarrow> 'h fw \<Rightarrow> 'h fw option" where
  "USB_Init E s =
     (let s = USB_OTGPAD_Off E s;
          s = (if USB_Options AND USB_OPT_REG_DISABLED = 0 then USB_REG_On E s else USB_REG_Off E s);
          s = (if USB_Options AND USB_OPT_MANUAL_PLL = 0 then wr E PLLFRQ (BV PDIV2) s else s);
          s = s\<lparr>USB_IsInitialized := True\<rparr>
      in USB_ResetInterface E s)"

definition USB_Disable :: "'h env \<Rightarrow> 'h fw \<Rightarrow> 'h fw" where
  "USB_Disable E s =
     (let s = USB_INT_DisableAllInterrupts E s;
          s = USB_INT_ClearAllInterrupts E s;
          s = USB_Detach E s;
          s = USB_Controller_Disable E s;
          s = (if USB_Options AND USB_OPT_MANUAL_PLL = 0 then USB_PLL_Off E s else s);
          s = (if USB_Options AND USB_OPT_REG_KEEP_ENABLED = 0 then USB_REG_Off E s else s);
          s = USB_OTGPAD_Off E s
      in s\<lparr>USB_IsInitialized := False\<rparr>)"

end
