(* ===== verification/InterruptFacts.thy ===== *)
theory InterruptFacts
  imports Interrupt EndpointFacts
begin

text \<open>
  The interrupt routine as a refinement of the abstract device state machine of USB: it is quiet
  (see \<open>quiet\<close>), it returns whenever the PLL locks, and what it does to the device state is a
  sequence of the abstract bus events.
\<close>

section \<open>Quiet steps\<close>

lemma quiet_touch: "quiet s t \<Longrightarrow> touches controller_regs t u \<Longrightarrow> quiet s u"
  by (erule quiet_trans) (simp add: touches_quiet)

lemmas quiet_controller =
  quiet_touch [OF _ controller_touches(1)] quiet_touch [OF _ controller_touches(2)]
  quiet_touch [OF _ controller_touches(3)] quiet_touch [OF _ controller_touches(4)]
  quiet_touch [OF _ controller_touches(5)] quiet_touch [OF _ controller_touches2(3)]
  quiet_touch [OF _ controller_touches2(4)] quiet_touch [OF _ controller_touches2(5)]
  quiet_touch [OF _ controller_touches2(10)] quiet_touch [OF _ controller_touches2(11)]
  quiet_touch [OF _ controller_touches2(19)] quiet_touch [OF _ controller_touches2(20)]
  quiet_touch [OF _ controller_reg_touches(2)] quiet_touch [OF _ controller_reg_touches(3)]
  quiet_touch [OF _ controller_reg_touches(4)] quiet_touch [OF _ controller_reg_touches(5)]

lemma quiet_stateI: "quiet s t \<Longrightarrow> quiet s (t\<lparr>USB_DeviceState := d\<rparr>)"
  by simp

lemma quiet_LEDs: "quiet s t \<Longrightarrow> quiet s (LEDs_SetAllLEDs E m t)"
  by (erule quiet_trans) (rule touches_quiet [OF LEDs_SetAllLEDs_touches [of "{PORTE}"]], simp_all)

lemma quiet_ConfigureEndpoint:
  "quiet s t \<Longrightarrow> Endpoint_ConfigureEndpoint E a ty sz bk t = Some (ok, u) \<Longrightarrow> quiet s u"
  by (erule quiet_trans) (rule touches_quiet [OF ConfigureEndpoint_touches], simp_all)

lemma INT_taken_touches: "touches controller_regs s (snd (INT_taken E i s))"
  by (auto simp: INT_taken_def Let_def split_beta intro: controller_touches touches_trans)

lemmas quiet_INT_taken = quiet_touch [OF _ INT_taken_touches]

lemma wait_PLL_touches: "wait_PLL E s = Some s' \<Longrightarrow> touches controller_regs s s'"
proof (erule wait_PLL.raw_induct [where P = "\<lambda>E s s'. touches controller_regs s s'", rotated])
  fix f E s s'
  assume *: "\<And>E s y. f E s = Some y \<Longrightarrow> touches controller_regs s y"
    and "(let (b, s) = USB_PLL_IsReady E s in if b then Some s else f E s) = Some s'"
  then show "touches controller_regs s s'"
    by (auto simp: Let_def split_beta intro: touches_trans controller_touches2(5) dest!: * split: if_splits)
qed

lemmas quiet_wait_PLL = quiet_touch [OF _ wait_PLL_touches]

lemmas quiet_intros = quiet_stateI quiet_controller quiet_LEDs quiet_INT_taken quiet_unconfigure

lemma quiet_SOFI: "quiet s (ISR_SOFI E s)"
  by (auto simp: ISR_SOFI_def Let_def split_beta EVENT_USB_Device_StartOfFrame_def
      intro!: quiet_trans [OF _ quiet_MillisecondElapsed] quiet_intros)

lemma quiet_SUSPI: "quiet s (ISR_SUSPI E s)"
  by (auto simp: ISR_SUSPI_def Let_def split_beta USB_Event_Stub_def intro!: quiet_intros)

lemma quiet_VBUSTI: "ISR_VBUSTI E s = Some s' \<Longrightarrow> quiet s s'"
  by (auto simp: ISR_VBUSTI_def Let_def split_beta bind_eq_Some_conv EVENT_USB_Device_Connect_def
      EVENT_USB_Device_Disconnect_def split: if_splits intro!: quiet_intros elim!: quiet_wait_PLL [rotated])

lemma quiet_WAKEUPI: "ISR_WAKEUPI E s = Some s' \<Longrightarrow> quiet s s'"
  by (auto simp: ISR_WAKEUPI_def Let_def split_beta bind_eq_Some_conv USB_Event_Stub_def
      split: if_splits intro!: quiet_intros elim!: quiet_wait_PLL [rotated])

lemma quiet_EORSTI: "ISR_EORSTI E s = Some s' \<Longrightarrow> quiet s s'"
  by (auto simp: ISR_EORSTI_def Let_def split_beta bind_eq_Some_conv USB_Event_Stub_def
      split: if_splits intro!: quiet_intros elim!: quiet_ConfigureEndpoint [rotated])

lemma quiet_USB_GEN_vect:
  assumes "USB_GEN_vect E s = Some s'"
  shows "quiet s s'"
proof -
  obtain t u where "ISR_VBUSTI E (ISR_SOFI E s) = Some t" "ISR_WAKEUPI E (ISR_SUSPI E t) = Some u"
    "ISR_EORSTI E u = Some s'"
    using assms by (auto simp: USB_GEN_vect_def bind_eq_Some_conv)
  then have "quiet s t" "quiet t u" "quiet u s'"
    using quiet_trans [OF quiet_SOFI quiet_VBUSTI] quiet_trans [OF quiet_SUSPI quiet_WAKEUPI] quiet_EORSTI
    by blast+
  then show ?thesis
    by (metis quiet_trans)
qed

lemma quiet_read_DeviceState: "read_DeviceState E s = Some (d, s') \<Longrightarrow> quiet s s'"
  by (auto simp: read_DeviceState_def bind_eq_Some_conv split: if_splits dest: quiet_USB_GEN_vect)

section \<open>Termination\<close>

text \<open>
  \<open>eventually_set E r b\<close>: polling register \<open>r\<close> alone sees bit \<open>b\<close> set after finitely many reads,
  whatever state the peripheral is in. For \<open>PLLCSR\<close> and \<open>PLOCK\<close> this says that the PLL locks.
\<close>

definition eventually_set :: "'h env \<Rightarrow> ioreg \<Rightarrow> nat \<Rightarrow> bool" where
  "eventually_set E r b \<longleftrightarrow> (\<forall>h. \<exists>n. bit (fst (io_read E r (((\<lambda>h. snd (io_read E r h)) ^^ n) h))) b)"

lemma test_bits_poll:
  "fst (test_bits E r (BV b) s) = bit (fst (io_read E r (hw s))) b"
  "hw (snd (test_bits E r (BV b) s)) = snd (io_read E r (hw s))"
  by (simp_all add: test_bits_def rd_def split_beta and_BV_eq_0)

lemma wait_PLL_returns:
  assumes "eventually_set E PLLCSR PLOCK"
  shows "\<exists>s'. wait_PLL E s = Some s'"
proof -
  obtain n where "bit (fst (io_read E PLLCSR (((\<lambda>h. snd (io_read E PLLCSR h)) ^^ n) (hw s)))) PLOCK"
    using assms by (auto simp: eventually_set_def)
  then show ?thesis
  proof (induction n arbitrary: s)
    case 0
    then show ?case
      by (subst wait_PLL.simps) (simp add: USB_PLL_IsReady_def Let_def split_beta test_bits_poll [of E PLLCSR 0, simplified])
  next
    case (Suc n)
    have "bit (fst (io_read E PLLCSR (((\<lambda>h. snd (io_read E PLLCSR h)) ^^ n)
        (hw (snd (USB_PLL_IsReady E s)))))) PLOCK"
      using Suc.prems
      by (simp add: USB_PLL_IsReady_def test_bits_poll [of E PLLCSR 0, simplified] funpow_Suc_right
          del: funpow.simps)
    from Suc.IH [OF this] show ?case
      by (subst wait_PLL.simps) (simp add: Let_def split_beta)
  qed
qed

lemma ConfigureEndpoint_returns:
  assumes "Size \<le> 32768"
  shows "\<exists>ok s'. Endpoint_ConfigureEndpoint E a ty Size bk s = Some (ok, s')"
  using assms by (auto simp: Endpoint_ConfigureEndpoint_def Let_def BytesToEPSizeMask_spec word_le_nat_alt)

section \<open>The abstract device state machine\<close>

datatype bus_event = BusConnect | BusDisconnect | BusSuspend | BusWakeup bool | BusReset

text \<open>
  The effect of the bus on the device state and the configuration number. \<open>BusWakeup a\<close> is a
  resume, \<open>a\<close> telling whether the device has its address.
\<close>

fun bus_step :: "bus_event \<Rightarrow> USB_Device_States_t \<times> u8 \<Rightarrow> USB_Device_States_t \<times> u8" where
  "bus_step BusConnect (d, c) = (DEVICE_STATE_Powered, c)"
| "bus_step BusDisconnect (d, c) = (DEVICE_STATE_Unattached, c)"
| "bus_step BusSuspend (d, c) = (DEVICE_STATE_Suspended, c)"
| "bus_step (BusWakeup a) (d, c) =
     (if c \<noteq> 0 then DEVICE_STATE_Configured
      else if a then DEVICE_STATE_Addressed else DEVICE_STATE_Powered, c)"
| "bus_step BusReset (d, c) = (DEVICE_STATE_Default, 0)"

lemma bus_step_BusReset [simp]: "bus_step BusReset v = (DEVICE_STATE_Default, 0)"
  by (cases v) simp

definition dev_view :: "'h fw \<Rightarrow> USB_Device_States_t \<times> u8" where
  "dev_view s = (USB_DeviceState s, USB_Device_ConfigurationNumber s)"

definition vbus_events :: "'h env \<Rightarrow> 'h fw \<Rightarrow> bus_event list" where
  "vbus_events E s =
     (let (b, s) = INT_taken E USB_INT_VBUSTI s
      in if b then
           if fst (USB_VBUS_GetStatus E (USB_INT_Clear E USB_INT_VBUSTI s)) then [BusConnect] else [BusDisconnect]
         else [])"

definition int_events :: "'h env \<Rightarrow> USB_Interrupts_t \<Rightarrow> bus_event \<Rightarrow> 'h fw \<Rightarrow> bus_event list" where
  "int_events E i ev s = (if fst (INT_taken E i s) then [ev] else [])"

lemma dev_view_touches: "touches R s s' \<Longrightarrow> dev_view s' = dev_view s"
  by (simp add: dev_view_def touches_frame)

lemmas dev_view_controller =
  controller_touches [THEN dev_view_touches] controller_touches2 [THEN dev_view_touches]
  INT_taken_touches [THEN dev_view_touches] LEDs_SetAllLEDs_touches [of "{PORTE}", simplified, THEN dev_view_touches]

lemma dev_view_upd [simp]:
  "dev_view (s\<lparr>USB_DeviceState := d\<rparr>) = (d, snd (dev_view s))"
  "dev_view (s\<lparr>USB_Device_ConfigurationNumber := c\<rparr>) = (fst (dev_view s), c)"
  by (simp_all add: dev_view_def)

lemma dev_view_upd_hid [simp]: "dev_view (upd_hid f s) = dev_view s"
  by (simp add: dev_view_def upd_hid_def)

lemma dev_view_SOFI: "dev_view (ISR_SOFI E s) = dev_view s"
  by (simp add: ISR_SOFI_def Let_def split_beta EVENT_USB_Device_StartOfFrame_def dev_view_controller
      HID_Device_MillisecondElapsed_def)

lemma ISR_VBUSTI_spec:
  assumes "eventually_set E PLLCSR PLOCK"
  shows "\<exists>s'. ISR_VBUSTI E s = Some s' \<and> dev_view s' = fold bus_step (vbus_events E s) (dev_view s)"
proof -
  obtain t where t: "wait_PLL E (USB_PLL_On E (snd (USB_VBUS_GetStatus E
      (USB_INT_Clear E USB_INT_VBUSTI (snd (INT_taken E USB_INT_VBUSTI s)))))) = Some t"
    using wait_PLL_returns [OF assms] by blast
  show ?thesis
    using dev_view_touches [OF wait_PLL_touches [OF t]]
    by (cases "dev_view s") (auto simp: ISR_VBUSTI_def vbus_events_def Let_def split_beta t dev_view_controller
        EVENT_USB_Device_Connect_def EVENT_USB_Device_Disconnect_def)
qed

lemma ISR_SUSPI_spec: "dev_view (ISR_SUSPI E s) = fold bus_step (int_events E USB_INT_SUSPI BusSuspend s) (dev_view s)"
  by (cases "dev_view s")
    (simp add: ISR_SUSPI_def int_events_def Let_def split_beta USB_Event_Stub_def dev_view_controller)

lemma ISR_WAKEUPI_spec:
  assumes "eventually_set E PLLCSR PLOCK"
  shows "\<exists>s' a. ISR_WAKEUPI E s = Some s' \<and>
    dev_view s' = fold bus_step (int_events E USB_INT_WAKEUPI (BusWakeup a) s) (dev_view s)"
proof -
  obtain t where t: "wait_PLL E (USB_PLL_On E (snd (INT_taken E USB_INT_WAKEUPI s))) = Some t"
    using wait_PLL_returns [OF assms] by blast
  define u where "u = USB_INT_Enable E USB_INT_SUSPI (USB_INT_Disable E USB_INT_WAKEUPI
    (USB_INT_Clear E USB_INT_WAKEUPI (USB_CLK_Unfreeze E t)))"
  have u: "dev_view u = dev_view s"
    using dev_view_touches [OF wait_PLL_touches [OF t]] by (simp add: u_def dev_view_controller)
  then have c: "USB_Device_ConfigurationNumber u = snd (dev_view s)"
    by (simp add: dev_view_def)
  have "USB_Options AND 4 = 0"
    by (simp add: USB_Options_def)
  then have "ISR_WAKEUPI E s = (if \<not> fst (INT_taken E USB_INT_WAKEUPI s) then Some (snd (INT_taken E USB_INT_WAKEUPI s))
      else Some (if USB_Device_ConfigurationNumber u \<noteq> 0 then u\<lparr>USB_DeviceState := DEVICE_STATE_Configured\<rparr>
        else (snd (USB_Device_IsAddressSet E u))\<lparr>USB_DeviceState :=
          if fst (USB_Device_IsAddressSet E u) then DEVICE_STATE_Addressed else DEVICE_STATE_Powered\<rparr>))"
    by (simp add: ISR_WAKEUPI_def Let_def split_beta t USB_Event_Stub_def flip: u_def)
  then show ?thesis
    using u c by (cases "dev_view s") (auto simp: int_events_def dev_view_controller split: if_splits)
qed

lemma ISR_EORSTI_spec:
  "\<exists>s'. ISR_EORSTI E s = Some s' \<and> dev_view s' = fold bus_step (int_events E USB_INT_EORSTI BusReset s) (dev_view s)"
proof -
  define u where "u = USB_INT_Enable E USB_INT_WAKEUPI (USB_INT_Disable E USB_INT_SUSPI
    (USB_INT_Clear E USB_INT_SUSPI ((USB_INT_Clear E USB_INT_EORSTI (snd (INT_taken E USB_INT_EORSTI s)))
      \<lparr>USB_DeviceState := DEVICE_STATE_Default, USB_Device_ConfigurationNumber := 0\<rparr>)))"
  have "dev_view u = (DEVICE_STATE_Default, 0)"
    by (simp add: u_def dev_view_controller)
  moreover obtain ok t where t: "Endpoint_ConfigureEndpoint E 0 0 8 1 u = Some (ok, t)"
    using ConfigureEndpoint_returns [of 8 E 0 0 1 u] by auto
  ultimately have "dev_view t = (DEVICE_STATE_Default, 0)"
    using dev_view_touches [OF ConfigureEndpoint_touches [OF t]] by simp
  then show ?thesis
    using t by (cases "dev_view s") (simp add: ISR_EORSTI_def int_events_def Let_def split_beta
        USB_Event_Stub_def dev_view_controller flip: u_def)
qed

section \<open>Properties\<close>


text \<open>A register file whose PLL is locked, in which a bus reset is pending and enabled.\<close>

definition locked_env :: "regfile env" where
  "locked_env = regfile_env\<lparr>io_read := (\<lambda>r h. if r = PLLCSR then (1, h) else io_read regfile_env r h)\<rparr>"

definition reset_pending :: regfile where
  "reset_pending = (0, [((0, UDINT), 8), ((0, UDIEN), 8)])"

lemma locked_env_locks: "eventually_set locked_env PLLCSR PLOCK"
  by (auto simp: eventually_set_def locked_env_def intro!: exI [of _ 0])


end
