(* ===== verification/Streams.thy ===== *)
theory Streams
  imports Interrupt
begin

text \<open>
  Waiting for the host and moving byte streams through the endpoint FIFO: \<open>Endpoint_ClearStatusStage\<close> and
  \<open>Endpoint_WaitUntilReady\<close> of \<open>Endpoint_AVR8.c\<close>, and the stream templates of \<open>Template/\<close> with their
  instantiations in \<open>EndpointStream_AVR8.c\<close>. The macro parameters of a template are arguments of its
  definition. Pointers into the caller's buffer are offsets from the start of that buffer.
\<close>

section \<open>Waiting\<close>

abbreviation (input) REQDIR_DEVICETOHOST :: u8 where "REQDIR_DEVICETOHOST \<equiv> 0x80"

partial_function (option) StatusStage_OUT :: "'h env \<Rightarrow> 'h fw \<Rightarrow> 'h fw option" where
  "StatusStage_OUT E s =
     (let (b, s) = Endpoint_IsOUTReceived E s
      in if b then Some (Endpoint_ClearOUT E s)
         else do {
           (d, s) \<leftarrow> read_DeviceState E s;
           if d = DEVICE_STATE_Unattached then Some s else StatusStage_OUT E s })"

partial_function (option) StatusStage_IN :: "'h env \<Rightarrow> 'h fw \<Rightarrow> 'h fw option" where
  "StatusStage_IN E s =
     (let (b, s) = Endpoint_IsINReady E s
      in if b then Some (Endpoint_ClearIN E s)
         else do {
           (d, s) \<leftarrow> read_DeviceState E s;
           if d = DEVICE_STATE_Unattached then Some s else StatusStage_IN E s })"

definition Endpoint_ClearStatusStage :: "'h env \<Rightarrow> 'h fw \<Rightarrow> 'h fw option" where
  "Endpoint_ClearStatusStage E s =
     (if bmRequestType (USB_ControlRequest s) AND REQDIR_DEVICETOHOST \<noteq> 0
      then StatusStage_OUT E s else StatusStage_IN E s)"

abbreviation (input) ENDPOINT_READYWAIT_NoError :: u8 where "ENDPOINT_READYWAIT_NoError \<equiv> 0"
abbreviation (input) ENDPOINT_READYWAIT_EndpointStalled :: u8 where "ENDPOINT_READYWAIT_EndpointStalled \<equiv> 1"
abbreviation (input) ENDPOINT_READYWAIT_DeviceDisconnected :: u8 where "ENDPOINT_READYWAIT_DeviceDisconnected \<equiv> 2"
abbreviation (input) ENDPOINT_READYWAIT_BusSuspended :: u8 where "ENDPOINT_READYWAIT_BusSuspended \<equiv> 3"
abbreviation (input) ENDPOINT_READYWAIT_Timeout :: u8 where "ENDPOINT_READYWAIT_Timeout \<equiv> 4"
abbreviation (input) ENDPOINT_RWSTREAM_NoError :: u8 where "ENDPOINT_RWSTREAM_NoError \<equiv> 0"
abbreviation (input) ENDPOINT_RWSTREAM_IncompleteTransfer :: u8 where "ENDPOINT_RWSTREAM_IncompleteTransfer \<equiv> 5"
abbreviation (input) ENDPOINT_RWCSTREAM_NoError :: u8 where "ENDPOINT_RWCSTREAM_NoError \<equiv> 0"
abbreviation (input) ENDPOINT_RWCSTREAM_HostAborted :: u8 where "ENDPOINT_RWCSTREAM_HostAborted \<equiv> 1"
abbreviation (input) ENDPOINT_RWCSTREAM_DeviceDisconnected :: u8 where "ENDPOINT_RWCSTREAM_DeviceDisconnected \<equiv> 2"
abbreviation (input) ENDPOINT_RWCSTREAM_BusSuspended :: u8 where "ENDPOINT_RWCSTREAM_BusSuspended \<equiv> 3"
abbreviation (input) USB_STREAM_TIMEOUT_MS :: u8 where "USB_STREAM_TIMEOUT_MS \<equiv> 100"

text \<open>The readiness test at the head of the loop of \<open>Endpoint_WaitUntilReady\<close>.\<close>

definition endpoint_ready :: "'h env \<Rightarrow> 'h fw \<Rightarrow> bool \<times> 'h fw" where
  "endpoint_ready E s =
     (let (d, s) = Endpoint_GetEndpointDirection E s
      in if d = ENDPOINT_DIR_IN then Endpoint_IsINReady E s else Endpoint_IsOUTReceived E s)"

partial_function (option) WaitUntilReady_loop :: "'h env \<Rightarrow> u8 \<Rightarrow> u16 \<Rightarrow> 'h fw \<Rightarrow> (u8 \<times> 'h fw) option" where
  "WaitUntilReady_loop E TimeoutMSRem PreviousFrameNumber s =
     (let (ready, s) = endpoint_ready E s
      in if ready then Some (ENDPOINT_READYWAIT_NoError, s)
         else do {
           (USB_DeviceState_LCL, s) \<leftarrow> read_DeviceState E s;
           if USB_DeviceState_LCL = DEVICE_STATE_Unattached then
             Some (ENDPOINT_READYWAIT_DeviceDisconnected, s)
           else if USB_DeviceState_LCL = DEVICE_STATE_Suspended then
             Some (ENDPOINT_READYWAIT_BusSuspended, s)
           else
             let (stalled, s) = Endpoint_IsStalled E s
             in if stalled then Some (ENDPOINT_READYWAIT_EndpointStalled, s)
                else
                  let (CurrentFrameNumber, s) = USB_Device_GetFrameNumber E s
                  in if CurrentFrameNumber \<noteq> PreviousFrameNumber then
                       if TimeoutMSRem = 0 then Some (ENDPOINT_READYWAIT_Timeout, s)
                       else WaitUntilReady_loop E (TimeoutMSRem - 1) CurrentFrameNumber s
                     else WaitUntilReady_loop E TimeoutMSRem PreviousFrameNumber s })"

definition Endpoint_WaitUntilReady :: "'h env \<Rightarrow> 'h fw \<Rightarrow> (u8 \<times> 'h fw) option" where
  "Endpoint_WaitUntilReady E s =
     (let (PreviousFrameNumber, s) = USB_Device_GetFrameNumber E s
      in WaitUntilReady_loop E USB_STREAM_TIMEOUT_MS PreviousFrameNumber s)"

section \<open>Template parameters\<close>

text \<open>\<open>TEMPLATE_BUFFER_OFFSET\<close> and \<open>TEMPLATE_BUFFER_MOVE\<close> of the little- and the big-endian streams.\<close>

definition OFFSET_LE :: "u16 \<Rightarrow> int" where "OFFSET_LE Length = 0"
definition MOVE_LE :: "int \<Rightarrow> u16 \<Rightarrow> int" where "MOVE_LE DataStream Amount = DataStream + uint Amount"
definition OFFSET_BE :: "u16 \<Rightarrow> int" where "OFFSET_BE Length = uint Length - 1"
definition MOVE_BE :: "int \<Rightarrow> u16 \<Rightarrow> int" where "MOVE_BE DataStream Amount = DataStream - uint Amount"

text \<open>
  \<open>TEMPLATE_TRANSFER_BYTE\<close>: from a RAM buffer, from flash, from EEPROM (whose access routines are those of the C library
  and are arguments), and into a RAM buffer or EEPROM. An access outside the object sets \<open>oob\<close>.
\<close>

definition write_ram :: "'h env \<Rightarrow> u8 list \<Rightarrow> int \<Rightarrow> 'h fw \<Rightarrow> 'h fw" where
  "write_ram E Buffer DataStream s =
     (if 0 \<le> DataStream \<and> nat DataStream < length Buffer then Endpoint_Write_8 E (Buffer ! nat DataStream) s
      else Endpoint_Write_8 E 0 (s\<lparr>oob := True\<rparr>))"

definition write_flash :: "'h env \<Rightarrow> flash_object \<times> nat \<Rightarrow> int \<Rightarrow> 'h fw \<Rightarrow> 'h fw" where
  "write_flash E Buffer DataStream s =
     (if 0 \<le> int (snd Buffer) + DataStream \<and> nat (int (snd Buffer) + DataStream) < length (flash (fst Buffer))
      then Endpoint_Write_8 E (pgm_read_byte (fst Buffer, nat (int (snd Buffer) + DataStream))) s
      else Endpoint_Write_8 E 0 (s\<lparr>oob := True\<rparr>))"

definition write_eeprom :: "(int \<Rightarrow> u8) \<Rightarrow> 'h env \<Rightarrow> int \<Rightarrow> 'h fw \<Rightarrow> 'h fw" where
  "write_eeprom eeprom_read_byte E DataStream s = Endpoint_Write_8 E (eeprom_read_byte DataStream) s"

definition read_ram :: "'h env \<Rightarrow> int \<Rightarrow> u8 list \<times> 'h fw \<Rightarrow> u8 list \<times> 'h fw" where
  "read_ram E DataStream bs =
     (let (Buffer, s) = bs; (v, s) = Endpoint_Read_8 E s
      in if 0 \<le> DataStream \<and> nat DataStream < length Buffer then (Buffer[nat DataStream := v], s)
         else (Buffer, s\<lparr>oob := True\<rparr>))"

definition read_eeprom :: "(int \<Rightarrow> u8 \<Rightarrow> 'e \<Rightarrow> 'e) \<Rightarrow> 'h env \<Rightarrow> int \<Rightarrow> 'e \<times> 'h fw \<Rightarrow> 'e \<times> 'h fw" where
  "read_eeprom eeprom_update_byte E DataStream bs =
     (let (e, s) = bs; (v, s) = Endpoint_Read_8 E s in (eeprom_update_byte DataStream v e, s))"

section \<open>Control write stream\<close>

text \<open>The inner loop that fills one packet; it returns the pointer, the rest of the length and the fill.\<close>

function fill_packet ::
  "(int \<Rightarrow> 'h fw \<Rightarrow> 'h fw) \<Rightarrow> (int \<Rightarrow> u16 \<Rightarrow> int) \<Rightarrow> int \<Rightarrow> u16 \<Rightarrow> u16 \<Rightarrow> 'h fw \<Rightarrow> int \<times> u16 \<times> u16 \<times> 'h fw" where
  "fill_packet TRANSFER MOVE DataStream Length BytesInEndpoint s =
     (if Length \<noteq> 0 \<and> BytesInEndpoint < USB_Device_ControlEndpointSize then
        let s = TRANSFER DataStream s
        in fill_packet TRANSFER MOVE (MOVE DataStream 1) (Length - 1) (BytesInEndpoint + 1) s
      else (DataStream, Length, BytesInEndpoint, s))"
  by auto

termination fill_packet
  by (relation "measure (\<lambda>(_, _, _, Length, _, _). unat Length)") (auto simp: unat_pred unat_gt_0)

declare fill_packet.simps [simp del]

text \<open>
  The tests at the head of an iteration of the main loops of the control streams: leave by \<open>return\<close>,
  leave by \<open>break\<close>, a bank is ready, or go round again.
\<close>

datatype stream_poll = PollReturn u8 | PollBreak | PollReady | PollAgain

definition Control_W_poll :: "'h env \<Rightarrow> 'h fw \<Rightarrow> (stream_poll \<times> 'h fw) option" where
  "Control_W_poll E s = do {
     (USB_DeviceState_LCL, s) \<leftarrow> read_DeviceState E s;
     if USB_DeviceState_LCL = DEVICE_STATE_Unattached then
       Some (PollReturn ENDPOINT_RWCSTREAM_DeviceDisconnected, s)
     else if USB_DeviceState_LCL = DEVICE_STATE_Suspended then
       Some (PollReturn ENDPOINT_RWCSTREAM_BusSuspended, s)
     else
       let (setup, s) = Endpoint_IsSETUPReceived E s
       in if setup then Some (PollReturn ENDPOINT_RWCSTREAM_HostAborted, s)
          else
            let (out, s) = Endpoint_IsOUTReceived E s
            in if out then Some (PollBreak, s)
               else
                 let (ready, s) = Endpoint_IsINReady E s
                 in Some (if ready then PollReady else PollAgain, s) }"

text \<open>
  The main loop. The result is the value of an early \<open>return\<close>, or None when the loop is left by its
  condition or by \<open>break\<close>.
\<close>

partial_function (option) Control_W_loop ::
  "(int \<Rightarrow> 'h fw \<Rightarrow> 'h fw) \<Rightarrow> (int \<Rightarrow> u16 \<Rightarrow> int) \<Rightarrow> 'h env \<Rightarrow> int \<Rightarrow> u16 \<Rightarrow> bool \<Rightarrow> 'h fw \<Rightarrow>
   (u8 option \<times> 'h fw) option" where
  "Control_W_loop TRANSFER MOVE E DataStream Length LastPacketFull s =
     (if Length \<noteq> 0 \<or> LastPacketFull then do {
        (poll, s) \<leftarrow> Control_W_poll E s;
        case poll of
          PollReturn c \<Rightarrow> Some (Some c, s)
        | PollBreak \<Rightarrow> Some (None, s)
        | PollReady \<Rightarrow>
            let (BytesInEndpoint, s) = Endpoint_BytesInEndpoint E s;
                (DataStream, Length, BytesInEndpoint, s) =
                  fill_packet TRANSFER MOVE DataStream Length BytesInEndpoint s
            in Control_W_loop TRANSFER MOVE E DataStream Length
                 (BytesInEndpoint = USB_Device_ControlEndpointSize) (Endpoint_ClearIN E s)
        | PollAgain \<Rightarrow> Control_W_loop TRANSFER MOVE E DataStream Length LastPacketFull s }
      else Some (None, s))"

text \<open>The final loop, which waits for the status stage.\<close>

partial_function (option) Control_W_status :: "'h env \<Rightarrow> 'h fw \<Rightarrow> (u8 \<times> 'h fw) option" where
  "Control_W_status E s =
     (let (out, s) = Endpoint_IsOUTReceived E s
      in if out then Some (ENDPOINT_RWCSTREAM_NoError, s)
         else do {
           (USB_DeviceState_LCL, s) \<leftarrow> read_DeviceState E s;
           if USB_DeviceState_LCL = DEVICE_STATE_Unattached then
             Some (ENDPOINT_RWCSTREAM_DeviceDisconnected, s)
           else if USB_DeviceState_LCL = DEVICE_STATE_Suspended then
             Some (ENDPOINT_RWCSTREAM_BusSuspended, s)
           else
             let (setup, s) = Endpoint_IsSETUPReceived E s
             in if setup then Some (ENDPOINT_RWCSTREAM_HostAborted, s) else Control_W_status E s })"

definition Template_Endpoint_Control_W ::
  "(u16 \<Rightarrow> int) \<Rightarrow> (int \<Rightarrow> u16 \<Rightarrow> int) \<Rightarrow> (int \<Rightarrow> 'h fw \<Rightarrow> 'h fw) \<Rightarrow> 'h env \<Rightarrow> u16 \<Rightarrow> 'h fw \<Rightarrow>
   (u8 \<times> 'h fw) option" where
  "Template_Endpoint_Control_W OFFSET MOVE TRANSFER E Length s =
     (let DataStream = OFFSET Length;
          (Length, s) =
            (if wLength (USB_ControlRequest s) < Length then (wLength (USB_ControlRequest s), s)
             else if Length = 0 then (Length, Endpoint_ClearIN E s)
             else (Length, s))
      in do {
        (ret, s) \<leftarrow> Control_W_loop TRANSFER MOVE E DataStream Length False s;
        case ret of Some c \<Rightarrow> Some (c, s) | None \<Rightarrow> Control_W_status E s })"

definition Endpoint_Write_Control_Stream_LE ::
  "'h env \<Rightarrow> u8 list \<Rightarrow> u16 \<Rightarrow> 'h fw \<Rightarrow> (u8 \<times> 'h fw) option" where
  "Endpoint_Write_Control_Stream_LE E Buffer =
     Template_Endpoint_Control_W OFFSET_LE MOVE_LE (write_ram E Buffer) E"

definition Endpoint_Write_Control_Stream_BE ::
  "'h env \<Rightarrow> u8 list \<Rightarrow> u16 \<Rightarrow> 'h fw \<Rightarrow> (u8 \<times> 'h fw) option" where
  "Endpoint_Write_Control_Stream_BE E Buffer =
     Template_Endpoint_Control_W OFFSET_BE MOVE_BE (write_ram E Buffer) E"

definition Endpoint_Write_Control_PStream_LE ::
  "'h env \<Rightarrow> flash_object \<times> nat \<Rightarrow> u16 \<Rightarrow> 'h fw \<Rightarrow> (u8 \<times> 'h fw) option" where
  "Endpoint_Write_Control_PStream_LE E Buffer =
     Template_Endpoint_Control_W OFFSET_LE MOVE_LE (write_flash E Buffer) E"

definition Endpoint_Write_Control_PStream_BE ::
  "'h env \<Rightarrow> flash_object \<times> nat \<Rightarrow> u16 \<Rightarrow> 'h fw \<Rightarrow> (u8 \<times> 'h fw) option" where
  "Endpoint_Write_Control_PStream_BE E Buffer =
     Template_Endpoint_Control_W OFFSET_BE MOVE_BE (write_flash E Buffer) E"

definition Endpoint_Write_Control_EStream_LE ::
  "(int \<Rightarrow> u8) \<Rightarrow> 'h env \<Rightarrow> u16 \<Rightarrow> 'h fw \<Rightarrow> (u8 \<times> 'h fw) option" where
  "Endpoint_Write_Control_EStream_LE eeprom_read_byte E =
     Template_Endpoint_Control_W OFFSET_LE MOVE_LE (write_eeprom eeprom_read_byte E) E"

definition Endpoint_Write_Control_EStream_BE ::
  "(int \<Rightarrow> u8) \<Rightarrow> 'h env \<Rightarrow> u16 \<Rightarrow> 'h fw \<Rightarrow> (u8 \<times> 'h fw) option" where
  "Endpoint_Write_Control_EStream_BE eeprom_read_byte E =
     Template_Endpoint_Control_W OFFSET_BE MOVE_BE (write_eeprom eeprom_read_byte E) E"

section \<open>Control read stream\<close>

text \<open>
  The inner loop that empties one packet. Each byte that is transferred shortens \<open>Length\<close>; the test of
  \<open>Endpoint_BytesInEndpoint\<close> is made only while \<open>Length\<close> is not zero.
\<close>

function drain_packet ::
  "(int \<Rightarrow> 'b \<times> 'h fw \<Rightarrow> 'b \<times> 'h fw) \<Rightarrow> (int \<Rightarrow> u16 \<Rightarrow> int) \<Rightarrow> 'h env \<Rightarrow> int \<Rightarrow> u16 \<Rightarrow> 'b \<Rightarrow> 'h fw \<Rightarrow>
   int \<times> u16 \<times> 'b \<times> 'h fw" where
  "drain_packet TRANSFER MOVE E DataStream Length Buffer s =
     (if Length = 0 then (DataStream, Length, Buffer, s)
      else
        let (n, s) = Endpoint_BytesInEndpoint E s
        in if n = 0 then (DataStream, Length, Buffer, s)
           else
             let (Buffer, s) = TRANSFER DataStream (Buffer, s)
             in drain_packet TRANSFER MOVE E (MOVE DataStream 1) (Length - 1) Buffer s)"
  by auto

termination drain_packet
  by (relation "measure (\<lambda>(_, _, _, _, Length, _, _). unat Length)") (auto simp: unat_pred unat_gt_0)

declare drain_packet.simps [simp del]

definition Control_R_poll :: "'h env \<Rightarrow> 'h fw \<Rightarrow> (stream_poll \<times> 'h fw) option" where
  "Control_R_poll E s = do {
     (USB_DeviceState_LCL, s) \<leftarrow> read_DeviceState E s;
     if USB_DeviceState_LCL = DEVICE_STATE_Unattached then
       Some (PollReturn ENDPOINT_RWCSTREAM_DeviceDisconnected, s)
     else if USB_DeviceState_LCL = DEVICE_STATE_Suspended then
       Some (PollReturn ENDPOINT_RWCSTREAM_BusSuspended, s)
     else
       let (setup, s) = Endpoint_IsSETUPReceived E s
       in if setup then Some (PollReturn ENDPOINT_RWCSTREAM_HostAborted, s)
          else
            let (out, s) = Endpoint_IsOUTReceived E s
            in Some (if out then PollReady else PollAgain, s) }"

partial_function (option) Control_R_loop ::
  "(int \<Rightarrow> 'b \<times> 'h fw \<Rightarrow> 'b \<times> 'h fw) \<Rightarrow> (int \<Rightarrow> u16 \<Rightarrow> int) \<Rightarrow> 'h env \<Rightarrow> int \<Rightarrow> u16 \<Rightarrow> 'b \<Rightarrow> 'h fw \<Rightarrow>
   (u8 option \<times> 'b \<times> 'h fw) option" where
  "Control_R_loop TRANSFER MOVE E DataStream Length Buffer s =
     (if Length \<noteq> 0 then do {
        (poll, s) \<leftarrow> Control_R_poll E s;
        case poll of
          PollReturn c \<Rightarrow> Some (Some c, Buffer, s)
        | PollBreak \<Rightarrow> Some (None, Buffer, s)
        | PollReady \<Rightarrow>
            let (DataStream, Length, Buffer, s) = drain_packet TRANSFER MOVE E DataStream Length Buffer s
            in Control_R_loop TRANSFER MOVE E DataStream Length Buffer (Endpoint_ClearOUT E s)
        | PollAgain \<Rightarrow> Control_R_loop TRANSFER MOVE E DataStream Length Buffer s }
      else Some (None, Buffer, s))"

partial_function (option) Control_R_status :: "'h env \<Rightarrow> 'h fw \<Rightarrow> (u8 \<times> 'h fw) option" where
  "Control_R_status E s =
     (let (ready, s) = Endpoint_IsINReady E s
      in if ready then Some (ENDPOINT_RWCSTREAM_NoError, s)
         else do {
           (USB_DeviceState_LCL, s) \<leftarrow> read_DeviceState E s;
           if USB_DeviceState_LCL = DEVICE_STATE_Unattached then
             Some (ENDPOINT_RWCSTREAM_DeviceDisconnected, s)
           else if USB_DeviceState_LCL = DEVICE_STATE_Suspended then
             Some (ENDPOINT_RWCSTREAM_BusSuspended, s)
           else Control_R_status E s })"

definition Template_Endpoint_Control_R ::
  "(u16 \<Rightarrow> int) \<Rightarrow> (int \<Rightarrow> u16 \<Rightarrow> int) \<Rightarrow> (int \<Rightarrow> 'b \<times> 'h fw \<Rightarrow> 'b \<times> 'h fw) \<Rightarrow> 'h env \<Rightarrow> 'b \<Rightarrow> u16 \<Rightarrow>
   'h fw \<Rightarrow> (u8 \<times> 'b \<times> 'h fw) option" where
  "Template_Endpoint_Control_R OFFSET MOVE TRANSFER E Buffer Length s =
     (let DataStream = OFFSET Length;
          s = (if Length = 0 then Endpoint_ClearOUT E s else s)
      in do {
        (ret, Buffer, s) \<leftarrow> Control_R_loop TRANSFER MOVE E DataStream Length Buffer s;
        case ret of
          Some c \<Rightarrow> Some (c, Buffer, s)
        | None \<Rightarrow> do { (c, s) \<leftarrow> Control_R_status E s; Some (c, Buffer, s) } })"

definition Endpoint_Read_Control_Stream_LE ::
  "'h env \<Rightarrow> u8 list \<Rightarrow> u16 \<Rightarrow> 'h fw \<Rightarrow> (u8 \<times> u8 list \<times> 'h fw) option" where
  "Endpoint_Read_Control_Stream_LE E = Template_Endpoint_Control_R OFFSET_LE MOVE_LE (read_ram E) E"

definition Endpoint_Read_Control_Stream_BE ::
  "'h env \<Rightarrow> u8 list \<Rightarrow> u16 \<Rightarrow> 'h fw \<Rightarrow> (u8 \<times> u8 list \<times> 'h fw) option" where
  "Endpoint_Read_Control_Stream_BE E = Template_Endpoint_Control_R OFFSET_BE MOVE_BE (read_ram E) E"

definition Endpoint_Read_Control_EStream_LE ::
  "(int \<Rightarrow> u8 \<Rightarrow> 'e \<Rightarrow> 'e) \<Rightarrow> 'h env \<Rightarrow> 'e \<Rightarrow> u16 \<Rightarrow> 'h fw \<Rightarrow> (u8 \<times> 'e \<times> 'h fw) option" where
  "Endpoint_Read_Control_EStream_LE eeprom_update_byte E =
     Template_Endpoint_Control_R OFFSET_LE MOVE_LE (read_eeprom eeprom_update_byte E) E"

definition Endpoint_Read_Control_EStream_BE ::
  "(int \<Rightarrow> u8 \<Rightarrow> 'e \<Rightarrow> 'e) \<Rightarrow> 'h env \<Rightarrow> 'e \<Rightarrow> u16 \<Rightarrow> 'h fw \<Rightarrow> (u8 \<times> 'e \<times> 'h fw) option" where
  "Endpoint_Read_Control_EStream_BE eeprom_update_byte E =
     Template_Endpoint_Control_R OFFSET_BE MOVE_BE (read_eeprom eeprom_update_byte E) E"

section \<open>Endpoint streams\<close>

text \<open>
  The template for the other endpoints. \<open>TASK\<close> is \<open>USB_USBTask\<close>, which the template calls when a bank
  is full or empty; \<open>BytesProcessed\<close> is None for the null pointer.
\<close>

partial_function (option) Endpoint_RW_loop ::
  "('h fw \<Rightarrow> 'h fw option) \<Rightarrow> ('h fw \<Rightarrow> 'h fw) \<Rightarrow> (int \<Rightarrow> 'b \<times> 'h fw \<Rightarrow> 'b \<times> 'h fw) \<Rightarrow> (int \<Rightarrow> u16 \<Rightarrow> int) \<Rightarrow> 'h env \<Rightarrow>
   u16 option \<Rightarrow> u16 \<Rightarrow> int \<Rightarrow> u16 \<Rightarrow> 'b \<Rightarrow> 'h fw \<Rightarrow> (u8 \<times> u16 option \<times> 'b \<times> 'h fw) option" where
  "Endpoint_RW_loop TASK CLEAR TRANSFER MOVE E BytesProcessed BytesInTransfer DataStream Length Buffer s =
     (if Length = 0 then Some (ENDPOINT_RWSTREAM_NoError, BytesProcessed, Buffer, s)
      else
        let (allowed, s) = Endpoint_IsReadWriteAllowed E s
        in if \<not> allowed then do {
             s \<leftarrow> TASK (CLEAR s);
             case BytesProcessed of
               Some n \<Rightarrow> Some (ENDPOINT_RWSTREAM_IncompleteTransfer, Some (n + BytesInTransfer), Buffer, s)
             | None \<Rightarrow> do {
                 (ErrorCode, s) \<leftarrow> Endpoint_WaitUntilReady E s;
                 if ErrorCode \<noteq> 0 then Some (ErrorCode, BytesProcessed, Buffer, s)
                 else Endpoint_RW_loop TASK CLEAR TRANSFER MOVE E BytesProcessed BytesInTransfer DataStream
                        Length Buffer s } }
           else
             let (Buffer, s) = TRANSFER DataStream (Buffer, s)
             in Endpoint_RW_loop TASK CLEAR TRANSFER MOVE E BytesProcessed (BytesInTransfer + 1)
                  (MOVE DataStream 1) (Length - 1) Buffer s)"

definition Template_Endpoint_RW ::
  "('h fw \<Rightarrow> 'h fw option) \<Rightarrow> ('h fw \<Rightarrow> 'h fw) \<Rightarrow> (u16 \<Rightarrow> int) \<Rightarrow> (int \<Rightarrow> u16 \<Rightarrow> int) \<Rightarrow>
   (int \<Rightarrow> 'b \<times> 'h fw \<Rightarrow> 'b \<times> 'h fw) \<Rightarrow> 'h env \<Rightarrow> 'b \<Rightarrow> u16 \<Rightarrow> u16 option \<Rightarrow> 'h fw \<Rightarrow>
   (u8 \<times> u16 option \<times> 'b \<times> 'h fw) option" where
  "Template_Endpoint_RW TASK CLEAR OFFSET MOVE TRANSFER E Buffer Length BytesProcessed s =
     (let DataStream = OFFSET Length
      in do {
        (ErrorCode, s) \<leftarrow> Endpoint_WaitUntilReady E s;
        if ErrorCode \<noteq> 0 then Some (ErrorCode, BytesProcessed, Buffer, s)
        else
          let (Length, DataStream) =
            (case BytesProcessed of None \<Rightarrow> (Length, DataStream)
             | Some n \<Rightarrow> (Length - n, MOVE DataStream n))
          in Endpoint_RW_loop TASK CLEAR TRANSFER MOVE E BytesProcessed 0 DataStream Length Buffer s })"

text \<open>\<open>Endpoint_Discard_Stream\<close> and \<open>Endpoint_Null_Stream\<close>, which differ in the byte operation and the bank release.\<close>

partial_function (option) Discard_Stream_loop ::
  "'h env \<Rightarrow> u16 option \<Rightarrow> u16 \<Rightarrow> u16 \<Rightarrow> 'h fw \<Rightarrow> (u8 \<times> u16 option \<times> 'h fw) option" where
  "Discard_Stream_loop E BytesProcessed BytesInTransfer Length s =
     (if Length = 0 then Some (ENDPOINT_RWSTREAM_NoError, BytesProcessed, s)
      else
        let (allowed, s) = Endpoint_IsReadWriteAllowed E s
        in if \<not> allowed then
             let s = Endpoint_ClearOUT E s
             in (case BytesProcessed of
                   Some n \<Rightarrow> Some (ENDPOINT_RWSTREAM_IncompleteTransfer, Some (n + BytesInTransfer), s)
                 | None \<Rightarrow> do {
                     (ErrorCode, s) \<leftarrow> Endpoint_WaitUntilReady E s;
                     if ErrorCode \<noteq> 0 then Some (ErrorCode, BytesProcessed, s)
                     else Discard_Stream_loop E BytesProcessed BytesInTransfer Length s })
           else Discard_Stream_loop E BytesProcessed (BytesInTransfer + 1) (Length - 1) (Endpoint_Discard_8 E s))"

definition Endpoint_Discard_Stream ::
  "'h env \<Rightarrow> u16 \<Rightarrow> u16 option \<Rightarrow> 'h fw \<Rightarrow> (u8 \<times> u16 option \<times> 'h fw) option" where
  "Endpoint_Discard_Stream E Length BytesProcessed s = do {
     (ErrorCode, s) \<leftarrow> Endpoint_WaitUntilReady E s;
     if ErrorCode \<noteq> 0 then Some (ErrorCode, BytesProcessed, s)
     else Discard_Stream_loop E BytesProcessed 0
            (case BytesProcessed of None \<Rightarrow> Length | Some n \<Rightarrow> Length - n) s }"

partial_function (option) Null_Stream_loop ::
  "'h env \<Rightarrow> u16 option \<Rightarrow> u16 \<Rightarrow> u16 \<Rightarrow> 'h fw \<Rightarrow> (u8 \<times> u16 option \<times> 'h fw) option" where
  "Null_Stream_loop E BytesProcessed BytesInTransfer Length s =
     (if Length = 0 then Some (ENDPOINT_RWSTREAM_NoError, BytesProcessed, s)
      else
        let (allowed, s) = Endpoint_IsReadWriteAllowed E s
        in if \<not> allowed then
             let s = Endpoint_ClearIN E s
             in (case BytesProcessed of
                   Some n \<Rightarrow> Some (ENDPOINT_RWSTREAM_IncompleteTransfer, Some (n + BytesInTransfer), s)
                 | None \<Rightarrow> do {
                     (ErrorCode, s) \<leftarrow> Endpoint_WaitUntilReady E s;
                     if ErrorCode \<noteq> 0 then Some (ErrorCode, BytesProcessed, s)
                     else Null_Stream_loop E BytesProcessed BytesInTransfer Length s })
           else Null_Stream_loop E BytesProcessed (BytesInTransfer + 1) (Length - 1) (Endpoint_Write_8 E 0 s))"

definition Endpoint_Null_Stream ::
  "'h env \<Rightarrow> u16 \<Rightarrow> u16 option \<Rightarrow> 'h fw \<Rightarrow> (u8 \<times> u16 option \<times> 'h fw) option" where
  "Endpoint_Null_Stream E Length BytesProcessed s = do {
     (ErrorCode, s) \<leftarrow> Endpoint_WaitUntilReady E s;
     if ErrorCode \<noteq> 0 then Some (ErrorCode, BytesProcessed, s)
     else Null_Stream_loop E BytesProcessed 0
            (case BytesProcessed of None \<Rightarrow> Length | Some n \<Rightarrow> Length - n) s }"

end
