(* ===== verification/HIDDevice.thy ===== *)
theory HIDDevice
  imports Streams
begin

text \<open>
  The class-specific control requests of the HID device driver (\<open>HIDClassDevice.c\<close>) and the
  application callbacks of \<open>joystick.c\<close> that it calls to create and to consume reports.
\<close>

section \<open>Request header fields\<close>

abbreviation (input) CONTROL_REQTYPE_RECIPIENT :: u8 where "CONTROL_REQTYPE_RECIPIENT \<equiv> 0x1F"
abbreviation (input) REQDIR_HOSTTODEVICE :: u8 where "REQDIR_HOSTTODEVICE \<equiv> 0x00"
abbreviation (input) REQTYPE_STANDARD :: u8 where "REQTYPE_STANDARD \<equiv> 0x00"
abbreviation (input) REQTYPE_CLASS :: u8 where "REQTYPE_CLASS \<equiv> 0x20"
abbreviation (input) REQREC_DEVICE :: u8 where "REQREC_DEVICE \<equiv> 0x00"
abbreviation (input) REQREC_INTERFACE :: u8 where "REQREC_INTERFACE \<equiv> 0x01"
abbreviation (input) REQREC_ENDPOINT :: u8 where "REQREC_ENDPOINT \<equiv> 0x02"

section \<open>Callbacks of the application\<close>

text \<open>
  \<open>CALLBACK_HID_Device_CreateHIDReport\<close> stores through a pointer to \<open>USB_JoystickReport_Data_t\<close>: the
  32-bit \<open>Button\<close> at offset 6, \<open>X\<close> and \<open>Y\<close> at offsets 0 and 1. The result is the return value, the
  report ID (not changed), the buffer, and the report size.
\<close>

definition CALLBACK_HID_Device_CreateHIDReport ::
  "'h env \<Rightarrow> u8 \<Rightarrow> u8 \<Rightarrow> u8 list \<Rightarrow> 'h fw \<Rightarrow> (bool \<times> u8 \<times> u8 list \<times> u16) \<times> 'h fw" where
  "CALLBACK_HID_Device_CreateHIDReport E ReportID ReportType ReportData s =
     (let (pins, s) = rd E PINB s;
          s = (if length ReportData < 10 then s\<lparr>oob := True\<rparr> else s);
          ReportData = take 6 ReportData @ le32 (ucast pins) @ drop 10 ReportData;
          ReportData = ReportData[0 := joy_mask s];
          ReportData = ReportData[1 := joy_saved s]
      in ((False, ReportID, ReportData, 32), s))"

text \<open>
  \<open>CALLBACK_HID_Device_ProcessHIDReport\<close> reads the second byte of the report twice; the array it
  is given may be shorter than that.
\<close>

definition second_byte :: "u8 list \<Rightarrow> 'h fw \<Rightarrow> u8 \<times> 'h fw" where
  "second_byte ReportData s = (if 1 < length ReportData then (ReportData ! 1, s) else (0, s\<lparr>oob := True\<rparr>))"

definition CALLBACK_HID_Device_ProcessHIDReport ::
  "'h env \<Rightarrow> u8 \<Rightarrow> u8 \<Rightarrow> u8 list \<Rightarrow> u16 \<Rightarrow> 'h fw \<Rightarrow> 'h fw" where
  "CALLBACK_HID_Device_ProcessHIDReport E ReportID ReportType ReportData ReportSize s =
     (let (v, s) = second_byte ReportData s;
          s = s\<lparr>joy_saved := v\<rparr>;
          (v, s) = second_byte ReportData s
      in wr E PORTD v s)"

section \<open>Class requests\<close>

text \<open>The statement \<open>while (!(Endpoint_IsINReady()));\<close>.\<close>

partial_function (option) wait_INReady :: "'h env \<Rightarrow> 'h fw \<Rightarrow> 'h fw option" where
  "wait_INReady E s = (let (b, s) = Endpoint_IsINReady E s in if b then Some s else wait_INReady E s)"

definition HID_GetReport :: "'h env \<Rightarrow> 'h fw \<Rightarrow> 'h fw option" where
  "HID_GetReport E s =
     (let req = USB_ControlRequest s;
          ReportID = ucast (wValue req AND 0xFF) :: u8;
          ReportType = ucast (drop_bit 8 (wValue req)) - 1 :: u8;
          n = unat (PrevReportINBufferSize (Joystick_HID_Interface s));
          ReportData = memset 0 n;
          ((force, ReportID, ReportData, ReportSize), s) =
            CALLBACK_HID_Device_CreateHIDReport E ReportID ReportType ReportData s;
          s = (case PrevReportINBuffer (Joystick_HID_Interface s) of
                 None \<Rightarrow> s
               | Some prev \<Rightarrow> upd_hid (\<lambda>i. i\<lparr>PrevReportINBuffer := Some (memcpy prev ReportData n)\<rparr>) s);
          s = Endpoint_SelectEndpoint E ENDPOINT_CONTROLEP s;
          s = Endpoint_ClearSETUP E s;
          s = (if ReportID \<noteq> 0 then Endpoint_Write_8 E ReportID s else s)
      in do {
        (c, s) \<leftarrow> Endpoint_Write_Control_Stream_LE E ReportData ReportSize s;
        Some (Endpoint_ClearOUT E s) })"

definition HID_SetReport :: "'h env \<Rightarrow> 'h fw \<Rightarrow> 'h fw option" where
  "HID_SetReport E s =
     (let req = USB_ControlRequest s;
          ReportSize = wLength req;
          ReportID = ucast (wValue req AND 0xFF) :: u8;
          ReportType = ucast (drop_bit 8 (wValue req)) - 1 :: u8;
          ReportData = map (uninit_byte E) [0 ..< unat ReportSize];
          s = Endpoint_ClearSETUP E s
      in do {
        (c, ReportData, s) \<leftarrow> Endpoint_Read_Control_Stream_LE E ReportData ReportSize s;
        let s = Endpoint_ClearIN E s;
        Some (CALLBACK_HID_Device_ProcessHIDReport E ReportID ReportType
          (drop (if ReportID \<noteq> 0 then 1 else 0) ReportData) (ReportSize - (if ReportID \<noteq> 0 then 1 else 0)) s) })"

definition HID_GetProtocol :: "'h env \<Rightarrow> 'h fw \<Rightarrow> 'h fw option" where
  "HID_GetProtocol E s = do {
     s \<leftarrow> wait_INReady E (Endpoint_ClearSETUP E s);
     let s = Endpoint_Write_8 E (if UsingReportProtocol (Joystick_HID_Interface s) then 1 else 0) s;
     Endpoint_ClearStatusStage E (Endpoint_ClearIN E s) }"

definition HID_SetProtocol :: "'h env \<Rightarrow> 'h fw \<Rightarrow> 'h fw option" where
  "HID_SetProtocol E s = do {
     s \<leftarrow> Endpoint_ClearStatusStage E (Endpoint_ClearSETUP E s);
     Some (upd_hid (\<lambda>i. i\<lparr>UsingReportProtocol := (wValue (USB_ControlRequest s) AND 0xFF \<noteq> 0)\<rparr>) s) }"

definition HID_SetIdle :: "'h env \<Rightarrow> 'h fw \<Rightarrow> 'h fw option" where
  "HID_SetIdle E s = do {
     s \<leftarrow> Endpoint_ClearStatusStage E (Endpoint_ClearSETUP E s);
     Some (upd_hid (\<lambda>i. i\<lparr>IdleCount := drop_bit 6 (wValue (USB_ControlRequest s) AND 0xFF00)\<rparr>) s) }"

definition HID_GetIdle :: "'h env \<Rightarrow> 'h fw \<Rightarrow> 'h fw option" where
  "HID_GetIdle E s = do {
     s \<leftarrow> wait_INReady E (Endpoint_ClearSETUP E s);
     let s = Endpoint_Write_8 E (ucast (drop_bit 2 (IdleCount (Joystick_HID_Interface s)))) s;
     Endpoint_ClearStatusStage E (Endpoint_ClearIN E s) }"

definition HID_Device_ProcessControlRequest :: "'h env \<Rightarrow> 'h fw \<Rightarrow> 'h fw option" where
  "HID_Device_ProcessControlRequest E s =
     (let (setup, s) = Endpoint_IsSETUPReceived E s; req = USB_ControlRequest s
      in if \<not> setup then Some s
         else if wIndex req \<noteq> ucast (InterfaceNumber (Joystick_HID_Interface s)) then Some s
         else
           let r = bRequest req;
               to_host = (bmRequestType req = REQDIR_DEVICETOHOST OR REQTYPE_CLASS OR REQREC_INTERFACE);
               to_device = (bmRequestType req = REQDIR_HOSTTODEVICE OR REQTYPE_CLASS OR REQREC_INTERFACE)
           in if r = hid_req HID_REQ_GetReport then (if to_host then HID_GetReport E s else Some s)
              else if r = hid_req HID_REQ_SetReport then (if to_device then HID_SetReport E s else Some s)
              else if r = hid_req HID_REQ_GetProtocol then (if to_host then HID_GetProtocol E s else Some s)
              else if r = hid_req HID_REQ_SetProtocol then (if to_device then HID_SetProtocol E s else Some s)
              else if r = hid_req HID_REQ_SetIdle then (if to_device then HID_SetIdle E s else Some s)
              else if r = hid_req HID_REQ_GetIdle then (if to_host then HID_GetIdle E s else Some s)
              else Some s)"

definition EVENT_USB_Device_ControlRequest :: "'h env \<Rightarrow> 'h fw \<Rightarrow> 'h fw option" where
  "EVENT_USB_Device_ControlRequest E s = HID_Device_ProcessControlRequest E s"

end
