(* ===== verification/DeviceRequests.thy ===== *)
theory DeviceRequests
  imports HIDDevice
begin

text \<open>
  The standard control requests (\<open>DeviceStandardReq.c\<close>) and the dispatcher that reads a SETUP packet,
  offers it to the application and stalls what nobody handled.
\<close>

section \<open>Request codes\<close>

datatype USB_Control_Request_t =
    REQ_GetStatus | REQ_ClearFeature | REQ_SetFeature | REQ_SetAddress | REQ_GetDescriptor
  | REQ_SetDescriptor | REQ_GetConfiguration | REQ_SetConfiguration | REQ_GetInterface
  | REQ_SetInterface | REQ_SynchFrame

primrec req_code :: "USB_Control_Request_t \<Rightarrow> u8" where
  "req_code REQ_GetStatus = 0"
| "req_code REQ_ClearFeature = 1"
| "req_code REQ_SetFeature = 3"
| "req_code REQ_SetAddress = 5"
| "req_code REQ_GetDescriptor = 6"
| "req_code REQ_SetDescriptor = 7"
| "req_code REQ_GetConfiguration = 8"
| "req_code REQ_SetConfiguration = 9"
| "req_code REQ_GetInterface = 10"
| "req_code REQ_SetInterface = 11"
| "req_code REQ_SynchFrame = 12"

datatype USB_Feature_Selectors_t =
  FEATURE_SEL_EndpointHalt | FEATURE_SEL_DeviceRemoteWakeup | FEATURE_SEL_TestMode

primrec feature_sel :: "USB_Feature_Selectors_t \<Rightarrow> u8" where
  "feature_sel FEATURE_SEL_EndpointHalt = 0"
| "feature_sel FEATURE_SEL_DeviceRemoteWakeup = 1"
| "feature_sel FEATURE_SEL_TestMode = 2"

abbreviation (input) FEATURE_SELFPOWERED_ENABLED :: u8 where "FEATURE_SELFPOWERED_ENABLED \<equiv> BV 0"
abbreviation (input) FEATURE_REMOTE_WAKEUP_ENABLED :: u8 where "FEATURE_REMOTE_WAKEUP_ENABLED \<equiv> BV 1"
abbreviation (input) USE_INTERNAL_SERIAL :: u8 where "USE_INTERNAL_SERIAL \<equiv> 0xDC"

section \<open>Requests\<close>

definition USB_Device_SetAddress :: "'h env \<Rightarrow> 'h fw \<Rightarrow> 'h fw option" where
  "USB_Device_SetAddress E s =
     (let DeviceAddress = ucast (wValue (USB_ControlRequest s) AND 0x7F) :: u8;
          s = USB_Device_SetDeviceAddress E DeviceAddress s;
          s = Endpoint_ClearSETUP E s
      in do {
        s \<leftarrow> Endpoint_ClearStatusStage E s;
        s \<leftarrow> wait_INReady E s;
        let s = USB_Device_EnableDeviceAddress E DeviceAddress s;
        Some (s\<lparr>USB_DeviceState := if DeviceAddress \<noteq> 0 then DEVICE_STATE_Addressed else DEVICE_STATE_Default\<rparr>) })"

definition USB_Device_SetConfiguration :: "'h env \<Rightarrow> 'h fw \<Rightarrow> 'h fw option" where
  "USB_Device_SetConfiguration E s =
     (if FIXED_NUM_CONFIGURATIONS < ucast (wValue (USB_ControlRequest s)) then Some s
      else
        let s = Endpoint_ClearSETUP E s;
            s = s\<lparr>USB_Device_ConfigurationNumber := ucast (wValue (USB_ControlRequest s))\<rparr>
        in do {
          s \<leftarrow> Endpoint_ClearStatusStage E s;
          let s = (if USB_Device_ConfigurationNumber s \<noteq> 0 then s\<lparr>USB_DeviceState := DEVICE_STATE_Configured\<rparr>
                   else let (a, s) = USB_Device_IsAddressSet E s
                        in s\<lparr>USB_DeviceState := if a then DEVICE_STATE_Configured else DEVICE_STATE_Powered\<rparr>);
          EVENT_USB_Device_ConfigurationChanged E s })"

definition USB_Device_GetConfiguration :: "'h env \<Rightarrow> 'h fw \<Rightarrow> 'h fw option" where
  "USB_Device_GetConfiguration E s =
     (let s = Endpoint_ClearSETUP E s;
          s = Endpoint_Write_8 E (USB_Device_ConfigurationNumber s) s;
          s = Endpoint_ClearIN E s
      in Endpoint_ClearStatusStage E s)"

text \<open>The struct \<open>SignatureDescriptor\<close>, as its bytes: the header and twenty UTF-16 code units.\<close>

definition SignatureDescriptor :: "u16 list \<Rightarrow> u8 list" where
  "SignatureDescriptor UnicodeString =
     [USB_STRING_LEN (of_nat (INTERNAL_SERIAL_LENGTH_BITS div 4)), dtype DTYPE_String] @
     concat (map le16 UnicodeString)"

definition USB_Device_GetInternalSerialDescriptor :: "'h env \<Rightarrow> 'h fw \<Rightarrow> 'h fw option" where
  "USB_Device_GetInternalSerialDescriptor E s =
     (let (UnicodeString, s) = USB_Device_GetSerialString E s;
          s = Endpoint_ClearSETUP E s
      in do {
        (c, s) \<leftarrow> Endpoint_Write_Control_Stream_LE E (SignatureDescriptor UnicodeString) 42 s;
        Some (Endpoint_ClearOUT E s) })"

definition USB_Device_GetDescriptor :: "'h env \<Rightarrow> 'h fw \<Rightarrow> 'h fw option" where
  "USB_Device_GetDescriptor E s =
     (let req = USB_ControlRequest s
      in if wValue req = push_bit 8 (ucast (dtype DTYPE_String)) OR ucast USE_INTERNAL_SERIAL
         then USB_Device_GetInternalSerialDescriptor E s
         else
           let (DescriptorSize, DescriptorPointer) =
             CALLBACK_USB_GetDescriptor (wValue req) (ucast (wIndex req))
           in if DescriptorSize = ucast NO_DESCRIPTOR then Some s
              else
                case DescriptorPointer of
                  None \<Rightarrow> Some (s\<lparr>oob := True\<rparr>)
                | Some p \<Rightarrow> do {
                    (c, s) \<leftarrow> Endpoint_Write_Control_PStream_LE E p DescriptorSize (Endpoint_ClearSETUP E s);
                    Some (Endpoint_ClearOUT E s) })"

definition USB_Device_GetStatus :: "'h env \<Rightarrow> 'h fw \<Rightarrow> 'h fw option" where
  "USB_Device_GetStatus E s =
     (let t = bmRequestType (USB_ControlRequest s);
          answer = (\<lambda>CurrentStatus s.
            let s = Endpoint_ClearSETUP E s;
                s = Endpoint_Write_16_LE E (ucast (CurrentStatus :: u8)) s;
                s = Endpoint_ClearIN E s
            in Endpoint_ClearStatusStage E s)
      in if t = REQDIR_DEVICETOHOST OR REQTYPE_STANDARD OR REQREC_DEVICE then
           answer ((if USB_Device_CurrentlySelfPowered s then FEATURE_SELFPOWERED_ENABLED else 0) OR
                   (if USB_Device_RemoteWakeupEnabled s then FEATURE_REMOTE_WAKEUP_ENABLED else 0)) s
         else if t = REQDIR_DEVICETOHOST OR REQTYPE_STANDARD OR REQREC_ENDPOINT then
           let s = Endpoint_SelectEndpoint E (ucast (wIndex (USB_ControlRequest s)) AND ENDPOINT_EPNUM_MASK) s;
               (stalled, s) = Endpoint_IsStalled E s;
               s = Endpoint_SelectEndpoint E ENDPOINT_CONTROLEP s
           in answer (if stalled then 1 else 0) s
         else Some s)"

text \<open>The common end of the branches of \<open>USB_Device_ClearSetFeature\<close> that do not return early.\<close>

definition ack_feature :: "'h env \<Rightarrow> 'h fw \<Rightarrow> 'h fw option" where
  "ack_feature E s =
     Endpoint_ClearStatusStage E (Endpoint_ClearSETUP E (Endpoint_SelectEndpoint E ENDPOINT_CONTROLEP s))"

definition USB_Device_ClearSetFeature :: "'h env \<Rightarrow> 'h fw \<Rightarrow> 'h fw option" where
  "USB_Device_ClearSetFeature E s =
     (let req = USB_ControlRequest s;
          rec = bmRequestType req AND CONTROL_REQTYPE_RECIPIENT;
          set = (bRequest req = req_code REQ_SetFeature);
          sel = ucast (wValue req) :: u8
      in if rec = REQREC_DEVICE then
           (if sel = feature_sel FEATURE_SEL_DeviceRemoteWakeup
            then ack_feature E (s\<lparr>USB_Device_RemoteWakeupEnabled := set\<rparr>) else Some s)
         else if rec = REQREC_ENDPOINT then
           (if sel = feature_sel FEATURE_SEL_EndpointHalt then
              let EndpointIndex = ucast (wIndex req) AND ENDPOINT_EPNUM_MASK :: u8
              in if EndpointIndex = ENDPOINT_CONTROLEP then Some s
                 else
                   let s = Endpoint_SelectEndpoint E EndpointIndex s;
                       (enabled, s) = Endpoint_IsEnabled E s;
                       s = (if enabled then
                              if set then Endpoint_StallTransaction E s
                              else
                                let s = Endpoint_ClearStall E s;
                                    s = Endpoint_ResetEndpoint E EndpointIndex s
                                in Endpoint_ResetDataToggle E s
                            else s)
                   in ack_feature E s
            else ack_feature E s)
         else Some s)"

section \<open>Dispatch\<close>

text \<open>The eight bytes of the SETUP packet are stored over \<open>USB_ControlRequest\<close>, little-endian.\<close>

definition header_of_bytes :: "u8 list \<Rightarrow> USB_Request_Header_t" where
  "header_of_bytes b = \<lparr>bmRequestType = b ! 0, bRequest = b ! 1, wValue = of_le16 (b ! 2) (b ! 3),
     wIndex = of_le16 (b ! 4) (b ! 5), wLength = of_le16 (b ! 6) (b ! 7)\<rparr>"

fun read_bytes :: "'h env \<Rightarrow> nat \<Rightarrow> 'h fw \<Rightarrow> u8 list \<times> 'h fw" where
  "read_bytes E 0 s = ([], s)"
| "read_bytes E (Suc n) s =
     (let (b, s) = Endpoint_Read_8 E s; (bs, s) = read_bytes E n s in (b # bs, s))"

text \<open>The \<open>switch\<close> of \<open>USB_Device_ProcessControlRequest\<close>.\<close>

definition standard_request :: "'h env \<Rightarrow> 'h fw \<Rightarrow> 'h fw option" where
  "standard_request E s =
     (let r = bRequest (USB_ControlRequest s);
          t = bmRequestType (USB_ControlRequest s);
          to_host = (\<lambda>rec. t = REQDIR_DEVICETOHOST OR REQTYPE_STANDARD OR rec);
          to_device = (\<lambda>rec. t = REQDIR_HOSTTODEVICE OR REQTYPE_STANDARD OR rec)
      in if r = req_code REQ_GetStatus then
           (if to_host REQREC_DEVICE \<or> to_host REQREC_ENDPOINT then USB_Device_GetStatus E s else Some s)
         else if r = req_code REQ_ClearFeature \<or> r = req_code REQ_SetFeature then
           (if to_device REQREC_DEVICE \<or> to_device REQREC_ENDPOINT then USB_Device_ClearSetFeature E s
            else Some s)
         else if r = req_code REQ_SetAddress then
           (if to_device REQREC_DEVICE then USB_Device_SetAddress E s else Some s)
         else if r = req_code REQ_GetDescriptor then
           (if to_host REQREC_DEVICE \<or> to_host REQREC_INTERFACE then USB_Device_GetDescriptor E s else Some s)
         else if r = req_code REQ_GetConfiguration then
           (if to_host REQREC_DEVICE then USB_Device_GetConfiguration E s else Some s)
         else if r = req_code REQ_SetConfiguration then
           (if to_device REQREC_DEVICE then USB_Device_SetConfiguration E s else Some s)
         else Some s)"

definition USB_Device_ProcessControlRequest :: "'h env \<Rightarrow> 'h fw \<Rightarrow> 'h fw option" where
  "USB_Device_ProcessControlRequest E s =
     (let (header, s) = read_bytes E 8 s;
          s = s\<lparr>USB_ControlRequest := header_of_bytes header\<rparr>
      in do {
        s \<leftarrow> EVENT_USB_Device_ControlRequest E s;
        let (setup, s) = Endpoint_IsSETUPReceived E s;
        s \<leftarrow> (if setup then standard_request E s else Some s);
        let (setup, s) = Endpoint_IsSETUPReceived E s;
        Some (if setup then Endpoint_StallTransaction E (Endpoint_ClearSETUP E s) else s) })"

end
