(* ===== verification/Firmware.thy ===== *)
theory Firmware
  imports DeviceRequests
begin

text \<open>
  The top of the firmware: the USB task of the library (\<open>USBTask.c\<close>), the endpoint streams that call it,
  the report task of the HID driver, and \<open>main\<close> of \<open>joystick.c\<close> as its initialisation and the body
  of its endless loop.
\<close>

section \<open>USB task\<close>

definition USB_DeviceTask :: "'h env \<Rightarrow> 'h fw \<Rightarrow> 'h fw option" where
  "USB_DeviceTask E s = do {
     (d, s) \<leftarrow> read_DeviceState E s;
     if d = DEVICE_STATE_Unattached then Some s
     else
       let (PrevEndpoint, s) = Endpoint_GetCurrentEndpoint E s;
           s = Endpoint_SelectEndpoint E ENDPOINT_CONTROLEP s;
           (setup, s) = Endpoint_IsSETUPReceived E s
       in do {
         s \<leftarrow> (if setup then USB_Device_ProcessControlRequest E s else Some s);
         Some (Endpoint_SelectEndpoint E PrevEndpoint s) } }"

definition USB_USBTask :: "'h env \<Rightarrow> 'h fw \<Rightarrow> 'h fw option" where
  "USB_USBTask E s = USB_DeviceTask E s"

section \<open>Endpoint streams\<close>

text \<open>The write streams do not change their buffer: the buffer component of the template is trivial.\<close>

definition write_byte :: "(int \<Rightarrow> 'h fw \<Rightarrow> 'h fw) \<Rightarrow> int \<Rightarrow> unit \<times> 'h fw \<Rightarrow> unit \<times> 'h fw" where
  "write_byte TRANSFER DataStream bs = ((), TRANSFER DataStream (snd bs))"

type_synonym 'h write_result = "(u8 \<times> u16 option \<times> unit \<times> 'h fw) option"

definition Endpoint_Write_Stream_LE ::
  "'h env \<Rightarrow> u8 list \<Rightarrow> u16 \<Rightarrow> u16 option \<Rightarrow> 'h fw \<Rightarrow> 'h write_result" where
  "Endpoint_Write_Stream_LE E Buffer =
     Template_Endpoint_RW (USB_USBTask E) (Endpoint_ClearIN E) OFFSET_LE MOVE_LE (write_byte (write_ram E Buffer)) E ()"

definition Endpoint_Write_Stream_BE ::
  "'h env \<Rightarrow> u8 list \<Rightarrow> u16 \<Rightarrow> u16 option \<Rightarrow> 'h fw \<Rightarrow> 'h write_result" where
  "Endpoint_Write_Stream_BE E Buffer =
     Template_Endpoint_RW (USB_USBTask E) (Endpoint_ClearIN E) OFFSET_BE MOVE_BE (write_byte (write_ram E Buffer)) E ()"

definition Endpoint_Read_Stream_LE ::
  "'h env \<Rightarrow> u8 list \<Rightarrow> u16 \<Rightarrow> u16 option \<Rightarrow> 'h fw \<Rightarrow> (u8 \<times> u16 option \<times> u8 list \<times> 'h fw) option" where
  "Endpoint_Read_Stream_LE E =
     Template_Endpoint_RW (USB_USBTask E) (Endpoint_ClearOUT E) OFFSET_LE MOVE_LE (read_ram E) E"

definition Endpoint_Read_Stream_BE ::
  "'h env \<Rightarrow> u8 list \<Rightarrow> u16 \<Rightarrow> u16 option \<Rightarrow> 'h fw \<Rightarrow> (u8 \<times> u16 option \<times> u8 list \<times> 'h fw) option" where
  "Endpoint_Read_Stream_BE E =
     Template_Endpoint_RW (USB_USBTask E) (Endpoint_ClearOUT E) OFFSET_BE MOVE_BE (read_ram E) E"

definition Endpoint_Write_PStream_LE ::
  "'h env \<Rightarrow> flash_object \<times> nat \<Rightarrow> u16 \<Rightarrow> u16 option \<Rightarrow> 'h fw \<Rightarrow> 'h write_result" where
  "Endpoint_Write_PStream_LE E Buffer =
     Template_Endpoint_RW (USB_USBTask E) (Endpoint_ClearIN E) OFFSET_LE MOVE_LE (write_byte (write_flash E Buffer)) E ()"

definition Endpoint_Write_PStream_BE ::
  "'h env \<Rightarrow> flash_object \<times> nat \<Rightarrow> u16 \<Rightarrow> u16 option \<Rightarrow> 'h fw \<Rightarrow> 'h write_result" where
  "Endpoint_Write_PStream_BE E Buffer =
     Template_Endpoint_RW (USB_USBTask E) (Endpoint_ClearIN E) OFFSET_BE MOVE_BE (write_byte (write_flash E Buffer)) E ()"

definition Endpoint_Write_EStream_LE ::
  "(int \<Rightarrow> u8) \<Rightarrow> 'h env \<Rightarrow> u16 \<Rightarrow> u16 option \<Rightarrow> 'h fw \<Rightarrow> 'h write_result" where
  "Endpoint_Write_EStream_LE eeprom_read_byte E =
     Template_Endpoint_RW (USB_USBTask E) (Endpoint_ClearIN E) OFFSET_LE MOVE_LE
       (write_byte (write_eeprom eeprom_read_byte E)) E ()"

definition Endpoint_Write_EStream_BE ::
  "(int \<Rightarrow> u8) \<Rightarrow> 'h env \<Rightarrow> u16 \<Rightarrow> u16 option \<Rightarrow> 'h fw \<Rightarrow> 'h write_result" where
  "Endpoint_Write_EStream_BE eeprom_read_byte E =
     Template_Endpoint_RW (USB_USBTask E) (Endpoint_ClearIN E) OFFSET_BE MOVE_BE
       (write_byte (write_eeprom eeprom_read_byte E)) E ()"

definition Endpoint_Read_EStream_LE ::
  "(int \<Rightarrow> u8 \<Rightarrow> 'e \<Rightarrow> 'e) \<Rightarrow> 'h env \<Rightarrow> 'e \<Rightarrow> u16 \<Rightarrow> u16 option \<Rightarrow> 'h fw \<Rightarrow>
   (u8 \<times> u16 option \<times> 'e \<times> 'h fw) option" where
  "Endpoint_Read_EStream_LE eeprom_update_byte E =
     Template_Endpoint_RW (USB_USBTask E) (Endpoint_ClearOUT E) OFFSET_LE MOVE_LE
       (read_eeprom eeprom_update_byte E) E"

definition Endpoint_Read_EStream_BE ::
  "(int \<Rightarrow> u8 \<Rightarrow> 'e \<Rightarrow> 'e) \<Rightarrow> 'h env \<Rightarrow> 'e \<Rightarrow> u16 \<Rightarrow> u16 option \<Rightarrow> 'h fw \<Rightarrow>
   (u8 \<times> u16 option \<times> 'e \<times> 'h fw) option" where
  "Endpoint_Read_EStream_BE eeprom_update_byte E =
     Template_Endpoint_RW (USB_USBTask E) (Endpoint_ClearOUT E) OFFSET_BE MOVE_BE
       (read_eeprom eeprom_update_byte E) E"

section \<open>HID report task\<close>

text \<open>
  Whether a report is due: \<open>ForceSend || StatesChanged || IdlePeriodElapsed\<close> for a report of non-zero
  size.
\<close>

definition HID_report_due :: "bool \<Rightarrow> bool \<Rightarrow> USB_ClassInfo_HID_Device_t \<Rightarrow> u16 \<Rightarrow> bool" where
  "HID_report_due ForceSend StatesChanged i ReportINSize \<longleftrightarrow>
     ReportINSize \<noteq> 0 \<and> (ForceSend \<or> StatesChanged \<or> IdleCount i \<noteq> 0 \<and> IdleMSRemaining i = 0)"

definition HID_Device_USBTask :: "'h env \<Rightarrow> 'h fw \<Rightarrow> 'h fw option" where
  "HID_Device_USBTask E s = do {
     (d, s) \<leftarrow> read_DeviceState E s;
     if d \<noteq> DEVICE_STATE_Configured then Some s
     else
       let (frame, s) = USB_Device_GetFrameNumber E s
       in if PrevFrameNum (Joystick_HID_Interface s) = frame \<and> USB_Options AND USB_DEVICE_OPT_LOWSPEED = 0 then Some s
          else
            let s = Endpoint_SelectEndpoint E (ept_Address (ReportINEndpoint (Joystick_HID_Interface s))) s;
                (allowed, s) = Endpoint_IsReadWriteAllowed E s
            in if \<not> allowed then Some s
               else
                 let n = unat (PrevReportINBufferSize (Joystick_HID_Interface s));
                     ((ForceSend, ReportID, ReportINData, ReportINSize), s) =
                       CALLBACK_HID_Device_CreateHIDReport E 0 (report_item_type HID_REPORT_ITEM_In) (memset 0 n) s;
                     i = Joystick_HID_Interface s;
                     (StatesChanged, s) =
                       (case PrevReportINBuffer i of
                          None \<Rightarrow> (False, s)
                        | Some prev \<Rightarrow>
                            (\<not> memcmp_eq ReportINData prev (unat ReportINSize),
                             upd_hid (\<lambda>i. i\<lparr>PrevReportINBuffer := Some (memcpy prev ReportINData n)\<rparr>) s))
                 in do {
                   s \<leftarrow> (if HID_report_due ForceSend StatesChanged i ReportINSize then
                          let s = upd_hid (\<lambda>i. i\<lparr>IdleMSRemaining := IdleCount i\<rparr>) s;
                              s = Endpoint_SelectEndpoint E
                                (ept_Address (ReportINEndpoint (Joystick_HID_Interface s))) s;
                              s = (if ReportID \<noteq> 0 then Endpoint_Write_8 E ReportID s else s)
                          in do {
                            (c, n, u, s) \<leftarrow> Endpoint_Write_Stream_LE E ReportINData ReportINSize None s;
                            Some (Endpoint_ClearIN E s) }
                        else Some s);
                   let (frame, s) = USB_Device_GetFrameNumber E s;
                   Some (upd_hid (\<lambda>i. i\<lparr>PrevFrameNum := frame\<rparr>) s) } }"

section \<open>The application\<close>

text \<open>
  \<open>wdt_disable\<close> and \<open>clock_prescale_set\<close> are routines of the C library and are arguments.
\<close>

definition SetupHardware ::
  "('h fw \<Rightarrow> 'h fw) \<Rightarrow> ('h fw \<Rightarrow> 'h fw) \<Rightarrow> 'h env \<Rightarrow> 'h fw \<Rightarrow> 'h fw option" where
  "SetupHardware wdt_disable clock_prescale_set_1 E s =
     (let s = clear_bits_in E MCUSR (BV WDRF) s;
          s = wdt_disable s;
          s = clock_prescale_set_1 s;
          s = Joystick_Init E s;
          s = LEDs_Init E s;
          s = Buttons_Init E s
      in USB_Init E s)"

definition main_init :: "('h fw \<Rightarrow> 'h fw) \<Rightarrow> ('h fw \<Rightarrow> 'h fw) \<Rightarrow> 'h env \<Rightarrow> 'h fw \<Rightarrow> 'h fw option" where
  "main_init wdt_disable clock_prescale_set_1 E s = do {
     s \<leftarrow> SetupHardware wdt_disable clock_prescale_set_1 E s;
     let s = LEDs_SetAllLEDs E LEDMASK_USB_NOTREADY s;
     Some (set_bits_in E SREG_reg (BV SREG_I) s) }"

definition main_loop_body :: "'h env \<Rightarrow> 'h fw \<Rightarrow> 'h fw option" where
  "main_loop_body E s = do {
     s \<leftarrow> HID_Device_USBTask E s;
     USB_USBTask E s }"

end
