(* ===== verification/StreamFacts.thy ===== *)
theory StreamFacts
  imports Streams InterruptFacts
begin

text \<open>
  What the waiting loops and the streams do: the loops are quiet, and a control write stream sends a
  prefix of its buffer and nothing else, in the order its name says.
\<close>

lemma unat_minus_of_nat:
  fixes w :: "'a::len word"
  assumes "n \<le> unat w"
  shows "unat (w - of_nat n) = unat w - n"
proof -
  have "unat (of_nat n :: 'a word) = n"
    using assms unsigned_less [of w] by (simp add: unat_of_nat le_less_trans)
  then show ?thesis
    using assms by (simp add: unat_sub word_le_nat_alt)
qed

section \<open>Transfers\<close>

text \<open>
  \<open>xfer out inp s s'\<close>: like \<open>quiet\<close>, but the bytes \<open>out\<close> were pushed and the bytes \<open>inp\<close> popped.
\<close>

definition xfer :: "u8 list \<Rightarrow> u8 list \<Rightarrow> 'h fw \<Rightarrow> 'h fw \<Rightarrow> bool" where
  "xfer out inp s s' \<longleftrightarrow>
     data_out s' = data_out s @ out \<and> data_in s' = data_in s @ inp \<and>
     USB_ControlRequest s' = USB_ControlRequest s \<and> USB_IsInitialized s' = USB_IsInitialized s \<and>
     USB_Device_CurrentlySelfPowered s' = USB_Device_CurrentlySelfPowered s \<and>
     USB_Device_RemoteWakeupEnabled s' = USB_Device_RemoteWakeupEnabled s \<and>
     joy_mask s' = joy_mask s \<and> joy_saved s' = joy_saved s \<and> oob s' = oob s \<and>
     hid_static (Joystick_HID_Interface s') = hid_static (Joystick_HID_Interface s) \<and>
     IdleMSRemaining (Joystick_HID_Interface s') \<le> IdleMSRemaining (Joystick_HID_Interface s) \<and>
     USB_Device_ConfigurationNumber s' \<in> {0, USB_Device_ConfigurationNumber s}"

lemma quiet_xfer: "quiet s s' \<longleftrightarrow> xfer [] [] s s'"
  by (simp add: quiet_def xfer_def)

lemma xfer_trans: "xfer o1 i1 s t \<Longrightarrow> xfer o2 i2 t u \<Longrightarrow> xfer (o1 @ o2) (i1 @ i2) s u"
  unfolding xfer_def by auto

lemma xfer_quiet: "xfer o1 i1 s t \<Longrightarrow> quiet t u \<Longrightarrow> xfer o1 i1 s u"
  using xfer_trans [of o1 i1 s t "[]" "[]" u] by (simp add: quiet_xfer)

lemma quiet_xfer_trans: "quiet s t \<Longrightarrow> xfer o1 i1 t u \<Longrightarrow> xfer o1 i1 s u"
  using xfer_trans [of "[]" "[]" s t o1 i1 u] by (simp add: quiet_xfer)

lemma hwstep_xfer:
  "hwstep t s s' \<Longrightarrow> xfer (concat (map data_write t)) (concat (map data_read t)) s s'"
  unfolding xfer_def by (auto dest: hwstep_frame simp: data_out_def data_in_def)

lemma xfer_Write_8: "xfer [v] [] s (Endpoint_Write_8 E v s)"
  using hwstep_xfer [OF wr_step [of UEDATX v s E]] by (simp add: Endpoint_Write_8_def)

lemma xfer_Read_8: "xfer [] [fst (Endpoint_Read_8 E s)] s (snd (Endpoint_Read_8 E s))"
  using hwstep_xfer [OF rd_step [of E UEDATX s "fst (rd E UEDATX s)" "snd (rd E UEDATX s)"]]
  by (simp add: Endpoint_Read_8_def)

lemma fold_Write_8_xfer: "xfer bs [] s (fold (Endpoint_Write_8 E) bs s)"
proof (induction bs arbitrary: s)
  case Nil
  show ?case
    by (simp flip: quiet_xfer)
next
  case (Cons b bs)
  then show ?case
    using xfer_trans [OF xfer_Write_8 Cons, of b s E] by simp
qed

section \<open>Waiting loops are quiet\<close>

lemma quiet_touch_any: "quiet s t \<Longrightarrow> touches R t u \<Longrightarrow> UEDATX \<notin> R \<Longrightarrow> quiet s u"
  by (erule quiet_trans) (rule touches_quiet)

lemma quiet_endpoint_ops:
  "quiet s t \<Longrightarrow> quiet s (snd (Endpoint_IsINReady E t))"
  "quiet s t \<Longrightarrow> quiet s (snd (Endpoint_IsOUTReceived E t))"
  "quiet s t \<Longrightarrow> quiet s (snd (Endpoint_IsSETUPReceived E t))"
  "quiet s t \<Longrightarrow> quiet s (snd (Endpoint_IsStalled E t))"
  "quiet s t \<Longrightarrow> quiet s (snd (Endpoint_IsReadWriteAllowed E t))"
  "quiet s t \<Longrightarrow> quiet s (snd (Endpoint_IsEnabled E t))"
  "quiet s t \<Longrightarrow> quiet s (Endpoint_ClearSETUP E t)"
  "quiet s t \<Longrightarrow> quiet s (Endpoint_ClearIN E t)"
  "quiet s t \<Longrightarrow> quiet s (Endpoint_ClearOUT E t)"
  "quiet s t \<Longrightarrow> quiet s (Endpoint_StallTransaction E t)"
  "quiet s t \<Longrightarrow> quiet s (Endpoint_ClearStall E t)"
  "quiet s t \<Longrightarrow> quiet s (Endpoint_ResetDataToggle E t)"
  "quiet s t \<Longrightarrow> quiet s (Endpoint_ResetEndpoint E a t)"
  "quiet s t \<Longrightarrow> quiet s (Endpoint_SelectEndpoint E a t)"
  "quiet s t \<Longrightarrow> quiet s (snd (Endpoint_GetEndpointDirection E t))"
  "quiet s t \<Longrightarrow> quiet s (snd (Endpoint_GetCurrentEndpoint E t))"
  "quiet s t \<Longrightarrow> quiet s (snd (Endpoint_BytesInEndpoint E t))"
  by (erule quiet_touch_any [where R = "UNIV - {UEDATX}"], rule touch; simp)+

lemma GetFrameNumber_touches: "touches controller_regs t (snd (USB_Device_GetFrameNumber E t))"
  by (simp add: USB_Device_GetFrameNumber_def Let_def split_beta)
    (rule touches_trans [OF controller_reg_touches(1) controller_reg_touches(1)], simp_all)

lemmas quiet_GetFrameNumber = quiet_touch [OF _ GetFrameNumber_touches]

lemma quiet_endpoint_ready: "quiet s t \<Longrightarrow> quiet s (snd (endpoint_ready E t))"
  by (simp add: endpoint_ready_def Let_def split_beta quiet_endpoint_ops)

lemma quiet_read_DeviceState_after:
  "quiet s t \<Longrightarrow> read_DeviceState E t = Some (d, u) \<Longrightarrow> quiet s u"
  by (erule quiet_trans) (rule quiet_read_DeviceState)

lemmas loop_simps = Let_def split_beta bind_eq_Some_conv

lemma quiet_StatusStage_OUT: "StatusStage_OUT E s = Some s' \<Longrightarrow> quiet s s'"
proof (erule StatusStage_OUT.raw_induct [where P = "\<lambda>E s s'. quiet s s'", rotated])
  fix f E s s'
  assume IH: "\<And>E s y. f E s = Some y \<Longrightarrow> quiet s y"
    and "(let (b, s) = Endpoint_IsOUTReceived E s
      in if b then Some (Endpoint_ClearOUT E s)
         else do { (d, s) \<leftarrow> read_DeviceState E s;
                   if d = DEVICE_STATE_Unattached then Some s else f E s }) = Some s'"
  then show "quiet s s'"
    by (auto simp: loop_simps quiet_endpoint_ops split: if_splits
        dest!: IH quiet_read_DeviceState intro: quiet_trans quiet_endpoint_ops(2) [OF quiet_refl])
qed

lemma quiet_StatusStage_IN: "StatusStage_IN E s = Some s' \<Longrightarrow> quiet s s'"
proof (erule StatusStage_IN.raw_induct [where P = "\<lambda>E s s'. quiet s s'", rotated])
  fix f E s s'
  assume IH: "\<And>E s y. f E s = Some y \<Longrightarrow> quiet s y"
    and "(let (b, s) = Endpoint_IsINReady E s
      in if b then Some (Endpoint_ClearIN E s)
         else do { (d, s) \<leftarrow> read_DeviceState E s;
                   if d = DEVICE_STATE_Unattached then Some s else f E s }) = Some s'"
  then show "quiet s s'"
    by (auto simp: loop_simps quiet_endpoint_ops split: if_splits
        dest!: IH quiet_read_DeviceState intro: quiet_trans quiet_endpoint_ops(1) [OF quiet_refl])
qed

lemma quiet_ClearStatusStage: "Endpoint_ClearStatusStage E s = Some s' \<Longrightarrow> quiet s s'"
  by (auto simp: Endpoint_ClearStatusStage_def quiet_StatusStage_OUT quiet_StatusStage_IN split: if_splits)

lemma quiet_WaitUntilReady_loop: "WaitUntilReady_loop E t p s = Some (c, s') \<Longrightarrow> quiet s s'"
proof -
  have "\<And>r. WaitUntilReady_loop E t p s = Some r \<Longrightarrow> quiet s (snd r)"
  proof (erule WaitUntilReady_loop.raw_induct [where P = "\<lambda>E t p s r. quiet s (snd r)", rotated])
    fix f E t p s and r :: "u8 \<times> 'a fw"
    assume IH: "\<And>E t p s y. f E t p s = Some y \<Longrightarrow> quiet s (snd y)"
      and *: "(let (ready, s) = endpoint_ready E s
        in if ready then Some (ENDPOINT_READYWAIT_NoError, s)
           else do {
             (USB_DeviceState_LCL, s) \<leftarrow> read_DeviceState E s;
             if USB_DeviceState_LCL = DEVICE_STATE_Unattached then
               Some (ENDPOINT_READYWAIT_DeviceDisconnected, s)
             else if USB_DeviceState_LCL = DEVICE_STATE_Suspended then
               Some (ENDPOINT_READYWAIT_BusSuspended, s)
             else
               let (stalled, s) = Endpoint_IsStalled E s
               in if stalled then Some (ENDPOINT_READYWAIT_EndpointStalled, s)
                  else
                    let (CurrentFrameNumber, s) = USB_Device_GetFrameNumber E s
                    in if CurrentFrameNumber \<noteq> p then
                         if t = 0 then Some (ENDPOINT_READYWAIT_Timeout, s)
                         else f E (t - 1) CurrentFrameNumber s
                       else f E t p s }) = Some r"
    define u where "u = snd (endpoint_ready E s)"
    have u: "quiet s u"
      unfolding u_def by (rule quiet_endpoint_ready) simp
    show "quiet s (snd r)"
    proof (cases "fst (endpoint_ready E s)")
      case True
      then show ?thesis
        using * u by (auto simp: loop_simps u_def)
    next
      case False
      then obtain d v where "read_DeviceState E u = Some (d, v)"
        using * by (auto simp: loop_simps simp flip: u_def)
      moreover from quiet_read_DeviceState_after [OF u this]
      have "quiet s v" "quiet s (snd (Endpoint_IsStalled E v))"
        "quiet s (snd (USB_Device_GetFrameNumber E (snd (Endpoint_IsStalled E v))))"
        by (simp_all add: quiet_endpoint_ops quiet_GetFrameNumber)
      ultimately show ?thesis
        using * False by (auto simp: loop_simps split: if_splits dest!: IH intro: quiet_trans simp flip: u_def)
    qed
  qed
  then show "WaitUntilReady_loop E t p s = Some (c, s') \<Longrightarrow> quiet s s'"
    by fastforce
qed

lemma quiet_WaitUntilReady: "Endpoint_WaitUntilReady E s = Some (c, s') \<Longrightarrow> quiet s s'"
  by (auto simp: Endpoint_WaitUntilReady_def loop_simps dest!: quiet_WaitUntilReady_loop
      intro: quiet_trans quiet_GetFrameNumber [OF quiet_refl])

lemma quiet_Control_W_status: "Control_W_status E s = Some (c, s') \<Longrightarrow> quiet s s'"
proof -
  have "\<And>r. Control_W_status E s = Some r \<Longrightarrow> quiet s (snd r)"
  proof (erule Control_W_status.raw_induct [where P = "\<lambda>E s r. quiet s (snd r)", rotated])
    fix f E s and r :: "u8 \<times> 'a fw"
    assume IH: "\<And>E s y. f E s = Some y \<Longrightarrow> quiet s (snd y)"
      and *: "(let (out, s) = Endpoint_IsOUTReceived E s
        in if out then Some (ENDPOINT_RWCSTREAM_NoError, s)
           else do {
             (USB_DeviceState_LCL, s) \<leftarrow> read_DeviceState E s;
             if USB_DeviceState_LCL = DEVICE_STATE_Unattached then
               Some (ENDPOINT_RWCSTREAM_DeviceDisconnected, s)
             else if USB_DeviceState_LCL = DEVICE_STATE_Suspended then
               Some (ENDPOINT_RWCSTREAM_BusSuspended, s)
             else
               let (setup, s) = Endpoint_IsSETUPReceived E s
               in if setup then Some (ENDPOINT_RWCSTREAM_HostAborted, s) else f E s }) = Some r"
    have u: "quiet s (snd (Endpoint_IsOUTReceived E s))"
      by (simp add: quiet_endpoint_ops)
    show "quiet s (snd r)"
      using * by (auto simp: loop_simps split: if_splits dest!: IH quiet_read_DeviceState_after [OF u]
          intro: quiet_endpoint_ops quiet_trans u)
  qed
  then show "Control_W_status E s = Some (c, s') \<Longrightarrow> quiet s s'"
    by fastforce
qed

lemma quiet_Control_R_status: "Control_R_status E s = Some (c, s') \<Longrightarrow> quiet s s'"
proof -
  have "\<And>r. Control_R_status E s = Some r \<Longrightarrow> quiet s (snd r)"
  proof (erule Control_R_status.raw_induct [where P = "\<lambda>E s r. quiet s (snd r)", rotated])
    fix f E s and r :: "u8 \<times> 'a fw"
    assume IH: "\<And>E s y. f E s = Some y \<Longrightarrow> quiet s (snd y)"
      and *: "(let (ready, s) = Endpoint_IsINReady E s
        in if ready then Some (ENDPOINT_RWCSTREAM_NoError, s)
           else do {
             (USB_DeviceState_LCL, s) \<leftarrow> read_DeviceState E s;
             if USB_DeviceState_LCL = DEVICE_STATE_Unattached then
               Some (ENDPOINT_RWCSTREAM_DeviceDisconnected, s)
             else if USB_DeviceState_LCL = DEVICE_STATE_Suspended then
               Some (ENDPOINT_RWCSTREAM_BusSuspended, s)
             else f E s }) = Some r"
    have u: "quiet s (snd (Endpoint_IsINReady E s))"
      by (simp add: quiet_endpoint_ops)
    show "quiet s (snd r)"
      using * by (auto simp: loop_simps split: if_splits dest!: IH quiet_read_DeviceState_after [OF u]
          intro: quiet_trans u)
  qed
  then show "Control_R_status E s = Some (c, s') \<Longrightarrow> quiet s s'"
    by fastforce
qed

lemma quiet_Control_W_poll: "Control_W_poll E s = Some (c, s') \<Longrightarrow> quiet s s'"
  by (auto simp: Control_W_poll_def loop_simps split: if_splits dest!: quiet_read_DeviceState
      intro!: quiet_endpoint_ops)

lemma quiet_Control_R_poll: "Control_R_poll E s = Some (c, s') \<Longrightarrow> quiet s s'"
  by (auto simp: Control_R_poll_def loop_simps split: if_splits dest!: quiet_read_DeviceState
      intro!: quiet_endpoint_ops)

section \<open>Byte order of the streams\<close>

lemma Control_R_poll_codes: "Control_R_poll E s = Some (PollReturn c, s') \<Longrightarrow> c \<noteq> 0"
  by (auto simp: Control_R_poll_def loop_simps split: if_splits)

lemma Control_R_loop_codes: "Control_R_loop TR MV E p L B s = Some (Some c, r) \<Longrightarrow> c \<noteq> 0"
proof -
  have "\<And>x. Control_R_loop TR MV E p L B s = Some x \<Longrightarrow> fst x \<noteq> Some 0"
  proof (erule Control_R_loop.raw_induct [where P = "\<lambda>TR MV E p L B s x. fst x \<noteq> Some 0", rotated])
    fix f TR MV E p L B s and x :: "u8 option \<times> 'a \<times> 'b fw"
    assume IH: "\<And>TR MV E p L B s y. f TR MV E p L B s = Some y \<Longrightarrow> fst y \<noteq> Some 0"
      and *: "(if L \<noteq> 0 then do {
          (poll, s) \<leftarrow> Control_R_poll E s;
          case poll of
            PollReturn c \<Rightarrow> Some (Some c, B, s)
          | PollBreak \<Rightarrow> Some (None, B, s)
          | PollReady \<Rightarrow>
              let (DataStream, Length, Buffer, s) = drain_packet TR MV E p L B s
              in f TR MV E DataStream Length Buffer (Endpoint_ClearOUT E s)
          | PollAgain \<Rightarrow> f TR MV E p L B s }
        else Some (None, B, s)) = Some x"
    show "fst x \<noteq> Some 0"
    proof (cases "L = 0")
      case False
      then obtain poll u where u: "Control_R_poll E s = Some (poll, u)"
        using * by (auto simp: bind_eq_Some_conv)
      then show ?thesis
        using * False by (cases poll) (auto simp: split_beta dest: Control_R_poll_codes IH)
    qed (use * in auto)
  qed
  then show "Control_R_loop TR MV E p L B s = Some (Some c, r) \<Longrightarrow> c \<noteq> 0"
    by fastforce
qed

text \<open>The offset of the \<open>k\<close>-th byte that a stream over \<open>Length\<close> bytes transfers.\<close>

definition cursor :: "(u16 \<Rightarrow> int) \<Rightarrow> (int \<Rightarrow> u16 \<Rightarrow> int) \<Rightarrow> u16 \<Rightarrow> nat \<Rightarrow> int" where
  "cursor OFFSET MOVE Length k = ((\<lambda>p. MOVE p 1) ^^ k) (OFFSET Length)"

lemma cursor_0: "cursor OFFSET MOVE L 0 = OFFSET L"
  and cursor_Suc: "MOVE (cursor OFFSET MOVE L k) 1 = cursor OFFSET MOVE L (Suc k)"
  by (simp_all add: cursor_def)

text \<open>
  \<open>sends TRANSFER E B\<close>: inside the bounds of \<open>B\<close>, transferring the byte at an offset pushes that byte of
  \<open>B\<close> into the FIFO.
\<close>

definition sends :: "(int \<Rightarrow> 'h fw \<Rightarrow> 'h fw) \<Rightarrow> 'h env \<Rightarrow> u8 list \<Rightarrow> bool" where
  "sends TRANSFER E B \<longleftrightarrow>
     (\<forall>p s. 0 \<le> p \<and> nat p < length B \<longrightarrow> TRANSFER p s = Endpoint_Write_8 E (B ! nat p) s)"

text \<open>
  \<open>filled arrange L k inp B B'\<close>: the bytes \<open>inp\<close> have been stored in \<open>B\<close> from the \<open>k\<close>-th visited byte
  on, giving \<open>B'\<close>.
\<close>

definition filled :: "(u8 list \<Rightarrow> u8 list) \<Rightarrow> u16 \<Rightarrow> nat \<Rightarrow> u8 list \<Rightarrow> u8 list \<Rightarrow> u8 list \<Rightarrow> bool" where
  "filled arrange L k inp B B' \<longleftrightarrow> length B' = length B \<and> drop (unat L) B' = drop (unat L) B \<and>
     arrange (take (unat L) B') =
       take k (arrange (take (unat L) B)) @ inp @ drop (k + length inp) (arrange (take (unat L) B))"

text \<open>
  The contract of the macros \<open>TEMPLATE_BUFFER_OFFSET\<close> and \<open>TEMPLATE_BUFFER_MOVE\<close>: over a buffer of at
  least \<open>Length\<close> bytes they visit only offsets inside it, and the bytes they visit are the first
  \<open>Length\<close> bytes of the buffer in the order \<open>arrange\<close>.
\<close>

locale stream_order =
  fixes OFFSET :: "u16 \<Rightarrow> int" and MOVE :: "int \<Rightarrow> u16 \<Rightarrow> int" and arrange :: "u8 list \<Rightarrow> u8 list"
  assumes in_bounds: "k < unat L \<Longrightarrow> unat L \<le> length B \<Longrightarrow>
      0 \<le> cursor OFFSET MOVE L k \<and> nat (cursor OFFSET MOVE L k) < length B"
    and visits: "k < unat L \<Longrightarrow> unat L \<le> length B \<Longrightarrow>
      B ! nat (cursor OFFSET MOVE L k) = arrange (take (unat L) B) ! k"
    and distinct_visits: "j < unat L \<Longrightarrow> k < unat L \<Longrightarrow>
      cursor OFFSET MOVE L j = cursor OFFSET MOVE L k \<Longrightarrow> j = k"
    and within: "k < unat L \<Longrightarrow> nat (cursor OFFSET MOVE L k) < unat L"
    and length_arrange: "length (arrange xs) = length xs"
begin

lemma transfer:
  assumes "sends TRANSFER E B" "unat L0 \<le> length B" "k < unat L0"
  shows "TRANSFER (cursor OFFSET MOVE L0 k) s = Endpoint_Write_8 E (arrange (take (unat L0) B) ! k) s"
  using assms in_bounds visits by (simp add: sends_def)

lemma fill_packet_eq:
  assumes "sends TRANSFER E B" "unat L0 \<le> length B" "k + unat L \<le> unat L0" "j = min (unat L) (8 - unat n)"
  shows "fill_packet TRANSFER MOVE (cursor OFFSET MOVE L0 k) L n s =
    (cursor OFFSET MOVE L0 (k + j), L - of_nat j, n + of_nat j,
     fold (Endpoint_Write_8 E) (take j (drop k (arrange (take (unat L0) B)))) s)"
  using assms(3,4)
proof (induction j arbitrary: k L n s)
  case 0
  then have "L = 0 \<or> \<not> n < 8"
    by (auto simp: word_less_nat_alt unat_eq_zero min_def split: if_splits)
  then show ?case
    by (subst fill_packet.simps) auto
next
  case (Suc j)
  then have L: "L \<noteq> 0" "n < 8" "k < unat L0"
    by (auto simp: word_less_nat_alt)
  have n: "unat (n + 1) = Suc (unat n)" "unat (L - 1) = unat L - 1"
    using L(1) unat_Suc_less [OF L(2)] by (simp_all add: unat_pred)
  have "Suc k + unat (L - 1) \<le> unat L0" "j = min (unat (L - 1)) (8 - unat (n + 1))"
    using Suc.prems n L by (auto simp: min_def split: if_splits)
  note rec = Suc.IH [OF this]
  have "take (Suc j) (drop k (arrange (take (unat L0) B))) =
      arrange (take (unat L0) B) ! k # take j (drop (Suc k) (arrange (take (unat L0) B)))"
    using L(3) assms(2) by (simp add: length_arrange flip: Cons_nth_drop_Suc)
  moreover have "L - 1 - of_nat j = L - of_nat (Suc j)" "n + 1 + of_nat j = n + of_nat (Suc j)"
    by simp_all
  moreover have "fill_packet TRANSFER MOVE (cursor OFFSET MOVE L0 k) L n s =
      fill_packet TRANSFER MOVE (cursor OFFSET MOVE L0 (Suc k)) (L - 1) (n + 1)
        (Endpoint_Write_8 E (arrange (take (unat L0) B) ! k) s)"
    using L transfer [OF assms(1,2) L(3)] by (subst fill_packet.simps) (simp add: cursor_Suc)
  ultimately show ?case
    by (simp only: rec) simp
qed

lemma fill_packet_sends:
  assumes "sends TRANSFER E B" "unat L0 \<le> length B" "k + unat L \<le> unat L0"
    and "fill_packet TRANSFER MOVE (cursor OFFSET MOVE L0 k) L n s = (p', L', n', s')"
  shows "\<exists>j. p' = cursor OFFSET MOVE L0 (k + j) \<and> unat L' + j = unat L \<and>
    xfer (take j (drop k (arrange (take (unat L0) B)))) [] s s'"
proof -
  let ?j = "min (unat L) (8 - unat n)"
  have "unat (L - of_nat ?j) + ?j = unat L"
    by (simp add: unat_minus_of_nat)
  then show ?thesis
    using fill_packet_eq [OF assms(1-3) refl, of n s] assms(4) by (intro exI [of _ ?j]) (auto simp: fold_Write_8_xfer)
qed

lemma Control_W_loop_sends:
  assumes "Control_W_loop TRANSFER MOVE E (cursor OFFSET MOVE L0 k) L full s = Some (ret, s')"
    and "sends TRANSFER E B" "unat L0 \<le> length B" "k + unat L \<le> unat L0"
  shows "\<exists>j \<le> unat L. xfer (take j (drop k (arrange (take (unat L0) B)))) [] s s'"
proof -
  let ?X = "arrange (take (unat L0) B)"
  let ?P = "\<lambda>TRANSFER MV E p L (full :: bool) s r. \<forall>k. MV = MOVE \<longrightarrow> p = cursor OFFSET MOVE L0 k \<longrightarrow>
    sends TRANSFER E B \<longrightarrow> k + unat L \<le> unat L0 \<longrightarrow> (\<exists>j \<le> unat L. xfer (take j (drop k ?X)) [] s (snd r))"
  have "?P TRANSFER MOVE E (cursor OFFSET MOVE L0 k) L full s (ret, s')"
  proof (rule Control_W_loop.raw_induct [where P = ?P, OF _ assms(1)], intro allI impI)
    fix f TRANSFER MV E p L full s and r :: "u8 option \<times> 'a fw" and k
    assume IH: "\<And>TRANSFER MV E p L full s y. f TRANSFER MV E p L full s = Some y \<Longrightarrow> ?P TRANSFER MV E p L full s y"
      and *: "(if L \<noteq> 0 \<or> full then do {
          (poll, s) \<leftarrow> Control_W_poll E s;
          case poll of
            PollReturn c \<Rightarrow> Some (Some c, s)
          | PollBreak \<Rightarrow> Some (None, s)
          | PollReady \<Rightarrow>
              let (BytesInEndpoint, s) = Endpoint_BytesInEndpoint E s;
                  (DataStream, Length, BytesInEndpoint, s) = fill_packet TRANSFER MV p L BytesInEndpoint s
              in f TRANSFER MV E DataStream Length (BytesInEndpoint = ucast (8 :: u8)) (Endpoint_ClearIN E s)
          | PollAgain \<Rightarrow> f TRANSFER MV E p L full s }
        else Some (None, s)) = Some r"
      and h: "MV = MOVE" "p = cursor OFFSET MOVE L0 k" "sends TRANSFER E B" "k + unat L \<le> unat L0"
    have stop: "\<exists>j \<le> unat L. xfer (take j (drop k ?X)) [] s (snd r)" if "quiet s (snd r)"
      using that by (intro exI [of _ 0]) (simp add: quiet_xfer)
    show "\<exists>j \<le> unat L. xfer (take j (drop k ?X)) [] s (snd r)"
    proof (cases "L \<noteq> 0 \<or> full")
      case True
      then obtain poll u where u: "Control_W_poll E s = Some (poll, u)"
        using * by (auto simp: bind_eq_Some_conv)
      note q = quiet_Control_W_poll [OF u]
      show ?thesis
      proof (cases poll)
        case PollAgain
        then have "f TRANSFER MV E p L full u = Some r"
          using * True u by simp
        from IH [OF this, rule_format, OF h] show ?thesis
          using quiet_xfer_trans [OF q] by blast
      next
        case PollReady
        obtain n v where v: "Endpoint_BytesInEndpoint E u = (n, v)"
          by (cases "Endpoint_BytesInEndpoint E u")
        obtain p' L' n' w where w: "fill_packet TRANSFER MV p L n v = (p', L', n', w)"
          by (cases "fill_packet TRANSFER MV p L n v")
        have rec: "f TRANSFER MV E p' L' (n' = ucast (8 :: u8)) (Endpoint_ClearIN E w) = Some r"
          using * True u PollReady v w by simp
        obtain j where j: "p' = cursor OFFSET MOVE L0 (k + j)" "unat L' + j = unat L"
          "xfer (take j (drop k ?X)) [] v w"
          using fill_packet_sends [OF h(3) assms(3) h(4) w [unfolded h(1,2)]] by blast
        have sv: "quiet s v"
          using quiet_endpoint_ops(17) [OF q, of E] v by simp
        have "(k + j) + unat L' \<le> unat L0"
          using h(4) j(2) by simp
        from IH [OF rec, rule_format, OF h(1) j(1) h(3) this]
        obtain i where i: "i \<le> unat L'" "xfer (take i (drop (k + j) ?X)) [] (Endpoint_ClearIN E w) (snd r)"
          by blast
        have "xfer (take j (drop k ?X) @ take i (drop (k + j) ?X)) ([] @ []) s (snd r)"
          using quiet_xfer_trans [OF sv j(3)] quiet_xfer_trans [OF quiet_endpoint_ops(8) [OF quiet_refl] i(2)]
          by (rule xfer_trans)
        then have "xfer (take (j + i) (drop k ?X)) [] s (snd r)"
          by (simp add: take_add add.commute [of k j])
        then show ?thesis
          using i(1) j(2) by (intro exI [of _ "j + i"]) simp
      next
        case (PollReturn c)
        then show ?thesis
          using * True u q by (intro stop) auto
      next
        case PollBreak
        then show ?thesis
          using * True u q by (intro stop) auto
      qed
    next
      case False
      then show ?thesis
        using * by (intro stop) auto
    qed
  qed
  then show ?thesis
    using assms(2-4) by simp
qed

lemma Control_W_sends:
  assumes "Template_Endpoint_Control_W OFFSET MOVE TRANSFER E L s = Some (c, s')"
    and "sends TRANSFER E B" "unat L \<le> length B"
  shows "\<exists>j \<le> min (unat L) (unat (wLength (USB_ControlRequest s))).
    xfer (take j (arrange (take (unat L) B))) [] s s'"
proof -
  define n where "n = (if wLength (USB_ControlRequest s) < L then wLength (USB_ControlRequest s) else L)"
  define t where "t = (if wLength (USB_ControlRequest s) < L then s else if L = 0 then Endpoint_ClearIN E s else s)"
  have t: "quiet s t"
    by (simp add: t_def quiet_endpoint_ops)
  obtain ret u where u: "Control_W_loop TRANSFER MOVE E (OFFSET L) n False t = Some (ret, u)"
    and e: "(case ret of Some c \<Rightarrow> Some (c, u) | None \<Rightarrow> Control_W_status E u) = Some (c, s')"
    using assms(1)
    by (auto simp: Template_Endpoint_Control_W_def Let_def bind_eq_Some_conv n_def t_def split: if_splits)
  have n: "unat n = min (unat L) (unat (wLength (USB_ControlRequest s)))"
    by (auto simp: n_def word_less_nat_alt)
  have "quiet u s'"
    using e by (auto split: option.splits dest: quiet_Control_W_status)
  moreover obtain j where j: "j \<le> unat n" "xfer (take j (arrange (take (unat L) B))) [] t u"
    using Control_W_loop_sends [OF u [folded cursor_0 [of OFFSET MOVE]] assms(2,3)] n by auto
  ultimately have "xfer (take j (arrange (take (unat L) B))) [] s s'"
    using t by (metis xfer_quiet quiet_xfer_trans)
  then show ?thesis
    using j(1) n by auto
qed

lemma arrange_update:
  assumes "k < unat L" "unat L \<le> length B"
  shows "arrange (take (unat L) (B[nat (cursor OFFSET MOVE L k) := v])) = (arrange (take (unat L) B))[k := v]"
proof (rule nth_equalityI)
  let ?B = "B[nat (cursor OFFSET MOVE L k) := v]"
  show "length (arrange (take (unat L) ?B)) = length ((arrange (take (unat L) B))[k := v])"
    by (simp add: length_arrange)
  fix i
  assume "i < length (arrange (take (unat L) ?B))"
  then have i: "i < unat L"
    using assms(2) by (simp add: length_arrange)
  have "nat (cursor OFFSET MOVE L i) = nat (cursor OFFSET MOVE L k) \<longleftrightarrow> i = k"
    using distinct_visits [OF i assms(1)] in_bounds [OF i assms(2)] in_bounds [OF assms] by auto
  moreover have "arrange (take (unat L) ?B) ! i = ?B ! nat (cursor OFFSET MOVE L i)"
    using visits [OF i, of ?B] assms(2) by simp
  ultimately show "arrange (take (unat L) ?B) ! i = (arrange (take (unat L) B))[k := v] ! i"
    using visits [OF i assms(2)] in_bounds [OF assms] assms i by (auto simp: nth_list_update length_arrange)
qed

lemma filled_Nil: "filled arrange L k [] B B"
  by (simp add: filled_def)

lemma filled_append:
  assumes "filled arrange L k i1 B B1" "filled arrange L (k + length i1) i2 B1 B2"
    "k + length i1 + length i2 \<le> unat L" "unat L \<le> length B"
  shows "filled arrange L k (i1 @ i2) B B2"
  using assms by (simp add: filled_def length_arrange ac_simps)

lemma filled_store:
  assumes "k < unat L" "unat L \<le> length B"
  shows "filled arrange L k [v] B (B[nat (cursor OFFSET MOVE L k) := v])"
  using assms arrange_update [OF assms, of v] within [OF assms(1)]
    upd_conv_take_nth_drop [of k "arrange (take (unat L) B)" v]
  by (simp add: filled_def drop_update_cancel length_arrange del: take_update_swap)

lemma read_ram_stores:
  assumes "k < unat L" "unat L \<le> length B" "read_ram E (cursor OFFSET MOVE L k) (B, s) = (B', s')"
  shows "\<exists>v. filled arrange L k [v] B B' \<and> xfer [] [v] s s'"
proof (intro exI conjI)
  let ?v = "fst (Endpoint_Read_8 E s)"
  have "(B', s') = (B[nat (cursor OFFSET MOVE L k) := ?v], snd (Endpoint_Read_8 E s))"
    using assms(3) in_bounds [OF assms(1,2)] by (simp add: read_ram_def split_beta)
  then show "filled arrange L k [?v] B B'" "xfer [] [?v] s s'"
    using filled_store [OF assms(1,2)] xfer_Read_8 by auto
qed

lemma drain_packet_stores:
  assumes "unat L0 \<le> length B" "k + unat L = unat L0"
    and "drain_packet (read_ram E) MOVE E (cursor OFFSET MOVE L0 k) L B s = (p', L', B', s')"
  shows "\<exists>inp. p' = cursor OFFSET MOVE L0 (k + length inp) \<and> unat L' + length inp = unat L \<and>
    filled arrange L0 k inp B B' \<and> xfer [] inp s s'"
  using assms
proof (induction "unat L" arbitrary: k L B s)
  case 0
  then have "drain_packet (read_ram E) MOVE E (cursor OFFSET MOVE L0 k) L B s = (cursor OFFSET MOVE L0 k, L, B, s)"
    by (subst drain_packet.simps) (simp add: unat_eq_zero)
  then show ?case
    using 0 by (intro exI [of _ "[]"]) (simp add: filled_Nil quiet_xfer [symmetric])
next
  case (Suc m)
  then have L: "L \<noteq> 0"
    by auto
  obtain n t where t: "Endpoint_BytesInEndpoint E s = (n, t)"
    by (cases "Endpoint_BytesInEndpoint E s")
  have q: "quiet s t"
    using quiet_endpoint_ops(17) [OF quiet_refl, of s E] t by simp
  show ?case
  proof (cases "n = 0")
    case True
    then have "drain_packet (read_ram E) MOVE E (cursor OFFSET MOVE L0 k) L B s = (cursor OFFSET MOVE L0 k, L, B, t)"
      using L t by (subst drain_packet.simps) simp
    then show ?thesis
      using Suc.prems q by (intro exI [of _ "[]"]) (simp add: filled_Nil quiet_xfer)
  next
    case False
    obtain B1 u where u: "read_ram E (cursor OFFSET MOVE L0 k) (B, t) = (B1, u)"
      by (cases "read_ram E (cursor OFFSET MOVE L0 k) (B, t)")
    have rec: "drain_packet (read_ram E) MOVE E (cursor OFFSET MOVE L0 (Suc k)) (L - 1) B1 u = (p', L', B', s')"
      using Suc.prems(3) False L t u by (subst (asm) drain_packet.simps) (simp add: cursor_Suc)
    have k: "k < unat L0" "m = unat (L - 1)" "Suc k + unat (L - 1) = unat L0"
      using Suc.hyps(2) Suc.prems(2) L by (simp_all add: unat_pred)
    obtain v where v: "filled arrange L0 k [v] B B1" "xfer [] [v] t u"
      using read_ram_stores [OF k(1) Suc.prems(1) u] by blast
    then have "unat L0 \<le> length B1"
      using Suc.prems(1) by (simp add: filled_def)
    from Suc.hyps(1) [OF k(2) this k(3) rec] obtain inp where i: "p' = cursor OFFSET MOVE L0 (Suc k + length inp)"
      "unat L' + length inp = unat (L - 1)" "filled arrange L0 (Suc k) inp B1 B'" "xfer [] inp u s'"
      by blast
    have "filled arrange L0 k ([v] @ inp) B B'"
      using i k Suc.prems(1) by (intro filled_append [OF v(1)]) simp_all
    moreover have "xfer [] (v # inp) s s'"
      using xfer_trans [OF quiet_xfer_trans [OF q v(2)] i(4)] by simp
    ultimately show ?thesis
      using i k Suc.hyps(2) by (intro exI [of _ "v # inp"]) simp
  qed
qed

end

section \<open>The two byte orders\<close>

lemma cursor_LE: "cursor OFFSET_LE MOVE_LE L k = int k"
  by (induction k) (simp_all add: cursor_def OFFSET_LE_def MOVE_LE_def)

lemma cursor_BE: "k < unat L \<Longrightarrow> cursor OFFSET_BE MOVE_BE L k = int (unat L - Suc k)"
proof -
  have "cursor OFFSET_BE MOVE_BE L k = uint L - 1 - int k"
    by (induction k) (simp_all add: cursor_def OFFSET_BE_def MOVE_BE_def)
  then show "k < unat L \<Longrightarrow> cursor OFFSET_BE MOVE_BE L k = int (unat L - Suc k)"
    by (simp add: of_nat_diff)
qed

interpretation le_stream: stream_order OFFSET_LE MOVE_LE "\<lambda>xs. xs"
  by unfold_locales (auto simp: cursor_LE)

interpretation be_stream: stream_order OFFSET_BE MOVE_BE rev
  by unfold_locales (auto simp: cursor_BE rev_nth simp del: of_nat_diff)

lemma write_ram_sends: "sends (write_ram E B) E B"
  by (simp add: sends_def write_ram_def)

lemma write_flash_sends: "sends (write_flash E (obj, off)) E (drop off (flash obj))"
  by (auto simp: sends_def write_flash_def pgm_read_byte_def nat_add_distrib)

lemma write_eeprom_sends:
  assumes "\<And>i. i < length B \<Longrightarrow> eeprom_read_byte (int i) = B ! i"
  shows "sends (write_eeprom eeprom_read_byte E) E B"
  unfolding sends_def write_eeprom_def using assms by (metis int_nat_eq)

end
