(* ===== verification/StreamSpec.thy ===== *)
theory StreamSpec
  imports StreamFacts
begin

text \<open>
  What a control read stream does: it stores the bytes it pops, in the order its name says, inside its buffer.
\<close>

context stream_order
begin

lemma Control_R_loop_stores:
  assumes "Control_R_loop (read_ram E) MOVE E (cursor OFFSET MOVE L0 k) L B s = Some (ret, B', s')"
    and "unat L0 \<le> length B" "k + unat L = unat L0"
  shows "\<exists>inp. length inp \<le> unat L \<and> (ret = None \<longrightarrow> length inp = unat L) \<and>
    filled arrange L0 k inp B B' \<and> xfer [] inp s s'"
proof -
  let ?Q = "\<lambda>k L B s r. \<exists>inp. length inp \<le> unat L \<and> (fst r = None \<longrightarrow> length inp = unat L) \<and>
    filled arrange L0 k inp B (fst (snd r)) \<and> xfer [] inp s (snd (snd r))"
  let ?P = "\<lambda>TR MV E p L B s r. \<forall>k. TR = read_ram E \<longrightarrow> MV = MOVE \<longrightarrow> p = cursor OFFSET MOVE L0 k \<longrightarrow>
    unat L0 \<le> length B \<longrightarrow> k + unat L = unat L0 \<longrightarrow> ?Q k L B s r"
  have "?P (read_ram E) MOVE E (cursor OFFSET MOVE L0 k) L B s (ret, B', s')"
  proof (rule Control_R_loop.raw_induct [where P = ?P, OF _ assms(1)], intro allI impI)
    fix f TR MV E p L B s and r :: "u8 option \<times> u8 list \<times> 'a fw" and k
    assume IH: "\<And>TR MV E p L B s y. f TR MV E p L B s = Some y \<Longrightarrow> ?P TR MV E p L B s y"
      and *: "(if L \<noteq> 0 then do {
          (poll, s) \<leftarrow> Control_R_poll E s;
          case poll of
            PollReturn c \<Rightarrow> Some (Some c, B, s)
          | PollBreak \<Rightarrow> Some (None, B, s)
          | PollReady \<Rightarrow>
              let (DataStream, Length, Buffer, s) = drain_packet TR MV E p L B s
              in f TR MV E DataStream Length Buffer (Endpoint_ClearOUT E s)
          | PollAgain \<Rightarrow> f TR MV E p L B s }
        else Some (None, B, s)) = Some r"
      and h: "TR = read_ram E" "MV = MOVE" "p = cursor OFFSET MOVE L0 k" "unat L0 \<le> length B" "k + unat L = unat L0"
    have stop: "?Q k L B s r" if "quiet s (snd (snd r))" "fst (snd r) = B" "fst r = None \<longrightarrow> L = 0"
    proof (intro exI [of _ "[]"] conjI)
      show "filled arrange L0 k [] B (fst (snd r))"
        unfolding that(2) by (rule filled_Nil)
      show "xfer [] [] s (snd (snd r))"
        using that(1) by (simp only: quiet_xfer)
    qed (use that(3) in auto)
    show "?Q k L B s r"
    proof (cases "L = 0")
      case False
      then obtain poll u where u: "Control_R_poll E s = Some (poll, u)"
        using * by (cases "Control_R_poll E s") auto
      note q = quiet_Control_R_poll [OF u]
      show ?thesis
      proof (cases poll)
        case PollAgain
        then have "f TR MV E p L B u = Some r"
          using * False u by simp
        from IH [OF this, rule_format, OF h] obtain i where i: "length i \<le> unat L"
          "fst r = None \<longrightarrow> length i = unat L" "filled arrange L0 k i B (fst (snd r))" "xfer [] i u (snd (snd r))"
          by (elim exE conjE)
        show ?thesis
          by (intro exI [of _ i] conjI i(1-3) quiet_xfer_trans [OF q i(4)])
      next
        case PollReady
        obtain p' L' B1 w where w: "drain_packet TR MV E p L B u = (p', L', B1, w)"
          by (cases "drain_packet TR MV E p L B u")
        have rec: "f TR MV E p' L' B1 (Endpoint_ClearOUT E w) = Some r"
          using * False u PollReady w by simp
        obtain i where i: "p' = cursor OFFSET MOVE L0 (k + length i)" "unat L' + length i = unat L"
          "filled arrange L0 k i B B1" "xfer [] i u w"
          using drain_packet_stores [OF h(4,5) w [unfolded h(1-3)]] by blast
        have k: "unat L0 \<le> length B1" "k + length i + unat L' = unat L0"
          using h(4,5) i(2,3) by (simp_all add: filled_def)
        obtain i' where i': "length i' \<le> unat L'" "fst r = None \<longrightarrow> length i' = unat L'"
          "filled arrange L0 (k + length i) i' B1 (fst (snd r))" "xfer [] i' (Endpoint_ClearOUT E w) (snd (snd r))"
          using IH [OF rec, rule_format, OF h(1,2) i(1) k] by (elim exE conjE)
        have "filled arrange L0 k (i @ i') B (fst (snd r))"
          using i'(1,3) k h(4) by (intro filled_append [OF i(3)]) simp_all
        moreover have "xfer [] (i @ i') s (snd (snd r))"
          using xfer_trans [OF quiet_xfer_trans [OF q i(4)] quiet_xfer_trans [OF quiet_endpoint_ops(9) [OF quiet_refl] i'(4)]]
          by simp
        ultimately show ?thesis
          using i(2) i'(1,2) by (intro exI [of _ "i @ i'"]) auto
      next
        case (PollReturn c)
        then show ?thesis
          using * False u q by (intro stop) auto
      next
        case PollBreak
        then show ?thesis
          using u by (auto simp: Control_R_poll_def loop_simps split: if_splits)
      qed
    next
      case True
      then show ?thesis
        using * by (intro stop) auto
    qed
  qed
  then show ?thesis
    using assms(2,3) by simp
qed

lemma Control_R_stores:
  assumes "Template_Endpoint_Control_R OFFSET MOVE (read_ram E) E B L s = Some (c, B', s')" "unat L \<le> length B"
  shows "\<exists>inp. length inp \<le> unat L \<and> (c = 0 \<longrightarrow> length inp = unat L) \<and> filled arrange L 0 inp B B' \<and> xfer [] inp s s'"
proof -
  define t where "t = (if L = 0 then Endpoint_ClearOUT E s else s)"
  have t: "quiet s t"
    by (simp add: t_def quiet_endpoint_ops)
  obtain ret u where u: "Control_R_loop (read_ram E) MOVE E (OFFSET L) L B t = Some (ret, B', u)"
    and e: "(case ret of Some c \<Rightarrow> Some (c, B', u)
      | None \<Rightarrow> do { (c, s) \<leftarrow> Control_R_status E u; Some (c, B', s) }) = Some (c, B', s')"
    using assms(1)
    by (auto simp: Template_Endpoint_Control_R_def Let_def bind_eq_Some_conv t_def split: option.splits)
  have q: "quiet u s'"
    using e by (auto simp: bind_eq_Some_conv split: option.splits dest: quiet_Control_R_status)
  obtain inp where i: "length inp \<le> unat L" "ret = None \<longrightarrow> length inp = unat L" "filled arrange L 0 inp B B'"
    "xfer [] inp t u"
    using Control_R_loop_stores [OF u [folded cursor_0 [of OFFSET MOVE]] assms(2)] by auto
  have "c = 0 \<longrightarrow> ret = None"
    using e u by (auto split: option.splits dest: Control_R_loop_codes)
  moreover have "xfer [] inp s s'"
    using i(4) q t by (metis xfer_quiet quiet_xfer_trans)
  ultimately show ?thesis
    using i by blast
qed

end

end
