(* ===== verification/StreamLiveness.thy ===== *)
theory StreamLiveness
  imports StreamSpec
begin

text \<open>
  Total correctness of the control write stream: with a host that follows the data stage of a control
  read, the stream returns without error and the host has received exactly the bytes it is due.
\<close>

section \<open>A host that reads\<close>

text \<open>
  What can be observed of the peripheral and the host behind it during the data stage: the bytes in
  the bank that the firmware fills, the bytes the host has received, whether the host has ended the
  data stage, and how many more polls it may take until the host makes its next move.
\<close>

record 'h in_host =
  fill :: "'h \<Rightarrow> nat"
  got :: "'h \<Rightarrow> nat"
  data_over :: "'h \<Rightarrow> bool"
  patience :: "'h \<Rightarrow> nat"

text \<open>
  The host asks for \<open>want\<close> bytes. It frees the bank after every packet until the data stage is over,
  which is after a packet shorter than the endpoint or after \<open>want\<close> bytes; then, and not
  before, it sends the OUT packet of the status stage. It sends no new SETUP packet and causes no interrupt.
\<close>

definition control_in_host :: "'h env \<Rightarrow> nat \<Rightarrow> 'h in_host \<Rightarrow> bool" where
  "control_in_host E want H \<longleftrightarrow>
     (\<forall>h. \<not> irq_pending E h) \<and>
     (\<forall>h. \<forall>r \<in> {UEINTX, UEBCLX, UEBCHX}. let h' = snd (io_read E r h) in
        fill H h' = fill H h \<and> got H h' = got H h \<and> data_over H h' = data_over H h) \<and>
     (\<forall>h. fst (io_read E UEBCHX h) = 0 \<and> fst (io_read E UEBCLX h) = of_nat (fill H h)) \<and>
     (\<forall>h. let (v, h') = io_read E UEINTX h in
        \<not> bit v RXSTPI \<and> (bit v RXOUTI \<longrightarrow> data_over H h) \<and> patience H h' \<le> patience H h \<and>
        (bit v (if data_over H h then RXOUTI else TXINI) \<or> patience H h' < patience H h)) \<and>
     (\<forall>h v. fill H (io_write E UEDATX v h) = Suc (fill H h) \<and> got H (io_write E UEDATX v h) = got H h \<and>
        data_over H (io_write E UEDATX v h) = data_over H h) \<and>
     (\<forall>h v. \<not> bit v TXINI \<longrightarrow> fill H (io_write E UEINTX v h) = 0 \<and>
        got H (io_write E UEINTX v h) = got H h + fill H h \<and>
        (data_over H (io_write E UEINTX v h) \<longleftrightarrow>
           data_over H h \<or> fill H h < 8 \<or> want \<le> got H h + fill H h))"

definition host_obs :: "'h in_host \<Rightarrow> 'h fw \<Rightarrow> nat \<times> nat \<times> bool \<times> USB_Device_States_t" where
  "host_obs H s = (fill H (hw s), got H (hw s), data_over H (hw s), USB_DeviceState s)"

lemma quiet_rd: "r \<noteq> UEDATX \<Longrightarrow> quiet s (snd (rd E r s))"
  using touches_quiet [OF rd_touches [of r "{r}" s E]] by simp

lemma rd_state: "hw (snd (rd E r s)) = snd (io_read E r (hw s))" "fst (rd E r s) = fst (io_read E r (hw s))"
  "USB_DeviceState (snd (rd E r s)) = USB_DeviceState s"
  by (simp_all add: rd_def split_beta)

lemma wr_state: "hw (wr E r v s) = io_write E r v (hw s)" "USB_DeviceState (wr E r v s) = USB_DeviceState s"
  by (simp_all add: wr_def)

lemma host_rd:
  assumes "control_in_host E want H" "r \<in> {UEINTX, UEBCLX, UEBCHX}"
  shows "host_obs H (snd (rd E r s)) = host_obs H s"
  using assms by (auto simp: control_in_host_def host_obs_def rd_state Let_def)

lemma test_bits_rd: "n < 8 \<Longrightarrow> test_bits E r (BV n) s = (bit (fst (rd E r s)) n, snd (rd E r s))"
  by (simp add: test_bits_def split_beta bits del: BV_eval)

lemma host_UEINTX:
  assumes "control_in_host E want H" "rd E UEINTX s = (v, t)"
  shows "host_obs H t = host_obs H s" "quiet s t" "\<not> bit v 3" "bit v 2 \<Longrightarrow> data_over H (hw s)"
    "patience H (hw t) \<le> patience H (hw s)"
    "\<not> bit v (if data_over H (hw s) then 2 else 0) \<Longrightarrow> patience H (hw t) < patience H (hw s)"
proof -
  have t: "io_read E UEINTX (hw s) = (v, hw t)" "t = snd (rd E UEINTX s)"
    using assms(2) by (auto simp: rd_def split_beta)
  show "host_obs H t = host_obs H s" "quiet s t"
    using host_rd [OF assms(1), of UEINTX s] quiet_rd [of UEINTX s E] t(2) by simp_all
  have "case io_read E UEINTX (hw s) of (v, h') \<Rightarrow>
      \<not> bit v 3 \<and> (bit v 2 \<longrightarrow> data_over H (hw s)) \<and> patience H h' \<le> patience H (hw s) \<and>
      (bit v (if data_over H (hw s) then 2 else 0) \<or> patience H h' < patience H (hw s))"
    using assms(1) by (simp add: control_in_host_def Let_def)
  then show "\<not> bit v 3" "bit v 2 \<Longrightarrow> data_over H (hw s)" "patience H (hw t) \<le> patience H (hw s)"
    "\<not> bit v (if data_over H (hw s) then 2 else 0) \<Longrightarrow> patience H (hw t) < patience H (hw s)"
    unfolding t(1) by auto
qed

lemma host_no_irq: "control_in_host E want H \<Longrightarrow> read_DeviceState E s = Some (USB_DeviceState s, s)"
  by (simp add: read_DeviceState_def control_in_host_def)

lemma host_obs_fields:
  "host_obs H t = host_obs H s \<longleftrightarrow> fill H (hw t) = fill H (hw s) \<and> got H (hw t) = got H (hw s) \<and>
     (data_over H (hw t) \<longleftrightarrow> data_over H (hw s)) \<and> USB_DeviceState t = USB_DeviceState s"
  by (simp add: host_obs_def)

lemma host_fold_Write_8:
  assumes "control_in_host E want H"
  shows "host_obs H (fold (Endpoint_Write_8 E) bs s) =
    (fill H (hw s) + length bs, got H (hw s), data_over H (hw s), USB_DeviceState s)"
proof (induction bs arbitrary: s)
  case (Cons b bs)
  then show ?case
    using assms by (simp add: Endpoint_Write_8_def control_in_host_def wr_state)
qed (simp add: host_obs_def)

lemma host_ClearIN:
  assumes "control_in_host E want H"
  shows "host_obs H (Endpoint_ClearIN E s) =
    (0, got H (hw s) + fill H (hw s),
     data_over H (hw s) \<or> fill H (hw s) < 8 \<or> want \<le> got H (hw s) + fill H (hw s), USB_DeviceState s)"
proof -
  obtain v t where t: "rd E UEINTX s = (v, t)"
    by (cases "rd E UEINTX s")
  note h = host_UEINTX(1) [OF assms t, unfolded host_obs_fields]
  have "\<not> bit (v AND NOT (BV TXINI OR BV FIFOCON)) 0"
    by (simp only: bit_and_not_BV2) simp
  then show ?thesis
    using assms h t unfolding control_in_host_def
    by (simp add: Endpoint_ClearIN_def clear_bits_in_def host_obs_def wr_state del: BV_eval)
qed

lemma host_BytesInEndpoint:
  assumes "control_in_host E want H" "fill H (hw s) = 0"
  shows "\<exists>t. Endpoint_BytesInEndpoint E s = (0, t) \<and> host_obs H t = host_obs H s \<and> quiet s t"
proof -
  define u where "u = snd (rd E UEBCHX s)"
  have u: "host_obs H u = host_obs H s" "quiet s u"
    using host_rd [OF assms(1), of UEBCHX s] quiet_rd [of UEBCHX s E] by (simp_all add: u_def)
  then have "fill H (hw u) = 0"
    using assms(2) by (simp add: host_obs_fields)
  then have "fst (rd E UEBCHX s) = 0" "fst (rd E UEBCLX u) = 0"
    using assms by (simp_all add: control_in_host_def rd_state)
  then show ?thesis
    using u host_rd [OF assms(1), of UEBCLX u] quiet_rd [of UEBCLX u E] quiet_trans
    by (fastforce simp: Endpoint_BytesInEndpoint_def split_beta Let_def simp flip: u_def)
qed

lemma host_Control_W_poll:
  assumes "control_in_host E want H" "USB_DeviceState s \<notin> {DEVICE_STATE_Unattached, DEVICE_STATE_Suspended}"
  obtains p t where "Control_W_poll E s = Some (p, t)" "host_obs H t = host_obs H s" "quiet s t"
    "p = PollBreak \<and> data_over H (hw s) \<or> p = PollReady \<or> p = PollAgain \<and> patience H (hw t) < patience H (hw s)"
proof -
  obtain v1 t1 where t1: "rd E UEINTX s = (v1, t1)"
    by (cases "rd E UEINTX s")
  obtain v2 t2 where t2: "rd E UEINTX t1 = (v2, t2)"
    by (cases "rd E UEINTX t1")
  obtain v3 t3 where t3: "rd E UEINTX t2 = (v3, t3)"
    by (cases "rd E UEINTX t2")
  note h = host_UEINTX [OF assms(1) t1] host_UEINTX [OF assms(1) t2] host_UEINTX [OF assms(1) t3]
  have poll: "Control_W_poll E s =
      (if bit v2 2 then Some (PollBreak, t2) else Some (if bit v3 0 then PollReady else PollAgain, t3))"
    using assms(2) h(3) t1 t2 t3
    by (simp add: Control_W_poll_def host_no_irq [OF assms(1)] Endpoint_IsSETUPReceived_def
        Endpoint_IsOUTReceived_def Endpoint_IsINReady_def test_bits_rd Let_def del: BV_eval)
  have q: "quiet s t2" "quiet s t3"
    using h(2,8,14) quiet_trans by blast+
  show ?thesis
  proof (cases "bit v2 2")
    case True
    then show ?thesis
      using that [of PollBreak t2] poll h q by (simp add: host_obs_fields)
  next
    case False
    then show ?thesis
      using that [of "if bit v3 0 then PollReady else PollAgain" t3] poll h q
      by (auto simp: host_obs_fields split: if_splits)
  qed
qed

lemma host_Control_W_status:
  assumes "control_in_host E want H" "data_over H (hw s)"
    "USB_DeviceState s \<notin> {DEVICE_STATE_Unattached, DEVICE_STATE_Suspended}"
  shows "\<exists>t. Control_W_status E s = Some (0, t)"
  using assms(2,3)
proof (induction "patience H (hw s)" arbitrary: s rule: less_induct)
  case less
  obtain v1 t1 where t1: "rd E UEINTX s = (v1, t1)"
    by (cases "rd E UEINTX s")
  obtain v2 t2 where t2: "rd E UEINTX t1 = (v2, t2)"
    by (cases "rd E UEINTX t1")
  note h = host_UEINTX [OF assms(1) t1] host_UEINTX [OF assms(1) t2]
  have o: "USB_DeviceState t1 = USB_DeviceState s" "USB_DeviceState t2 = USB_DeviceState s"
    "data_over H (hw t1)" "data_over H (hw t2)"
    using h(1,7) less.prems(1) by (simp_all add: host_obs_fields)
  have "Control_W_status E s = (if bit v1 2 then Some (0, t1) else Control_W_status E t2)"
    using less.prems(2) o h(9) t1 t2
    by (subst Control_W_status.simps) (simp add: host_no_irq [OF assms(1)] Endpoint_IsSETUPReceived_def
        Endpoint_IsOUTReceived_def test_bits_rd Let_def del: BV_eval)
  then show ?case
    using less o h by (cases "bit v1 2") auto
qed

section \<open>The stream completes\<close>

context stream_order
begin

lemma host_packet:
  assumes "control_in_host E want H" "sends TRANSFER E B" "unat L0 \<le> length B" "k + unat L \<le> unat L0"
    and "host_obs H s = (0, k, over, st)" "j = min (unat L) 8"
  obtains w where "(let (BytesInEndpoint, s) = Endpoint_BytesInEndpoint E s;
        (DataStream, Length, BytesInEndpoint, s) = fill_packet TRANSFER MOVE (cursor OFFSET MOVE L0 k) L BytesInEndpoint s
      in f DataStream Length (BytesInEndpoint = ucast (8 :: u8)) (Endpoint_ClearIN E s)) =
        f (cursor OFFSET MOVE L0 (k + j)) (L - of_nat j) (j = 8) w"
    "host_obs H w = (0, k + j, over \<or> j < 8 \<or> want \<le> k + j, st)"
    "xfer (take j (drop k (arrange (take (unat L0) B)))) [] s w"
proof -
  let ?bs = "take j (drop k (arrange (take (unat L0) B)))"
  obtain t where t: "Endpoint_BytesInEndpoint E s = (0, t)" "host_obs H t = host_obs H s" "quiet s t"
    using host_BytesInEndpoint [OF assms(1), of s] assms(5) by (auto simp: host_obs_def)
  let ?w = "Endpoint_ClearIN E (fold (Endpoint_Write_8 E) ?bs t)"
  have j: "length ?bs = j" "(of_nat j = (ucast (8 :: u8) :: u16)) = (j = 8)"
    using assms(3,4,6) by (auto simp: length_arrange min_def word_unat_eq_iff unat_of_nat)
  have "host_obs H (fold (Endpoint_Write_8 E) ?bs t) = (j, k, over, st)"
    using host_fold_Write_8 [OF assms(1), of ?bs t] t(2) assms(5) j(1) by (simp add: host_obs_def)
  then have "host_obs H ?w = (0, k + j, over \<or> j < 8 \<or> want \<le> k + j, st)"
    using host_ClearIN [OF assms(1)] by (simp add: host_obs_def)
  moreover have "xfer ?bs [] s ?w"
    using quiet_endpoint_ops(8) [OF quiet_refl] xfer_quiet quiet_xfer_trans [OF t(3) fold_Write_8_xfer] by blast
  ultimately show ?thesis
    using that [of ?w] fill_packet_eq [OF assms(2-4), of j 0 t] t(1) assms(6) j(2) by simp
qed

lemma Control_W_loop_completes:
  assumes host: "control_in_host E want H" and "sends TRANSFER E B" "unat L0 \<le> length B" "n \<le> unat L0" "n \<le> want"
    and st: "st \<notin> {DEVICE_STATE_Unattached, DEVICE_STATE_Suspended}"
    and "k + unat L = n" "host_obs H s = (0, k, over, st)" "over \<longrightarrow> L = 0" "L = 0 \<longrightarrow> over \<or> full"
  shows "\<exists>s'. Control_W_loop TRANSFER MOVE E (cursor OFFSET MOVE L0 k) L full s = Some (None, s') \<and>
    xfer (take (unat L) (drop k (arrange (take (unat L0) B)))) [] s s' \<and> data_over H (hw s') \<and> USB_DeviceState s' = st"
  using assms(7-)
proof (induction "(2 * unat L + of_bool full, patience H (hw s))" arbitrary: k L full over s
    rule: wf_induct_rule [OF wf_lex_prod [OF wf_less_than wf_less_than]])
  case (1 L full s k over)
  note IH = 1(1) and inv = 1(2-)
  let ?X = "arrange (take (unat L0) B)"
  show ?case
  proof (cases "L \<noteq> 0 \<or> full")
    case False
    then have "Control_W_loop TRANSFER MOVE E (cursor OFFSET MOVE L0 k) L full s = Some (None, s)"
      by (subst Control_W_loop.simps) simp
    then show ?thesis
      using False inv by (auto simp: host_obs_def simp flip: quiet_xfer)
  next
    case True
    have "USB_DeviceState s = st"
      using inv(2) by (simp add: host_obs_def)
    then obtain p t where t: "Control_W_poll E s = Some (p, t)" "host_obs H t = host_obs H s" "quiet s t"
      and p: "p = PollBreak \<and> over \<or> p = PollReady \<or> p = PollAgain \<and> patience H (hw t) < patience H (hw s)"
      using host_Control_W_poll [OF host, of s] st inv(2) by (auto simp: host_obs_def)
    note unfold = Control_W_loop.simps [of TRANSFER MOVE E "cursor OFFSET MOVE L0 k" L full s]
    from p consider "p = PollBreak" over | "p = PollReady" | "p = PollAgain" "patience H (hw t) < patience H (hw s)"
      by blast
    then show ?thesis
    proof cases
      case 1
      then show ?thesis
        using t True inv(2,3) unfold quiet_xfer [of s t] by (auto simp: host_obs_def)
    next
      case 2
      define j where "j = min (unat L) 8"
      have "k + unat L \<le> unat L0"
        using inv(1) assms(4) by simp
      from host_packet [where f = "Control_W_loop TRANSFER MOVE E", OF host assms(2,3) this t(2) [unfolded inv(2)] j_def]
      obtain w where w: "Control_W_loop TRANSFER MOVE E (cursor OFFSET MOVE L0 k) L full s =
          Control_W_loop TRANSFER MOVE E (cursor OFFSET MOVE L0 (k + j)) (L - of_nat j) (j = 8) w"
        "host_obs H w = (0, k + j, over \<or> j < 8 \<or> want \<le> k + j, st)" "xfer (take j (drop k ?X)) [] t w"
        using unfold True t(1) 2 by (auto simp: Let_def)
      have L: "unat (L - of_nat j) = unat L - j"
        by (simp add: unat_minus_of_nat j_def)
      have less: "2 * (unat L - j) + of_bool (j = 8) < 2 * unat L + of_bool full"
        using True unat_gt_0 [of L] by (auto simp: j_def min_def)
      have "\<exists>s'. Control_W_loop TRANSFER MOVE E (cursor OFFSET MOVE L0 (k + j)) (L - of_nat j) (j = 8) w = Some (None, s') \<and>
          xfer (take (unat (L - of_nat j)) (drop (k + j) ?X)) [] w s' \<and> data_over H (hw s') \<and> USB_DeviceState s' = st"
      proof (rule IH)
        show "((2 * unat (L - of_nat j) + of_bool (j = 8), patience H (hw w)),
            (2 * unat L + of_bool full, patience H (hw s))) \<in> less_than <*lex*> less_than"
          using less by (simp add: L)
        show "over \<or> j < 8 \<or> want \<le> k + j \<longrightarrow> L - of_nat j = 0"
          using inv(1,3) assms(5) L by (auto simp: j_def simp flip: unat_eq_zero)
      qed (use inv(1) L w(2) in \<open>auto simp: j_def\<close>)
      then obtain s' where s': "Control_W_loop TRANSFER MOVE E (cursor OFFSET MOVE L0 k) L full s = Some (None, s')"
        "xfer (take (unat L - j) (drop (k + j) ?X)) [] w s'" "data_over H (hw s')" "USB_DeviceState s' = st"
        unfolding w(1) L by blast
      have "take (unat L) (drop k ?X) = take j (drop k ?X) @ take (unat L - j) (drop (k + j) ?X)"
        using take_add [of j "unat L - j" "drop k ?X"] by (simp add: j_def add.commute)
      then show ?thesis
        using s' xfer_trans [OF quiet_xfer_trans [OF t(3) w(3)] s'(2)] by auto
    next
      case 3
      then have "\<exists>s'. Control_W_loop TRANSFER MOVE E (cursor OFFSET MOVE L0 k) L full t = Some (None, s') \<and>
          xfer (take (unat L) (drop k ?X)) [] t s' \<and> data_over H (hw s') \<and> USB_DeviceState s' = st"
        using inv t(2) by (intro IH) auto
      then show ?thesis
        using t True 3 unfold quiet_xfer_trans [OF t(3)] by auto
    qed
  qed
qed

lemma Control_W_completes:
  assumes host: "control_in_host E (unat (wLength (USB_ControlRequest s))) H" and "sends TRANSFER E B" "unat L \<le> length B"
    and "wLength (USB_ControlRequest s) \<noteq> 0" "host_obs H s = (0, 0, False, st)"
    and st: "st \<notin> {DEVICE_STATE_Unattached, DEVICE_STATE_Suspended}"
  shows "\<exists>s'. Template_Endpoint_Control_W OFFSET MOVE TRANSFER E L s = Some (0, s') \<and>
    xfer (take (min (unat L) (unat (wLength (USB_ControlRequest s)))) (arrange (take (unat L) B))) [] s s'"
proof -
  let ?w = "wLength (USB_ControlRequest s)"
  define n where "n = (if ?w < L then ?w else L)"
  define t where "t = (if L = 0 then Endpoint_ClearIN E s else s)"
  have t: "host_obs H t = (0, 0, L = 0, st)" "quiet s t"
    using assms(5) host_ClearIN [OF host, of s] by (simp_all add: t_def host_obs_def quiet_endpoint_ops)
  have n: "unat n = min (unat L) (unat ?w)" "n = 0 \<longleftrightarrow> L = 0"
    using assms(4) by (auto simp: n_def word_less_nat_alt)
  have "\<exists>u. Control_W_loop TRANSFER MOVE E (cursor OFFSET MOVE L 0) n False t = Some (None, u) \<and>
      xfer (take (unat n) (drop 0 (arrange (take (unat L) B)))) [] t u \<and> data_over H (hw u) \<and> USB_DeviceState u = st"
    using Control_W_loop_completes [OF host assms(2,3) _ _ st _ t(1), of "unat n" n False] n by simp
  then obtain u where u: "Control_W_loop TRANSFER MOVE E (OFFSET L) n False t = Some (None, u)"
    "xfer (take (unat n) (arrange (take (unat L) B))) [] t u" "data_over H (hw u)" "USB_DeviceState u = st"
    by (auto simp: cursor_0)
  obtain s' where s': "Control_W_status E u = Some (0, s')"
    using host_Control_W_status [OF host u(3)] u(4) st by blast
  have "Template_Endpoint_Control_W OFFSET MOVE TRANSFER E L s = Some (0, s')"
    using u(1) s' assms(4) by (auto simp: Template_Endpoint_Control_W_def n_def t_def word_gt_0 split: if_splits)
  then show ?thesis
    using xfer_quiet [OF quiet_xfer_trans [OF t(2) u(2)] quiet_Control_W_status [OF s']] n(1) by auto
qed

end

section \<open>A simulated host\<close>

text \<open>
  A peripheral with a host that takes every packet at once: its state is the fill of the bank, the
  number of bytes received and whether the data stage is over.
\<close>

type_synonym sim = "nat \<times> nat \<times> bool"

definition sim_env :: "nat \<Rightarrow> sim env" where
  "sim_env want = \<lparr>
     io_read = (\<lambda>r (f, g, d).
       (if r = UEINTX then (if d then 0x05 else 0x01) else if r = UEBCLX then of_nat f else 0, (f, g, d))),
     io_write = (\<lambda>r v (f, g, d).
       if r = UEDATX then (Suc f, g, d)
       else if r = UEINTX \<and> \<not> bit v 0 then (0, g + f, d \<or> f < 8 \<or> want \<le> g + f)
       else (f, g, d)),
     irq_pending = (\<lambda>_. False), boot_signature_byte_get = (\<lambda>a. a), uninit_byte = (\<lambda>_. 0)\<rparr>"

definition sim_host :: "sim in_host" where
  "sim_host = \<lparr>fill = fst, got = fst \<circ> snd, data_over = snd \<circ> snd, patience = (\<lambda>_. 0)\<rparr>"

lemma xfer_data_out: "xfer out inp s s' \<Longrightarrow> data_out s' = data_out s @ out"
  by (simp add: xfer_def)

lemma sim_bits: "bit (5 :: u8) 2" "\<not> bit (5 :: u8) 3" "\<not> bit (1 :: u8) 2" "\<not> bit (1 :: u8) 3" "bit (1 :: u8) 0"
  by code_simp+

lemma sim_is_host: "control_in_host (sim_env want) want sim_host"
  by (simp add: control_in_host_def sim_env_def sim_host_def Let_def split_beta sim_bits)

text \<open>The firmware attached to the simulated host, with a control read of \<open>want\<close> bytes pending.\<close>

definition sim_fw :: "u8 \<Rightarrow> u16 \<Rightarrow> u16 \<Rightarrow> sim fw" where
  "sim_fw req value want = (demo_fw (0, 0, False))
     \<lparr>USB_ControlRequest := \<lparr>bmRequestType = 0x80, bRequest = req, wValue = value, wIndex = 0, wLength = want\<rparr>\<rparr>"

lemma sim_fw_obs: "host_obs sim_host (sim_fw req value want) = (0, 0, False, DEVICE_STATE_Addressed)"
  "USB_ControlRequest (sim_fw req value want) =
     \<lparr>bmRequestType = 0x80, bRequest = req, wValue = value, wIndex = 0, wLength = want\<rparr>"
  "data_out (sim_fw req value want) = []"
  by (simp_all add: host_obs_def sim_host_def sim_fw_def demo_fw_def data_out_def)

section \<open>Properties of the control streams\<close>

text \<open>
  C21: a control write stream never sends anything but a prefix of its buffer, whatever the host does:
  if it returns, with or without an error, the bytes it pushed are the first bytes of the buffer
  in the order of its name, no more than the host asked for and no more than the caller said,
  nothing was popped, nothing was read outside the buffer, and no other data changed.
\<close>

theorem Write_Control_Stream_prefix:
  assumes "unat Length \<le> length Buffer" "n = min (unat Length) (unat (wLength (USB_ControlRequest s)))"
  shows "(\<forall>c s'. Endpoint_Write_Control_Stream_LE E Buffer Length s = Some (c, s') \<longrightarrow>
      (\<exists>j \<le> n. xfer (take j Buffer) [] s s')) \<and>
    (\<forall>c s'. Endpoint_Write_Control_Stream_BE E Buffer Length s = Some (c, s') \<longrightarrow>
      (\<exists>j \<le> n. xfer (take j (rev (take (unat Length) Buffer))) [] s s'))"
  using le_stream.Control_W_sends [OF _ write_ram_sends assms(1), of E s]
    be_stream.Control_W_sends [OF _ write_ram_sends assms(1), of E s]
  unfolding Endpoint_Write_Control_Stream_LE_def Endpoint_Write_Control_Stream_BE_def assms(2)
  by (auto simp: take_take min_def split: if_splits)

lemma sim_Write_Control_Stream:
  assumes "unat Length \<le> length Buffer" "want \<noteq> 0"
  shows "\<exists>s'. Endpoint_Write_Control_Stream_LE (sim_env (unat want)) Buffer Length (sim_fw r v want) = Some (0, s') \<and>
      xfer (take (min (unat Length) (unat want)) (take (unat Length) Buffer)) [] (sim_fw r v want) s'"
    "\<exists>s'. Endpoint_Write_Control_Stream_BE (sim_env (unat want)) Buffer Length (sim_fw r v want) = Some (0, s') \<and>
      xfer (take (min (unat Length) (unat want)) (rev (take (unat Length) Buffer))) [] (sim_fw r v want) s'"
  unfolding Endpoint_Write_Control_Stream_LE_def Endpoint_Write_Control_Stream_BE_def
  using le_stream.Control_W_completes [of _ "sim_fw r v want", OF _ write_ram_sends assms(1)]
    be_stream.Control_W_completes [of _ "sim_fw r v want", OF _ write_ram_sends assms(1)]
    sim_is_host [of "unat want"] assms(2) by (simp_all add: sim_fw_obs)

theorem Write_Control_Stream_prefix_witness:
  "\<exists>s' s''. Endpoint_Write_Control_Stream_LE (sim_env 10) (replicate 12 7) 12 (sim_fw 6 0 10) = Some (0, s') \<and>
     Endpoint_Write_Control_Stream_BE (sim_env 10) (replicate 12 7) 12 (sim_fw 6 0 10) = Some (0, s'') \<and>
     length (data_out s') \<le> 10 \<and> length (data_out s'') \<le> 10"
proof -
  obtain s' s'' where *: "Endpoint_Write_Control_Stream_LE (sim_env 10) (replicate 12 7) 12 (sim_fw 6 0 10) = Some (0, s')"
    "Endpoint_Write_Control_Stream_BE (sim_env 10) (replicate 12 7) 12 (sim_fw 6 0 10) = Some (0, s'')"
    using sim_Write_Control_Stream [of 12 "replicate 12 7" 10 6 0] by auto
  have "10 = min (unat (12 :: u16)) (unat (wLength (USB_ControlRequest (sim_fw 6 0 10))))"
    by (simp add: sim_fw_obs)
  from Write_Control_Stream_prefix [OF _ this, of "replicate 12 7" "sim_env 10"] *
  obtain i j where "i \<le> 10" "xfer (take i (replicate 12 7)) [] (sim_fw 6 0 10) s'" "j \<le> 10"
    "xfer (take j (rev (take 12 (replicate 12 7)))) [] (sim_fw 6 0 10) s''"
    by (auto simp del: take_replicate rev_replicate)
  then have "length (data_out s') \<le> 10" "length (data_out s'') \<le> 10"
    using xfer_data_out [of _ "[]" "sim_fw 6 0 10"] by (force simp: sim_fw_obs)+
  then show ?thesis
    using * by blast
qed

text \<open>
  C20: a control write stream completes: with a host that follows the protocol of a control read of
  \<open>wLength\<close> bytes, both streams return without an error, and the host has received exactly the bytes of the
  buffer up to the shorter of \<open>Length\<close> and \<open>wLength\<close>; a data stage that ends on a full packet is
  closed by an empty one.
\<close>

theorem Write_Control_Stream_completes:
  assumes "control_in_host E (unat (wLength (USB_ControlRequest s))) H" "host_obs H s = (0, 0, False, st)"
    and "st \<notin> {DEVICE_STATE_Unattached, DEVICE_STATE_Suspended}" "wLength (USB_ControlRequest s) \<noteq> 0"
    and "unat Length \<le> length Buffer" "n = min (unat Length) (unat (wLength (USB_ControlRequest s)))"
  shows "\<exists>s' s''. Endpoint_Write_Control_Stream_LE E Buffer Length s = Some (0, s') \<and>
    Endpoint_Write_Control_Stream_BE E Buffer Length s = Some (0, s'') \<and>
    data_out s' = data_out s @ take n Buffer \<and> data_out s'' = data_out s @ take n (rev (take (unat Length) Buffer))"
  using le_stream.Control_W_completes [OF assms(1) write_ram_sends assms(5,4,2,3)]
    be_stream.Control_W_completes [OF assms(1) write_ram_sends assms(5,4,2,3)]
  unfolding Endpoint_Write_Control_Stream_LE_def Endpoint_Write_Control_Stream_BE_def assms(6)
  by (auto dest!: xfer_data_out simp: take_take)

theorem Write_Control_Stream_completes_witness:
  "\<exists>s' s''. Endpoint_Write_Control_Stream_LE (sim_env 64) [1, 2, 3, 4, 5, 6, 7, 8] 8 (sim_fw 6 0 64) = Some (0, s') \<and>
     Endpoint_Write_Control_Stream_BE (sim_env 64) [1, 2, 3, 4, 5, 6, 7, 8] 8 (sim_fw 6 0 64) = Some (0, s'') \<and>
     data_out s' = [1, 2, 3, 4, 5, 6, 7, 8] \<and> data_out s'' = [8, 7, 6, 5, 4, 3, 2, 1]"
proof -
  have "\<exists>s' s''. Endpoint_Write_Control_Stream_LE (sim_env 64) [1, 2, 3, 4, 5, 6, 7, 8] 8 (sim_fw 6 0 64) = Some (0, s') \<and>
     Endpoint_Write_Control_Stream_BE (sim_env 64) [1, 2, 3, 4, 5, 6, 7, 8] 8 (sim_fw 6 0 64) = Some (0, s'') \<and>
     data_out s' = data_out (sim_fw 6 0 64) @ take 8 [1, 2, 3, 4, 5, 6, 7, 8] \<and>
     data_out s'' = data_out (sim_fw 6 0 64) @ take 8 (rev (take (unat (8 :: u16)) [1, 2, 3, 4, 5, 6, 7, 8]))"
    by (rule Write_Control_Stream_completes [where H = sim_host and st = DEVICE_STATE_Addressed])
      (simp_all add: sim_fw_obs sim_is_host)
  then show ?thesis
    by (simp only: sim_fw_obs) simp
qed

lemma filled_LE:
  assumes "filled (\<lambda>xs. xs) L 0 inp B B'" "length inp \<le> unat L"
  shows "B' = inp @ drop (length inp) B"
proof -
  have "drop (length inp) (take (unat L) B) @ drop (unat L) B = drop (length inp) B"
    using assms(2) by (metis append_take_drop_id drop_append diff_is_0_eq' drop_drop drop_take drop0 le_add_diff_inverse2)
  then show ?thesis
    using assms(1) append_take_drop_id [of "unat L" B'] unfolding filled_def by simp
qed

lemma filled_BE:
  assumes "filled rev L 0 inp B B'" "unat L \<le> length B"
  shows "B' = take (unat L - length inp) B @ rev inp @ drop (unat L) B"
proof -
  have "rev (rev (take (unat L) B')) = rev (inp @ drop (length inp) (rev (take (unat L) B)))"
    using assms(1) by (simp only: filled_def) simp
  then have "take (unat L) B' = take (unat L - length inp) B @ rev inp"
    using assms(2) by (simp add: rev_drop min_def)
  then show ?thesis
    using assms(1) append_take_drop_id [of "unat L" B'] unfolding filled_def by simp
qed

text \<open>
  C22: a control read stream stores exactly what it receives: if it returns, the bytes it popped are
  the first bytes of the buffer (the last ones in reverse, for the big-endian stream), the rest of
  the buffer is as it was, nothing was sent and nothing written outside the buffer; and if
  it reports no error it has received all the bytes that were asked for.
\<close>

theorem Read_Control_Stream_stores:
  assumes "unat Length \<le> length Buffer"
  shows "(\<forall>c Buffer' s'. Endpoint_Read_Control_Stream_LE E Buffer Length s = Some (c, Buffer', s') \<longrightarrow>
      (\<exists>inp. length inp \<le> unat Length \<and> (c = 0 \<longrightarrow> length inp = unat Length) \<and>
        Buffer' = inp @ drop (length inp) Buffer \<and> xfer [] inp s s')) \<and>
    (\<forall>c Buffer' s'. Endpoint_Read_Control_Stream_BE E Buffer Length s = Some (c, Buffer', s') \<longrightarrow>
      (\<exists>inp. length inp \<le> unat Length \<and> (c = 0 \<longrightarrow> length inp = unat Length) \<and>
        Buffer' = take (unat Length - length inp) Buffer @ rev inp @ drop (unat Length) Buffer \<and> xfer [] inp s s'))"
proof (intro conjI allI impI)
  fix c Buffer' s'
  assume "Endpoint_Read_Control_Stream_LE E Buffer Length s = Some (c, Buffer', s')"
  from le_stream.Control_R_stores [OF this [unfolded Endpoint_Read_Control_Stream_LE_def] assms]
  obtain inp where i: "length inp \<le> unat Length" "c = 0 \<longrightarrow> length inp = unat Length"
    "filled (\<lambda>xs. xs) Length 0 inp Buffer Buffer'" "xfer [] inp s s'"
    by (elim exE conjE)
  show "\<exists>inp. length inp \<le> unat Length \<and> (c = 0 \<longrightarrow> length inp = unat Length) \<and>
      Buffer' = inp @ drop (length inp) Buffer \<and> xfer [] inp s s'"
    by (intro exI [of _ inp] conjI i(1,2,4) filled_LE [OF i(3,1)])
next
  fix c Buffer' s'
  assume "Endpoint_Read_Control_Stream_BE E Buffer Length s = Some (c, Buffer', s')"
  from be_stream.Control_R_stores [OF this [unfolded Endpoint_Read_Control_Stream_BE_def] assms]
  obtain inp where i: "length inp \<le> unat Length" "c = 0 \<longrightarrow> length inp = unat Length"
    "filled rev Length 0 inp Buffer Buffer'" "xfer [] inp s s'"
    by (elim exE conjE)
  show "\<exists>inp. length inp \<le> unat Length \<and> (c = 0 \<longrightarrow> length inp = unat Length) \<and>
      Buffer' = take (unat Length - length inp) Buffer @ rev inp @ drop (unat Length) Buffer \<and> xfer [] inp s s'"
    by (intro exI [of _ inp] conjI i(1,2,4) filled_BE [OF i(3) assms])
qed

text \<open>A peripheral that holds one received packet and accepts everything it is given.\<close>

definition fifo_env :: "u8 list env" where
  "fifo_env = \<lparr>
     io_read = (\<lambda>r h. if r = UEINTX then (0x05, h) else if r = UEBCLX then (of_nat (length h), h)
       else if r = UEDATX then (hd h, tl h) else (0, h)),
     io_write = (\<lambda>r v h. h),
     irq_pending = (\<lambda>_. False), boot_signature_byte_get = (\<lambda>a. a), uninit_byte = (\<lambda>_. 0)\<rparr>"

lemma fifo_BytesInEndpoint:
  "\<exists>t. Endpoint_BytesInEndpoint fifo_env s = (ucast (of_nat (length (hw s)) :: u8), t) \<and> hw t = hw s"
  by (simp add: Endpoint_BytesInEndpoint_def rd_def fifo_env_def)

lemma ucast_of_nat_nonzero: "0 < n \<Longrightarrow> n < 256 \<Longrightarrow> (ucast (of_nat n :: u8) :: u16) \<noteq> 0"
  by (simp add: word_unat_eq_iff unsigned_ucast_eq unsigned_of_nat take_bit_nat_eq_self)

lemma fifo_drain_packet:
  assumes "length (hw s) = unat L" "unat L < 256"
  shows "\<exists>p' B' s'. drain_packet (read_ram fifo_env) MV fifo_env p L B s = (p', 0, B', s')"
  using assms
proof (induction "unat L" arbitrary: L p B s)
  case 0
  then show ?case
    by (subst drain_packet.simps) (simp add: unat_eq_zero)
next
  case (Suc n)
  then have "L \<noteq> 0"
    by auto
  then have L: "L \<noteq> 0" "unat (L - 1) = n"
    using Suc.hyps(2) by (simp_all add: unat_pred)
  obtain t where t: "Endpoint_BytesInEndpoint fifo_env s = (ucast (of_nat (length (hw s)) :: u8), t)" "hw t = hw s"
    using fifo_BytesInEndpoint by blast
  have "(ucast (of_nat (length (hw s)) :: u8) :: u16) \<noteq> 0"
    using Suc.hyps(2) Suc.prems by (intro ucast_of_nat_nonzero) simp_all
  moreover obtain B' u where u: "read_ram fifo_env p (B, t) = (B', u)"
    by (cases "read_ram fifo_env p (B, t)")
  moreover from u have "hw u = tl (hw s)"
    using t(2) by (auto simp: read_ram_def Endpoint_Read_8_def rd_def fifo_env_def split: if_splits)
  moreover have "\<exists>p' B'' s'. drain_packet (read_ram fifo_env) MV fifo_env (MV p 1) (L - 1) B' u = (p', 0, B'', s')"
    using Suc L \<open>hw u = tl (hw s)\<close> by (intro Suc.hyps(1)) auto
  ultimately show ?case
    using L(1) t(1) by (subst drain_packet.simps) simp
qed

lemma fifo_polls:
  "Endpoint_IsSETUPReceived fifo_env s = (False, snd (rd fifo_env UEINTX s))"
  "Endpoint_IsOUTReceived fifo_env s = (True, snd (rd fifo_env UEINTX s))"
  "Endpoint_IsINReady fifo_env s = (True, snd (rd fifo_env UEINTX s))"
  "read_DeviceState fifo_env s = Some (USB_DeviceState s, s)"
  "hw (snd (rd fifo_env UEINTX s)) = hw s"
  by (simp_all add: Endpoint_IsSETUPReceived_def Endpoint_IsOUTReceived_def Endpoint_IsINReady_def test_bits_def
      rd_def fifo_env_def read_DeviceState_def)

lemma fifo_Read_Control_Stream:
  assumes "length (hw s) = unat L" "unat L < 256" "L \<noteq> 0" "USB_DeviceState s = DEVICE_STATE_Addressed"
  shows "\<exists>B' s'. Endpoint_Read_Control_Stream_LE fifo_env B L s = Some (0, B', s')"
proof -
  obtain t where t: "Control_R_poll fifo_env s = Some (PollReady, t)" "hw t = hw s"
    using assms(4) by (simp add: Control_R_poll_def fifo_polls)
  obtain p' B' u where u: "drain_packet (read_ram fifo_env) MOVE_LE fifo_env (OFFSET_LE L) L B t = (p', 0, B', u)"
    using fifo_drain_packet [of t L] assms(1,2) t(2) by metis
  have "Control_R_loop (read_ram fifo_env) MOVE_LE fifo_env (OFFSET_LE L) L B s =
      Some (None, B', Endpoint_ClearOUT fifo_env u)"
    using assms(3) t(1) u by (subst Control_R_loop.simps) (simp, subst Control_R_loop.simps, simp)
  moreover have "\<exists>w. Control_R_status fifo_env (Endpoint_ClearOUT fifo_env u) = Some (0, w)"
    by (subst Control_R_status.simps) (simp add: fifo_polls)
  ultimately show ?thesis
    using assms(3) by (auto simp: Endpoint_Read_Control_Stream_LE_def Template_Endpoint_Control_R_def)
qed

theorem Read_Control_Stream_stores_witness:
  "\<exists>s'. Endpoint_Read_Control_Stream_LE fifo_env [0, 0, 0, 9] 3 (demo_fw [1, 2, 3]) = Some (0, data_in s' @ [9], s') \<and>
     length (data_in s') = 3"
proof -
  obtain B' s' where *: "Endpoint_Read_Control_Stream_LE fifo_env [0, 0, 0, 9] 3 (demo_fw [1, 2, 3]) = Some (0, B', s')"
    using fifo_Read_Control_Stream [of "demo_fw [1, 2, 3]" 3 "[0, 0, 0, 9]"] by (auto simp: demo_fw_def)
  obtain inp where "length inp = 3" "B' = inp @ drop (length inp) [0, 0, 0, 9]" "xfer [] inp (demo_fw [1, 2, 3]) s'"
    using Read_Control_Stream_stores [of 3 "[0, 0, 0, 9]" fifo_env "demo_fw [1, 2, 3]"] * by auto
  moreover have "data_in (demo_fw [1, 2, 3]) = []"
    by (simp add: data_in_def demo_fw_def)
  ultimately show ?thesis
    using * by (simp add: xfer_def)
qed

end
