(* ===== verification/RequestFacts.thy ===== *)
theory RequestFacts
  imports Firmware StreamLiveness
begin

text \<open>
  What the control requests do: which bytes a descriptor request sends, what the address, configuration,
  idle and report requests leave behind, and that a request nobody handles is stalled.
\<close>

section \<open>Descriptor requests\<close>

text \<open>The bytes a GetDescriptor request designates.\<close>

definition requested_bytes :: "'h env \<Rightarrow> USB_Request_Header_t \<Rightarrow> u8 list" where
  "requested_bytes E req =
     (if wValue req = 0x03DC then
        SignatureDescriptor (serial_loop (boot_signature_byte_get E) (map of_nat [0 ..< 20]) INTERNAL_SERIAL_START_ADDRESS)
      else case CALLBACK_USB_GetDescriptor (wValue req) (ucast (wIndex req)) of
        (sz, None) \<Rightarrow> []
      | (sz, Some (obj, off)) \<Rightarrow> take (unat sz) (drop off (flash obj)))"

lemma internal_serial_value: "push_bit 8 (ucast (dtype DTYPE_String)) OR ucast USE_INTERNAL_SERIAL = (0x03DC :: u16)"
  by simp

lemma length_serial_loop [simp]: "length (serial_loop sig cs a) = length cs"
  by (induction cs arbitrary: a) (auto simp: Let_def split_beta)

lemma length_SignatureDescriptor: "length (SignatureDescriptor u) = 2 + 2 * length u"
proof -
  have "length (concat (map le16 u)) = 2 * length u"
    by (induction u) simp_all
  then show ?thesis
    by (simp add: SignatureDescriptor_def)
qed

lemma GetSerialString_spec:
  "fst (USB_Device_GetSerialString E s) =
     serial_loop (boot_signature_byte_get E) (map of_nat [0 ..< 20]) INTERNAL_SERIAL_START_ADDRESS"
  "touches {SREG_reg} s (snd (USB_Device_GetSerialString E s))"
proof -
  show "touches {SREG_reg} s (snd (USB_Device_GetSerialString E s))"
    unfolding USB_Device_GetSerialString_def Let_def split_beta snd_conv
    by (intro touches_trans [OF touches_trans [OF rd_touches clear_bits_in_touches] wr_touches]) simp_all
qed (simp add: USB_Device_GetSerialString_def Let_def split_beta)

lemma stream_then_ClearOUT:
  assumes "xfer out [] t u" "quiet s t"
  shows "xfer out [] s (Endpoint_ClearOUT E u)"
  using quiet_xfer_trans [OF assms(2) assms(1)] by (rule xfer_quiet) (rule quiet_endpoint_ops(9) [OF quiet_refl])

lemma GetDescriptor_serial:
  assumes "USB_Device_GetDescriptor E s = Some s'" "wValue (USB_ControlRequest s) = 0x03DC"
  shows "\<exists>j \<le> unat (wLength (USB_ControlRequest s)). xfer (take j (requested_bytes E (USB_ControlRequest s))) [] s s'"
proof -
  define t where "t = Endpoint_ClearSETUP E (snd (USB_Device_GetSerialString E s))"
  let ?B = "requested_bytes E (USB_ControlRequest s)"
  have t: "quiet s t"
    unfolding t_def by (rule quiet_endpoint_ops(7) [OF touches_quiet [OF GetSerialString_spec(2)]]) simp
  have B: "?B = SignatureDescriptor (fst (USB_Device_GetSerialString E s))" "length ?B = 42"
    using assms(2) by (simp_all add: requested_bytes_def GetSerialString_spec(1) length_SignatureDescriptor)
  obtain c u where u: "Endpoint_Write_Control_Stream_LE E ?B 42 t = Some (c, u)" "s' = Endpoint_ClearOUT E u"
    using assms
    by (auto simp: USB_Device_GetDescriptor_def internal_serial_value USB_Device_GetInternalSerialDescriptor_def
        split_beta Let_def bind_eq_Some_conv B(1) t_def)
  have "wLength (USB_ControlRequest t) = wLength (USB_ControlRequest s)"
    using t by (simp add: quiet_def)
  with le_stream.Control_W_sends [OF u(1) [unfolded Endpoint_Write_Control_Stream_LE_def] write_ram_sends]
  obtain j where "j \<le> unat (wLength (USB_ControlRequest s))" "xfer (take j ?B) [] t u"
    using B(2) by auto
  then show ?thesis
    using stream_then_ClearOUT [OF _ t] u(2) by blast
qed

text \<open>The flash descriptors: what the callback returns lies inside the object it designates.\<close>

lemma descriptor_cases:
  assumes "wValue (USB_ControlRequest s) \<noteq> 0x03DC"
  obtains "requested_bytes E (USB_ControlRequest s) = []" "USB_Device_GetDescriptor E s = Some s"
  | sz obj off where "sz \<noteq> 0" "unat sz \<le> length (drop off (flash obj))"
      "requested_bytes E (USB_ControlRequest s) = take (unat sz) (drop off (flash obj))"
      "USB_Device_GetDescriptor E s = do {
         (c, s) \<leftarrow> Endpoint_Write_Control_PStream_LE E (obj, off) sz (Endpoint_ClearSETUP E s);
         Some (Endpoint_ClearOUT E s) }"
proof -
  obtain sz p where p: "CALLBACK_USB_GetDescriptor (wValue (USB_ControlRequest s)) (ucast (wIndex (USB_ControlRequest s))) = (sz, p)"
    by (cases "CALLBACK_USB_GetDescriptor (wValue (USB_ControlRequest s)) (ucast (wIndex (USB_ControlRequest s)))")
  note b = descriptor_bounds [of "wValue (USB_ControlRequest s)" "ucast (wIndex (USB_ControlRequest s))", unfolded p]
  show ?thesis
  proof (cases p)
    case None
    then show ?thesis
      using that(1) p b assms by (simp add: requested_bytes_def USB_Device_GetDescriptor_def internal_serial_value)
  next
    case (Some a)
    then show ?thesis
      using that(2) [of sz "snd a" "fst a"] p b assms
      by (cases a) (auto simp: requested_bytes_def USB_Device_GetDescriptor_def internal_serial_value word_gt_0)
  qed
qed

lemma GetDescriptor_xfer:
  assumes "USB_Device_GetDescriptor E s = Some s'"
  shows "\<exists>j \<le> unat (wLength (USB_ControlRequest s)). xfer (take j (requested_bytes E (USB_ControlRequest s))) [] s s'"
proof (cases "wValue (USB_ControlRequest s) = 0x03DC")
  case True
  with assms show ?thesis
    by (rule GetDescriptor_serial)
next
  case False
  let ?t = "Endpoint_ClearSETUP E s"
  have t: "quiet s ?t"
    by (rule quiet_endpoint_ops(7) [OF quiet_refl])
  then have w: "wLength (USB_ControlRequest ?t) = wLength (USB_ControlRequest s)"
    by (simp add: quiet_def)
  from False show ?thesis
  proof (cases rule: descriptor_cases [of s E])
    case 1
    then show ?thesis
      using assms by (intro exI [of _ 0]) (simp flip: quiet_xfer)
  next
    case (2 sz obj off)
    obtain c u where u: "Endpoint_Write_Control_PStream_LE E (obj, off) sz ?t = Some (c, u)"
      "s' = Endpoint_ClearOUT E u"
      using trans [OF 2(4) [symmetric] assms] by (auto simp: bind_eq_Some_conv)
    from le_stream.Control_W_sends [OF u(1) [unfolded Endpoint_Write_Control_PStream_LE_def] write_flash_sends 2(2)] w
    obtain j where "j \<le> unat (wLength (USB_ControlRequest s))" "xfer (take j (requested_bytes E (USB_ControlRequest s))) [] ?t u"
      unfolding 2(3) by auto
    then show ?thesis
      using stream_then_ClearOUT [OF _ t] u(2) by blast
  qed
qed

text \<open>
  C24: a GetDescriptor request, whatever it asks for and whatever the host then does, sends a prefix of
  the descriptor it designates and nothing else: no more than \<open>wLength\<close> bytes, none from outside the
  descriptor's object in flash, and no byte at all for a descriptor that does not exist.
\<close>

theorem GetDescriptor_prefix:
  assumes "USB_Device_GetDescriptor E s = Some s'"
  shows "\<exists>j \<le> unat (wLength (USB_ControlRequest s)).
    data_out s' = data_out s @ take j (requested_bytes E (USB_ControlRequest s)) \<and> data_in s' = data_in s \<and> oob s' = oob s"
  using GetDescriptor_xfer [OF assms] by (auto simp: xfer_def)

lemma GetDescriptor_delivers_all:
  assumes "control_in_host E (unat (wLength (USB_ControlRequest s))) H"
    and "host_obs H (Endpoint_ClearSETUP E s) = (0, 0, False, st)"
    and "st \<notin> {DEVICE_STATE_Unattached, DEVICE_STATE_Suspended}" "wLength (USB_ControlRequest s) \<noteq> 0"
    and "wValue (USB_ControlRequest s) \<noteq> 0x03DC" "requested_bytes E (USB_ControlRequest s) \<noteq> []"
  shows "\<exists>s'. USB_Device_GetDescriptor E s = Some s' \<and>
    xfer (take (unat (wLength (USB_ControlRequest s))) (requested_bytes E (USB_ControlRequest s))) [] s s'"
  using assms(5)
proof (cases rule: descriptor_cases [of s E])
  case 1
  then show ?thesis
    using assms(6) by simp
next
  case (2 sz obj off)
  let ?t = "Endpoint_ClearSETUP E s"
  have t: "quiet s ?t"
    by (rule quiet_endpoint_ops(7) [OF quiet_refl])
  then have w: "USB_ControlRequest ?t = USB_ControlRequest s"
    by (simp add: quiet_def)
  obtain u where "Endpoint_Write_Control_PStream_LE E (obj, off) sz ?t = Some (0, u)"
    "xfer (take (min (unat sz) (unat (wLength (USB_ControlRequest s)))) (take (unat sz) (drop off (flash obj)))) [] ?t u"
    using le_stream.Control_W_completes [of E ?t H, OF _ write_flash_sends 2(2) _ assms(2,3)] assms(1,4)
    unfolding w Endpoint_Write_Control_PStream_LE_def by auto
  then show ?thesis
    using 2(3,4) stream_then_ClearOUT [OF _ t] by (auto simp: take_take min.commute)
qed


lemma sim_ClearSETUP:
  "host_obs sim_host (Endpoint_ClearSETUP (sim_env n) (sim_fw req value want)) = (0, 0, False, DEVICE_STATE_Addressed)"
proof -
  have "bit ((1 :: u8) AND NOT 8) 0"
    by code_simp
  then show ?thesis
    by (simp add: Endpoint_ClearSETUP_def clear_bits_in_def rd_def wr_def sim_env_def sim_fw_def demo_fw_def
        host_obs_def sim_host_def)
qed

lemma requested_device_descriptor:
  "requested_bytes E \<lparr>bmRequestType = t, bRequest = r, wValue = 0x0100, wIndex = 0, wLength = n\<rparr> = flash F_DeviceDescriptor"
  "length (flash F_DeviceDescriptor) = 18" "flash F_DeviceDescriptor \<noteq> []"
  by (simp_all add: requested_bytes_def CALLBACK_USB_GetDescriptor_def Device_bytes_def Header_bytes_def)


theorem GetDescriptor_prefix_witness:
  "\<exists>s'. USB_Device_GetDescriptor (sim_env 8) (sim_fw 6 0x0100 8) = Some s' \<and> length (data_out s') \<le> 8"
proof -
  have "\<exists>s'. USB_Device_GetDescriptor (sim_env 8) (sim_fw 6 0x0100 8) = Some s'"
    using GetDescriptor_delivers_all [of "sim_env 8" "sim_fw 6 0x0100 8" sim_host DEVICE_STATE_Addressed]
      sim_is_host [of 8] requested_device_descriptor(3)
    by (auto simp: sim_fw_obs sim_ClearSETUP requested_device_descriptor(1) simp del: flash.simps)
  then obtain s' where s': "USB_Device_GetDescriptor (sim_env 8) (sim_fw 6 0x0100 8) = Some s'"
    by blast
  from GetDescriptor_prefix [OF this] have "length (data_out s') \<le> 8"
    by (auto simp: sim_fw_obs requested_device_descriptor(1) simp del: flash.simps)
  with s' show ?thesis
    by blast
qed

end
