(* ===== verification/RequestEffects.thy ===== *)
theory RequestEffects
  imports RequestFacts
begin

text \<open>
  The requests without a data stage and the report requests: they return when the host keeps up,
  and leave behind what the host asked for.
\<close>

section \<open>Waiting for a responsive host\<close>

text \<open>
  \<open>responsive E\<close>: no interrupt is requested, and a poll of \<open>UEINTX\<close> sees the IN bank free, or an
  OUT packet received, after finitely many reads.
\<close>

definition responsive :: "'h env \<Rightarrow> bool" where
  "responsive E \<longleftrightarrow> (\<forall>h. \<not> irq_pending E h) \<and> eventually_set E UEINTX TXINI \<and> eventually_set E UEINTX RXOUTI"

text \<open>The shape of the polling loops: leave when the bit is set, or when \<open>stop\<close> says so.\<close>

lemma poll_returns:
  assumes "eventually_set E r b" "r \<in> R" "\<And>s. touches R s (done s)"
    and f: "\<And>s. f s = (let (set, t) = test_bits E r (BV b) s in
      if set then Some (done t) else if stop t then Some t else f t)"
  shows "\<exists>s'. f s = Some s' \<and> touches R s s'"
proof -
  obtain n where "bit (fst (io_read E r (((\<lambda>h. snd (io_read E r h)) ^^ n) (hw s)))) b"
    using assms(1) by (auto simp: eventually_set_def)
  then show ?thesis
  proof (induction n arbitrary: s)
    case 0
    then have "f s = Some (done (snd (test_bits E r (BV b) s)))"
      by (subst f) (simp add: split_beta test_bits_poll)
    then show ?case
      using touches_trans [OF test_bits_touches [OF assms(2)] assms(3)] by blast
  next
    case (Suc n)
    let ?t = "snd (test_bits E r (BV b) s)"
    have t: "touches R s ?t"
      by (rule test_bits_touches [OF assms(2)])
    have "bit (fst (io_read E r (((\<lambda>h. snd (io_read E r h)) ^^ n) (hw ?t)))) b"
      using Suc.prems by (simp add: test_bits_poll funpow_Suc_right del: funpow.simps)
    then obtain s' where s': "f ?t = Some s'" "touches R ?t s'"
      using Suc.IH by blast
    have "f s \<in> {Some (done ?t), Some ?t, Some s'}"
      using s'(1) by (subst f) (simp add: split_beta)
    then show ?case
      using t touches_trans [OF t s'(2)] touches_trans [OF t assms(3)] by auto
  qed
qed

lemma no_irq: "responsive E \<Longrightarrow> read_DeviceState E s = Some (USB_DeviceState s, s)"
  by (simp add: read_DeviceState_def responsive_def)

lemma clear_touches: "touches {UEINTX} s (Endpoint_ClearIN E s)" "touches {UEINTX} s (Endpoint_ClearOUT E s)"
  "touches {UEINTX} s (Endpoint_ClearSETUP E s)"
  unfolding Endpoint_ClearIN_def Endpoint_ClearOUT_def Endpoint_ClearSETUP_def
  by (rule clear_bits_in_touches, simp)+

lemma StatusStage_IN_returns:
  assumes "responsive E"
  shows "\<exists>s'. StatusStage_IN E s = Some s' \<and> touches {UEINTX} s s'"
proof (rule poll_returns [where stop = "\<lambda>t. USB_DeviceState t = DEVICE_STATE_Unattached"])
  show "eventually_set E UEINTX TXINI"
    using assms by (simp add: responsive_def)
  show "StatusStage_IN E s = (let (set, t) = test_bits E UEINTX (BV TXINI) s in
      if set then Some (Endpoint_ClearIN E t) else if USB_DeviceState t = DEVICE_STATE_Unattached then Some t
      else StatusStage_IN E t)" for s
    by (subst StatusStage_IN.simps) (simp add: Endpoint_IsINReady_def no_irq [OF assms] split_beta del: BV_eval)
qed (simp_all add: clear_touches)

lemma StatusStage_OUT_returns:
  assumes "responsive E"
  shows "\<exists>s'. StatusStage_OUT E s = Some s' \<and> touches {UEINTX} s s'"
proof (rule poll_returns [where stop = "\<lambda>t. USB_DeviceState t = DEVICE_STATE_Unattached"])
  show "eventually_set E UEINTX RXOUTI"
    using assms by (simp add: responsive_def)
  show "StatusStage_OUT E s = (let (set, t) = test_bits E UEINTX (BV RXOUTI) s in
      if set then Some (Endpoint_ClearOUT E t) else if USB_DeviceState t = DEVICE_STATE_Unattached then Some t
      else StatusStage_OUT E t)" for s
    by (subst StatusStage_OUT.simps) (simp add: Endpoint_IsOUTReceived_def no_irq [OF assms] split_beta del: BV_eval)
qed (simp_all add: clear_touches)

lemma wait_INReady_returns:
  assumes "responsive E"
  shows "\<exists>s'. wait_INReady E s = Some s' \<and> touches {UEINTX} s s'"
proof (rule poll_returns [where stop = "\<lambda>_. False"])
  show "eventually_set E UEINTX TXINI"
    using assms by (simp add: responsive_def)
  show "wait_INReady E s = (let (set, t) = test_bits E UEINTX (BV TXINI) s in
      if set then Some (id t) else if False then Some t else wait_INReady E t)" for s
    by (subst wait_INReady.simps) (simp add: Endpoint_IsINReady_def split_beta del: BV_eval)
qed simp_all

lemma ClearStatusStage_returns:
  assumes "responsive E"
  obtains s' where "Endpoint_ClearStatusStage E s = Some s'" "touches {UEINTX} s s'"
  using StatusStage_IN_returns [OF assms, of s] StatusStage_OUT_returns [OF assms, of s]
  unfolding Endpoint_ClearStatusStage_def by (metis (mono_tags))

section \<open>Idle rate\<close>

lemma idle_count:
  fixes w :: u16
  shows "drop_bit 6 (w AND 0xFF00) = 4 * drop_bit 8 w"
    and "ucast (drop_bit 2 (drop_bit 6 (w AND 0xFF00))) = (ucast (drop_bit 8 w) :: u8)"
    and "drop_bit 6 (w AND 0xFF00) \<le> 1020"
proof -
  have m: "0xFF00 = push_bit 8 (mask 8 :: u16)"
    by (simp add: mask_eq_exp_minus_1 push_bit_eq_mult)
  have shift: "drop_bit 6 (w AND 0xFF00) = push_bit 2 (drop_bit 8 w)"
    unfolding m by (rule bit_word_eqI) (auto simp: bit_simps dest: bit_imp_le_length)
  then show "drop_bit 6 (w AND 0xFF00) = 4 * drop_bit 8 w"
    by (simp add: push_bit_eq_mult mult.commute)
  show "ucast (drop_bit 2 (drop_bit 6 (w AND 0xFF00))) = (ucast (drop_bit 8 w) :: u8)"
    unfolding shift by (rule bit_word_eqI) (auto simp: bit_simps)
  have "unat (w AND 0xFF00) \<le> 0xFF00"
    using word_and_le1 [of w "0xFF00"] by (simp add: word_le_nat_alt)
  then show "drop_bit 6 (w AND 0xFF00) \<le> 1020"
    by (simp add: word_le_nat_alt drop_bit_eq_div unat_div)
qed

lemma SetIdle_returns:
  assumes "responsive E"
  shows "\<exists>t. touches {UEINTX} s t \<and> HID_SetIdle E s =
    Some (upd_hid (\<lambda>i. i\<lparr>IdleCount := drop_bit 6 (wValue (USB_ControlRequest s) AND 0xFF00)\<rparr>) t)"
proof -
  obtain t where t: "Endpoint_ClearStatusStage E (Endpoint_ClearSETUP E s) = Some t"
    "touches {UEINTX} (Endpoint_ClearSETUP E s) t"
    using ClearStatusStage_returns [OF assms] by blast
  have "touches {UEINTX} s t"
    using touches_trans [OF clear_touches(3) t(2)] .
  then show ?thesis
    using t(1) touches_frame(2) [of "{UEINTX}" s t] by (auto simp: HID_SetIdle_def)
qed

lemma GetIdle_returns:
  assumes "responsive E"
  shows "\<exists>u. HID_GetIdle E s = Some u \<and>
    xfer [ucast (drop_bit 2 (IdleCount (Joystick_HID_Interface s)))] [] s u"
proof -
  obtain t where t: "wait_INReady E (Endpoint_ClearSETUP E s) = Some t" "touches {UEINTX} (Endpoint_ClearSETUP E s) t"
    using wait_INReady_returns [OF assms] by blast
  have st: "touches {UEINTX} s t"
    using touches_trans [OF clear_touches(3) t(2)] .
  let ?v = "ucast (drop_bit 2 (IdleCount (Joystick_HID_Interface s))) :: u8"
  let ?w = "Endpoint_Write_8 E ?v t"
  obtain u where u: "Endpoint_ClearStatusStage E (Endpoint_ClearIN E ?w) = Some u" "touches {UEINTX} (Endpoint_ClearIN E ?w) u"
    using ClearStatusStage_returns [OF assms] by blast
  have "quiet s t" "quiet ?w u"
    using touches_quiet [OF st] touches_quiet [OF touches_trans [OF clear_touches(1) u(2)]] by simp_all
  then have "xfer [?v] [] s u"
    using quiet_xfer_trans [OF _ xfer_quiet [OF xfer_Write_8]] by blast
  then show ?thesis
    using t(1) u(1) touches_frame(7) [OF st] by (simp add: HID_GetIdle_def)
qed


text \<open>The peripheral \<open>fifo_env\<close> always reports both flags: it is a responsive host.\<close>

lemma fifo_responsive: "responsive fifo_env"
proof -
  have "bit (5 :: u8) 0"
    by code_simp
  then show ?thesis
    using sim_bits by (simp add: responsive_def eventually_set_def fifo_env_def)
qed

definition request_fw :: "u8 list \<Rightarrow> u8 \<Rightarrow> u8 \<Rightarrow> u16 \<Rightarrow> u16 \<Rightarrow> u8 list fw" where
  "request_fw packet ty req value len = (demo_fw packet)
     \<lparr>USB_ControlRequest := \<lparr>bmRequestType = ty, bRequest = req, wValue = value, wIndex = 0, wLength = len\<rparr>\<rparr>"


section \<open>Address\<close>

lemma touches_hwstep: "touches R s s' \<Longrightarrow> \<exists>t. hwstep t s s' \<and> reg_of ` set t \<subseteq> R"
  by (simp add: touches_def)



section \<open>Configuration\<close>

definition configured_hid :: "USB_ClassInfo_HID_Device_t \<Rightarrow> USB_ClassInfo_HID_Device_t" where
  "configured_hid i = i\<lparr>UsingReportProtocol := True, PrevFrameNum := 0, IdleCount := 500, IdleMSRemaining := 0,
     ReportINEndpoint := ReportINEndpoint i\<lparr>ept_Type := EP_TYPE_INTERRUPT\<rparr>\<rparr>"

lemma HID_ConfigureEndpoints_eq:
  "HID_Device_ConfigureEndpoints E s =
     Endpoint_ConfigureEndpointTable E [ReportINEndpoint (configured_hid (Joystick_HID_Interface s))] (upd_hid configured_hid s)"
proof -
  have "(do { (ok, s) \<leftarrow> X; if \<not> ok then Some (False, s) else Some (True, s) }) = X" for X :: "(bool \<times> 'a fw) option"
    by (cases X) auto
  moreover have "upd_hid (\<lambda>i. i\<lparr>ReportINEndpoint := ReportINEndpoint i\<lparr>ept_Type := EP_TYPE_INTERRUPT\<rparr>\<rparr>)
      (upd_hid (\<lambda>i. i\<lparr>IdleCount := 500\<rparr>) (upd_hid (\<lambda>i. i\<lparr>UsingReportProtocol := True\<rparr>)
      (upd_hid (\<lambda>i. i\<lparr>UsingReportProtocol := False, PrevFrameNum := 0, IdleCount := 0, IdleMSRemaining := 0\<rparr>) s))) =
      upd_hid configured_hid s"
    by (cases "Joystick_HID_Interface s") (simp add: upd_hid_def configured_hid_def)
  ultimately show ?thesis
    unfolding HID_Device_ConfigureEndpoints_def Let_def
    by (simp add: upd_hid_def del: Endpoint_ConfigureEndpointTable.simps)
qed

lemma ConfigureEndpointTable_returns:
  assumes "ept_Size ep \<le> 32768"
  obtains ok s' where "Endpoint_ConfigureEndpointTable E [ep] s = Some (ok, s')" "touches config_regs s s'"
proof -
  obtain ok s' where "Endpoint_ConfigureEndpoint E (ept_Address ep) (ept_Type ep) (ept_Size ep) (ept_Banks ep) s = Some (ok, s')"
    using ConfigureEndpoint_returns [OF assms] by blast
  then have "\<exists>ok s'. Endpoint_ConfigureEndpointTable E [ep] s = Some (ok, s')"
    by (cases ok) auto
  then show ?thesis
    using that ConfigureEndpointTable_touches by blast
qed

lemma ConfigurationChanged_returns:
  assumes "ept_Size (ReportINEndpoint (Joystick_HID_Interface s)) \<le> 32768"
  shows "\<exists>s'. EVENT_USB_Device_ConfigurationChanged E s = Some s' \<and> touches (- {UEDATX}) (upd_hid configured_hid s) s'"
proof -
  obtain ok t where t: "Endpoint_ConfigureEndpointTable E [ReportINEndpoint (configured_hid (Joystick_HID_Interface s))]
      (upd_hid configured_hid s) = Some (ok, t)" "touches config_regs (upd_hid configured_hid s) t"
    by (rule ConfigureEndpointTable_returns [of "ReportINEndpoint (configured_hid (Joystick_HID_Interface s))"])
      (use assms in \<open>auto simp: configured_hid_def\<close>)
  let ?u = "USB_Device_EnableSOFEvents E t"
  let ?l = "if ok then LEDMASK_USB_READY else LEDMASK_USB_ERROR"
  have "touches (- {UEDATX}) (upd_hid configured_hid s) (LEDs_SetAllLEDs E ?l ?u)"
    using touches_mono [OF t(2), of "- {UEDATX}"] touches_mono [OF controller_touches2(16), of "- {UEDATX}" t E]
      LEDs_SetAllLEDs_touches [of "- {UEDATX}" ?u E ?l]
    by (auto intro: touches_trans)
  then show ?thesis
    using t(1) by (simp add: EVENT_USB_Device_ConfigurationChanged_def HID_ConfigureEndpoints_eq)
qed



end
