(* ===== verification/ReportFacts.thy ===== *)
theory ReportFacts
  imports RequestEffects
begin

text \<open>
  Reports: what the application puts into one, what it takes from one, when the HID task sends one,
  and what happens to a request that nobody handles.
\<close>

section \<open>The report of the application\<close>

lemma report_prefix: "(replicate 6 0 @ xs)[0 := x, Suc 0 := y] = x # y # 0 # 0 # 0 # 0 # xs"
  by (simp add: numeral_eq_Suc)


section \<open>Reports from the host\<close>

lemma low_byte_zero: "ucast (w AND 0xFF) = (0 :: u8) \<longleftrightarrow> w AND 0xFF = (0 :: u16)"
proof -
  have m: "0xFF = (mask 8 :: u16)"
    by (simp add: mask_eq_exp_minus_1)
  have w: "w AND 0xFF = ucast (ucast (w AND 0xFF) :: u8)"
    unfolding m by (rule bit_word_eqI) (auto simp: bit_simps)
  show ?thesis
  proof
    assume "ucast (w AND 0xFF) = (0 :: u8)"
    then show "w AND 0xFF = 0"
      by (subst w) (simp only: unsigned_0)
  qed simp
qed

lemma ProcessHIDReport_effect:
  "joy_saved (CALLBACK_HID_Device_ProcessHIDReport E i ty data n s) = (if 1 < length data then data ! 1 else 0)"
  "oob (CALLBACK_HID_Device_ProcessHIDReport E i ty data n s) = (oob s \<or> length data < 2)"
  "io_trace (CALLBACK_HID_Device_ProcessHIDReport E i ty data n s) =
     io_trace s @ [IoWrite PORTD (if 1 < length data then data ! 1 else 0)]"
  by (auto simp: CALLBACK_HID_Device_ProcessHIDReport_def second_byte_def wr_def)



section \<open>Requests nobody handles\<close>

text \<open>The requests the class driver and the library act upon, as pairs of \<open>bRequest\<close> and \<open>bmRequestType\<close>.\<close>

definition class_request :: "u8 \<Rightarrow> USB_Request_Header_t \<Rightarrow> bool" where
  "class_request interface r \<longleftrightarrow> wIndex r = ucast interface \<and> (bRequest r, bmRequestType r) \<in>
     {(0x01, 0xA1), (0x09, 0x21), (0x03, 0xA1), (0x0B, 0x21), (0x0A, 0x21), (0x02, 0xA1)}"

definition library_request :: "'h env \<Rightarrow> USB_Request_Header_t \<Rightarrow> bool" where
  "library_request E r \<longleftrightarrow>
     (bRequest r, bmRequestType r) \<in> {(0, 0x80), (0, 0x82), (1, 0x00), (1, 0x02), (3, 0x00), (3, 0x02), (5, 0x00), (8, 0x80)} \<or>
     (bRequest r, bmRequestType r) \<in> {(6, 0x80), (6, 0x81)} \<and> requested_bytes E r \<noteq> [] \<or>
     (bRequest r, bmRequestType r) = (9, 0x00) \<and> (ucast (wValue r) :: u8) \<le> 1"

lemma class_request_else:
  assumes "\<not> class_request (InterfaceNumber (Joystick_HID_Interface s)) (USB_ControlRequest s)"
  shows "HID_Device_ProcessControlRequest E s = Some (snd (Endpoint_IsSETUPReceived E s))"
proof -
  have t: "touches {UEINTX} s (snd (Endpoint_IsSETUPReceived E s))"
    unfolding Endpoint_IsSETUPReceived_def by (rule test_bits_touches) simp
  show ?thesis
    using assms unfolding HID_Device_ProcessControlRequest_def Let_def split_beta touches_frame(2,7) [OF t]
    by (auto simp: class_request_def)
qed

lemma library_request_else:
  assumes "\<not> library_request E (USB_ControlRequest s)"
  shows "standard_request E s = Some s"
proof -
  have "USB_Device_GetDescriptor E s = Some s" if "requested_bytes E (USB_ControlRequest s) = []"
  proof (cases "wValue (USB_ControlRequest s) = 0x03DC")
    case True
    with that show ?thesis
      by (simp add: requested_bytes_def SignatureDescriptor_def)
  next
    case False
    then show ?thesis
      by (cases rule: descriptor_cases [of s E]) (use that in \<open>auto simp: unat_eq_zero\<close>)
  qed
  moreover have "USB_Device_SetConfiguration E s = Some s" if "\<not> (ucast (wValue (USB_ControlRequest s)) :: u8) \<le> 1"
    using that by (simp add: USB_Device_SetConfiguration_def not_le)
  ultimately show ?thesis
    using assms unfolding library_request_def standard_request_def Let_def req_code.simps by (simp, blast?)
qed

text \<open>\<open>setup_pending E\<close>: the flag for a received SETUP packet reads as set until it is cleared by a write.\<close>

definition setup_pending :: "'h env \<Rightarrow> bool" where
  "setup_pending E \<longleftrightarrow> (\<forall>h. bit (fst (io_read E UEINTX h)) RXSTPI)"

lemma setup_pending_poll: "setup_pending E \<Longrightarrow> Endpoint_IsSETUPReceived E s = (True, snd (rd E UEINTX s))"
  by (simp add: Endpoint_IsSETUPReceived_def test_bits_rd setup_pending_def rd_state del: BV_eval)

lemma read_bytes_touches: "touches {UEDATX} s (snd (read_bytes E n s))"
  by (induction n arbitrary: s)
    (auto simp: Let_def split_beta Endpoint_Read_8_def intro: touches_trans [OF rd_touches])

lemma rd_hwstep: "hwstep [IoRead r (fst (rd E r s))] s (snd (rd E r s))"
  by (rule rd_step [of E]) simp

lemma read_bytes_data_out: "data_out (snd (read_bytes E n s)) = data_out s"
  by (induction n arbitrary: s) (auto simp: Let_def split_beta Endpoint_Read_8_def)

lemma data_writes_none: "reg_of ` set t \<subseteq> {UEINTX} \<Longrightarrow> concat (map data_write t) = []"
  by (induction t) (auto simp: no_data_event)


text \<open>A peripheral with a SETUP packet pending, here a vendor request.\<close>

definition setup_env :: "u8 list env" where
  "setup_env = fifo_env\<lparr>io_read := (\<lambda>r h. if r = UEINTX then (0x08, h) else io_read fifo_env r h)\<rparr>"


end
