(* ===== verification/Spec2Isabelle.thy ===== *)
theory Spec2Isabelle
  imports Prelude LibCommon RingBuffer ConfigDescriptors HIDItemAccess Descriptors EndpointFacts Board
    InterruptFacts ReportFacts
begin

text \<open>
  Verification of the USB joystick firmware and of the parts of the LUFA library it is built on.
\<close>

end
